(* ===== verification/Tedium_Prelude.thy ===== *)
theory Tedium_Prelude
  imports Main "HOL-Library.Word"
begin

text \<open>
  Shared vocabulary of the development: the machine integers of the Rust code, the three ways a
  Rust computation can end (a value, an early return with an error, a panic), programs that thread
  a device state through a sequence of statements, and the rules the component theories reason
  with. A program is a function from the state to an outcome and the state it leaves behind, so
  the effects made before an error or a panic stay visible.
\<close>

unbundle bit_operations_syntax

section \<open>Machine integers\<close>

type_synonym u8 = "8 word"
type_synonym u16 = "16 word"
type_synonym u32 = "32 word"

named_theorems prog_simps \<open>one-step evaluation of programs\<close>
named_theorems layout_simps \<open>unfolding of register layouts and field lookups\<close>
named_theorems access_simps \<open>unfolding of register accessors to addresses\<close>
named_theorems triple_rules \<open>total-correctness rules for programs\<close>

text \<open>\<open>x.leading_zeros()\<close> of an unsigned integer of any width.\<close>

definition leading_zeros :: "'a::len word \<Rightarrow> nat" where
  "leading_zeros x = length (takeWhile Not (rev (map (bit x) [0..<LENGTH('a)])))"

text \<open>\<open>x.reverse_bits()\<close> of an 8-bit value.\<close>

definition reverse_bits_u8 :: "u8 \<Rightarrow> u8" where
  "reverse_bits_u8 x =
     foldr (\<lambda>i acc. acc OR push_bit (7 - i) (take_bit 1 (drop_bit i x))) [0..<8] 0"

text \<open>\<open>x.clamp(lo, hi)\<close> of a signed 16-bit integer.\<close>

definition i16_clamp :: "int \<Rightarrow> int \<Rightarrow> 16 word \<Rightarrow> 16 word" where
  "i16_clamp lo hi x =
     (if sint x < lo then word_of_int lo else if sint x > hi then word_of_int hi else x)"

text \<open>\<open>xs[i]\<close>: an index out of range panics.\<close>

definition slice_index :: "'a list \<Rightarrow> nat \<Rightarrow> 'a option" where
  "slice_index xs i = (if i < length xs then Some (xs ! i) else None)"

lemma slice_index_simps [simp]:
  "i < length xs \<Longrightarrow> slice_index xs i = Some (xs ! i)"
  "length xs \<le> i \<Longrightarrow> slice_index xs i = None"
  by (simp_all add: slice_index_def)

section \<open>Outcomes and programs\<close>

datatype ('e, 'a) outcome = Ok 'a | Err 'e | Panic

type_synonym ('s, 'e, 'a) prog = "'s \<Rightarrow> ('e, 'a) outcome \<times> 's"

definition prog_return :: "'a \<Rightarrow> ('s, 'e, 'a) prog" where
  "prog_return a = (\<lambda>s. (Ok a, s))"

definition prog_panic :: "('s, 'e, 'a) prog" where
  "prog_panic = (\<lambda>s. (Panic, s))"

definition prog_fail :: "'e \<Rightarrow> ('s, 'e, 'a) prog" where
  "prog_fail e = (\<lambda>s. (Err e, s))"

text \<open>\<open>let x = m?; f(x)\<close>: an error or a panic of \<open>m\<close> ends the computation.\<close>

definition prog_bind :: "('s, 'e, 'a) prog \<Rightarrow> ('a \<Rightarrow> ('s, 'e, 'b) prog) \<Rightarrow> ('s, 'e, 'b) prog" where
  "prog_bind m f = (\<lambda>s. case m s of
     (Ok a, s') \<Rightarrow> f a s'
   | (Err e, s') \<Rightarrow> (Err e, s')
   | (Panic, s') \<Rightarrow> (Panic, s'))"

definition prog_then :: "('s, 'e, 'a) prog \<Rightarrow> ('s, 'e, 'b) prog \<Rightarrow> ('s, 'e, 'b) prog" where
  "prog_then m n = prog_bind m (\<lambda>_. n)"

text \<open>A result converted, or dropped as a statement \<open>m?;\<close> does.\<close>

definition prog_map :: "('a \<Rightarrow> 'b) \<Rightarrow> ('s, 'e, 'a) prog \<Rightarrow> ('s, 'e, 'b) prog" where
  "prog_map f m = prog_bind m (\<lambda>a. prog_return (f a))"

definition prog_ignore :: "('s, 'e, 'a) prog \<Rightarrow> ('s, 'e, unit) prog" where
  "prog_ignore m = prog_map (\<lambda>_. ()) m"

text \<open>A block of statements \<open>m1?; m2?; ...; Ok(())\<close>.\<close>

fun seq_all :: "('s, 'e, unit) prog list \<Rightarrow> ('s, 'e, unit) prog" where
  "seq_all [] = prog_return ()"
| "seq_all (m # ms) = prog_then m (seq_all ms)"

text \<open>\<open>for x in xs { f(x)?; }\<close>\<close>

definition for_each :: "'x list \<Rightarrow> ('x \<Rightarrow> ('s, 'e, unit) prog) \<Rightarrow> ('s, 'e, unit) prog" where
  "for_each xs f = seq_all (map f xs)"

text \<open>A loop that collects one value per iteration.\<close>

fun map_each :: "'x list \<Rightarrow> ('x \<Rightarrow> ('s, 'e, 'a) prog) \<Rightarrow> ('s, 'e, 'a list) prog" where
  "map_each [] f = prog_return []"
| "map_each (x # xs) f =
     prog_bind (f x) (\<lambda>a. prog_bind (map_each xs f) (\<lambda>as. prog_return (a # as)))"

text \<open>A pure computation that may panic, used as a program.\<close>

definition prog_of_option :: "'a option \<Rightarrow> ('s, 'e, 'a) prog" where
  "prog_of_option x = (case x of None \<Rightarrow> prog_panic | Some a \<Rightarrow> prog_return a)"

text \<open>\<open>result.unwrap()\<close>: an error becomes a panic.\<close>

definition prog_unwrap :: "('s, 'e, 'a) prog \<Rightarrow> ('s, 'e, 'a) prog" where
  "prog_unwrap m = (\<lambda>s. case m s of (Err e, s') \<Rightarrow> (Panic, s') | r \<Rightarrow> r)"

lemma prog_bind_eval [prog_simps]:
  "m s = (Ok a, s') \<Longrightarrow> prog_bind m f s = f a s'"
  "m s = (Err e, s') \<Longrightarrow> prog_bind m f s = (Err e, s')"
  "m s = (Panic, s') \<Longrightarrow> prog_bind m f s = (Panic, s')"
  by (simp_all add: prog_bind_def)

lemma prog_then_eval [prog_simps]:
  "m s = (Ok a, s') \<Longrightarrow> prog_then m n s = n s'"
  by (simp add: prog_then_def prog_bind_def)

lemma prog_bind_return [simp]: "prog_bind (prog_return a) f = f a"
  by (simp add: prog_bind_def prog_return_def fun_eq_iff)

lemma prog_bind_return_right [simp]: "prog_bind m prog_return = m"
  by (auto simp: prog_bind_def prog_return_def fun_eq_iff split: prod.splits outcome.splits)

lemma prog_bind_assoc [simp]:
  "prog_bind (prog_bind m f) g = prog_bind m (\<lambda>a. prog_bind (f a) g)"
  by (simp add: prog_bind_def fun_eq_iff split: prod.splits outcome.splits)

lemma prog_then_return [simp]: "prog_then (prog_return a) m = m"
  by (simp add: prog_then_def)

lemma prog_then_assoc [simp]: "prog_then (prog_then a b) c = prog_then a (prog_then b c)"
  by (simp add: prog_then_def)

lemma prog_of_option_simps [simp]:
  "prog_of_option None = prog_panic"
  "prog_of_option (Some a) = prog_return a"
  by (simp_all add: prog_of_option_def)

lemma prog_then_unit_return: "prog_then m (prog_return ()) = m"
proof -
  have "(\<lambda>_::unit. prog_return ()) = prog_return"
    by (rule ext) simp
  then show ?thesis
    by (simp add: prog_then_def)
qed

lemma seq_all_append: "seq_all (ms @ ns) = prog_then (seq_all ms) (seq_all ns)"
  by (induction ms) simp_all

lemma for_each_simps [simp]:
  "for_each [] f = prog_return ()"
  "for_each (x # xs) f = prog_then (f x) (for_each xs f)"
  by (simp_all add: for_each_def)

lemma for_each_append: "for_each (xs @ ys) f = prog_then (for_each xs f) (for_each ys f)"
  by (simp add: for_each_def seq_all_append)

section \<open>Total-correctness triples\<close>

text \<open>
  \<open>ok_triple P m Q\<close>: from every state that satisfies \<open>P\<close> the program returns a value, with no
  error and no panic, and value and final state satisfy \<open>Q\<close>.
\<close>

definition ok_triple :: "('s \<Rightarrow> bool) \<Rightarrow> ('s, 'e, 'a) prog \<Rightarrow> ('a \<Rightarrow> 's \<Rightarrow> bool) \<Rightarrow> bool" where
  "ok_triple P m Q \<longleftrightarrow> (\<forall>s. P s \<longrightarrow> (\<exists>a s'. m s = (Ok a, s') \<and> Q a s'))"

lemma ok_tripleI:
  "(\<And>s. P s \<Longrightarrow> \<exists>a s'. m s = (Ok a, s') \<and> Q a s') \<Longrightarrow> ok_triple P m Q"
  by (simp add: ok_triple_def)

lemma ok_tripleE:
  assumes "ok_triple P m Q" and "P s"
  obtains a s' where "m s = (Ok a, s')" and "Q a s'"
  using assms by (auto simp: ok_triple_def)

lemma ok_return [triple_rules]: "(\<And>s. P s \<Longrightarrow> Q a s) \<Longrightarrow> ok_triple P (prog_return a) Q"
  by (simp add: ok_triple_def prog_return_def)

lemma ok_bind [triple_rules]:
  assumes "ok_triple P m R" and "\<And>a. ok_triple (R a) (f a) Q"
  shows "ok_triple P (prog_bind m f) Q"
  unfolding ok_triple_def
proof (intro allI impI)
  fix s assume "P s"
  with assms(1) obtain a s1 where "m s = (Ok a, s1)" and "R a s1"
    by (rule ok_tripleE)
  moreover from assms(2) [of a] \<open>R a s1\<close> obtain b s2 where "f a s1 = (Ok b, s2)" and "Q b s2"
    by (rule ok_tripleE)
  ultimately show "\<exists>a s'. prog_bind m f s = (Ok a, s') \<and> Q a s'"
    by (simp add: prog_bind_eval)
qed

lemma ok_then [triple_rules]:
  assumes "ok_triple P m (\<lambda>_. R)" and "ok_triple R n Q"
  shows "ok_triple P (prog_then m n) Q"
  unfolding prog_then_def by (rule ok_bind [OF assms(1)]) (rule assms(2))

lemma ok_weaken:
  assumes "ok_triple P' m Q'" and "\<And>s. P s \<Longrightarrow> P' s" and "\<And>a s. Q' a s \<Longrightarrow> Q a s"
  shows "ok_triple P m Q"
  using assms by (fastforce simp: ok_triple_def)

text \<open>A loop whose every iteration keeps an invariant keeps it.\<close>

lemma ok_for_each:
  assumes "\<And>x. x \<in> set xs \<Longrightarrow> ok_triple I (f x) (\<lambda>_. I)"
  shows "ok_triple I (for_each xs f) (\<lambda>_. I)"
  using assms by (induction xs) (auto intro: triple_rules)

section \<open>Words\<close>

lemma bit_leading_zero_bound: "leading_zeros (x :: 'a::len word) \<le> LENGTH('a)"
proof -
  have "leading_zeros x \<le> length (rev (map (bit x) [0..<LENGTH('a)]))"
    unfolding leading_zeros_def by (rule length_takeWhile_le)
  then show ?thesis by simp
qed

lemma unat_u8_lt [simp]: "unat (x :: u8) < 256"
  using unsigned_less [of x, where 'a = nat] by simp

lemma unat_u16_lt [simp]: "unat (x :: u16) < 65536"
  using unsigned_less [of x, where 'a = nat] by simp

lemma of_nat_u16_inj: "inj_on (of_nat :: nat \<Rightarrow> u16) {..<65536}"
proof (rule inj_onI)
  fix x y :: nat
  assume "x \<in> {..<65536}" "y \<in> {..<65536}" "(of_nat x :: u16) = of_nat y"
  then have "unat (of_nat x :: u16) = unat (of_nat y :: u16)" by simp
  with \<open>x \<in> _\<close> \<open>y \<in> _\<close> show "x = y" by (simp add: unsigned_of_nat take_bit_nat_eq_self)
qed

lemma ucast_u8_u32 [simp]: "(ucast (ucast (v :: u8) :: u32) :: u8) = v"
  by (rule bit_word_eqI) (auto simp: bit_simps)

lemma ucast_u8_u16 [simp]: "(ucast (ucast (v :: u8) :: u16) :: u8) = v"
  by (rule bit_word_eqI) (auto simp: bit_simps)

lemma unat_ucast_u16_u32: "unat (ucast (v :: u16) :: u32) = unat v"
  using unat_u16_lt [of v] by (simp add: unsigned_ucast_eq take_bit_nat_eq_self_iff del: unat_u16_lt)

lemma unat_ucast_u8_u32: "unat (ucast (v :: u8) :: u32) = unat v"
  using unat_u8_lt [of v] by (simp add: unsigned_ucast_eq take_bit_nat_eq_self_iff del: unat_u8_lt)

end
