(* ===== verification/Bitfield.thy ===== *)
theory Bitfield
  imports Tedium_Prelude
begin

text \<open>
  The \<^verbatim>\<open>#[bitfield(bits=8)]\<close> structs of \<^verbatim>\<open>register.rs\<close>. A declaration is a list of named fields
  and skipped bits in the order of the source; the fields take consecutive bits from the most
  significant one down, which is what the unit test \<open>modular_bitfield_is_msb_first\<close> of that file
  fixes (lemma \<open>modular_bitfield_is_msb_first\<close> in theory Registers). A value of the struct is its
  byte (\<open>repr(u8)\<close>, with \<open>From<u8>\<close> and \<open>Into<u8>\<close> the identity on the byte). \<open>with_X(v)\<close> panics
  on a value that does not fit the declared width.
\<close>

datatype bitfield = Field string nat | Skip nat

type_synonym layout = "bitfield list"

fun bitfield_width :: "bitfield \<Rightarrow> nat" where
  "bitfield_width (Field _ w) = w"
| "bitfield_width (Skip w) = w"

definition layout_width :: "layout \<Rightarrow> nat" where
  "layout_width L = sum_list (map bitfield_width L)"

fun layout_names :: "layout \<Rightarrow> string list" where
  "layout_names [] = []"
| "layout_names (Field n _ # L) = n # layout_names L"
| "layout_names (Skip _ # L) = layout_names L"

text \<open>Bits below \<open>hi\<close> remain: the position (shift and width) of a field.\<close>

fun field_pos :: "layout \<Rightarrow> nat \<Rightarrow> string \<Rightarrow> (nat \<times> nat) option" where
  "field_pos [] hi n = None"
| "field_pos (Skip w # L) hi n = field_pos L (hi - w) n"
| "field_pos (Field m w # L) hi n = (if m = n then Some (hi - w, w) else field_pos L (hi - w) n)"

definition bits_get :: "nat \<times> nat \<Rightarrow> u8 \<Rightarrow> u8" where
  "bits_get p b = take_bit (snd p) (drop_bit (fst p) b)"

definition bits_put :: "nat \<times> nat \<Rightarrow> u8 \<Rightarrow> u8 \<Rightarrow> u8" where
  "bits_put p v b = (b AND NOT (push_bit (fst p) (mask (snd p)))) OR push_bit (fst p) v"

text \<open>The accessors \<open>reg.X()\<close> and \<open>reg.with_X(v)\<close>.\<close>

definition reg_get :: "layout \<Rightarrow> string \<Rightarrow> u8 \<Rightarrow> u8 option" where
  "reg_get L n b = map_option (\<lambda>p. bits_get p b) (field_pos L 8 n)"

definition reg_with :: "layout \<Rightarrow> string \<Rightarrow> u8 \<Rightarrow> u8 \<Rightarrow> u8 option" where
  "reg_with L n v b = (case field_pos L 8 n of
     None \<Rightarrow> None
   | Some p \<Rightarrow> if unat v < 2 ^ snd p then Some (bits_put p v b) else None)"

text \<open>
  \<open>reg.X()\<close> for a field the struct declares (the compiler rejects any other name).
\<close>

definition reg_field :: "layout \<Rightarrow> string \<Rightarrow> u8 \<Rightarrow> u8" where
  "reg_field L n b = (case reg_get L n b of Some v \<Rightarrow> v | None \<Rightarrow> 0)"

text \<open>A chain \<open>b.with_X1(v1).with_X2(v2)...\<close>.\<close>

fun reg_chain :: "layout \<Rightarrow> (string \<times> u8) list \<Rightarrow> u8 \<Rightarrow> u8 option" where
  "reg_chain L [] b = Some b"
| "reg_chain L ((n, v) # fs) b =
     (case reg_with L n v b of None \<Rightarrow> None | Some b' \<Rightarrow> reg_chain L fs b')"

text \<open>What the macro accepts: eight bits in all, no field declared twice.\<close>

definition layout_ok :: "layout \<Rightarrow> bool" where
  "layout_ok L \<longleftrightarrow> layout_width L = 8 \<and> distinct (layout_names L)"

section \<open>Laws of the accessors\<close>

lemma bit_zero_of_small:
  assumes "unat (v :: u8) < 2 ^ w" and "w \<le> k"
  shows "\<not> bit v k"
proof -
  have "take_bit w (unat v) = unat v"
    using assms(1) by (simp add: take_bit_nat_eq_self_iff)
  then have "take_bit w v = v"
    by (metis unsigned_take_bit_eq unsigned_word_eqI)
  then show ?thesis
    using assms(2) by (metis bit_take_bit_iff not_less)
qed

lemma bit_below_width:
  assumes "unat (v :: u8) < 2 ^ w" and "bit v n"
  shows "n < w"
  using bit_zero_of_small [OF assms(1)] assms(2) not_less by blast

lemma bits_get_put_same:
  assumes "fst p + snd p \<le> 8" and "unat v < 2 ^ snd p"
  shows "bits_get p (bits_put p v b) = v"
proof (rule bit_word_eqI)
  fix n assume n: "n < LENGTH(8)"
  show "bit (bits_get p (bits_put p v b)) n = bit v n"
  proof (cases "n < snd p")
    case True
    then show ?thesis
      using assms(1) n by (simp add: bits_get_def bits_put_def bit_simps)
  next
    case False
    then show ?thesis
      using bit_below_width [OF assms(2), of n] by (auto simp: bits_get_def bit_simps)
  qed
qed

definition disjoint_pos :: "nat \<times> nat \<Rightarrow> nat \<times> nat \<Rightarrow> bool" where
  "disjoint_pos p q \<longleftrightarrow> fst p + snd p \<le> fst q \<or> fst q + snd q \<le> fst p"

lemma bits_get_put_other:
  assumes "disjoint_pos p q" and "unat v < 2 ^ snd p"
  shows "bits_get q (bits_put p v b) = bits_get q b"
proof (rule bit_word_eqI)
  fix n assume n: "n < LENGTH(8)"
  have "\<not> bit (push_bit (fst p) v) (fst q + n)"
    and "\<not> bit (push_bit (fst p) (mask (snd p) :: u8)) (fst q + n)" if "n < snd q"
    using assms(1) that bit_below_width [OF assms(2), of "fst q + n - fst p"]
    by (auto simp: disjoint_pos_def bit_simps)
  then show "bit (bits_get q (bits_put p v b)) n = bit (bits_get q b) n"
    by (auto simp: bits_get_def bits_put_def bit_simps dest: bit_imp_le_length)
qed

text \<open>Fields of a layout that fits lie inside the byte and below the bits already used.\<close>

lemma field_pos_bounds:
  assumes "field_pos L hi n = Some p" and "layout_width L \<le> hi"
  shows "fst p + snd p \<le> hi"
  using assms
proof (induction L hi n rule: field_pos.induct)
  case (2 w L hi n)
  then show ?case by (force simp: layout_width_def)
next
  case (3 m w L hi n)
  then show ?case by (force simp: layout_width_def split: if_splits)
qed simp

lemma field_pos_disjoint:
  assumes "field_pos L hi n = Some p" and "field_pos L hi k = Some q"
    and "n \<noteq> k" and "layout_width L \<le> hi"
  shows "disjoint_pos p q"
  using assms
proof (induction L hi n arbitrary: p q rule: field_pos.induct)
  case (2 w L hi n)
  then show ?case by (auto simp: layout_width_def)
next
  case (3 m w L hi n)
  have rest: "layout_width L \<le> hi - w"
    using "3.prems"(4) by (simp add: layout_width_def)
  consider "m = n" | "m = k" "m \<noteq> n" | "m \<noteq> n" "m \<noteq> k"
    by blast
  then show ?case
  proof cases
    case 1
    then have "field_pos L (hi - w) k = Some q" and "p = (hi - w, w)"
      using "3.prems" by auto
    then show ?thesis
      using field_pos_bounds [OF _ rest] by (auto simp: disjoint_pos_def)
  next
    case 2
    then have "field_pos L (hi - w) n = Some p" and "q = (hi - w, w)"
      using "3.prems" by auto
    then show ?thesis
      using field_pos_bounds [OF _ rest] by (auto simp: disjoint_pos_def)
  next
    case 3
    then show ?thesis
      using "3.IH" "3.prems" rest by auto
  qed
qed simp

section \<open>The contract of a declared struct\<close>

text \<open>
  What the code that uses a register struct relies on: a written field reads back, the others keep
  their value. The lemmas inside are proved once for every struct the macro accepts; theory
  Registers interprets the locale on the declarations of \<^verbatim>\<open>register.rs\<close>.
\<close>

locale bitfield_struct =
  fixes L :: layout
  assumes ok: "layout_ok L"
begin

lemma width: "layout_width L \<le> 8"
  using ok by (simp add: layout_ok_def)

lemma with_defined:
  assumes "field_pos L 8 n = Some p"
  shows "reg_with L n v b = (if unat v < 2 ^ snd p then Some (bits_put p v b) else None)"
  using assms by (simp add: reg_with_def)

lemma get_with_same:
  assumes "reg_with L n v b = Some b'"
  shows "reg_get L n b' = Some v"
  using assms field_pos_bounds [OF _ width]
  by (auto simp: reg_with_def reg_get_def bits_get_put_same split: option.splits if_splits)

lemma get_with_other:
  assumes "reg_with L n v b = Some b'" and "k \<noteq> n"
  shows "reg_get L k b' = reg_get L k b"
proof (cases "field_pos L 8 k")
  case None
  then show ?thesis by (simp add: reg_get_def)
next
  case (Some q)
  from assms(1) obtain p where p: "field_pos L 8 n = Some p" and v: "unat v < 2 ^ snd p"
    and b': "b' = bits_put p v b"
    by (auto simp: reg_with_def split: option.splits if_splits)
  have "disjoint_pos p q"
    by (rule field_pos_disjoint [OF p Some _ width]) (use assms(2) in simp)
  from bits_get_put_other [OF this v] show ?thesis
    by (simp add: reg_get_def Some b')
qed

lemma get_chain_other:
  "reg_chain L fs b = Some b' \<Longrightarrow> k \<notin> fst ` set fs \<Longrightarrow> reg_get L k b' = reg_get L k b"
proof (induction fs arbitrary: b)
  case (Cons f fs)
  obtain n v where f: "f = (n, v)" by (cases f)
  with Cons.prems obtain b1 where b1: "reg_with L n v b = Some b1"
    and rest: "reg_chain L fs b1 = Some b'"
    by (auto split: option.splits)
  have "reg_get L k b' = reg_get L k b1"
    using Cons.IH [OF rest] Cons.prems(2) by simp
  also have "\<dots> = reg_get L k b"
    using get_with_other [OF b1] Cons.prems(2) f by auto
  finally show ?case .
qed simp

lemma get_chain:
  "reg_chain L fs b = Some b' \<Longrightarrow> distinct (map fst fs) \<Longrightarrow> (k, v) \<in> set fs
     \<Longrightarrow> reg_get L k b' = Some v"
proof (induction fs arbitrary: b)
  case (Cons f fs)
  obtain n u where f: "f = (n, u)" by (cases f)
  with Cons.prems obtain b1 where b1: "reg_with L n u b = Some b1"
    and rest: "reg_chain L fs b1 = Some b'"
    by (auto split: option.splits)
  show ?case
  proof (cases "(k, v) \<in> set fs")
    case True
    with Cons.IH [OF rest] Cons.prems(2) show ?thesis by simp
  next
    case False
    with Cons.prems(3) f have kv: "k = n" "v = u" by auto
    with Cons.prems(2) f have "k \<notin> fst ` set fs" by auto
    with get_chain_other [OF rest] get_with_same [OF b1] kv show ?thesis by simp
  qed
qed simp

end

end
