(* ===== verification/Registers.thy ===== *)
theory Registers
  imports Bitfield
begin

text \<open>
  The register structs and field enums of \<^verbatim>\<open>register.rs\<close> of the crate \<^verbatim>\<open>xrt86vx38-pac\<close>
  (the copy in \<^verbatim>\<open>tedium-tool\<close> is theory Host_Registers). A struct is a layout of theory Bitfield, with the
  source's field names; an enum is a datatype, each constructor prefixed with the enum's name, and
  \<open>X_bits\<close> gives its declared discriminant. \<open>register_layouts\<close> lists every struct, and the lemmas
  at the end show that all of them are well-formed bytes and that every enum fits its field.
\<close>

datatype ClockSource =
    ClockSource_Loop
  | ClockSource_External
  | ClockSource_Internal

primrec ClockSource_bits :: "ClockSource \<Rightarrow> u8" where
    "ClockSource_bits ClockSource_Loop = 0b00"
  | "ClockSource_bits ClockSource_External = 0b01"
  | "ClockSource_bits ClockSource_Internal = 0b10"

definition CSR :: layout where [layout_simps]:
  "CSR =
    [Field ''LCV_Insert'' 1, Field ''Set_T1_Mode'' 1,
     Field ''Sync_All_Transmitters_to_8kHz'' 1, Field ''Clock_Loss_Detect'' 1, Skip 2,
     Field ''CSS'' 2]"

text \<open>\<open>impl Default for CSR\<close>.\<close>

definition CSR_default :: u8 where
  "CSR_default = 0b00010001"

datatype FramerLoopback =
    FramerLoopback_No
  | FramerLoopback_Local
  | FramerLoopback_FarEndRemoteLine
  | FramerLoopback_Payload

primrec FramerLoopback_bits :: "FramerLoopback \<Rightarrow> u8" where
    "FramerLoopback_bits FramerLoopback_No = 0b00"
  | "FramerLoopback_bits FramerLoopback_Local = 0b01"
  | "FramerLoopback_bits FramerLoopback_FarEndRemoteLine = 0b10"
  | "FramerLoopback_bits FramerLoopback_Payload = 0b11"

definition LICR :: layout where [layout_simps]:
  "LICR =
    [Field ''FORCE_LOS'' 1, Field ''Single_Rail_Mode'' 1, Field ''LB'' 2, Skip 2,
     Field ''Encode_B8ZS'' 1, Field ''Decode_AMI_B8ZS'' 1]"

datatype T1Framing =
    T1Framing_ExtendedSuperFrame
  | T1Framing_SuperFrame
  | T1Framing_N
  | T1Framing_T1DM
  | T1Framing_SLC96

primrec T1Framing_bits :: "T1Framing \<Rightarrow> u8" where
    "T1Framing_bits T1Framing_ExtendedSuperFrame = 0b000"
  | "T1Framing_bits T1Framing_SuperFrame = 0b101"
  | "T1Framing_bits T1Framing_N = 0b110"
  | "T1Framing_bits T1Framing_T1DM = 0b111"
  | "T1Framing_bits T1Framing_SLC96 = 0b100"

definition FSR :: layout where [layout_simps]:
  "FSR =
    [Field ''Signaling_update_on_Superframe_Boundaries'' 1, Field ''Force_CRC_Errors'' 1,
     Field ''J1_MODE'' 1, Field ''ONEONLY'' 1, Field ''FASTSYNC'' 1, Field ''FSI'' 3]"

datatype TransmitAISPattern =
    TransmitAISPattern_Disable
  | TransmitAISPattern_Unframed
  | TransmitAISPattern_Framed

primrec TransmitAISPattern_bits :: "TransmitAISPattern \<Rightarrow> u8" where
    "TransmitAISPattern_bits TransmitAISPattern_Disable = 0b00"
  | "TransmitAISPattern_bits TransmitAISPattern_Unframed = 0b01"
  | "TransmitAISPattern_bits TransmitAISPattern_Framed = 0b11"

datatype AISDetection =
    AISDetection_Disabled
  | AISDetection_UnframedAndFramed
  | AISDetection_Framed

primrec AISDetection_bits :: "AISDetection \<Rightarrow> u8" where
    "AISDetection_bits AISDetection_Disabled = 0b00"
  | "AISDetection_bits AISDetection_UnframedAndFramed = 0b01"
  | "AISDetection_bits AISDetection_Framed = 0b11"

definition AGR :: layout where [layout_simps]:
  "AGR =
    [Field ''Yellow_Alarm_One_Second_Rule'' 1, Field ''ALARM_ENB'' 1, Field ''YEL'' 2,
     Field ''Transmit_AIS_Pattern_Select'' 2, Field ''AIS_Defect_Declaration_Criteria'' 2]"

definition SMR :: layout where [layout_simps]:
  "SMR =
    [Skip 1, Field ''MFRAMEALIGN'' 1, Field ''MSYNC'' 1,
     Field ''Transmit_Frame_Sync_Select'' 1, Skip 2, Field ''CRC6_Bits_Source_Select'' 1,
     Field ''Framing_Bits_Source_Select'' 1]"

definition TSDLSR :: layout where [layout_simps]:
  "TSDLSR =
    [Skip 2, Field ''TxDLBW'' 2, Field ''TxDE'' 2, Field ''TxDL'' 2]"

definition FCR :: layout where [layout_simps]:
  "FCR =
    [Field ''Reframe'' 1, Field ''Framing_with_CRC_Checking'' 1,
     Field ''LOF_Tolerance'' 3, Field ''LOF_Range'' 3]"

definition RSDLSR :: layout where [layout_simps]:
  "RSDLSR =
    [Skip 2, Field ''RxDLBW'' 2, Field ''RxDE'' 2, Field ''RxDL'' 2]"

definition RSChR :: layout where [layout_simps]:
  "RSChR =
    [Field ''Ch'' 8]"

definition RIFR :: layout where [layout_simps]:
  "RIFR =
    [Field ''In_Frame'' 1, Skip 1, Field ''AIS_Ingress'' 1, Field ''FRAlarmMask'' 1,
     Field ''DS0Yel'' 1, Field ''DS0Yel_Switch'' 1, Skip 2]"

definition DLCR :: layout where [layout_simps]:
  "DLCR =
    [Field ''SLC96_Data_Link_Enable'' 1, Field ''MOS_ABORT_Disable'' 1,
     Field ''Rx_FCS_DIS'' 1, Field ''AutoRx'' 1, Field ''Tx_ABORT'' 1,
     Field ''Tx_IDLE'' 1, Field ''Tx_FCS_EN'' 1, Field ''MOS_BOSn'' 1]"

definition TDLBCR :: layout where [layout_simps]:
  "TDLBCR =
    [Field ''TxHDLC_BUFAvail_BUFSel'' 1, Field ''TDLBC'' 7]"

definition RDLBCR :: layout where [layout_simps]:
  "RDLBCR =
    [Field ''RBUFPTR'' 1, Field ''RDLBC'' 7]"

datatype ReceiveSlipBuffer =
    ReceiveSlipBuffer_Bypass
  | ReceiveSlipBuffer_SlipBuffer
  | ReceiveSlipBuffer_FIFO

primrec ReceiveSlipBuffer_bits :: "ReceiveSlipBuffer \<Rightarrow> u8" where
    "ReceiveSlipBuffer_bits ReceiveSlipBuffer_Bypass = 0b00"
  | "ReceiveSlipBuffer_bits ReceiveSlipBuffer_SlipBuffer = 0b01"
  | "ReceiveSlipBuffer_bits ReceiveSlipBuffer_FIFO = 0b10"

definition SBCR :: layout where [layout_simps]:
  "SBCR =
    [Field ''TxSB_ISFIFO'' 1, Skip 2, Field ''SB_FORCESF'' 1, Field ''SB_SFENB'' 1,
     Field ''SB_SDIR'' 1, Field ''SB_ENB'' 2]"

definition FIFOLR :: layout where [layout_simps]:
  "FIFOLR =
    [Skip 3, Field ''Rx_Slip_Buffer_FIFO_Latency'' 5]"

definition ICR :: layout where [layout_simps]:
  "ICR =
    [Skip 5, Field ''INT_WC_RUR'' 1, Field ''ENBCLR'' 1, Field ''INTRUP_ENB'' 1]"

definition LAPDSR :: layout where [layout_simps]:
  "LAPDSR =
    [Skip 3, Field ''HDLC3en'' 1, Field ''HDLC2en'' 1, Field ''HDLC1en'' 1,
     Field ''HDLC_Controller_Select'' 2]"

definition CIAGR :: layout where [layout_simps]:
  "CIAGR =
    [Skip 4, Field ''CIAG'' 2, Field ''CIAD'' 2]"

datatype AutomaticPerformanceReport =
    AutomaticPerformanceReport_No
  | AutomaticPerformanceReport_Once
  | AutomaticPerformanceReport_EverySecond

primrec AutomaticPerformanceReport_bits :: "AutomaticPerformanceReport \<Rightarrow> u8" where
    "AutomaticPerformanceReport_bits AutomaticPerformanceReport_No = 0b00"
  | "AutomaticPerformanceReport_bits AutomaticPerformanceReport_Once = 0b01"
  | "AutomaticPerformanceReport_bits AutomaticPerformanceReport_EverySecond = 0b10"

definition PRCR :: layout where [layout_simps]:
  "PRCR =
    [Field ''LBO_ADJ_ENB'' 1, Field ''RLOS_OUT_ENB'' 1, Field ''FAR_END'' 1,
     Field ''NPRM'' 2, Field ''C_R_Bit'' 1, Field ''APCR'' 2]"

definition GCCR :: layout where [layout_simps]:
  "GCCR =
    [Field ''FrOutclk'' 1, Skip 5, Field ''TxGCCR'' 1, Field ''RxGCCR'' 1]"

definition TICR :: layout where [layout_simps]:
  "TICR =
    [Field ''TxSyncFrD'' 1, Skip 1, Field ''TxPLClkEnb_TxSync_Is_Low'' 1,
     Field ''TxFr1544'' 1, Field ''TxICLKINV'' 1, Field ''TxMUXEN'' 1,
     Field ''TxIMODE'' 2]"

datatype BitErrorInsertionRate =
    BitErrorInsertionRate_Disable
  | BitErrorInsertionRate_OneOfOneThousand
  | BitErrorInsertionRate_OneOfOneMillion

primrec BitErrorInsertionRate_bits :: "BitErrorInsertionRate \<Rightarrow> u8" where
    "BitErrorInsertionRate_bits BitErrorInsertionRate_Disable = 0b00"
  | "BitErrorInsertionRate_bits BitErrorInsertionRate_OneOfOneThousand = 1"
  | "BitErrorInsertionRate_bits BitErrorInsertionRate_OneOfOneMillion = 2"

definition BERTCSR0 :: layout where [layout_simps]:
  "BERTCSR0 =
    [Skip 4, Field ''BERT_Switch'' 1, Field ''BER'' 2, Field ''UnFramedBERT'' 1]"

definition RICR :: layout where [layout_simps]:
  "RICR =
    [Field ''RxSyncFrD'' 1, Skip 1, Field ''RxPLClkEnb_RxSync_Is_Low'' 1,
     Field ''RxFr1544'' 1, Field ''RxICLKINV'' 1, Field ''RxMUXEN'' 1,
     Field ''RxIMODE'' 2]"

definition BERTCSR1 :: layout where [layout_simps]:
  "BERTCSR1 =
    [Field ''PRBSTyp'' 1, Field ''ERRORIns'' 1, Field ''DATAInv'' 1,
     Field ''RxBERTLock'' 1, Field ''RxBERTEnb'' 1, Field ''TxBERTEnb'' 1,
     Field ''RxBypass'' 1, Field ''TxBypass'' 1]"

definition LCCR0 :: layout where [layout_simps]:
  "LCCR0 =
    [Field ''RXLBCALEN'' 2, Field ''RXLBCDLEN'' 2, Field ''TXLBCLEN'' 2,
     Field ''FRAMED'' 1, Field ''AUTOENB'' 1]"

definition LCCR :: layout where [layout_simps]:
  "LCCR =
    [Field ''RXLBCALEN'' 2, Field ''RXLBCDLEN'' 2, Skip 2, Field ''FRAMED'' 1, Skip 1]"

definition TLCR :: layout where [layout_simps]:
  "TLCR =
    [Field ''TXLBC'' 7, Field ''TXLBCENB'' 1]"

definition RLACR :: layout where [layout_simps]:
  "RLACR =
    [Field ''RXLBAC'' 7, Field ''RXLBACENB'' 1]"

definition RLDCR :: layout where [layout_simps]:
  "RLDCR =
    [Field ''RXLBDC'' 7, Field ''RXLBDCENB'' 1]"

definition RLCDS :: layout where [layout_simps]:
  "RLCDS =
    [Field ''RxLCDetSwitch'' 8]"

definition DDER :: layout where [layout_simps]:
  "DDER =
    [Field ''DEFDET'' 1, Skip 7]"

definition TLCGS :: layout where [layout_simps]:
  "TLCGS =
    [Skip 7, Field ''TxLCGenSwitch'' 1]"

definition LCTS :: layout where [layout_simps]:
  "LCTS =
    [Skip 5, Field ''LCTimer'' 3]"

definition TSPRMCR :: layout where [layout_simps]:
  "TSPRMCR =
    [Field ''FC_Bit'' 1, Field ''PA_Bit'' 1, Field ''U1_Bit'' 1, Field ''U2_Bit'' 1,
     Field ''R_Bit'' 4]"

datatype BERTPattern =
    BERTPattern_PRBS_X20_X3_1
  | BERTPattern_QRSS_X20_X17_1
  | BERTPattern_AllOnes
  | BERTPattern_AllZeros
  | BERTPattern_ThreeIn24
  | BERTPattern_OneIn8
  | BERTPattern_Fifty5Octet
  | BERTPattern_Daly
  | BERTPattern_PRBS_X20_X17_1

primrec BERTPattern_bits :: "BERTPattern \<Rightarrow> u8" where
    "BERTPattern_bits BERTPattern_PRBS_X20_X3_1 = 0b0010"
  | "BERTPattern_bits BERTPattern_QRSS_X20_X17_1 = 0b0011"
  | "BERTPattern_bits BERTPattern_AllOnes = 0b0100"
  | "BERTPattern_bits BERTPattern_AllZeros = 0b0101"
  | "BERTPattern_bits BERTPattern_ThreeIn24 = 0b0110"
  | "BERTPattern_bits BERTPattern_OneIn8 = 0b0111"
  | "BERTPattern_bits BERTPattern_Fifty5Octet = 0b1000"
  | "BERTPattern_bits BERTPattern_Daly = 0b1001"
  | "BERTPattern_bits BERTPattern_PRBS_X20_X17_1 = 0b1010"

definition BCR :: layout where [layout_simps]:
  "BCR =
    [Skip 4, Field ''BERT'' 4]"

definition BOCCR :: layout where [layout_simps]:
  "BOCCR =
    [Field ''TxABORT'' 1, Field ''RMF'' 2, Field ''RBOCE'' 1, Field ''BOCR'' 1,
     Field ''RBF'' 2, Field ''SBOC'' 1]"

definition RFDLR :: layout where [layout_simps]:
  "RFDLR =
    [Skip 2, Field ''RBOC'' 6]"

definition RFDLMR :: layout where [layout_simps]:
  "RFDLMR =
    [Skip 2, Field ''RFDLM'' 6]"

definition TFDLR :: layout where [layout_simps]:
  "TFDLR =
    [Skip 2, Field ''TBOC'' 6]"

definition TBCR :: layout where [layout_simps]:
  "TBCR =
    [Field ''TBCR'' 8]"

definition RDS0MR :: layout where [layout_simps]:
  "RDS0MR =
    [Field ''RxDS_0'' 8]"

definition TDS0MR :: layout where [layout_simps]:
  "TDS0MR =
    [Field ''TxDS_0'' 8]"

datatype TransmitLAPDSource =
    TransmitLAPDSource_LAPDController1
  | TransmitLAPDSource_LAPDController2
  | TransmitLAPDSource_TSDLSR_TxDE
  | TransmitLAPDSource_LAPDController3

primrec TransmitLAPDSource_bits :: "TransmitLAPDSource \<Rightarrow> u8" where
    "TransmitLAPDSource_bits TransmitLAPDSource_LAPDController1 = 0b00"
  | "TransmitLAPDSource_bits TransmitLAPDSource_LAPDController2 = 0b01"
  | "TransmitLAPDSource_bits TransmitLAPDSource_TSDLSR_TxDE = 0b10"
  | "TransmitLAPDSource_bits TransmitLAPDSource_LAPDController3 = 0b11"

datatype ZeroCodeSuppression =
    ZeroCodeSuppression_None
  | ZeroCodeSuppression_ATTBit7Stuffing
  | ZeroCodeSuppression_GTE
  | ZeroCodeSuppression_DDS

primrec ZeroCodeSuppression_bits :: "ZeroCodeSuppression \<Rightarrow> u8" where
    "ZeroCodeSuppression_bits ZeroCodeSuppression_None = 0b00"
  | "ZeroCodeSuppression_bits ZeroCodeSuppression_ATTBit7Stuffing = 0b01"
  | "ZeroCodeSuppression_bits ZeroCodeSuppression_GTE = 0b10"
  | "ZeroCodeSuppression_bits ZeroCodeSuppression_DDS = 0b11"

datatype ChannelConditioning =
    ChannelConditioning_Unchanged
  | ChannelConditioning_InvertAll
  | ChannelConditioning_InvertEven
  | ChannelConditioning_InvertOdd
  | ChannelConditioning_PUCR
  | ChannelConditioning_BUSY
  | ChannelConditioning_VACANT
  | ChannelConditioning_BUSYWithSlotNumber
  | ChannelConditioning_MOOF
  | ChannelConditioning_ALawMilliwatt
  | ChannelConditioning_ULawMilliwatt
  | ChannelConditioning_InvertMSB
  | ChannelConditioning_InvertAllButMSB
  | ChannelConditioning_PRBSOrQRTS
  | ChannelConditioning_DETimeSlot

primrec ChannelConditioning_bits :: "ChannelConditioning \<Rightarrow> u8" where
    "ChannelConditioning_bits ChannelConditioning_Unchanged = 0x0"
  | "ChannelConditioning_bits ChannelConditioning_InvertAll = 0x1"
  | "ChannelConditioning_bits ChannelConditioning_InvertEven = 0x2"
  | "ChannelConditioning_bits ChannelConditioning_InvertOdd = 0x3"
  | "ChannelConditioning_bits ChannelConditioning_PUCR = 0x4"
  | "ChannelConditioning_bits ChannelConditioning_BUSY = 0x5"
  | "ChannelConditioning_bits ChannelConditioning_VACANT = 0x6"
  | "ChannelConditioning_bits ChannelConditioning_BUSYWithSlotNumber = 0x7"
  | "ChannelConditioning_bits ChannelConditioning_MOOF = 0x8"
  | "ChannelConditioning_bits ChannelConditioning_ALawMilliwatt = 0x9"
  | "ChannelConditioning_bits ChannelConditioning_ULawMilliwatt = 0xa"
  | "ChannelConditioning_bits ChannelConditioning_InvertMSB = 0xb"
  | "ChannelConditioning_bits ChannelConditioning_InvertAllButMSB = 0xc"
  | "ChannelConditioning_bits ChannelConditioning_PRBSOrQRTS = 0xd"
  | "ChannelConditioning_bits ChannelConditioning_DETimeSlot = 0xf"

definition TCCR :: layout where [layout_simps]:
  "TCCR =
    [Field ''LAPDcntl'' 2, Field ''TxZERO'' 2, Field ''TxCOND'' 4]"

definition TUCR :: layout where [layout_simps]:
  "TUCR =
    [Field ''TUCR'' 8]"

datatype ChannelSignalingSource =
    ChannelSignalingSource_PCMData
  | ChannelSignalingSource_TSCR
  | ChannelSignalingSource_TxSIG

primrec ChannelSignalingSource_bits :: "ChannelSignalingSource \<Rightarrow> u8" where
    "ChannelSignalingSource_bits ChannelSignalingSource_PCMData = 0b00"
  | "ChannelSignalingSource_bits ChannelSignalingSource_TSCR = 0b01"
  | "ChannelSignalingSource_bits ChannelSignalingSource_TxSIG = 0b10"

definition TSCR :: layout where [layout_simps]:
  "TSCR =
    [Field ''A_x'' 1, Field ''B_y'' 1, Field ''C_x'' 1, Field ''D_x'' 1, Skip 1,
     Field ''Rob_Enb'' 1, Field ''TxSIGSRC'' 2]"

datatype ReceiveLAPDSource =
    ReceiveLAPDSource_LAPDController1
  | ReceiveLAPDSource_LAPDController2
  | ReceiveLAPDSource_RSDLSR_RxDE
  | ReceiveLAPDSource_LAPDController3

primrec ReceiveLAPDSource_bits :: "ReceiveLAPDSource \<Rightarrow> u8" where
    "ReceiveLAPDSource_bits ReceiveLAPDSource_LAPDController1 = 0b00"
  | "ReceiveLAPDSource_bits ReceiveLAPDSource_LAPDController2 = 0b01"
  | "ReceiveLAPDSource_bits ReceiveLAPDSource_RSDLSR_RxDE = 0b10"
  | "ReceiveLAPDSource_bits ReceiveLAPDSource_LAPDController3 = 0b11"

definition RCCR :: layout where [layout_simps]:
  "RCCR =
    [Field ''LAPDcntl'' 2, Field ''RxZERO'' 2, Field ''RxCOND'' 4]"

definition RUCR :: layout where [layout_simps]:
  "RUCR =
    [Field ''RxUSER'' 8]"

datatype ReceiveSignalingConditioning =
    ReceiveSignalingConditioning_AllOnes
  | ReceiveSignalingConditioning_SixteenCode_ABCD
  | ReceiveSignalingConditioning_FourCode_AB
  | ReceiveSignalingConditioning_TwoCode_A

primrec ReceiveSignalingConditioning_bits :: "ReceiveSignalingConditioning \<Rightarrow> u8" where
    "ReceiveSignalingConditioning_bits ReceiveSignalingConditioning_AllOnes = 0b00"
  | "ReceiveSignalingConditioning_bits ReceiveSignalingConditioning_SixteenCode_ABCD = 0b01"
  | "ReceiveSignalingConditioning_bits ReceiveSignalingConditioning_FourCode_AB = 0b10"
  | "ReceiveSignalingConditioning_bits ReceiveSignalingConditioning_TwoCode_A = 0b11"

datatype ReceiveSignalingExtraction =
    ReceiveSignalingExtraction_None
  | ReceiveSignalingExtraction_SixteenCode_ABCD
  | ReceiveSignalingExtraction_FourCode_AB
  | ReceiveSignalingExtraction_TwoCode_A

primrec ReceiveSignalingExtraction_bits :: "ReceiveSignalingExtraction \<Rightarrow> u8" where
    "ReceiveSignalingExtraction_bits ReceiveSignalingExtraction_None = 0b00"
  | "ReceiveSignalingExtraction_bits ReceiveSignalingExtraction_SixteenCode_ABCD = 0b01"
  | "ReceiveSignalingExtraction_bits ReceiveSignalingExtraction_FourCode_AB = 0b10"
  | "ReceiveSignalingExtraction_bits ReceiveSignalingExtraction_TwoCode_A = 0b11"

definition RSCtR :: layout where [layout_simps]:
  "RSCtR =
    [Skip 1, Field ''SIGC_ENB'' 1, Field ''OH_ENB'' 1, Field ''DEB_ENB'' 1,
     Field ''RxSIGC'' 2, Field ''RxSIGE'' 2]"

definition RSSR :: layout where [layout_simps]:
  "RSSR =
    [Skip 4, Field ''SIG_16A_4A_2A'' 1, Field ''SIG_16B_4B_2A'' 1,
     Field ''SIG_16C_4A_2A'' 1, Field ''SIG_16D_4B_2A'' 1]"

definition RSAR :: layout where [layout_simps]:
  "RSAR =
    [Skip 4, Field ''A'' 1, Field ''B'' 1, Field ''C'' 1, Field ''D'' 1]"

text \<open>The LAPD buffer and performance monitor registers are plain \<open>u8\<close> aliases.\<close>

definition u8_register :: layout where [layout_simps]:
  "u8_register = [Field ''u8'' 8]"

definition BISR :: layout where [layout_simps]:
  "BISR =
    [Skip 1, Field ''LBCODE'' 1, Field ''RxClkLOS'' 1, Field ''ONESEC'' 1,
     Field ''HDLC'' 1, Field ''SLIP'' 1, Field ''ALARM'' 1, Field ''T1FRAME'' 1]"

definition BIER :: layout where [layout_simps]:
  "BIER =
    [Skip 1, Field ''LBCODE_ENB'' 1, Field ''RXCLKLOSS'' 1, Field ''ONESEC_ENB'' 1,
     Field ''HDLC_ENB'' 1, Field ''SLIP_ENB'' 1, Field ''ALARM_ENB'' 1,
     Field ''T1FRAME_ENB'' 1]"

definition AEISR :: layout where [layout_simps]:
  "AEISR =
    [Field ''RxOOF_State'' 1, Field ''RxAIS_State'' 1, Field ''RxYEL_State'' 1,
     Field ''LOS_State'' 1, Field ''LCVInt_Status'' 1, Field ''RxOOF_State_Change'' 1,
     Field ''RxAIS_State_Change'' 1, Field ''RxYEL_State_Change'' 1]"

definition AEIER :: layout where [layout_simps]:
  "AEIER =
    [Skip 3, Field ''SetToZero'' 1, Field ''LCV_ENB'' 1, Field ''RxOOF_ENB'' 1,
     Field ''RxAIS_ENB'' 1, Field ''RxYEL_ENB'' 1]"

definition FISR :: layout where [layout_simps]:
  "FISR =
    [Field ''DS0_Change'' 1, Field ''DS0_Status'' 1, Field ''SIG'' 1, Field ''COFA'' 1,
     Field ''OOF_Status'' 1, Field ''FMD'' 1, Field ''SE'' 1, Field ''FE'' 1]"

definition FIER :: layout where [layout_simps]:
  "FIER =
    [Field ''DS0_ENB'' 1, Skip 1, Field ''SIG_ENB'' 1, Field ''COFA_ENB'' 1,
     Field ''OOF_ENB'' 1, Field ''FMD_ENB'' 1, Field ''SE_ENB'' 1, Field ''FE_ENB'' 1]"

definition DLSRx :: layout where [layout_simps]:
  "DLSRx =
    [Field ''MSG_TYPE'' 1, Field ''TxSOT'' 1, Field ''RxSOT'' 1, Field ''TxEOT'' 1,
     Field ''RxEOT'' 1, Field ''FCS_ERR'' 1, Field ''RxABORT'' 1, Field ''RxIDLE'' 1]"

definition DLIERx :: layout where [layout_simps]:
  "DLIERx =
    [Skip 1, Field ''TxSOT_ENB'' 1, Field ''RxSOT_ENB'' 1, Field ''TxEOT_ENB'' 1,
     Field ''RxEOT_ENB'' 1, Field ''FCS_ERR_ENB'' 1, Field ''RxABORT_ENB'' 1,
     Field ''RxIDLE_ENB'' 1]"

definition SBISR :: layout where [layout_simps]:
  "SBISR =
    [Field ''TxSB_FULL'' 1, Field ''TxSB_EMPT'' 1, Field ''TxSB_SLIP'' 1,
     Field ''SLC96_LOCK'' 1, Field ''Multiframe_LOCK'' 1, Field ''RxSB_FULL'' 1,
     Field ''RxSB_EMPT'' 1, Field ''RxSB_SLIP'' 1]"

definition SBIER :: layout where [layout_simps]:
  "SBIER =
    [Field ''TxFULL_ENB'' 1, Field ''TxEMPT_ENB'' 1, Field ''TxSLIP_ENB'' 1, Skip 2,
     Field ''RxFULL_ENB'' 1, Field ''RxEMPT_ENB'' 1, Field ''RxSLIP_ENB'' 1]"

definition RLCISRx :: layout where [layout_simps]:
  "RLCISRx =
    [Skip 4, Field ''RXASTAT'' 1, Field ''RXDSTAT'' 1, Field ''RXAINT'' 1,
     Field ''RXDINT'' 1]"

definition RLCIERx :: layout where [layout_simps]:
  "RLCIERx =
    [Skip 6, Field ''RXAENB'' 1, Field ''RXDENB'' 1]"

definition EXZSR :: layout where [layout_simps]:
  "EXZSR =
    [Skip 7, Field ''EXZ_STATUS'' 1]"

definition EXZER :: layout where [layout_simps]:
  "EXZER =
    [Skip 7, Field ''EXZ_ENB'' 1]"

definition SS7SRx :: layout where [layout_simps]:
  "SS7SRx =
    [Skip 7, Field ''SS7_STATUS'' 1]"

definition SS7ERx :: layout where [layout_simps]:
  "SS7ERx =
    [Skip 7, Field ''SS7_ENB'' 1]"

definition RLCISR :: layout where [layout_simps]:
  "RLCISR =
    [Skip 4, Field ''RxLOSINT'' 1, Skip 3]"

definition RLCIER :: layout where [layout_simps]:
  "RLCIER =
    [Skip 4, Field ''RxLOS_ENB'' 1, Skip 3]"

definition CIASR :: layout where [layout_simps]:
  "CIASR =
    [Skip 2, Field ''RxAIS_CI_state'' 1, Field ''RxRAI_CI_state'' 1, Skip 2,
     Field ''RxAIS_CI'' 1, Field ''RxRAI_CI'' 1]"

definition CIAIER :: layout where [layout_simps]:
  "CIAIER =
    [Skip 6, Field ''RxAIS_CI_ENB'' 1, Field ''RxRAI_CI_ENB'' 1]"

definition BOCISR :: layout where [layout_simps]:
  "BOCISR =
    [Field ''RMTCH3'' 1, Field ''RMTCH2'' 1, Field ''BOCC'' 1, Field ''RFDLAD'' 1,
     Field ''RFDLF'' 1, Field ''TFDLE'' 1, Field ''RMTCH1'' 1, Field ''RBOC'' 1]"

definition BOCIER :: layout where [layout_simps]:
  "BOCIER =
    [Field ''RMTCH3'' 1, Field ''RMTCH2'' 1, Field ''BOCC'' 1, Field ''RFDLAD'' 1,
     Field ''RFDLF'' 1, Field ''TFDLE'' 1, Field ''RMTCH1'' 1, Field ''RBOC'' 1]"

definition BOCUISR :: layout where [layout_simps]:
  "BOCUISR =
    [Skip 1, Field ''Unstable'' 1, Skip 6]"

definition BOCUIER :: layout where [layout_simps]:
  "BOCUIER =
    [Skip 1, Field ''Unstable'' 1, Skip 6]"

datatype PRBSPattern =
    PRBSPattern_PRBS
  | PRBSPattern_QRSS

primrec PRBSPattern_bits :: "PRBSPattern \<Rightarrow> u8" where
    "PRBSPattern_bits PRBSPattern_PRBS = 0b0"
  | "PRBSPattern_bits PRBSPattern_QRSS = 0b1"

datatype PRBSDestination =
    PRBSDestination_TTIP_TRING
  | PRBSDestination_RPOS_RCLK

primrec PRBSDestination_bits :: "PRBSDestination \<Rightarrow> u8" where
    "PRBSDestination_bits PRBSDestination_TTIP_TRING = 0b0"
  | "PRBSDestination_bits PRBSDestination_RPOS_RCLK = 0b1"

definition LIUCCR0 :: layout where [layout_simps]:
  "LIUCCR0 =
    [Field ''QRSS_n_PRBS_n'' 1, Field ''PRBS_Rx_n_PRBS_Tx_n'' 1, Field ''RXON_n'' 1,
     Field ''EQC'' 5]"

datatype Termination =
    Termination_HighImpedance
  | Termination_Internal

primrec Termination_bits :: "Termination \<Rightarrow> u8" where
    "Termination_bits Termination_HighImpedance = 0b0"
  | "Termination_bits Termination_Internal = 0b1"

datatype TerminationImpedance =
    TerminationImpedance_Ohms100
  | TerminationImpedance_Ohms110
  | TerminationImpedance_Ohms75
  | TerminationImpedance_Ohms120

primrec TerminationImpedance_bits :: "TerminationImpedance \<Rightarrow> u8" where
    "TerminationImpedance_bits TerminationImpedance_Ohms100 = 0b00"
  | "TerminationImpedance_bits TerminationImpedance_Ohms110 = 0b01"
  | "TerminationImpedance_bits TerminationImpedance_Ohms75 = 0b10"
  | "TerminationImpedance_bits TerminationImpedance_Ohms120 = 0b11"

definition LIUCCR1 :: layout where [layout_simps]:
  "LIUCCR1 =
    [Field ''RXTSEL_n'' 1, Field ''TXTSEL_n'' 1, Field ''TERSEL'' 2,
     Field ''RxJASEL_n'' 1, Field ''TxJASEL_n'' 1, Field ''JABW_n'' 1,
     Field ''FIFOS_n'' 1]"

datatype TransmitTestPattern =
    TransmitTestPattern_None
  | TransmitTestPattern_TDQRSS
  | TransmitTestPattern_TAOS
  | TransmitTestPattern_TLUC
  | TransmitTestPattern_TLDC

primrec TransmitTestPattern_bits :: "TransmitTestPattern \<Rightarrow> u8" where
    "TransmitTestPattern_bits TransmitTestPattern_None = 0b000"
  | "TransmitTestPattern_bits TransmitTestPattern_TDQRSS = 0b100"
  | "TransmitTestPattern_bits TransmitTestPattern_TAOS = 0b101"
  | "TransmitTestPattern_bits TransmitTestPattern_TLUC = 0b110"
  | "TransmitTestPattern_bits TransmitTestPattern_TLDC = 0b111"

datatype LIULoopback =
    LIULoopback_None
  | LIULoopback_Dual
  | LIULoopback_Analog
  | LIULoopback_Remote
  | LIULoopback_Digital

primrec LIULoopback_bits :: "LIULoopback \<Rightarrow> u8" where
    "LIULoopback_bits LIULoopback_None = 0b000"
  | "LIULoopback_bits LIULoopback_Dual = 0b100"
  | "LIULoopback_bits LIULoopback_Analog = 0b101"
  | "LIULoopback_bits LIULoopback_Remote = 0b110"
  | "LIULoopback_bits LIULoopback_Digital = 0b111"

definition LIUCCR2 :: layout where [layout_simps]:
  "LIUCCR2 =
    [Field ''INVQRSS_n'' 1, Field ''TXTEST'' 3, Field ''TXON_n'' 1, Field ''LOOP2_n'' 3]"

datatype NetworkLoopCodeDetection =
    NetworkLoopCodeDetection_Disabled
  | NetworkLoopCodeDetection_LoopUpDetection
  | NetworkLoopCodeDetection_LoopDownDetection
  | NetworkLoopCodeDetection_AutomaticLoopUpDetectionAndRemoteActivation

primrec NetworkLoopCodeDetection_bits :: "NetworkLoopCodeDetection \<Rightarrow> u8" where
    "NetworkLoopCodeDetection_bits NetworkLoopCodeDetection_Disabled = 0b00"
  | "NetworkLoopCodeDetection_bits NetworkLoopCodeDetection_LoopUpDetection = 0b01"
  | "NetworkLoopCodeDetection_bits NetworkLoopCodeDetection_LoopDownDetection = 0b10"
  | "NetworkLoopCodeDetection_bits NetworkLoopCodeDetection_AutomaticLoopUpDetectionAndRemoteActivation = 0b11"

definition LIUCCR3 :: layout where [layout_simps]:
  "LIUCCR3 =
    [Field ''NLCDE'' 2, Field ''CODES_n'' 1, Skip 2, Field ''INSBPV_n'' 1,
     Field ''INSBER_n'' 1, Skip 1]"

definition LIUCCIER :: layout where [layout_simps]:
  "LIUCCIER =
    [Skip 1, Field ''DMOIE_n'' 1, Field ''FLSIE_n'' 1, Field ''LCVIE_n'' 1,
     Field ''NLCDIE_n'' 1, Field ''AISDIE_n'' 1, Field ''RLOSIE_n'' 1,
     Field ''QRPDIE_n'' 1]"

definition LIUCCSR :: layout where [layout_simps]:
  "LIUCCSR =
    [Skip 1, Field ''DMO_n'' 1, Field ''FLS_n'' 1, Field ''LCV_n'' 1, Field ''NLCD_n'' 1,
     Field ''AISD_n'' 1, Field ''RLOS_n'' 1, Field ''QRPD_n'' 1]"

definition LIUCCISR :: layout where [layout_simps]:
  "LIUCCISR =
    [Skip 1, Field ''DMOIS_n'' 1, Field ''FLSIS_n'' 1, Field ''LCVIS_n'' 1,
     Field ''NLCDIS_n'' 1, Field ''AISDIS_n'' 1, Field ''RLOSIS_n'' 1,
     Field ''QRPDIS_n'' 1]"

definition LIUCCCCR :: layout where [layout_simps]:
  "LIUCCCCR =
    [Skip 2, Field ''CLOS'' 6]"

definition LIUCCAR :: layout where [layout_simps]:
  "LIUCCAR =
    [Skip 1, Field ''Arb_Seg'' 7]"

definition LIUGCR0 :: layout where [layout_simps]:
  "LIUGCR0 =
    [Field ''SR'' 1, Field ''ATAOS'' 1, Field ''RCLKE'' 1, Field ''TCLKE'' 1,
     Field ''DATAP'' 1, Skip 1, Field ''GIE'' 1, Field ''SRESET'' 1]"

datatype WireGauge =
    WireGauge_Gauge22And24
  | WireGauge_Gauge22
  | WireGauge_Gauge24
  | WireGauge_Gauge26

primrec WireGauge_bits :: "WireGauge \<Rightarrow> u8" where
    "WireGauge_bits WireGauge_Gauge22And24 = 0b00"
  | "WireGauge_bits WireGauge_Gauge22 = 0b01"
  | "WireGauge_bits WireGauge_Gauge24 = 0b10"
  | "WireGauge_bits WireGauge_Gauge26 = 0b11"

definition LIUGCR1 :: layout where [layout_simps]:
  "LIUGCR1 =
    [Field ''TxSYNC_Sect13'' 1, Field ''RxSYNC_Sect13'' 1, Field ''Gauge'' 2, Skip 1,
     Field ''RXMUTE'' 1, Field ''EXLOS'' 1, Field ''ICT'' 1]"

definition LIUGCR2 :: layout where [layout_simps]:
  "LIUGCR2 =
    [Field ''Force_to_0'' 1, Skip 7]"

definition LIUGCR3 :: layout where [layout_simps]:
  "LIUGCR3 =
    [Skip 8]"

datatype ClockSelect =
    ClockSelect_M2_048
  | ClockSelect_M1_544
  | ClockSelect_M4_096
  | ClockSelect_M3_088
  | ClockSelect_M8_192
  | ClockSelect_M6_176
  | ClockSelect_M16_384
  | ClockSelect_M12_352

primrec ClockSelect_bits :: "ClockSelect \<Rightarrow> u8" where
    "ClockSelect_bits ClockSelect_M2_048 = 0b0000"
  | "ClockSelect_bits ClockSelect_M1_544 = 0b0001"
  | "ClockSelect_bits ClockSelect_M4_096 = 0b1000"
  | "ClockSelect_bits ClockSelect_M3_088 = 0b1001"
  | "ClockSelect_bits ClockSelect_M8_192 = 0b1010"
  | "ClockSelect_bits ClockSelect_M6_176 = 0b1011"
  | "ClockSelect_bits ClockSelect_M16_384 = 0b1100"
  | "ClockSelect_bits ClockSelect_M12_352 = 0b1101"

definition LIUGCR4 :: layout where [layout_simps]:
  "LIUGCR4 =
    [Skip 4, Field ''CLKSEL'' 4]"

definition LIUGCR5 :: layout where [layout_simps]:
  "LIUGCR5 =
    [Skip 7, Field ''GCHIS0'' 1]"

definition DEVID :: layout where [layout_simps]:
  "DEVID =
    [Field ''DEVID'' 8]"

definition REVID :: layout where [layout_simps]:
  "REVID =
    [Field ''REVID'' 8]"

section \<open>All structs\<close>

definition register_layouts :: "layout list" where
  "register_layouts =
    [CSR, LICR, FSR, AGR, SMR, TSDLSR, FCR, RSDLSR, RSChR,
     RIFR, DLCR, TDLBCR, RDLBCR, SBCR, FIFOLR, ICR, LAPDSR, CIAGR,
     PRCR, GCCR, TICR, BERTCSR0, RICR, BERTCSR1, LCCR0, LCCR, TLCR,
     RLACR, RLDCR, RLCDS, DDER, TLCGS, LCTS, TSPRMCR, BCR, BOCCR,
     RFDLR, RFDLMR, TFDLR, TBCR, RDS0MR, TDS0MR, TCCR, TUCR, TSCR,
     RCCR, RUCR, RSCtR, RSSR, RSAR, BISR, BIER, AEISR, AEIER,
     FISR, FIER, DLSRx, DLIERx, SBISR, SBIER, RLCISRx, RLCIERx, EXZSR,
     EXZER, SS7SRx, SS7ERx, RLCISR, RLCIER, CIASR, CIAIER, BOCISR, BOCIER,
     BOCUISR, BOCUIER, LIUCCR0, LIUCCR1, LIUCCR2, LIUCCR3, LIUCCIER, LIUCCSR, LIUCCISR,
     LIUCCCCR, LIUCCAR, LIUGCR0, LIUGCR1, LIUGCR2, LIUGCR3, LIUGCR4, LIUGCR5, DEVID,
     REVID,
     u8_register]"

section \<open>Well-formedness\<close>

definition enum_ok :: "nat \<Rightarrow> ('a \<Rightarrow> u8) \<Rightarrow> bool" where
  "enum_ok w f \<longleftrightarrow> inj f \<and> (\<forall>x. unat (f x) < 2 ^ w)"

lemma enum_okI:
  assumes "\<And>x y. f x = f y \<Longrightarrow> x = y" and "\<And>x. unat (f x) < 2 ^ w"
  shows "enum_ok w f"
  using assms by (auto simp: enum_ok_def inj_def)

lemma ClockSource_ok [simp]: "enum_ok 2 ClockSource_bits"
  by (rule enum_okI, (case_tac x; case_tac y; simp), (case_tac x; simp))

lemma FramerLoopback_ok [simp]: "enum_ok 2 FramerLoopback_bits"
  by (rule enum_okI, (case_tac x; case_tac y; simp), (case_tac x; simp))

lemma T1Framing_ok [simp]: "enum_ok 3 T1Framing_bits"
  by (rule enum_okI, (case_tac x; case_tac y; simp), (case_tac x; simp))

lemma TransmitAISPattern_ok [simp]: "enum_ok 2 TransmitAISPattern_bits"
  by (rule enum_okI, (case_tac x; case_tac y; simp), (case_tac x; simp))

lemma AISDetection_ok [simp]: "enum_ok 2 AISDetection_bits"
  by (rule enum_okI, (case_tac x; case_tac y; simp), (case_tac x; simp))

lemma ReceiveSlipBuffer_ok [simp]: "enum_ok 2 ReceiveSlipBuffer_bits"
  by (rule enum_okI, (case_tac x; case_tac y; simp), (case_tac x; simp))

lemma AutomaticPerformanceReport_ok [simp]: "enum_ok 2 AutomaticPerformanceReport_bits"
  by (rule enum_okI, (case_tac x; case_tac y; simp), (case_tac x; simp))

lemma BitErrorInsertionRate_ok [simp]: "enum_ok 2 BitErrorInsertionRate_bits"
  by (rule enum_okI, (case_tac x; case_tac y; simp), (case_tac x; simp))

lemma BERTPattern_ok [simp]: "enum_ok 4 BERTPattern_bits"
  by (rule enum_okI, (case_tac x; case_tac y; simp), (case_tac x; simp))

lemma TransmitLAPDSource_ok [simp]: "enum_ok 2 TransmitLAPDSource_bits"
  by (rule enum_okI, (case_tac x; case_tac y; simp), (case_tac x; simp))

lemma ZeroCodeSuppression_ok [simp]: "enum_ok 2 ZeroCodeSuppression_bits"
  by (rule enum_okI, (case_tac x; case_tac y; simp), (case_tac x; simp))

lemma ChannelConditioning_ok [simp]: "enum_ok 4 ChannelConditioning_bits"
  by (rule enum_okI, (case_tac x; case_tac y; simp), (case_tac x; simp))

lemma ChannelSignalingSource_ok [simp]: "enum_ok 2 ChannelSignalingSource_bits"
  by (rule enum_okI, (case_tac x; case_tac y; simp), (case_tac x; simp))

lemma ReceiveLAPDSource_ok [simp]: "enum_ok 2 ReceiveLAPDSource_bits"
  by (rule enum_okI, (case_tac x; case_tac y; simp), (case_tac x; simp))

lemma ReceiveSignalingConditioning_ok [simp]: "enum_ok 2 ReceiveSignalingConditioning_bits"
  by (rule enum_okI, (case_tac x; case_tac y; simp), (case_tac x; simp))

lemma ReceiveSignalingExtraction_ok [simp]: "enum_ok 2 ReceiveSignalingExtraction_bits"
  by (rule enum_okI, (case_tac x; case_tac y; simp), (case_tac x; simp))

lemma PRBSPattern_ok [simp]: "enum_ok 1 PRBSPattern_bits"
  by (rule enum_okI, (case_tac x; case_tac y; simp), (case_tac x; simp))

lemma PRBSDestination_ok [simp]: "enum_ok 1 PRBSDestination_bits"
  by (rule enum_okI, (case_tac x; case_tac y; simp), (case_tac x; simp))

lemma Termination_ok [simp]: "enum_ok 1 Termination_bits"
  by (rule enum_okI, (case_tac x; case_tac y; simp), (case_tac x; simp))

lemma TerminationImpedance_ok [simp]: "enum_ok 2 TerminationImpedance_bits"
  by (rule enum_okI, (case_tac x; case_tac y; simp), (case_tac x; simp))

lemma TransmitTestPattern_ok [simp]: "enum_ok 3 TransmitTestPattern_bits"
  by (rule enum_okI, (case_tac x; case_tac y; simp), (case_tac x; simp))

lemma LIULoopback_ok [simp]: "enum_ok 3 LIULoopback_bits"
  by (rule enum_okI, (case_tac x; case_tac y; simp), (case_tac x; simp))

lemma NetworkLoopCodeDetection_ok [simp]: "enum_ok 2 NetworkLoopCodeDetection_bits"
  by (rule enum_okI, (case_tac x; case_tac y; simp), (case_tac x; simp))

lemma WireGauge_ok [simp]: "enum_ok 2 WireGauge_bits"
  by (rule enum_okI, (case_tac x; case_tac y; simp), (case_tac x; simp))

lemma ClockSelect_ok [simp]: "enum_ok 4 ClockSelect_bits"
  by (rule enum_okI, (case_tac x; case_tac y; simp), (case_tac x; simp))

lemma register_layouts_ok: "list_all layout_ok register_layouts"
  by (simp add: register_layouts_def layout_ok_def layout_width_def layout_simps)

text \<open>The unit test of the file.\<close>

lemma modular_bitfield_is_msb_first:
  "reg_chain CSR [(''LCV_Insert'', 1), (''Set_T1_Mode'', 0),
     (''Sync_All_Transmitters_to_8kHz'', 1), (''Clock_Loss_Detect'', 0),
     (''CSS'', ClockSource_bits ClockSource_Loop)] 0 = Some 0xa0"
  by code_simp

section \<open>The contract of the register structs\<close>

interpretation csr: bitfield_struct CSR
  by unfold_locales (simp add: layout_ok_def layout_width_def layout_simps)

interpretation licr: bitfield_struct LICR
  by unfold_locales (simp add: layout_ok_def layout_width_def layout_simps)

interpretation tscr: bitfield_struct TSCR
  by unfold_locales (simp add: layout_ok_def layout_width_def layout_simps)

interpretation liuccr2: bitfield_struct LIUCCR2
  by unfold_locales (simp add: layout_ok_def layout_width_def layout_simps)

interpretation rsar: bitfield_struct RSAR
  by unfold_locales (simp add: layout_ok_def layout_width_def layout_simps)

interpretation bisr: bitfield_struct BISR
  by unfold_locales (simp add: layout_ok_def layout_width_def layout_simps)

interpretation rdlbcr: bitfield_struct RDLBCR
  by unfold_locales (simp add: layout_ok_def layout_width_def layout_simps)

interpretation fisr: bitfield_struct FISR
  by unfold_locales (simp add: layout_ok_def layout_width_def layout_simps)

end
