(* ===== verification/Device.thy ===== *)
theory Device
  imports Registers
begin

text \<open>
  \<^verbatim>\<open>xrt86vx38-pac/src/device.rs\<close>: the memory map (\<open>Addressing\<close>), the trait \<open>Xyz\<close> through which
  registers are read and written, and typed register accesses (\<open>Access::read\<close>, \<open>write\<close>, \<open>modify\<close>).
  \<open>usize\<close> values are \<open>nat\<close>; an \<open>assert!\<close> that fails is \<open>None\<close> in a pure function and \<open>Panic\<close> in
  a program. The state of the device behind the trait is a type parameter, and the error type is
  the error of the trait's methods (the empty type in the firmware, \<open>rusb::Error\<close> in
  \<^verbatim>\<open>tedium-tool\<close>, whose \<^verbatim>\<open>device.rs\<close> has the same accesses over USB).
\<close>

section \<open>Addressing\<close>

definition CHANNELS_COUNT :: nat where
  "CHANNELS_COUNT = 8"

definition TIMESLOTS_COUNT :: nat where
  "TIMESLOTS_COUNT = 24"

definition global :: "nat \<Rightarrow> nat option" where
  "global offset = (if offset < 0x10000 then Some offset else None)"

definition channel_nxxx :: "nat \<Rightarrow> nat \<Rightarrow> nat option" where
  "channel_nxxx channel offset =
     (if channel < CHANNELS_COUNT then
        if offset < 0x1000 then global (push_bit 12 channel OR offset) else None
      else None)"

definition channel_nxxx_timeslot :: "nat \<Rightarrow> nat \<Rightarrow> nat \<Rightarrow> nat option" where
  "channel_nxxx_timeslot channel block_offset timeslot =
     (if block_offset AND 0xf = 0 then
        if timeslot < TIMESLOTS_COUNT then channel_nxxx channel (block_offset + timeslot)
        else None
      else None)"

definition channel_0fnx :: "nat \<Rightarrow> nat \<Rightarrow> nat option" where
  "channel_0fnx channel offset =
     (if channel < CHANNELS_COUNT then
        if offset < 16 then global (0x0f00 OR push_bit 4 channel OR offset) else None
      else None)"

definition global_0fex :: "nat \<Rightarrow> nat option" where
  "global_0fex offset = (if offset < 16 then global (0x0fe0 OR offset) else None)"

definition RDS0MR_OFFSET_MAP :: "nat list" where
  "RDS0MR_OFFSET_MAP =
    [0x15f, 0x160, 0x161, 0x162, 0x164, 0x165, 0x166, 0x167,
     0x168, 0x169, 0x16a, 0x16b, 0x16c, 0x16d, 0x16e, 0x16f,
     0x1c0, 0x1c1, 0x1c2, 0x1c3, 0x1c4, 0x1c5, 0x1c6, 0x1c7]"

definition rds0mr :: "nat \<Rightarrow> nat \<Rightarrow> nat option" where
  "rds0mr channel timeslot =
     (if timeslot < length RDS0MR_OFFSET_MAP
      then channel_nxxx channel (RDS0MR_OFFSET_MAP ! timeslot) else None)"

text \<open>Below \<open>2 ^ n\<close> the bitwise or with a shifted value is addition.\<close>

lemma push_bit_or_add:
  fixes a b :: nat
  assumes "b < 2 ^ n"
  shows "push_bit n a OR b = 2 ^ n * a + b"
proof -
  have "take_bit n b = b"
    using assms by (simp add: take_bit_nat_eq_self_iff)
  moreover have "push_bit n a AND take_bit n b = 0"
    by (rule bit_eqI) (auto simp: bit_simps)
  ultimately have "push_bit n a AND b = 0"
    by simp
  then have "push_bit n a OR b = push_bit n a + b"
    by (rule disjunctive_add_eq_or [symmetric])
  then show ?thesis by (simp add: push_bit_eq_mult mult.commute)
qed

lemma channel_nxxx_eq:
  "channel_nxxx c off =
     (if c < CHANNELS_COUNT \<and> off < 0x1000 then Some (0x1000 * c + off) else None)"
proof -
  have "push_bit 12 c OR off = 0x1000 * c + off" if "off < 0x1000"
    using push_bit_or_add [of off 12 c] that by simp
  then show ?thesis
    by (simp add: channel_nxxx_def global_def CHANNELS_COUNT_def)
qed

lemma channel_0fnx_eq:
  "channel_0fnx c off =
     (if c < CHANNELS_COUNT \<and> off < 16 then Some (0xf00 + 16 * c + off) else None)"
proof -
  have "0xf00 OR push_bit 4 c OR off = 0xf00 + 16 * c + off" if "c < 8" "off < 16"
  proof -
    have "push_bit 4 c OR off = 16 * c + off"
      using that push_bit_or_add [of off 4 c] by simp
    moreover have "push_bit 8 15 OR (16 * c + off) = 2 ^ 8 * 15 + (16 * c + off)"
      using that by (intro push_bit_or_add) simp
    ultimately show ?thesis
      by (simp add: or.assoc)
  qed
  then show ?thesis
    by (simp add: channel_0fnx_def global_def CHANNELS_COUNT_def)
qed

lemma global_0fex_eq: "global_0fex off = (if off < 16 then Some (0xfe0 + off) else None)"
  using push_bit_or_add [of off 4 "0xfe"]
  by (simp add: global_0fex_def global_def)

lemma channel_nxxx_timeslot_eq:
  assumes "b AND 0xf = 0"
  shows "channel_nxxx_timeslot c b t =
    (if t < TIMESLOTS_COUNT then channel_nxxx c (b + t) else None)"
  using assms by (simp add: channel_nxxx_timeslot_def)

section \<open>The device behind the trait Xyz\<close>

type_synonym register_address = u16
type_synonym register_value = u8

record ('s, 'e) xyz =
  xyz_register_read :: "register_address \<Rightarrow> ('s, 'e, register_value) prog"
  xyz_register_write :: "register_address \<Rightarrow> register_value \<Rightarrow> ('s, 'e, unit) prog"

section \<open>Typed accesses\<close>

text \<open>\<open>Access<D, T>\<close>: an address and, for the phantom type \<open>T\<close>, the layout of the register.\<close>

record access =
  acc_address :: nat
  acc_layout :: layout

definition access_new :: "nat \<Rightarrow> layout \<Rightarrow> access" where
  "access_new address L = \<lparr>acc_address = address, acc_layout = L\<rparr>"

definition access_get_typed :: "('s, 'e) xyz \<Rightarrow> nat \<Rightarrow> ('s, 'e, u8) prog" where
  "access_get_typed D address =
     (if address < 0x10000 then xyz_register_read D (of_nat address) else prog_panic)"

definition access_set_typed :: "('s, 'e) xyz \<Rightarrow> nat \<Rightarrow> u8 \<Rightarrow> ('s, 'e, unit) prog" where
  "access_set_typed D address value =
     (if address < 0x10000 then xyz_register_write D (of_nat address) value else prog_panic)"

text \<open>
  An accessor method may panic before there is an access, so the operations take an
  \<open>access option\<close>. \<open>access_write D a fs\<close> is \<open>a.write(|w| w.with_X1(v1).with_X2(v2)...)\<close>,
  \<open>access_modify\<close> the same on the value read before.
\<close>

definition access_read :: "('s, 'e) xyz \<Rightarrow> access option \<Rightarrow> ('s, 'e, u8) prog" where
  "access_read D acc =
     prog_bind (prog_of_option acc) (\<lambda>a. access_get_typed D (acc_address a))"

definition access_write ::
  "('s, 'e) xyz \<Rightarrow> access option \<Rightarrow> (string \<times> u8) list \<Rightarrow> ('s, 'e, unit) prog" where
  "access_write D acc fs =
     prog_bind (prog_of_option acc) (\<lambda>a.
     prog_bind (prog_of_option (reg_chain (acc_layout a) fs 0)) (\<lambda>new_value.
     access_set_typed D (acc_address a) new_value))"

definition access_modify ::
  "('s, 'e) xyz \<Rightarrow> access option \<Rightarrow> (string \<times> u8) list \<Rightarrow> ('s, 'e, unit) prog" where
  "access_modify D acc fs =
     prog_bind (prog_of_option acc) (\<lambda>a.
     prog_bind (access_get_typed D (acc_address a)) (\<lambda>value.
     prog_bind (prog_of_option (reg_chain (acc_layout a) fs value)) (\<lambda>new_value.
     access_set_typed D (acc_address a) new_value)))"

section \<open>Channels and timeslots\<close>

text \<open>
  A \<open>Channel\<close> is its index (the device is the parameter \<open>D\<close>), a \<open>Timeslot\<close> its channel and
  index; the iterators count up to the constants.
\<close>

definition Channel_new :: "nat \<Rightarrow> nat option" where
  "Channel_new index = (if index < CHANNELS_COUNT then Some index else None)"

definition channels_next :: "nat \<Rightarrow> (nat \<times> nat) option" where
  "channels_next n = (if n < CHANNELS_COUNT then Some (n, n + 1) else None)"

definition timeslots_next :: "nat \<Rightarrow> (nat \<times> nat) option" where
  "timeslots_next n = (if n < TIMESLOTS_COUNT then Some (n, n + 1) else None)"

text \<open>The items a \<open>for\<close> loop over an iterator sees, with fuel for the number of calls to \<open>next\<close>.\<close>

fun iter_items :: "(nat \<Rightarrow> (nat \<times> nat) option) \<Rightarrow> nat \<Rightarrow> nat \<Rightarrow> nat list option" where
  "iter_items next_item 0 n = None"
| "iter_items next_item (Suc fuel) n = (case next_item n of
     None \<Rightarrow> Some []
   | Some (x, n') \<Rightarrow> map_option (Cons x) (iter_items next_item fuel n'))"

definition channels :: "nat list" where
  "channels = [0..<CHANNELS_COUNT]"

definition timeslots :: "nat list" where
  "timeslots = [0..<TIMESLOTS_COUNT]"

lemma iter_items_upto:
  assumes "\<And>n. next_item n = (if n < N then Some (n, n + 1) else None)" and "n \<le> N"
    and "N - n < fuel"
  shows "iter_items next_item fuel n = Some [n..<N]"
  using assms(2,3)
proof (induction fuel arbitrary: n)
  case (Suc fuel)
  then show ?case
    by (cases "n < N") (auto simp: assms(1) upt_conv_Cons)
qed simp

lemma channels_iter: "iter_items channels_next 9 0 = Some channels"
  using iter_items_upto [of channels_next CHANNELS_COUNT 0 9]
  by (simp add: channels_def channels_next_def CHANNELS_COUNT_def)

lemma timeslots_iter: "iter_items timeslots_next 25 0 = Some timeslots"
  using iter_items_upto [of timeslots_next TIMESLOTS_COUNT 0 25]
  by (simp add: timeslots_def timeslots_next_def TIMESLOTS_COUNT_def)

definition access_framer :: "nat \<Rightarrow> nat \<Rightarrow> layout \<Rightarrow> access option" where
  "access_framer c offset L = map_option (\<lambda>a. access_new a L) (channel_nxxx c offset)"

definition access_liu :: "nat \<Rightarrow> nat \<Rightarrow> layout \<Rightarrow> access option" where
  "access_liu c offset L = map_option (\<lambda>a. access_new a L) (channel_0fnx c offset)"

definition timeslot_access :: "nat \<Rightarrow> nat \<Rightarrow> nat \<Rightarrow> layout \<Rightarrow> access option" where
  "timeslot_access c t block_offset L =
     map_option (\<lambda>a. access_new a L) (channel_nxxx_timeslot c block_offset t)"

definition timeslot_access_rds0mr :: "nat \<Rightarrow> nat \<Rightarrow> layout \<Rightarrow> access option" where
  "timeslot_access_rds0mr c t L = map_option (\<lambda>a. access_new a L) (rds0mr c t)"

definition access_liu_global :: "nat \<Rightarrow> layout \<Rightarrow> access option" where
  "access_liu_global offset L = map_option (\<lambda>a. access_new a L) (global_0fex offset)"

definition access_global :: "nat \<Rightarrow> layout \<Rightarrow> access option" where
  "access_global offset L = map_option (\<lambda>a. access_new a L) (global offset)"

lemma access_new_sel [simp]:
  "acc_address (access_new a L) = a" "acc_layout (access_new a L) = L"
  by (simp_all add: access_new_def)

lemma access_framer_eq:
  "access_framer c off L =
     (if c < 8 \<and> off < 0x1000 then Some (access_new (0x1000 * c + off) L) else None)"
  by (simp add: access_framer_def channel_nxxx_eq CHANNELS_COUNT_def)

lemma access_liu_eq:
  "access_liu c off L =
     (if c < 8 \<and> off < 16 then Some (access_new (0xf00 + 16 * c + off) L) else None)"
  by (simp add: access_liu_def channel_0fnx_eq CHANNELS_COUNT_def)

lemma timeslot_access_eq:
  "b AND 0xf = 0 \<Longrightarrow> timeslot_access c t b L =
     (if c < 8 \<and> t < 24 \<and> b + t < 0x1000 then Some (access_new (0x1000 * c + (b + t)) L) else None)"
  by (simp add: timeslot_access_def channel_nxxx_timeslot_eq channel_nxxx_eq
      CHANNELS_COUNT_def TIMESLOTS_COUNT_def)

lemma access_liu_global_eq:
  "access_liu_global off L = (if off < 16 then Some (access_new (0xfe0 + off) L) else None)"
  by (simp add: access_liu_global_def global_0fex_eq)

section \<open>The register-file contract\<close>

text \<open>
  What the configuration code relies on: on the addresses \<open>plain\<close> (control registers, not the
  status registers that reads clear) the device behaves as a register file, and reads elsewhere
  return and leave those registers alone. The client lemmas say what a typed read, write and modify
  do to it.
\<close>

locale register_file =
  fixes D :: "('s, 'e) xyz" and regs :: "'s \<Rightarrow> u16 \<Rightarrow> u8" and plain :: "u16 set"
  assumes read_plain: "a \<in> plain \<Longrightarrow>
      \<exists>s'. xyz_register_read D a s = (Ok (regs s a), s') \<and> (\<forall>b\<in>plain. regs s' b = regs s b)"
    and write_plain: "a \<in> plain \<Longrightarrow>
      \<exists>s'. xyz_register_write D a v s = (Ok (), s') \<and> (\<forall>b\<in>plain. regs s' b = ((regs s)(a := v)) b)"
    and read_any:
      "\<exists>v s'. xyz_register_read D a s = (Ok v, s') \<and> (\<forall>b\<in>plain. regs s' b = regs s b)"
begin

definition agree :: "(u16 \<Rightarrow> u8) \<Rightarrow> 's \<Rightarrow> bool" where
  "agree R s \<longleftrightarrow> (\<forall>a\<in>plain. regs s a = R a)"

lemma agree_self: "agree (regs s) s"
  by (simp add: agree_def)

lemma ok_write:
  assumes "acc = Some a" and "acc_address a < 0x10000" and "of_nat (acc_address a) \<in> plain"
    and "reg_chain (acc_layout a) fs 0 = Some v"
  shows "ok_triple (agree R) (access_write D acc fs) (\<lambda>_. agree (R(of_nat (acc_address a) := v)))"
proof (rule ok_tripleI)
  fix s assume "agree R s"
  moreover from write_plain [OF assms(3), of v s] obtain s'
    where "xyz_register_write D (of_nat (acc_address a)) v s = (Ok (), s')"
      and "\<forall>b\<in>plain. regs s' b = ((regs s)(of_nat (acc_address a) := v)) b" by blast
  ultimately show "\<exists>u s'. access_write D acc fs s = (Ok u, s')
      \<and> agree (R(of_nat (acc_address a) := v)) s'"
    using assms by (auto simp: access_write_def access_set_typed_def agree_def)
qed

lemma ok_modify:
  assumes "acc = Some a" and "acc_address a < 0x10000" and "of_nat (acc_address a) \<in> plain"
    and "reg_chain (acc_layout a) fs (R (of_nat (acc_address a))) = Some v"
  shows "ok_triple (agree R) (access_modify D acc fs) (\<lambda>_. agree (R(of_nat (acc_address a) := v)))"
proof (rule ok_tripleI)
  let ?a = "of_nat (acc_address a) :: u16"
  fix s assume R: "agree R s"
  from read_plain [OF assms(3), of s] obtain s1
    where s1: "xyz_register_read D ?a s = (Ok (regs s ?a), s1)"
      and same: "\<forall>b\<in>plain. regs s1 b = regs s b" by blast
  from write_plain [OF assms(3), of v s1] obtain s2
    where "xyz_register_write D ?a v s1 = (Ok (), s2)"
      and "\<forall>b\<in>plain. regs s2 b = ((regs s1)(?a := v)) b" by blast
  with R s1 same assms show "\<exists>u s'. access_modify D acc fs s = (Ok u, s') \<and> agree (R(?a := v)) s'"
    by (auto simp: access_modify_def access_set_typed_def access_get_typed_def agree_def prog_bind_eval)
qed

lemma ok_read:
  assumes "acc = Some a" and "acc_address a < 0x10000" and "of_nat (acc_address a) \<in> plain"
  shows "ok_triple (agree R) (access_read D acc)
    (\<lambda>v s. v = R (of_nat (acc_address a)) \<and> agree R s)"
proof (rule ok_tripleI)
  fix s assume "agree R s"
  with read_plain [OF assms(3), of s] assms
  show "\<exists>v s'. access_read D acc s = (Ok v, s') \<and> v = R (of_nat (acc_address a)) \<and> agree R s'"
    by (auto simp: access_read_def access_get_typed_def agree_def)
qed

lemma ok_read_any:
  assumes "acc = Some a" and "acc_address a < 0x10000"
  shows "ok_triple (agree R) (access_read D acc) (\<lambda>_. agree R)"
proof (rule ok_tripleI)
  fix s assume "agree R s"
  moreover obtain v s' where "xyz_register_read D (of_nat (acc_address a)) s = (Ok v, s')"
    and "\<forall>b\<in>plain. regs s' b = regs s b" using read_any by blast
  ultimately show "\<exists>v s'. access_read D acc s = (Ok v, s') \<and> agree R s'"
    using assms by (auto simp: access_read_def access_get_typed_def agree_def)
qed

end

end
