(* ===== verification/Accessors.thy ===== *)
theory Accessors
  imports Device
begin

text \<open>
  The register accessors of \<^verbatim>\<open>device.rs\<close>: one definition per method, \<open>ts_X\<close> for \<open>Timeslot::X\<close>,
  \<open>ch_X\<close> for \<open>Channel::X\<close> and \<open>dev_X\<close> for \<open>Device::X\<close>. The tables at the end list them for
  the theorems about the memory map as a whole.
\<close>

section \<open>Timeslot registers\<close>

definition ts_rds0mr :: "nat \<Rightarrow> nat \<Rightarrow> access option" where [access_simps]:
  "ts_rds0mr c t = timeslot_access_rds0mr c t RDS0MR"
definition ts_tds0mr :: "nat \<Rightarrow> nat \<Rightarrow> access option" where [access_simps]:
  "ts_tds0mr c t = timeslot_access c t 0x1d0 TDS0MR"
definition ts_tccr :: "nat \<Rightarrow> nat \<Rightarrow> access option" where [access_simps]:
  "ts_tccr c t = timeslot_access c t 0x300 TCCR"
definition ts_tucr :: "nat \<Rightarrow> nat \<Rightarrow> access option" where [access_simps]:
  "ts_tucr c t = timeslot_access c t 0x320 TUCR"
definition ts_tscr :: "nat \<Rightarrow> nat \<Rightarrow> access option" where [access_simps]:
  "ts_tscr c t = timeslot_access c t 0x340 TSCR"
definition ts_rccr :: "nat \<Rightarrow> nat \<Rightarrow> access option" where [access_simps]:
  "ts_rccr c t = timeslot_access c t 0x360 RCCR"
definition ts_rucr :: "nat \<Rightarrow> nat \<Rightarrow> access option" where [access_simps]:
  "ts_rucr c t = timeslot_access c t 0x380 RUCR"
definition ts_rscr :: "nat \<Rightarrow> nat \<Rightarrow> access option" where [access_simps]:
  "ts_rscr c t = timeslot_access c t 0x3a0 RSCtR"
definition ts_rssr :: "nat \<Rightarrow> nat \<Rightarrow> access option" where [access_simps]:
  "ts_rssr c t = timeslot_access c t 0x3c0 RSSR"
definition ts_rsar :: "nat \<Rightarrow> nat \<Rightarrow> access option" where [access_simps]:
  "ts_rsar c t = timeslot_access c t 0x500 RSAR"

section \<open>Channel registers\<close>

text \<open>Indexed accessors; the index is asserted against the table's length.\<close>

definition RSCR_MAP :: "nat list" where
  "RSCR_MAP = [0x10d, 0x10e, 0x10f]"

definition ch_rscr :: "nat \<Rightarrow> nat \<Rightarrow> access option" where [access_simps]:
  "ch_rscr c index =
     (if index < length RSCR_MAP then access_framer c (RSCR_MAP ! index) RSChR else None)"

definition RDLBCR_MAP :: "nat list" where
  "RDLBCR_MAP = [0x115, 0x145, 0x155]"

definition ch_rdlbcr :: "nat \<Rightarrow> nat \<Rightarrow> access option" where [access_simps]:
  "ch_rdlbcr c index =
     (if index < length RDLBCR_MAP then access_framer c (RDLBCR_MAP ! index) RDLBCR else None)"

definition ch_rsar :: "nat \<Rightarrow> nat \<Rightarrow> access option" where [access_simps]:
  "ch_rsar c index = (if index < 24 then access_framer c (0x500 + index) RSAR else None)"

definition ch_lapdbcr0 :: "nat \<Rightarrow> nat \<Rightarrow> access option" where [access_simps]:
  "ch_lapdbcr0 c index = (if index < 96 then access_framer c (0x600 + index) u8_register else None)"

definition ch_lapdbcr1 :: "nat \<Rightarrow> nat \<Rightarrow> access option" where [access_simps]:
  "ch_lapdbcr1 c index = (if index < 96 then access_framer c (0x700 + index) u8_register else None)"

definition RLCISR_MAP :: "nat list" where
  "RLCISR_MAP = [0xb0a, 0xb14, 0xb1a, 0xb1c, 0xb1e, 0xb20, 0xb22, 0xb24]"

definition ch_rlcisr_x :: "nat \<Rightarrow> nat \<Rightarrow> access option" where [access_simps]:
  "ch_rlcisr_x c index =
     (if index < length RLCISR_MAP then access_framer c (RLCISR_MAP ! index) RLCISRx else None)"

definition RLCIER_MAP :: "nat list" where
  "RLCIER_MAP = [0xb0b, 0xb15, 0xb1b, 0xb1d, 0xb1f, 0xb21, 0xb23, 0xb25]"

definition ch_rlcier_x :: "nat \<Rightarrow> nat \<Rightarrow> access option" where [access_simps]:
  "ch_rlcier_x c index =
     (if index < length RLCIER_MAP then access_framer c (RLCIER_MAP ! index) RLCIERx else None)"

definition DLSR_MAP :: "nat list" where
  "DLSR_MAP = [0xb06, 0xb16, 0xb26]"

definition ch_dlsr :: "nat \<Rightarrow> nat \<Rightarrow> access option" where [access_simps]:
  "ch_dlsr c index =
     (if index < length DLSR_MAP then access_framer c (DLSR_MAP ! index) DLSRx else None)"

definition SS7SR_MAP :: "nat list" where
  "SS7SR_MAP = [0xb10, 0xb18, 0xb28]"

definition ch_ss7sr :: "nat \<Rightarrow> nat \<Rightarrow> access option" where [access_simps]:
  "ch_ss7sr c index =
     (if index < length SS7SR_MAP then access_framer c (SS7SR_MAP ! index) SS7SRx else None)"

definition ch_csr :: "nat \<Rightarrow> access option" where [access_simps]:
  "ch_csr c = access_framer c 0x100 CSR"
definition ch_licr :: "nat \<Rightarrow> access option" where [access_simps]:
  "ch_licr c = access_framer c 0x101 LICR"
definition ch_fsr :: "nat \<Rightarrow> access option" where [access_simps]:
  "ch_fsr c = access_framer c 0x107 FSR"
definition ch_agr :: "nat \<Rightarrow> access option" where [access_simps]:
  "ch_agr c = access_framer c 0x108 AGR"
definition ch_smr :: "nat \<Rightarrow> access option" where [access_simps]:
  "ch_smr c = access_framer c 0x109 SMR"
definition ch_tsdlsr :: "nat \<Rightarrow> access option" where [access_simps]:
  "ch_tsdlsr c = access_framer c 0x10a TSDLSR"
definition ch_fcr :: "nat \<Rightarrow> access option" where [access_simps]:
  "ch_fcr c = access_framer c 0x10b FCR"
definition ch_rsdlsr :: "nat \<Rightarrow> access option" where [access_simps]:
  "ch_rsdlsr c = access_framer c 0x10c RSDLSR"
definition ch_rifr :: "nat \<Rightarrow> access option" where [access_simps]:
  "ch_rifr c = access_framer c 0x112 RIFR"
definition ch_dlcr1 :: "nat \<Rightarrow> access option" where [access_simps]:
  "ch_dlcr1 c = access_framer c 0x113 DLCR"
definition ch_tdlbcr1 :: "nat \<Rightarrow> access option" where [access_simps]:
  "ch_tdlbcr1 c = access_framer c 0x114 TDLBCR"
definition ch_sbcr :: "nat \<Rightarrow> access option" where [access_simps]:
  "ch_sbcr c = access_framer c 0x116 SBCR"
definition ch_fifolr :: "nat \<Rightarrow> access option" where [access_simps]:
  "ch_fifolr c = access_framer c 0x117 FIFOLR"
definition ch_icr :: "nat \<Rightarrow> access option" where [access_simps]:
  "ch_icr c = access_framer c 0x11a ICR"
definition ch_lapdsr :: "nat \<Rightarrow> access option" where [access_simps]:
  "ch_lapdsr c = access_framer c 0x11b LAPDSR"
definition ch_ciagr :: "nat \<Rightarrow> access option" where [access_simps]:
  "ch_ciagr c = access_framer c 0x11c CIAGR"
definition ch_prcr :: "nat \<Rightarrow> access option" where [access_simps]:
  "ch_prcr c = access_framer c 0x11d PRCR"
definition ch_gccr :: "nat \<Rightarrow> access option" where [access_simps]:
  "ch_gccr c = access_framer c 0x11e GCCR"
definition ch_ticr :: "nat \<Rightarrow> access option" where [access_simps]:
  "ch_ticr c = access_framer c 0x120 TICR"
definition ch_bertcsr0 :: "nat \<Rightarrow> access option" where [access_simps]:
  "ch_bertcsr0 c = access_framer c 0x121 BERTCSR0"
definition ch_ricr :: "nat \<Rightarrow> access option" where [access_simps]:
  "ch_ricr c = access_framer c 0x122 RICR"
definition ch_bertcsr1 :: "nat \<Rightarrow> access option" where [access_simps]:
  "ch_bertcsr1 c = access_framer c 0x123 BERTCSR1"
definition ch_lccr0 :: "nat \<Rightarrow> access option" where [access_simps]:
  "ch_lccr0 c = access_framer c 0x124 LCCR0"
definition ch_tlcr :: "nat \<Rightarrow> access option" where [access_simps]:
  "ch_tlcr c = access_framer c 0x125 TLCR"
definition ch_rlacr0 :: "nat \<Rightarrow> access option" where [access_simps]:
  "ch_rlacr0 c = access_framer c 0x126 RLACR"
definition ch_rldcr0 :: "nat \<Rightarrow> access option" where [access_simps]:
  "ch_rldcr0 c = access_framer c 0x127 RLDCR"
definition ch_rlcds :: "nat \<Rightarrow> access option" where [access_simps]:
  "ch_rlcds c = access_framer c 0x128 RLCDS"
definition ch_dder :: "nat \<Rightarrow> access option" where [access_simps]:
  "ch_dder c = access_framer c 0x129 DDER"
definition ch_lccr1 :: "nat \<Rightarrow> access option" where [access_simps]:
  "ch_lccr1 c = access_framer c 0x12a LCCR"
definition ch_rlacr1 :: "nat \<Rightarrow> access option" where [access_simps]:
  "ch_rlacr1 c = access_framer c 0x12b RLACR"
definition ch_rldcr1 :: "nat \<Rightarrow> access option" where [access_simps]:
  "ch_rldcr1 c = access_framer c 0x12c RLDCR"
definition ch_lccr2 :: "nat \<Rightarrow> access option" where [access_simps]:
  "ch_lccr2 c = access_framer c 0x12d LCCR"
definition ch_rlacr2 :: "nat \<Rightarrow> access option" where [access_simps]:
  "ch_rlacr2 c = access_framer c 0x12e RLACR"
definition ch_rldcr2 :: "nat \<Rightarrow> access option" where [access_simps]:
  "ch_rldcr2 c = access_framer c 0x12f RLDCR"
definition ch_tlcgs :: "nat \<Rightarrow> access option" where [access_simps]:
  "ch_tlcgs c = access_framer c 0x140 TLCGS"
definition ch_lcts :: "nat \<Rightarrow> access option" where [access_simps]:
  "ch_lcts c = access_framer c 0x141 LCTS"
definition ch_tsprmcr :: "nat \<Rightarrow> access option" where [access_simps]:
  "ch_tsprmcr c = access_framer c 0x142 TSPRMCR"
definition ch_dlcr2 :: "nat \<Rightarrow> access option" where [access_simps]:
  "ch_dlcr2 c = access_framer c 0x143 DLCR"
definition ch_tdlbcr2 :: "nat \<Rightarrow> access option" where [access_simps]:
  "ch_tdlbcr2 c = access_framer c 0x144 TDLBCR"
definition ch_lccr3 :: "nat \<Rightarrow> access option" where [access_simps]:
  "ch_lccr3 c = access_framer c 0x146 LCCR"
definition ch_rlacr3 :: "nat \<Rightarrow> access option" where [access_simps]:
  "ch_rlacr3 c = access_framer c 0x147 RLACR"
definition ch_rldcr3 :: "nat \<Rightarrow> access option" where [access_simps]:
  "ch_rldcr3 c = access_framer c 0x148 RLDCR"
definition ch_lccr4 :: "nat \<Rightarrow> access option" where [access_simps]:
  "ch_lccr4 c = access_framer c 0x149 LCCR"
definition ch_rlacr4 :: "nat \<Rightarrow> access option" where [access_simps]:
  "ch_rlacr4 c = access_framer c 0x14a RLACR"
definition ch_rldcr4 :: "nat \<Rightarrow> access option" where [access_simps]:
  "ch_rldcr4 c = access_framer c 0x14b RLDCR"
definition ch_lccr5 :: "nat \<Rightarrow> access option" where [access_simps]:
  "ch_lccr5 c = access_framer c 0x14c LCCR"
definition ch_rlacr5 :: "nat \<Rightarrow> access option" where [access_simps]:
  "ch_rlacr5 c = access_framer c 0x14d RLACR"
definition ch_rldcr5 :: "nat \<Rightarrow> access option" where [access_simps]:
  "ch_rldcr5 c = access_framer c 0x14e RLDCR"
definition ch_lccr6 :: "nat \<Rightarrow> access option" where [access_simps]:
  "ch_lccr6 c = access_framer c 0x14f LCCR"
definition ch_rlacr6 :: "nat \<Rightarrow> access option" where [access_simps]:
  "ch_rlacr6 c = access_framer c 0x150 RLACR"
definition ch_rldcr6 :: "nat \<Rightarrow> access option" where [access_simps]:
  "ch_rldcr6 c = access_framer c 0x151 RLDCR"
definition ch_dlcr3 :: "nat \<Rightarrow> access option" where [access_simps]:
  "ch_dlcr3 c = access_framer c 0x153 DLCR"
definition ch_tdlbcr3 :: "nat \<Rightarrow> access option" where [access_simps]:
  "ch_tdlbcr3 c = access_framer c 0x154 TDLBCR"
definition ch_lccr7 :: "nat \<Rightarrow> access option" where [access_simps]:
  "ch_lccr7 c = access_framer c 0x156 LCCR"
definition ch_rlacr7 :: "nat \<Rightarrow> access option" where [access_simps]:
  "ch_rlacr7 c = access_framer c 0x157 RLACR"
definition ch_rldcr7 :: "nat \<Rightarrow> access option" where [access_simps]:
  "ch_rldcr7 c = access_framer c 0x158 RLDCR"
definition ch_bcr :: "nat \<Rightarrow> access option" where [access_simps]:
  "ch_bcr c = access_framer c 0x163 BCR"
definition ch_boccr :: "nat \<Rightarrow> access option" where [access_simps]:
  "ch_boccr c = access_framer c 0x170 BOCCR"
definition ch_rfdlr :: "nat \<Rightarrow> access option" where [access_simps]:
  "ch_rfdlr c = access_framer c 0x171 RFDLR"
definition ch_rfdlmr1 :: "nat \<Rightarrow> access option" where [access_simps]:
  "ch_rfdlmr1 c = access_framer c 0x172 RFDLMR"
definition ch_rfdlmr2 :: "nat \<Rightarrow> access option" where [access_simps]:
  "ch_rfdlmr2 c = access_framer c 0x173 RFDLMR"
definition ch_rfdlmr3 :: "nat \<Rightarrow> access option" where [access_simps]:
  "ch_rfdlmr3 c = access_framer c 0x174 RFDLMR"
definition ch_tfdlr :: "nat \<Rightarrow> access option" where [access_simps]:
  "ch_tfdlr c = access_framer c 0x175 TFDLR"
definition ch_tbcr :: "nat \<Rightarrow> access option" where [access_simps]:
  "ch_tbcr c = access_framer c 0x176 TBCR"
definition ch_rlcvcu :: "nat \<Rightarrow> access option" where [access_simps]:
  "ch_rlcvcu c = access_framer c 0x900 u8_register"
definition ch_rlcvcl :: "nat \<Rightarrow> access option" where [access_simps]:
  "ch_rlcvcl c = access_framer c 0x901 u8_register"
definition ch_rfaecu :: "nat \<Rightarrow> access option" where [access_simps]:
  "ch_rfaecu c = access_framer c 0x902 u8_register"
definition ch_rfaecl :: "nat \<Rightarrow> access option" where [access_simps]:
  "ch_rfaecl c = access_framer c 0x903 u8_register"
definition ch_rsefc :: "nat \<Rightarrow> access option" where [access_simps]:
  "ch_rsefc c = access_framer c 0x904 u8_register"
definition ch_rsbbecu :: "nat \<Rightarrow> access option" where [access_simps]:
  "ch_rsbbecu c = access_framer c 0x905 u8_register"
definition ch_rsbbecl :: "nat \<Rightarrow> access option" where [access_simps]:
  "ch_rsbbecl c = access_framer c 0x906 u8_register"
definition ch_rsc :: "nat \<Rightarrow> access option" where [access_simps]:
  "ch_rsc c = access_framer c 0x909 u8_register"
definition ch_rlfc :: "nat \<Rightarrow> access option" where [access_simps]:
  "ch_rlfc c = access_framer c 0x90a u8_register"
definition ch_rcfac :: "nat \<Rightarrow> access option" where [access_simps]:
  "ch_rcfac c = access_framer c 0x90b u8_register"
definition ch_lfcsec1 :: "nat \<Rightarrow> access option" where [access_simps]:
  "ch_lfcsec1 c = access_framer c 0x90c u8_register"
definition ch_pbecu :: "nat \<Rightarrow> access option" where [access_simps]:
  "ch_pbecu c = access_framer c 0x90d u8_register"
definition ch_pbecl :: "nat \<Rightarrow> access option" where [access_simps]:
  "ch_pbecl c = access_framer c 0x90e u8_register"
definition ch_tsc :: "nat \<Rightarrow> access option" where [access_simps]:
  "ch_tsc c = access_framer c 0x90f u8_register"
definition ch_ezvcu :: "nat \<Rightarrow> access option" where [access_simps]:
  "ch_ezvcu c = access_framer c 0x910 u8_register"
definition ch_ezvcl :: "nat \<Rightarrow> access option" where [access_simps]:
  "ch_ezvcl c = access_framer c 0x911 u8_register"
definition ch_lfcsec2 :: "nat \<Rightarrow> access option" where [access_simps]:
  "ch_lfcsec2 c = access_framer c 0x91c u8_register"
definition ch_lfcsec3 :: "nat \<Rightarrow> access option" where [access_simps]:
  "ch_lfcsec3 c = access_framer c 0x92c u8_register"
definition ch_bisr :: "nat \<Rightarrow> access option" where [access_simps]:
  "ch_bisr c = access_framer c 0xb00 BISR"
definition ch_bier :: "nat \<Rightarrow> access option" where [access_simps]:
  "ch_bier c = access_framer c 0xb01 BIER"
definition ch_aeisr :: "nat \<Rightarrow> access option" where [access_simps]:
  "ch_aeisr c = access_framer c 0xb02 AEISR"
definition ch_aeier :: "nat \<Rightarrow> access option" where [access_simps]:
  "ch_aeier c = access_framer c 0xb03 AEIER"
definition ch_fisr :: "nat \<Rightarrow> access option" where [access_simps]:
  "ch_fisr c = access_framer c 0xb04 FISR"
definition ch_fier :: "nat \<Rightarrow> access option" where [access_simps]:
  "ch_fier c = access_framer c 0xb05 FIER"
definition ch_dlier1 :: "nat \<Rightarrow> access option" where [access_simps]:
  "ch_dlier1 c = access_framer c 0xb07 DLIERx"
definition ch_sbisr :: "nat \<Rightarrow> access option" where [access_simps]:
  "ch_sbisr c = access_framer c 0xb08 SBISR"
definition ch_sbier :: "nat \<Rightarrow> access option" where [access_simps]:
  "ch_sbier c = access_framer c 0xb09 SBIER"
definition ch_rlcisr0 :: "nat \<Rightarrow> access option" where [access_simps]:
  "ch_rlcisr0 c = access_framer c 0xb0a RLCISRx"
definition ch_rlcier0 :: "nat \<Rightarrow> access option" where [access_simps]:
  "ch_rlcier0 c = access_framer c 0xb0b RLCIERx"
definition ch_exzsr :: "nat \<Rightarrow> access option" where [access_simps]:
  "ch_exzsr c = access_framer c 0xb0e EXZSR"
definition ch_exzer :: "nat \<Rightarrow> access option" where [access_simps]:
  "ch_exzer c = access_framer c 0xb0f EXZER"
definition ch_ss7er1 :: "nat \<Rightarrow> access option" where [access_simps]:
  "ch_ss7er1 c = access_framer c 0xb11 SS7ERx"
definition ch_rlcisr :: "nat \<Rightarrow> access option" where [access_simps]:
  "ch_rlcisr c = access_framer c 0xb12 RLCISR"
definition ch_rlcier :: "nat \<Rightarrow> access option" where [access_simps]:
  "ch_rlcier c = access_framer c 0xb13 RLCIER"
definition ch_rlcisr1 :: "nat \<Rightarrow> access option" where [access_simps]:
  "ch_rlcisr1 c = access_framer c 0xb14 RLCISRx"
definition ch_rlcier1 :: "nat \<Rightarrow> access option" where [access_simps]:
  "ch_rlcier1 c = access_framer c 0xb15 RLCIERx"
definition ch_dlier2 :: "nat \<Rightarrow> access option" where [access_simps]:
  "ch_dlier2 c = access_framer c 0xb17 DLIERx"
definition ch_ss7er2 :: "nat \<Rightarrow> access option" where [access_simps]:
  "ch_ss7er2 c = access_framer c 0xb19 SS7ERx"
definition ch_rlcisr2 :: "nat \<Rightarrow> access option" where [access_simps]:
  "ch_rlcisr2 c = access_framer c 0xb1a RLCISRx"
definition ch_rlcier2 :: "nat \<Rightarrow> access option" where [access_simps]:
  "ch_rlcier2 c = access_framer c 0xb1b RLCIERx"
definition ch_rlcisr3 :: "nat \<Rightarrow> access option" where [access_simps]:
  "ch_rlcisr3 c = access_framer c 0xb1c RLCISRx"
definition ch_rlcier3 :: "nat \<Rightarrow> access option" where [access_simps]:
  "ch_rlcier3 c = access_framer c 0xb1d RLCIERx"
definition ch_rlcisr4 :: "nat \<Rightarrow> access option" where [access_simps]:
  "ch_rlcisr4 c = access_framer c 0xb1e RLCISRx"
definition ch_rlcier4 :: "nat \<Rightarrow> access option" where [access_simps]:
  "ch_rlcier4 c = access_framer c 0xb1f RLCIERx"
definition ch_rlcisr5 :: "nat \<Rightarrow> access option" where [access_simps]:
  "ch_rlcisr5 c = access_framer c 0xb20 RLCISRx"
definition ch_rlcier5 :: "nat \<Rightarrow> access option" where [access_simps]:
  "ch_rlcier5 c = access_framer c 0xb21 RLCIERx"
definition ch_rlcisr6 :: "nat \<Rightarrow> access option" where [access_simps]:
  "ch_rlcisr6 c = access_framer c 0xb22 RLCISRx"
definition ch_rlcier6 :: "nat \<Rightarrow> access option" where [access_simps]:
  "ch_rlcier6 c = access_framer c 0xb23 RLCIERx"
definition ch_rlcisr7 :: "nat \<Rightarrow> access option" where [access_simps]:
  "ch_rlcisr7 c = access_framer c 0xb24 RLCISRx"
definition ch_rlcier7 :: "nat \<Rightarrow> access option" where [access_simps]:
  "ch_rlcier7 c = access_framer c 0xb25 RLCIERx"
definition ch_dlier3 :: "nat \<Rightarrow> access option" where [access_simps]:
  "ch_dlier3 c = access_framer c 0xb27 DLIERx"
definition ch_ss7er3 :: "nat \<Rightarrow> access option" where [access_simps]:
  "ch_ss7er3 c = access_framer c 0xb29 SS7ERx"
definition ch_ciasr :: "nat \<Rightarrow> access option" where [access_simps]:
  "ch_ciasr c = access_framer c 0xb40 CIASR"
definition ch_ciaier :: "nat \<Rightarrow> access option" where [access_simps]:
  "ch_ciaier c = access_framer c 0xb41 CIAIER"
definition ch_bocisr :: "nat \<Rightarrow> access option" where [access_simps]:
  "ch_bocisr c = access_framer c 0xb70 BOCISR"
definition ch_bocier :: "nat \<Rightarrow> access option" where [access_simps]:
  "ch_bocier c = access_framer c 0xb71 BOCIER"
definition ch_bocuisr :: "nat \<Rightarrow> access option" where [access_simps]:
  "ch_bocuisr c = access_framer c 0xb74 BOCUISR"
definition ch_bocuier :: "nat \<Rightarrow> access option" where [access_simps]:
  "ch_bocuier c = access_framer c 0xb75 BOCUIER"

definition ch_rscr0 :: "nat \<Rightarrow> access option" where [access_simps]:
  "ch_rscr0 c = ch_rscr c 0"
definition ch_rscr1 :: "nat \<Rightarrow> access option" where [access_simps]:
  "ch_rscr1 c = ch_rscr c 1"
definition ch_rscr2 :: "nat \<Rightarrow> access option" where [access_simps]:
  "ch_rscr2 c = ch_rscr c 2"
definition ch_rdlbcr1 :: "nat \<Rightarrow> access option" where [access_simps]:
  "ch_rdlbcr1 c = ch_rdlbcr c 0"
definition ch_rdlbcr2 :: "nat \<Rightarrow> access option" where [access_simps]:
  "ch_rdlbcr2 c = ch_rdlbcr c 1"
definition ch_rdlbcr3 :: "nat \<Rightarrow> access option" where [access_simps]:
  "ch_rdlbcr3 c = ch_rdlbcr c 2"
definition ch_dlsr1 :: "nat \<Rightarrow> access option" where [access_simps]:
  "ch_dlsr1 c = ch_dlsr c 0"
definition ch_ss7sr1 :: "nat \<Rightarrow> access option" where [access_simps]:
  "ch_ss7sr1 c = ch_ss7sr c 0"
definition ch_dlsr2 :: "nat \<Rightarrow> access option" where [access_simps]:
  "ch_dlsr2 c = ch_dlsr c 1"
definition ch_ss7sr2 :: "nat \<Rightarrow> access option" where [access_simps]:
  "ch_ss7sr2 c = ch_ss7sr c 1"
definition ch_dlsr3 :: "nat \<Rightarrow> access option" where [access_simps]:
  "ch_dlsr3 c = ch_dlsr c 2"
definition ch_ss7sr3 :: "nat \<Rightarrow> access option" where [access_simps]:
  "ch_ss7sr3 c = ch_ss7sr c 2"

section \<open>Line interface unit\<close>

definition ch_liuccr0 :: "nat \<Rightarrow> access option" where [access_simps]:
  "ch_liuccr0 c = access_liu c 0x0 LIUCCR0"
definition ch_liuccr1 :: "nat \<Rightarrow> access option" where [access_simps]:
  "ch_liuccr1 c = access_liu c 0x1 LIUCCR1"
definition ch_liuccr2 :: "nat \<Rightarrow> access option" where [access_simps]:
  "ch_liuccr2 c = access_liu c 0x2 LIUCCR2"
definition ch_liuccr3 :: "nat \<Rightarrow> access option" where [access_simps]:
  "ch_liuccr3 c = access_liu c 0x3 LIUCCR3"
definition ch_liuccier :: "nat \<Rightarrow> access option" where [access_simps]:
  "ch_liuccier c = access_liu c 0x4 LIUCCIER"
definition ch_liuccsr :: "nat \<Rightarrow> access option" where [access_simps]:
  "ch_liuccsr c = access_liu c 0x5 LIUCCSR"
definition ch_liuccisr :: "nat \<Rightarrow> access option" where [access_simps]:
  "ch_liuccisr c = access_liu c 0x6 LIUCCISR"
definition ch_liuccccr :: "nat \<Rightarrow> access option" where [access_simps]:
  "ch_liuccccr c = access_liu c 0x7 LIUCCCCR"
definition ch_liuccar1 :: "nat \<Rightarrow> access option" where [access_simps]:
  "ch_liuccar1 c = access_liu c 0x8 LIUCCAR"
definition ch_liuccar2 :: "nat \<Rightarrow> access option" where [access_simps]:
  "ch_liuccar2 c = access_liu c 0x9 LIUCCAR"
definition ch_liuccar3 :: "nat \<Rightarrow> access option" where [access_simps]:
  "ch_liuccar3 c = access_liu c 0xa LIUCCAR"
definition ch_liuccar4 :: "nat \<Rightarrow> access option" where [access_simps]:
  "ch_liuccar4 c = access_liu c 0xb LIUCCAR"
definition ch_liuccar5 :: "nat \<Rightarrow> access option" where [access_simps]:
  "ch_liuccar5 c = access_liu c 0xc LIUCCAR"
definition ch_liuccar6 :: "nat \<Rightarrow> access option" where [access_simps]:
  "ch_liuccar6 c = access_liu c 0xd LIUCCAR"
definition ch_liuccar7 :: "nat \<Rightarrow> access option" where [access_simps]:
  "ch_liuccar7 c = access_liu c 0xe LIUCCAR"
definition ch_liuccar8 :: "nat \<Rightarrow> access option" where [access_simps]:
  "ch_liuccar8 c = access_liu c 0xf LIUCCAR"

section \<open>Device registers\<close>

definition dev_liugcr0 :: "access option" where [access_simps]:
  "dev_liugcr0 = access_liu_global 0x0 LIUGCR0"
definition dev_liugcr1 :: "access option" where [access_simps]:
  "dev_liugcr1 = access_liu_global 0x1 LIUGCR1"
definition dev_liugcr2 :: "access option" where [access_simps]:
  "dev_liugcr2 = access_liu_global 0x2 LIUGCR2"
definition dev_liugcr3 :: "access option" where [access_simps]:
  "dev_liugcr3 = access_liu_global 0x4 LIUGCR3"
definition dev_liugcr4 :: "access option" where [access_simps]:
  "dev_liugcr4 = access_liu_global 0x9 LIUGCR4"
definition dev_liugcr5 :: "access option" where [access_simps]:
  "dev_liugcr5 = access_liu_global 0xa LIUGCR5"
definition dev_devid :: "access option" where [access_simps]:
  "dev_devid = access_global 0x01fe DEVID"
definition dev_revid :: "access option" where [access_simps]:
  "dev_revid = access_global 0x01ff REVID"

section \<open>Receive signaling change bitmap\<close>

text \<open>\<open>Channel::rscr_bitmap\<close> gathers the three change registers, \<open>RSCRBitmap::changed\<close> reads a bit.\<close>

definition rscr_bitmap :: "('s, 'e) xyz \<Rightarrow> nat \<Rightarrow> ('s, 'e, u32) prog" where
  "rscr_bitmap D c =
     prog_bind
       (map_each [0..<3] (\<lambda>i.
          prog_bind (access_read D (ch_rscr c i)) (\<lambda>v.
          prog_bind (prog_of_option (reg_get RSChR ''Ch'' v)) (\<lambda>b.
          prog_return (push_bit (i * 8) (ucast (reverse_bits_u8 b) :: u32))))))
       (\<lambda>parts. prog_return (foldl (OR) 0 parts))"

definition rscr_changed :: "u32 \<Rightarrow> nat \<Rightarrow> bool option" where
  "rscr_changed b index =
     (if index < 24 then Some (drop_bit index b AND 1 \<noteq> 0) else None)"

section \<open>Tables\<close>

definition channel_accessors :: "nat \<Rightarrow> access option list" where
  "channel_accessors c =
    [ch_csr c, ch_licr c, ch_fsr c, ch_agr c, ch_smr c, ch_tsdlsr c,
     ch_fcr c, ch_rsdlsr c, ch_rscr0 c, ch_rscr1 c, ch_rscr2 c, ch_rifr c,
     ch_dlcr1 c, ch_tdlbcr1 c, ch_rdlbcr1 c, ch_sbcr c, ch_fifolr c, ch_icr c,
     ch_lapdsr c, ch_ciagr c, ch_prcr c, ch_gccr c, ch_ticr c, ch_bertcsr0 c,
     ch_ricr c, ch_bertcsr1 c, ch_lccr0 c, ch_tlcr c, ch_rlacr0 c, ch_rldcr0 c,
     ch_rlcds c, ch_dder c, ch_lccr1 c, ch_rlacr1 c, ch_rldcr1 c, ch_lccr2 c,
     ch_rlacr2 c, ch_rldcr2 c, ch_tlcgs c, ch_lcts c, ch_tsprmcr c, ch_dlcr2 c,
     ch_tdlbcr2 c, ch_rdlbcr2 c, ch_lccr3 c, ch_rlacr3 c, ch_rldcr3 c, ch_lccr4 c,
     ch_rlacr4 c, ch_rldcr4 c, ch_lccr5 c, ch_rlacr5 c, ch_rldcr5 c, ch_lccr6 c,
     ch_rlacr6 c, ch_rldcr6 c, ch_dlcr3 c, ch_tdlbcr3 c, ch_rdlbcr3 c, ch_lccr7 c,
     ch_rlacr7 c, ch_rldcr7 c, ch_bcr c, ch_boccr c, ch_rfdlr c, ch_rfdlmr1 c,
     ch_rfdlmr2 c, ch_rfdlmr3 c, ch_tfdlr c, ch_tbcr c, ch_rlcvcu c, ch_rlcvcl c,
     ch_rfaecu c, ch_rfaecl c, ch_rsefc c, ch_rsbbecu c, ch_rsbbecl c, ch_rsc c,
     ch_rlfc c, ch_rcfac c, ch_lfcsec1 c, ch_pbecu c, ch_pbecl c, ch_tsc c,
     ch_ezvcu c, ch_ezvcl c, ch_lfcsec2 c, ch_lfcsec3 c, ch_bisr c, ch_bier c,
     ch_aeisr c, ch_aeier c, ch_fisr c, ch_fier c, ch_dlsr1 c, ch_dlier1 c,
     ch_sbisr c, ch_sbier c, ch_rlcisr0 c, ch_rlcier0 c, ch_exzsr c, ch_exzer c,
     ch_ss7sr1 c, ch_ss7er1 c, ch_rlcisr c, ch_rlcier c, ch_rlcisr1 c, ch_rlcier1 c,
     ch_dlsr2 c, ch_dlier2 c, ch_ss7sr2 c, ch_ss7er2 c, ch_rlcisr2 c, ch_rlcier2 c,
     ch_rlcisr3 c, ch_rlcier3 c, ch_rlcisr4 c, ch_rlcier4 c, ch_rlcisr5 c, ch_rlcier5 c,
     ch_rlcisr6 c, ch_rlcier6 c, ch_rlcisr7 c, ch_rlcier7 c, ch_dlsr3 c, ch_dlier3 c,
     ch_ss7sr3 c, ch_ss7er3 c, ch_ciasr c, ch_ciaier c, ch_bocisr c, ch_bocier c,
     ch_bocuisr c, ch_bocuier c]"

definition liu_accessors :: "nat \<Rightarrow> access option list" where
  "liu_accessors c =
    [ch_liuccr0 c, ch_liuccr1 c, ch_liuccr2 c, ch_liuccr3 c, ch_liuccier c, ch_liuccsr c,
     ch_liuccisr c, ch_liuccccr c, ch_liuccar1 c, ch_liuccar2 c, ch_liuccar3 c, ch_liuccar4 c,
     ch_liuccar5 c, ch_liuccar6 c, ch_liuccar7 c, ch_liuccar8 c]"

definition timeslot_accessors :: "nat \<Rightarrow> nat \<Rightarrow> access option list" where
  "timeslot_accessors c t =
    [ts_rds0mr c t, ts_tds0mr c t, ts_tccr c t, ts_tucr c t, ts_tscr c t, ts_rccr c t,
     ts_rucr c t, ts_rscr c t, ts_rssr c t, ts_rsar c t]"

definition device_accessors :: "access option list" where
  "device_accessors =
    [dev_liugcr0, dev_liugcr1, dev_liugcr2, dev_liugcr3, dev_liugcr4, dev_liugcr5,
     dev_devid, dev_revid]"

end
