(* ===== verification/Memory_Map.thy ===== *)
theory Memory_Map
  imports Accessors
begin

text \<open>
  The memory map as a whole: every register accessor of the eight channels, their timeslots and
  the device has a 16-bit address and a well-formed layout. The named accessors and the two message
  buffers have pairwise distinct addresses; the other accessors that take an index are second names
  of the named ones, and every index past the end of its array panics.
\<close>

text \<open>The two 96 byte message buffers of a channel.\<close>

definition buffer_accessors :: "nat \<Rightarrow> access option list" where
  "buffer_accessors c = map (ch_lapdbcr0 c) [0..<96] @ map (ch_lapdbcr1 c) [0..<96]"

definition channel_registers :: "nat \<Rightarrow> access option list" where
  "channel_registers c = channel_accessors c @ buffer_accessors c @ liu_accessors c
     @ concat (map (timeslot_accessors c) timeslots)"

definition register_map :: "access option list" where
  "register_map = concat (map channel_registers channels) @ device_accessors"

text \<open>
  The accessors that take an index and read a register that has a name of its own, in the order of
  their index, and those names. \<open>Channel::rsar(i)\<close> is the register that \<open>Timeslot::rsar\<close> gives for
  timeslot \<open>i\<close>.
\<close>

definition indexed_accessors :: "nat \<Rightarrow> access option list list" where
  "indexed_accessors c =
    [map (ch_rscr c) [0..<3], map (ch_rdlbcr c) [0..<3], map (ch_rlcisr_x c) [0..<8],
     map (ch_rlcier_x c) [0..<8], map (ch_dlsr c) [0..<3], map (ch_ss7sr c) [0..<3],
     map (ch_rsar c) [0..<24]]"

definition named_accessors :: "nat \<Rightarrow> access option list list" where
  "named_accessors c =
    [[ch_rscr0 c, ch_rscr1 c, ch_rscr2 c], [ch_rdlbcr1 c, ch_rdlbcr2 c, ch_rdlbcr3 c],
     [ch_rlcisr0 c, ch_rlcisr1 c, ch_rlcisr2 c, ch_rlcisr3 c,
      ch_rlcisr4 c, ch_rlcisr5 c, ch_rlcisr6 c, ch_rlcisr7 c],
     [ch_rlcier0 c, ch_rlcier1 c, ch_rlcier2 c, ch_rlcier3 c,
      ch_rlcier4 c, ch_rlcier5 c, ch_rlcier6 c, ch_rlcier7 c],
     [ch_dlsr1 c, ch_dlsr2 c, ch_dlsr3 c], [ch_ss7sr1 c, ch_ss7sr2 c, ch_ss7sr3 c],
     map (ts_rsar c) timeslots]"

text \<open>Every accessor that takes an index, at the \<open>i\<close>-th index past its end.\<close>

definition past_the_end :: "nat \<Rightarrow> nat \<Rightarrow> access option list" where
  "past_the_end c i =
    [ch_rscr c (3 + i), ch_rdlbcr c (3 + i), ch_rlcisr_x c (8 + i), ch_rlcier_x c (8 + i),
     ch_dlsr c (3 + i), ch_ss7sr c (3 + i), ch_rsar c (24 + i), ch_lapdbcr0 c (96 + i),
     ch_lapdbcr1 c (96 + i)]"

text \<open>What an accessor promises to the operations on it.\<close>

definition valid_access :: "access option \<Rightarrow> bool" where
  "valid_access a = (case a of None \<Rightarrow> False
     | Some x \<Rightarrow> acc_address x < 0x10000 \<and> layout_ok (acc_layout x))"

definition address_of :: "access option \<Rightarrow> nat option" where
  "address_of a = map_option acc_address a"

lemma in_timeslots: "t \<in> set timeslots \<longleftrightarrow> t < 24"
  by (simp only: timeslots_def TIMESLOTS_COUNT_def set_upt) simp

lemma in_channels: "c \<in> set channels \<longleftrightarrow> c < 8"
  by (simp only: channels_def CHANNELS_COUNT_def set_upt) simp

section \<open>Offsets\<close>

definition framer_offsets :: "nat list" where
  "framer_offsets =
    [0x100, 0x101, 0x107, 0x108, 0x109, 0x10a, 0x10b, 0x10c, 0x10d, 0x10e, 0x10f, 0x112,
     0x113, 0x114, 0x115, 0x116, 0x117, 0x11a, 0x11b, 0x11c, 0x11d, 0x11e, 0x120, 0x121,
     0x122, 0x123, 0x124, 0x125, 0x126, 0x127, 0x128, 0x129, 0x12a, 0x12b, 0x12c, 0x12d,
     0x12e, 0x12f, 0x140, 0x141, 0x142, 0x143, 0x144, 0x145, 0x146, 0x147, 0x148, 0x149,
     0x14a, 0x14b, 0x14c, 0x14d, 0x14e, 0x14f, 0x150, 0x151, 0x153, 0x154, 0x155, 0x156,
     0x157, 0x158, 0x163, 0x170, 0x171, 0x172, 0x173, 0x174, 0x175, 0x176, 0x900, 0x901,
     0x902, 0x903, 0x904, 0x905, 0x906, 0x909, 0x90a, 0x90b, 0x90c, 0x90d, 0x90e, 0x90f,
     0x910, 0x911, 0x91c, 0x92c, 0xb00, 0xb01, 0xb02, 0xb03, 0xb04, 0xb05, 0xb06, 0xb07,
     0xb08, 0xb09, 0xb0a, 0xb0b, 0xb0e, 0xb0f, 0xb10, 0xb11, 0xb12, 0xb13, 0xb14, 0xb15,
     0xb16, 0xb17, 0xb18, 0xb19, 0xb1a, 0xb1b, 0xb1c, 0xb1d, 0xb1e, 0xb1f, 0xb20, 0xb21,
     0xb22, 0xb23, 0xb24, 0xb25, 0xb26, 0xb27, 0xb28, 0xb29, 0xb40, 0xb41, 0xb70, 0xb71,
     0xb74, 0xb75]"

definition timeslot_offsets :: "nat \<Rightarrow> nat list" where
  "timeslot_offsets t =
    [RDS0MR_OFFSET_MAP ! t, 0x1d0 + t, 0x300 + t, 0x320 + t, 0x340 + t, 0x360 + t, 0x380 + t,
     0x3a0 + t, 0x3c0 + t, 0x500 + t]"

definition liu_offsets :: "nat list" where
  "liu_offsets = [0x0, 0x1, 0x2, 0x3, 0x4, 0x5, 0x6, 0x7, 0x8, 0x9, 0xa, 0xb, 0xc, 0xd, 0xe, 0xf]"

definition device_addresses :: "nat list" where
  "device_addresses = [0xfe0, 0xfe1, 0xfe2, 0xfe4, 0xfe9, 0xfea, 0x1fe, 0x1ff]"

definition buffer_offsets :: "nat list" where
  "buffer_offsets = map (\<lambda>i. 0x600 + i) [0..<96] @ map (\<lambda>i. 0x700 + i) [0..<96]"

definition all_offsets :: "nat list" where
  "all_offsets = framer_offsets @ buffer_offsets @ concat (map timeslot_offsets timeslots)"

lemma framer_addresses:
  assumes "c < 8"
  shows "map address_of (channel_accessors c) = map (\<lambda>off. Some (0x1000 * c + off)) framer_offsets"
  using assms
  by (simp add: channel_accessors_def framer_offsets_def access_simps access_framer_eq address_of_def
      RSCR_MAP_def RDLBCR_MAP_def RLCISR_MAP_def RLCIER_MAP_def DLSR_MAP_def SS7SR_MAP_def)

lemma buffer_addresses:
  assumes "c < 8"
  shows "map address_of (buffer_accessors c) = map (\<lambda>off. Some (0x1000 * c + off)) buffer_offsets"
  using assms
  by (simp add: buffer_accessors_def buffer_offsets_def ch_lapdbcr0_def ch_lapdbcr1_def
      access_framer_eq address_of_def add.assoc del: upt_Suc)

lemma liu_addresses:
  assumes "c < 8"
  shows "map address_of (liu_accessors c) = map (\<lambda>off. Some (0xf00 + 16 * c + off)) liu_offsets"
  using assms
  by (simp add: liu_accessors_def liu_offsets_def access_simps access_liu_eq address_of_def)

lemma rds0mr_access:
  assumes "c < 8" and "t < 24"
  shows "timeslot_access_rds0mr c t L = Some (access_new (0x1000 * c + RDS0MR_OFFSET_MAP ! t) L)"
    and "RDS0MR_OFFSET_MAP ! t < 0x1000"
proof -
  have "list_all (\<lambda>x. x < 0x1000) RDS0MR_OFFSET_MAP" and len: "length RDS0MR_OFFSET_MAP = 24"
    by (simp_all add: RDS0MR_OFFSET_MAP_def)
  then show "RDS0MR_OFFSET_MAP ! t < 0x1000"
    using assms by (simp add: list_all_length)
  with len show "timeslot_access_rds0mr c t L =
      Some (access_new (0x1000 * c + RDS0MR_OFFSET_MAP ! t) L)"
    using assms
    by (simp add: timeslot_access_rds0mr_def rds0mr_def channel_nxxx_eq CHANNELS_COUNT_def)
qed

lemma timeslot_addresses:
  assumes "c < 8" and "t < 24"
  shows "map address_of (timeslot_accessors c t) = map (\<lambda>off. Some (0x1000 * c + off)) (timeslot_offsets t)"
  using assms rds0mr_access(1) [OF assms]
  by (simp add: timeslot_accessors_def timeslot_offsets_def access_simps timeslot_access_eq
      address_of_def)

lemma device_addresses_eq: "map address_of device_accessors = map Some device_addresses"
  by (simp add: device_accessors_def device_addresses_def access_simps access_liu_global_eq
      access_global_def global_def address_of_def)

text \<open>The addresses of a channel, without the accessors.\<close>

definition channel_addresses :: "nat \<Rightarrow> nat list" where
  "channel_addresses c =
     map (\<lambda>off. 0x1000 * c + off) (framer_offsets @ buffer_offsets)
     @ map (\<lambda>off. 0xf00 + 16 * c + off) liu_offsets
     @ map (\<lambda>off. 0x1000 * c + off) (concat (map timeslot_offsets timeslots))"

lemma channel_addresses_eq:
  assumes "c < 8"
  shows "map address_of (channel_registers c) = map Some (channel_addresses c)"
proof -
  have "map (\<lambda>t. map address_of (timeslot_accessors c t)) timeslots =
      map (\<lambda>t. map (\<lambda>off. Some (0x1000 * c + off)) (timeslot_offsets t)) timeslots"
    by (rule map_cong [OF refl]) (simp only: timeslot_addresses [OF assms] in_timeslots)
  then show ?thesis
    by (simp add: channel_registers_def channel_addresses_def framer_addresses [OF assms]
        buffer_addresses [OF assms] liu_addresses [OF assms] map_concat comp_def del: map_eq_conv)
qed

section \<open>Distinctness\<close>

lemma framer_offsets_distinct: "distinct framer_offsets"
  by (simp add: framer_offsets_def)

lemma RDS0MR_OFFSET_MAP_facts: "distinct RDS0MR_OFFSET_MAP" "length RDS0MR_OFFSET_MAP = 24"
  by (simp_all add: RDS0MR_OFFSET_MAP_def)

text \<open>The ranges the timeslot registers occupy, and the timeslot an offset in them belongs to.\<close>

definition timeslot_region :: "nat \<Rightarrow> bool" where
  "timeslot_region off \<longleftrightarrow> off \<in> set RDS0MR_OFFSET_MAP \<or>
     (\<exists>b\<in>{0x1d0, 0x300, 0x320, 0x340, 0x360, 0x380, 0x3a0, 0x3c0, 0x500}. b \<le> off \<and> off < b + 24)"

definition timeslot_of :: "nat \<Rightarrow> nat" where
  "timeslot_of off =
     (if off < 0x1d0 then the (map_of (zip RDS0MR_OFFSET_MAP [0..<24]) off)
      else if off < 0x300 then off - 0x1d0
      else if off < 0x500 then (off - 0x300) mod 0x20
      else off - 0x500)"

definition buffer_region :: "nat \<Rightarrow> bool" where
  "buffer_region off \<longleftrightarrow> 0x600 \<le> off \<and> off < 0x760"

lemma framer_offsets_range:
  "list_all (\<lambda>off. 0x100 \<le> off \<and> off < 0xf00 \<and> off \<noteq> 0x1fe \<and> off \<noteq> 0x1ff \<and> \<not> timeslot_region off
      \<and> \<not> buffer_region off) framer_offsets"
  by (simp add: framer_offsets_def timeslot_region_def RDS0MR_OFFSET_MAP_def buffer_region_def)

lemma buffer_offsets_facts:
  "distinct buffer_offsets" "off \<in> set buffer_offsets \<Longrightarrow> buffer_region off"
  by (auto simp: buffer_offsets_def buffer_region_def distinct_map inj_on_def)

lemma timeslot_region_not_buffer: "timeslot_region off \<Longrightarrow> \<not> buffer_region off"
  by (auto simp: timeslot_region_def buffer_region_def RDS0MR_OFFSET_MAP_def)

lemma RDS0MR_OFFSET_MAP_range: "list_all (\<lambda>off. 0x100 \<le> off \<and> off < 0x1d0) RDS0MR_OFFSET_MAP"
  by (simp add: RDS0MR_OFFSET_MAP_def)

lemma timeslot_offsets_facts:
  assumes "t < 24"
  shows "distinct (timeslot_offsets t)"
    and "off \<in> set (timeslot_offsets t) \<Longrightarrow> timeslot_of off = t"
    and "off \<in> set (timeslot_offsets t) \<Longrightarrow> timeslot_region off"
    and "off \<in> set (timeslot_offsets t) \<Longrightarrow> 0x100 \<le> off \<and> off < 0xf00 \<and> off \<noteq> 0x1fe \<and> off \<noteq> 0x1ff"
proof -
  let ?r = "RDS0MR_OFFSET_MAP ! t"
  have r: "?r \<in> set RDS0MR_OFFSET_MAP" "0x100 \<le> ?r" "?r < 0x1d0"
    using assms RDS0MR_OFFSET_MAP_range by (simp_all add: list_all_length RDS0MR_OFFSET_MAP_facts)
  have "map_of (zip RDS0MR_OFFSET_MAP [0..<24]) ?r = Some ([0..<24] ! t)"
    by (rule map_of_zip_nth) (use assms in \<open>simp_all add: RDS0MR_OFFSET_MAP_facts del: upt_Suc\<close>)
  then have key: "timeslot_of ?r = t"
    using assms r(3) by (simp add: timeslot_of_def del: upt_Suc)
  show "distinct (timeslot_offsets t)"
    using r(2,3) by (simp add: timeslot_offsets_def)
  have cases: "off = ?r \<or> off = 0x1d0 + t \<or> (\<exists>k\<le>6. off = 0x300 + (0x20 * k + t)) \<or> off = 0x500 + t"
    if "off \<in> set (timeslot_offsets t)"
  proof -
    have "off = ?r \<or> off = 0x1d0 + t \<or> off = 0x500 + t \<or> off \<in> (\<lambda>k. 0x300 + (0x20 * k + t)) ` {0, 1, 2, 3, 4, 5, 6}"
      using that by (simp add: timeslot_offsets_def) blast
    moreover have "{0, 1, 2, 3, 4, 5, 6} \<subseteq> {..6 :: nat}" by simp
    ultimately show ?thesis by fastforce
  qed
  have mod: "(0x20 * k + t) mod 0x20 = t" for k
    using assms by simp
  show "timeslot_of off = t" if "off \<in> set (timeslot_offsets t)"
    using cases [OF that] assms key mod by (elim disjE exE conjE) (simp_all add: timeslot_of_def)
  show "timeslot_region off" if "off \<in> set (timeslot_offsets t)"
    using that assms r(1) by (simp add: timeslot_offsets_def timeslot_region_def) (elim disjE; simp)
  show "0x100 \<le> off \<and> off < 0xf00 \<and> off \<noteq> 0x1fe \<and> off \<noteq> 0x1ff" if "off \<in> set (timeslot_offsets t)"
    using cases [OF that] assms r(2,3) by (elim disjE exE conjE) simp_all
qed

lemma distinct_concat_key:
  assumes "distinct xs" and "\<And>x. x \<in> set xs \<Longrightarrow> distinct (f x)"
    and "\<And>x a. x \<in> set xs \<Longrightarrow> a \<in> set (f x) \<Longrightarrow> key a = x"
  shows "distinct (concat (map f xs))"
  using assms
proof (induction xs)
  case (Cons x xs)
  have "a \<notin> set (concat (map f xs))" if "a \<in> set (f x)" for a
  proof
    assume "a \<in> set (concat (map f xs))"
    then obtain y where "y \<in> set xs" "a \<in> set (f y)" by auto
    then have "key a = y" using Cons.prems(3) [of y a] by simp
    moreover have "key a = x" using Cons.prems(3) [of x a] that by simp
    ultimately show False using Cons.prems(1) \<open>y \<in> set xs\<close> by simp
  qed
  moreover have "distinct (concat (map f xs))"
    using Cons.prems by (intro Cons.IH) simp_all
  ultimately show ?case
    using Cons.prems(2) [of x] by auto
qed simp

lemma all_offsets_facts:
  "distinct all_offsets"
  "list_all (\<lambda>off. 0x100 \<le> off \<and> off < 0xf00 \<and> off \<noteq> 0x1fe \<and> off \<noteq> 0x1ff) all_offsets"
proof -
  have "distinct (concat (map timeslot_offsets timeslots))"
    by (rule distinct_concat_key [where key = timeslot_of])
      (simp_all only: in_timeslots timeslot_offsets_facts, simp only: timeslots_def distinct_upt)
  moreover have "set framer_offsets \<inter> set (concat (map timeslot_offsets timeslots)) = {}"
    using framer_offsets_range timeslot_offsets_facts(3)
    by (fastforce simp: list_all_iff in_timeslots)
  moreover have "set framer_offsets \<inter> set buffer_offsets = {}"
    using framer_offsets_range buffer_offsets_facts(2) by (fastforce simp: list_all_iff)
  moreover have "set buffer_offsets \<inter> set (concat (map timeslot_offsets timeslots)) = {}"
    using buffer_offsets_facts(2) timeslot_region_not_buffer timeslot_offsets_facts(3)
    by (fastforce simp: in_timeslots)
  ultimately show "distinct all_offsets"
    unfolding all_offsets_def
    by (simp only: distinct_append framer_offsets_distinct buffer_offsets_facts set_append) blast
  have "0x100 \<le> off \<and> off < 0xf00 \<and> off \<noteq> 0x1fe \<and> off \<noteq> 0x1ff" if "off \<in> set all_offsets" for off
  proof -
    have "off \<in> set framer_offsets \<or> off \<in> set buffer_offsets \<or> (\<exists>t. t < 24 \<and> off \<in> set (timeslot_offsets t))"
      using that by (auto simp: all_offsets_def in_timeslots)
    then show ?thesis
    proof (elim disjE exE conjE)
      assume "off \<in> set framer_offsets"
      with framer_offsets_range show ?thesis by (simp add: list_all_iff)
    next
      assume "off \<in> set buffer_offsets"
      from buffer_offsets_facts(2) [OF this] show ?thesis by (simp add: buffer_region_def)
    qed (rule timeslot_offsets_facts(4))
  qed
  then show "list_all (\<lambda>off. 0x100 \<le> off \<and> off < 0xf00 \<and> off \<noteq> 0x1fe \<and> off \<noteq> 0x1ff) all_offsets"
    unfolding list_all_iff by (intro ballI)
qed

text \<open>The channel an address belongs to.\<close>

definition channel_of :: "nat \<Rightarrow> nat" where
  "channel_of a = (if 0xf00 \<le> a \<and> a < 0xf80 then (a - 0xf00) div 16 else a div 0x1000)"

lemma channel_addresses_cases:
  assumes "a \<in> set (channel_addresses c)"
  obtains off where "off \<in> set all_offsets" "a = 0x1000 * c + off" "0x100 \<le> off" "off < 0xf00"
      "off \<noteq> 0x1fe" "off \<noteq> 0x1ff"
    | off where "off < 16" "a = 0xf00 + 16 * c + off"
proof -
  have "(\<exists>off\<in>set all_offsets. a = 0x1000 * c + off) \<or> (\<exists>off\<in>set liu_offsets. a = 0xf00 + 16 * c + off)"
    using assms by (auto simp: channel_addresses_def all_offsets_def)
  moreover have "off < 16" if "off \<in> set liu_offsets" for off
    using that by (auto simp: liu_offsets_def)
  moreover have "0x100 \<le> off \<and> off < 0xf00 \<and> off \<noteq> 0x1fe \<and> off \<noteq> 0x1ff" if "off \<in> set all_offsets" for off
    using all_offsets_facts(2) that by (simp add: list_all_iff)
  ultimately show ?thesis
    using that by blast
qed

lemma channel_of_address:
  assumes "c < 8" and "a \<in> set (channel_addresses c)"
  shows "channel_of a = c" and "a < 0x10000" and "a \<notin> set device_addresses"
proof -
  from assms(2) have "channel_of a = c \<and> a < 0x10000 \<and> a \<notin> set device_addresses"
  proof (cases rule: channel_addresses_cases)
    case (1 off)
    then show ?thesis
      using assms(1) by (cases "c = 0") (auto simp: channel_of_def device_addresses_def)
  next
    case (2 off)
    then show ?thesis
      using assms(1) by (auto simp: channel_of_def device_addresses_def)
  qed
  then show "channel_of a = c" and "a < 0x10000" and "a \<notin> set device_addresses"
    by simp_all
qed

lemma distinct_channel_addresses:
  assumes "c < 8"
  shows "distinct (channel_addresses c)"
proof -
  have liu: "distinct liu_offsets" and "list_all (\<lambda>off. off < 16) liu_offsets"
    by (simp_all add: liu_offsets_def)
  moreover have "0x1000 * c + off \<noteq> 0xf00 + 16 * c + l \<and> 0xf00 + 16 * c + l \<noteq> 0x1000 * c + off"
    if "off \<in> set all_offsets" "l < 16" for off l
  proof -
    have "0x100 \<le> off \<and> off < 0xf00"
      using all_offsets_facts(2) that(1) by (simp add: list_all_iff)
    then show ?thesis using assms that(2) by (cases "c = 0") auto
  qed
  ultimately show ?thesis
    using all_offsets_facts(1)
    by (fastforce simp: channel_addresses_def all_offsets_def distinct_map inj_on_def list_all_iff)
qed

lemmas layouts_ok = register_layouts_ok [unfolded register_layouts_def list.pred_inject]

lemma valid_access_new [simp]:
  "valid_access (Some (access_new a L)) \<longleftrightarrow> a < 0x10000 \<and> layout_ok L"
  "\<not> valid_access None"
  by (simp_all add: valid_access_def)

lemma valid_accessors:
  assumes "c < 8"
  shows "list_all valid_access (channel_accessors c)" and "list_all valid_access (liu_accessors c)"
    and "list_all valid_access (buffer_accessors c)"
    and "t < 24 \<Longrightarrow> list_all valid_access (timeslot_accessors c t)"
proof -
  show "list_all valid_access (buffer_accessors c)"
    using assms by (auto simp: buffer_accessors_def ch_lapdbcr0_def ch_lapdbcr1_def access_framer_eq
        layouts_ok list_all_iff)
  show "list_all valid_access (channel_accessors c)"
    using assms by (simp add: channel_accessors_def access_simps access_framer_eq layouts_ok
        RSCR_MAP_def RDLBCR_MAP_def RLCISR_MAP_def RLCIER_MAP_def DLSR_MAP_def SS7SR_MAP_def)
  show "list_all valid_access (liu_accessors c)"
    using assms by (simp add: liu_accessors_def access_simps access_liu_eq layouts_ok)
  show "list_all valid_access (timeslot_accessors c t)" if "t < 24"
    using assms that rds0mr_access [OF assms that]
    by (simp add: timeslot_accessors_def access_simps timeslot_access_eq layouts_ok)
qed

lemma valid_device_accessors: "list_all valid_access device_accessors"
  by (simp add: device_accessors_def access_simps access_liu_global_eq access_global_def global_def
      layouts_ok)

lemma length_accessors:
  "length (channel_accessors c) = 134" "length (liu_accessors c) = 16"
  "length (timeslot_accessors c t) = 10" "length device_accessors = 8"
  "length (buffer_accessors c) = 192"
  by (simp_all add: channel_accessors_def liu_accessors_def timeslot_accessors_def
      device_accessors_def buffer_accessors_def)

lemma length_concat_const: "(\<And>x. length (f x) = n) \<Longrightarrow> length (concat (map f xs)) = length xs * n"
  by (induction xs) simp_all

lemma length_register_map: "length register_map = 8 * (134 + 192 + 16 + 24 * 10) + 8"
proof -
  have "length (channel_registers c) = 134 + 192 + 16 + 24 * 10" for c
    by (simp add: channel_registers_def length_accessors length_concat_const [of _ 10]
        timeslots_def TIMESLOTS_COUNT_def del: upt_Suc)
  then show ?thesis
    by (simp add: register_map_def length_concat_const [of _ "134 + 192 + 16 + 24 * 10"] length_accessors
        channels_def CHANNELS_COUNT_def del: upt_Suc)
qed

lemma indexed_accessors_named: "indexed_accessors c = named_accessors c"
proof -
  have "map (ch_rsar c) [0..<24] = map (ts_rsar c) timeslots"
    by (auto simp: timeslots_def TIMESLOTS_COUNT_def ch_rsar_def ts_rsar_def access_framer_eq
        timeslot_access_eq simp del: upt_Suc)
  then show ?thesis
    by (simp add: indexed_accessors_def named_accessors_def access_simps numeral_nat upt_rec
        RSCR_MAP_def RDLBCR_MAP_def RLCISR_MAP_def RLCIER_MAP_def DLSR_MAP_def SS7SR_MAP_def
        del: upt_Suc)
qed

lemma past_the_end_panics: "past_the_end c i = replicate 9 None"
  by (simp add: past_the_end_def ch_rscr_def ch_rdlbcr_def ch_rsar_def ch_lapdbcr0_def
      ch_lapdbcr1_def ch_rlcisr_x_def ch_rlcier_x_def ch_dlsr_def ch_ss7sr_def RSCR_MAP_def
      RDLBCR_MAP_def RLCISR_MAP_def RLCIER_MAP_def DLSR_MAP_def SS7SR_MAP_def numeral_nat)

text \<open>
  C29: the memory map. Every named accessor of the chip (eight channels, each with the registers of
  its framer, its LIU and its 24 timeslots, and the device registers) and every byte of the two message
  buffers of each channel passes its assertions, has a 16-bit address and the layout of a byte, and
  no two of these 4664 have the same address; the addresses are those of the tables above (the framer's
  offsets from \<open>0xN000\<close>, the LIU's from \<open>0x0fN0\<close>, the buffers at \<open>0xN600\<close> and \<open>0xN700\<close>). The other accessors that take an index (\<open>rscr\<close>,
  \<open>rdlbcr\<close>, \<open>rlcisr_x\<close>, \<open>rlcier_x\<close>, \<open>dlsr\<close>, \<open>ss7sr\<close> and \<open>rsar\<close> of a channel) are second names: at every
  index in range they are the named accessor of that number, \<open>rsar\<close> that of the timeslot. All nine
  panic at every index past the end.
\<close>

theorem register_map_ok:
  "list_all valid_access register_map \<and> distinct (map address_of register_map)
    \<and> map address_of register_map = map Some (concat (map channel_addresses channels) @ device_addresses)
    \<and> length register_map = 8 * (134 + 192 + 16 + 24 * 10) + 8
    \<and> indexed_accessors c = named_accessors c \<and> past_the_end c i = replicate 9 None"
proof (intro conjI)
  show "list_all valid_access register_map"
    using valid_accessors valid_device_accessors
    by (auto simp: register_map_def channel_registers_def list_all_iff in_channels in_timeslots)
  show addresses: "map address_of register_map =
      map Some (concat (map channel_addresses channels) @ device_addresses)"
  proof -
    have "map (\<lambda>c. map address_of (channel_registers c)) channels =
        map (\<lambda>c. map Some (channel_addresses c)) channels"
      by (rule map_cong [OF refl]) (simp only: channel_addresses_eq in_channels)
    then show ?thesis
      by (simp add: register_map_def device_addresses_eq map_concat comp_def del: map_eq_conv)
  qed
  have "distinct (concat (map channel_addresses channels))"
    by (rule distinct_concat_key [where key = channel_of])
      (simp_all only: in_channels distinct_channel_addresses channel_of_address,
        simp only: channels_def distinct_upt)
  moreover have "distinct device_addresses"
    by (simp add: device_addresses_def)
  moreover have "set (concat (map channel_addresses channels)) \<inter> set device_addresses = {}"
    using channel_of_address(3) by (auto simp: in_channels)
  ultimately show "distinct (map address_of register_map)"
    by (simp only: addresses distinct_map distinct_append inj_Some inj_on_subset [OF inj_Some subset_UNIV])
  show "length register_map = 8 * (134 + 192 + 16 + 24 * 10) + 8"
    by (rule length_register_map)
  show "indexed_accessors c = named_accessors c"
    by (rule indexed_accessors_named)
  show "past_the_end c i = replicate 9 None"
    by (rule past_the_end_panics)
qed

end
