(* ===== verification/Register_Settings.thy ===== *)
theory Register_Settings
  imports Accessors
begin

text \<open>
  From chains of field updates to register values. A chain \<open>w.with_X1(v1)...\<close> keeps some bits of
  the register and sets others, so a configuration routine amounts to a list of settings
  \<open>(address, kept bits, value)\<close>. The lemmas at the end derive the settings of a routine from its
  statements, against the contract \<open>register_file\<close>.
\<close>

section \<open>Chains as masks\<close>

definition masked :: "u8 \<times> u8 \<Rightarrow> u8 \<Rightarrow> u8" where
  "masked kv b = (b AND fst kv) OR snd kv"

fun chain_mask :: "layout \<Rightarrow> (string \<times> u8) list \<Rightarrow> u8 \<times> u8 \<Rightarrow> (u8 \<times> u8) option" where
  "chain_mask L [] kv = Some kv"
| "chain_mask L ((n, v) # fs) kv = (case field_pos L 8 n of
     None \<Rightarrow> None
   | Some p \<Rightarrow>
       if unat v < 2 ^ snd p
       then (let m = NOT (push_bit (fst p) (mask (snd p)))
             in chain_mask L fs (fst kv AND m, (snd kv AND m) OR push_bit (fst p) v))
       else None)"

lemma bits_put_masked:
  "bits_put p v (masked kv b) =
    (let m = NOT (push_bit (fst p) (mask (snd p)))
     in masked (fst kv AND m, (snd kv AND m) OR push_bit (fst p) v) b)"
  by (simp add: bits_put_def masked_def Let_def) (rule bit_word_eqI, auto simp: bit_simps)

lemma reg_chain_masked:
  "reg_chain L fs (masked kv b) = map_option (\<lambda>kv. masked kv b) (chain_mask L fs kv)"
  by (induction L fs kv rule: chain_mask.induct)
    (auto simp: reg_with_def Let_def bits_put_masked split: option.splits)

lemma masked_all [simp]: "masked (- 1, 0) b = b"
  by (simp add: masked_def)

lemma masked_zero [simp]: "masked kv 0 = snd kv"
  by (simp add: masked_def)

lemma reg_chain_mask: "reg_chain L fs b = map_option (\<lambda>kv. masked kv b) (chain_mask L fs (- 1, 0))"
  using reg_chain_masked [of L fs "(- 1, 0)" b] by simp

section \<open>Settings\<close>

type_synonym setting = "u16 \<times> u8 \<times> u8"

definition apply_setting :: "setting \<Rightarrow> (u16 \<Rightarrow> u8) \<Rightarrow> u16 \<Rightarrow> u8" where
  "apply_setting st R = R(fst st := masked (snd st) (R (fst st)))"

lemma apply_setting_simps [simp]:
  "apply_setting (a, kv) R a = masked kv (R a)"
  "a \<noteq> fst st \<Longrightarrow> apply_setting st R a = R a"
  by (simp_all add: apply_setting_def)

lemma fold_settings_other:
  "a \<notin> fst ` set sts \<Longrightarrow> fold apply_setting sts R a = R a"
  by (induction sts arbitrary: R) auto

text \<open>With distinct addresses every setting holds at the end.\<close>

lemma fold_settings_value:
  assumes "distinct (map fst sts)" and "(a, kv) \<in> set sts"
  shows "fold apply_setting sts R a = masked kv (R a)"
  using assms
proof (induction sts arbitrary: R)
  case (Cons st sts)
  show ?case
  proof (cases "st = (a, kv)")
    case True
    then have "a \<notin> fst ` set sts"
      using Cons.prems(1) by simp
    then show ?thesis
      using True by (simp add: fold_settings_other)
  next
    case False
    then have mem: "(a, kv) \<in> set sts" using Cons.prems(2) by simp
    then have "fst st \<noteq> a"
      using Cons.prems(1) by (metis distinct.simps(2) fst_conv image_eqI list.map(2) list.set_map)
    then show ?thesis
      using Cons.IH [of "apply_setting st R"] Cons.prems(1) mem by simp
  qed
qed simp

text \<open>The setting a chain on an access amounts to, with the register's previous value kept.\<close>

definition setting_of :: "access option \<Rightarrow> (string \<times> u8) list \<Rightarrow> setting option" where
  "setting_of acc fs = (case acc of None \<Rightarrow> None
     | Some a \<Rightarrow> if acc_address a < 0x10000
         then map_option (\<lambda>kv. (of_nat (acc_address a), kv)) (chain_mask (acc_layout a) fs (- 1, 0))
         else None)"

lemma setting_of_new [simp]:
  "setting_of (Some (access_new n L)) fs = (if n < 0x10000
     then map_option (\<lambda>kv. (of_nat n, kv)) (chain_mask L fs (- 1, 0)) else None)"
  by (simp add: setting_of_def)

definition setting_of_write :: "access option \<Rightarrow> (string \<times> u8) list \<Rightarrow> setting option" where
  "setting_of_write acc fs = map_option (\<lambda>(a, k, v). (a, 0, v)) (setting_of acc fs)"

lemma setting_ofE:
  assumes "setting_of acc fs = Some (a, kv)"
  obtains x where "acc = Some x" and "acc_address x < 0x10000" and "a = of_nat (acc_address x)"
    and "chain_mask (acc_layout x) fs (- 1, 0) = Some kv"
  using assms by (auto simp: setting_of_def split: option.splits if_splits)

context register_file
begin

text \<open>\<open>configures m sts\<close>: the routine \<open>m\<close> returns and changes the plain registers as \<open>sts\<close> says.\<close>

definition configures :: "('s, 'e, unit) prog \<Rightarrow> setting list \<Rightarrow> bool" where
  "configures m sts \<longleftrightarrow> (\<forall>R. ok_triple (agree R) m (\<lambda>_. agree (fold apply_setting sts R)))"

lemma configures_modify:
  assumes "setting_of acc fs = Some st" and "fst st \<in> plain"
  shows "configures (access_modify D acc fs) [st]"
proof -
  obtain a kv where st: "st = (a, kv)" by (cases st)
  obtain x where x: "acc = Some x" "acc_address x < 0x10000" "a = of_nat (acc_address x)"
      "chain_mask (acc_layout x) fs (- 1, 0) = Some kv"
    using assms(1) unfolding st by (rule setting_ofE)
  have "ok_triple (agree R) (access_modify D acc fs) (\<lambda>_. agree (R(a := masked kv (R a))))" for R
    using ok_modify [of acc x fs R "masked kv (R a)"] x assms(2) by (simp add: st reg_chain_mask)
  then show ?thesis by (simp add: configures_def st apply_setting_def)
qed

lemma configures_write:
  assumes "setting_of_write acc fs = Some st" and "fst st \<in> plain"
  shows "configures (access_write D acc fs) [st]"
proof -
  obtain a k v where kv: "setting_of acc fs = Some (a, k, v)" and st: "st = (a, 0, v)"
    using assms(1) by (auto simp: setting_of_write_def)
  obtain x where x: "acc = Some x" "acc_address x < 0x10000" "a = of_nat (acc_address x)"
      "chain_mask (acc_layout x) fs (- 1, 0) = Some (k, v)"
    using kv by (rule setting_ofE)
  have "ok_triple (agree R) (access_write D acc fs) (\<lambda>_. agree (R(a := v)))" for R
    using ok_write [of acc x fs v R] x assms(2) by (simp add: st reg_chain_mask)
  then show ?thesis by (simp add: configures_def st apply_setting_def masked_def)
qed

lemma configures_read:
  assumes "\<exists>x. acc = Some x \<and> acc_address x < 0x10000"
  shows "configures (prog_ignore (access_read D acc)) []"
  using ok_read_any [of acc] assms
  by (auto simp: configures_def prog_ignore_def prog_map_def intro!: ok_bind ok_return)

text \<open>Untyped accesses, by address.\<close>

lemma configures_raw_write: "a \<in> plain \<Longrightarrow> configures (xyz_register_write D a v) [(a, 0, v)]"
  unfolding configures_def
proof (intro allI ok_tripleI)
  fix R s assume "a \<in> plain" and "agree R s"
  moreover from write_plain [OF \<open>a \<in> plain\<close>, of v s] obtain s'
    where "xyz_register_write D a v s = (Ok (), s')" and "\<forall>b\<in>plain. regs s' b = ((regs s)(a := v)) b"
    by blast
  ultimately show "\<exists>u s'. xyz_register_write D a v s = (Ok u, s')
      \<and> agree (fold apply_setting [(a, 0, v)] R) s'"
    by (auto simp: agree_def apply_setting_def masked_def)
qed

lemma configures_raw_read: "configures (prog_ignore (xyz_register_read D a)) []"
proof -
  have "ok_triple (agree R) (xyz_register_read D a) (\<lambda>_. agree R)" for R
    using read_any [of a] by (fastforce simp: ok_triple_def agree_def)
  then show ?thesis
    by (auto simp: configures_def prog_ignore_def prog_map_def intro!: ok_bind ok_return)
qed

lemma configures_return: "configures (prog_return ()) []"
  by (simp add: configures_def ok_return)

lemma configures_then:
  "configures m sts \<Longrightarrow> configures n sts' \<Longrightarrow> configures (prog_then m n) (sts @ sts')"
  unfolding configures_def by (auto intro: ok_then)

lemma configures_seq_Nil: "configures (seq_all []) []"
  using configures_return by simp

lemma configures_seq_Cons:
  "configures m [st] \<Longrightarrow> configures (seq_all ms) sts \<Longrightarrow> configures (seq_all (m # ms)) (st # sts)"
  using configures_then [of m "[st]" "seq_all ms" sts] by simp

lemma configures_seq_read:
  "configures m [] \<Longrightarrow> configures (seq_all ms) sts \<Longrightarrow> configures (seq_all (m # ms)) sts"
  using configures_then [of m "[]" "seq_all ms" sts] by simp

lemma configures_seq_last: "configures m sts \<Longrightarrow> configures (seq_all [m]) sts"
  using configures_then [of m sts "prog_return ()" "[]"] configures_return by simp

lemma configures_for_each:
  "(\<And>x. x \<in> set xs \<Longrightarrow> configures (f x) (g x)) \<Longrightarrow> configures (for_each xs f) (concat (map g xs))"
  by (induction xs) (auto intro: configures_return configures_then)

lemma configures_for_each_read: "(\<And>x. configures (f x) []) \<Longrightarrow> configures (for_each xs f) []"
  by (induction xs) (auto intro: configures_return configures_then [where sts = "[]" and sts' = "[]", simplified])

lemma configures_result:
  assumes "configures m sts" and "distinct (map fst sts)"
  shows "\<exists>s'. m s = (Ok (), s') \<and> (\<forall>(a, kv)\<in>set sts. a \<in> plain \<longrightarrow> regs s' a = masked kv (regs s a))
    \<and> (\<forall>a\<in>plain. a \<notin> fst ` set sts \<longrightarrow> regs s' a = regs s a)"
proof -
  have "ok_triple (agree (regs s)) m (\<lambda>_. agree (fold apply_setting sts (regs s)))"
    using assms(1) by (simp add: configures_def)
  from ok_tripleE [OF this agree_self [of s]] obtain s' where
    "m s = (Ok (), s')" and "agree (fold apply_setting sts (regs s)) s'" by auto
  then show ?thesis
    using fold_settings_value [OF assms(2)] fold_settings_other [of _ sts]
    by (auto simp: agree_def)
qed

end

end
