(* ===== verification/Soc_IO.thy ===== *)
theory Soc_IO
  imports Accessors
begin

text \<open>
  The peripherals of the firmware, \<^verbatim>\<open>tedium-soc/src/{peripheral,uart,usb,test_points,framer}.rs\<close>.
  All of them are memory-mapped: the state of a firmware program is the trace of bus reads and
  writes it has made, and the hardware is an environment that answers each read, depending on the
  whole trace before it, so that FIFOs, read-to-clear registers and the like are covered. The
  environment is a parameter of every theorem. Registers are 32 bits wide; address arithmetic
  wraps, as in the release build of the firmware.
\<close>

section \<open>Bus traces\<close>

datatype bus_event = BusRead u32 u32 | BusWrite u32 u32

type_synonym bus_trace = "bus_event list"
type_synonym environment = "bus_trace \<Rightarrow> u32 \<Rightarrow> u32"

text \<open>
  A busy-wait loop takes fuel; \<open>Waiting\<close> says that the fuel ran out. The firmware's own error
  type has no values, so this is the only error of its programs.
\<close>

datatype soc_error = Waiting

type_synonym 'a soc = "(bus_trace, soc_error, 'a) prog"

definition bus_read :: "environment \<Rightarrow> u32 \<Rightarrow> (bus_trace, 'e, u32) prog" where
  "bus_read env a = (\<lambda>t. (Ok (env t a), t @ [BusRead a (env t a)]))"

definition bus_write :: "u32 \<Rightarrow> u32 \<Rightarrow> (bus_trace, 'e, unit) prog" where
  "bus_write a v = (\<lambda>t. (Ok (), t @ [BusWrite a v]))"

section \<open>Peripherals\<close>

definition peripheral_address :: "u32 \<Rightarrow> u32 \<Rightarrow> u32" where
  "peripheral_address p n = p + n * 4"

definition peripheral_read :: "environment \<Rightarrow> u32 \<Rightarrow> u32 \<Rightarrow> (bus_trace, 'e, u32) prog" where
  "peripheral_read env p n = bus_read env (peripheral_address p n)"

definition peripheral_write :: "u32 \<Rightarrow> u32 \<Rightarrow> u32 \<Rightarrow> (bus_trace, 'e, unit) prog" where
  "peripheral_write p n v = bus_write (peripheral_address p n) v"

subsection \<open>Test points\<close>

record test_points =
  tp_p :: u32
  tp_v :: u32

definition test_points_new :: "u32 \<Rightarrow> test_points" where
  "test_points_new p = \<lparr>tp_p = p, tp_v = 0\<rparr>"

definition test_points_set_value :: "test_points \<Rightarrow> u32 \<Rightarrow> (bus_trace, 'e, unit) prog" where
  "test_points_set_value tp v = bus_write (tp_p tp) v"

definition test_points_update :: "test_points \<Rightarrow> u32 \<Rightarrow> (bus_trace, 'e, test_points) prog" where
  "test_points_update tp v =
     (let tp' = tp\<lparr>tp_v := v\<rparr>
      in prog_bind (test_points_set_value tp' (tp_v tp')) (\<lambda>_. prog_return tp'))"

definition test_points_toggle :: "test_points \<Rightarrow> nat \<Rightarrow> (bus_trace, 'e, test_points) prog" where
  "test_points_toggle tp n = test_points_update tp (tp_v tp XOR push_bit (n mod 32) 1)"

definition test_points_set :: "test_points \<Rightarrow> nat \<Rightarrow> (bus_trace, 'e, test_points) prog" where
  "test_points_set tp n = test_points_update tp (tp_v tp OR push_bit (n mod 32) 1)"

definition test_points_clear :: "test_points \<Rightarrow> nat \<Rightarrow> (bus_trace, 'e, test_points) prog" where
  "test_points_clear tp n = test_points_update tp (tp_v tp AND NOT (push_bit (n mod 32) 1))"

subsection \<open>Framer control\<close>

definition framer_control_set_reset :: "u32 \<Rightarrow> bool \<Rightarrow> (bus_trace, 'e, unit) prog" where
  "framer_control_set_reset p value = bus_write (p + 0 * 4) (if value then 1 else 0)"

definition framer_control_set_outputs_control :: "u32 \<Rightarrow> bool \<Rightarrow> (bus_trace, 'e, unit) prog" where
  "framer_control_set_outputs_control p value = bus_write (p + 1 * 4) (if value then 1 else 0)"

subsection \<open>UART\<close>

definition HEXCHAR :: "u8 list" where
  "HEXCHAR = [0x30, 0x31, 0x32, 0x33, 0x34, 0x35, 0x36, 0x37, 0x38, 0x39,
    0x61, 0x62, 0x63, 0x64, 0x65, 0x66]"

definition UART_EOL :: u8 where "UART_EOL = 0x0a"
definition UART_SPACE :: u8 where "UART_SPACE = 0x20"

definition uart_tx_data :: "u32 \<Rightarrow> u32 \<Rightarrow> (bus_trace, 'e, unit) prog" where
  "uart_tx_data p v = bus_write (p + 4 * 4) v"

definition uart_tx_rdy :: "environment \<Rightarrow> u32 \<Rightarrow> (bus_trace, 'e, bool) prog" where
  "uart_tx_rdy env p = prog_map (\<lambda>v. v \<noteq> 0) (bus_read env (p + 5 * 4))"

fun uart_wait :: "nat \<Rightarrow> environment \<Rightarrow> u32 \<Rightarrow> unit soc" where
  "uart_wait 0 env p = prog_fail Waiting"
| "uart_wait (Suc fuel) env p =
     prog_bind (uart_tx_rdy env p) (\<lambda>rdy. if \<not> rdy then uart_wait fuel env p else prog_return ())"

definition uart_write_char :: "nat \<Rightarrow> environment \<Rightarrow> u32 \<Rightarrow> u8 \<Rightarrow> unit soc" where
  "uart_write_char fuel env p c = prog_then (uart_wait fuel env p) (uart_tx_data p (ucast c))"

fun uart_hex_loop :: "nat \<Rightarrow> environment \<Rightarrow> u32 \<Rightarrow> nat \<Rightarrow> u32 \<Rightarrow> unit soc" where
  "uart_hex_loop fuel env p 0 x = prog_return ()"
| "uart_hex_loop fuel env p (Suc n) x =
     prog_then (uart_write_char fuel env p (HEXCHAR ! unat (drop_bit 28 x)))
       (uart_hex_loop fuel env p n (push_bit 4 x))"

definition uart_write_hex :: "nat \<Rightarrow> environment \<Rightarrow> u32 \<Rightarrow> u32 \<Rightarrow> nat \<Rightarrow> unit soc" where
  "uart_write_hex fuel env p v digits =
     uart_hex_loop fuel env p digits (push_bit ((8 - digits) * 4) v)"

definition uart_write_hex_u8 :: "nat \<Rightarrow> environment \<Rightarrow> u32 \<Rightarrow> u8 \<Rightarrow> unit soc" where
  "uart_write_hex_u8 fuel env p v = uart_write_hex fuel env p (ucast v) 2"

definition uart_write_hex_u16 :: "nat \<Rightarrow> environment \<Rightarrow> u32 \<Rightarrow> u16 \<Rightarrow> unit soc" where
  "uart_write_hex_u16 fuel env p v = uart_write_hex fuel env p (ucast v) 4"

definition uart_write_hex_u32 :: "nat \<Rightarrow> environment \<Rightarrow> u32 \<Rightarrow> u32 \<Rightarrow> unit soc" where
  "uart_write_hex_u32 fuel env p v = uart_write_hex fuel env p v 8"

text \<open>A string literal is the list of its bytes.\<close>

definition str_bytes :: "string \<Rightarrow> u8 list" where
  "str_bytes s = map (\<lambda>c. of_nat (of_char c)) s"

definition uart_write_str :: "nat \<Rightarrow> environment \<Rightarrow> u32 \<Rightarrow> string \<Rightarrow> unit soc" where
  "uart_write_str fuel env p s = for_each (str_bytes s) (uart_write_char fuel env p)"

subsection \<open>USB IN endpoint\<close>

definition usb_in_write_fifo :: "u32 \<Rightarrow> u8 \<Rightarrow> (bus_trace, 'e, unit) prog" where
  "usb_in_write_fifo p v = peripheral_write p 0 (ucast v)"

definition usb_in_transmit :: "u32 \<Rightarrow> u8 \<Rightarrow> (bus_trace, 'e, unit) prog" where
  "usb_in_transmit p endpoint = peripheral_write p 1 (ucast endpoint)"

definition usb_in_reset :: "u32 \<Rightarrow> (bus_trace, 'e, unit) prog" where
  "usb_in_reset p = peripheral_write p 2 1"

definition usb_in_set_stall :: "u32 \<Rightarrow> (bus_trace, 'e, unit) prog" where
  "usb_in_set_stall p = peripheral_write p 3 1"

definition usb_in_clear_stall :: "u32 \<Rightarrow> (bus_trace, 'e, unit) prog" where
  "usb_in_clear_stall p = peripheral_write p 3 0"

definition usb_in_is_stalled :: "environment \<Rightarrow> u32 \<Rightarrow> (bus_trace, 'e, bool) prog" where
  "usb_in_is_stalled env p = prog_map (\<lambda>v. v \<noteq> 0) (peripheral_read env p 3)"

definition usb_in_is_idle :: "environment \<Rightarrow> u32 \<Rightarrow> (bus_trace, 'e, bool) prog" where
  "usb_in_is_idle env p = prog_map (\<lambda>v. v \<noteq> 0) (peripheral_read env p 4)"

definition usb_in_is_fifo_empty :: "environment \<Rightarrow> u32 \<Rightarrow> (bus_trace, 'e, bool) prog" where
  "usb_in_is_fifo_empty env p = prog_map (\<lambda>v. v = 0) (peripheral_read env p 5)"

definition usb_in_is_interrupt_pending :: "environment \<Rightarrow> u32 \<Rightarrow> (bus_trace, 'e, bool) prog" where
  "usb_in_is_interrupt_pending env p = prog_map (\<lambda>v. v \<noteq> 0) (peripheral_read env p 6)"

definition usb_in_get_pid :: "environment \<Rightarrow> u32 \<Rightarrow> (bus_trace, 'e, u8) prog" where
  "usb_in_get_pid env p = prog_map ucast (peripheral_read env p 7)"

definition usb_in_set_pid :: "u32 \<Rightarrow> u8 \<Rightarrow> (bus_trace, 'e, unit) prog" where
  "usb_in_set_pid p pid = peripheral_write p 7 (ucast pid)"

subsection \<open>USB OUT endpoint\<close>

definition usb_out_get_data :: "environment \<Rightarrow> u32 \<Rightarrow> (bus_trace, 'e, u8) prog" where
  "usb_out_get_data env p = prog_map ucast (peripheral_read env p 0)"

definition usb_out_get_data_ep :: "environment \<Rightarrow> u32 \<Rightarrow> (bus_trace, 'e, u8) prog" where
  "usb_out_get_data_ep env p = prog_map ucast (peripheral_read env p 1)"

definition usb_out_reset :: "u32 \<Rightarrow> (bus_trace, 'e, unit) prog" where
  "usb_out_reset p = peripheral_write p 2 1"

definition usb_out_get_epno :: "environment \<Rightarrow> u32 \<Rightarrow> (bus_trace, 'e, u8) prog" where
  "usb_out_get_epno env p = prog_map ucast (peripheral_read env p 3)"

definition usb_out_set_epno :: "u32 \<Rightarrow> u8 \<Rightarrow> (bus_trace, 'e, unit) prog" where
  "usb_out_set_epno p v = peripheral_write p 3 (ucast v)"

definition usb_out_get_enable :: "environment \<Rightarrow> u32 \<Rightarrow> (bus_trace, 'e, u8) prog" where
  "usb_out_get_enable env p = prog_map ucast (peripheral_read env p 4)"

definition usb_out_set_enable :: "u32 \<Rightarrow> u8 \<Rightarrow> (bus_trace, 'e, unit) prog" where
  "usb_out_set_enable p v = peripheral_write p 4 (ucast v)"

definition usb_out_set_prime :: "u32 \<Rightarrow> u8 \<Rightarrow> (bus_trace, 'e, unit) prog" where
  "usb_out_set_prime p v = peripheral_write p 5 (ucast v)"

definition usb_out_get_stall :: "environment \<Rightarrow> u32 \<Rightarrow> (bus_trace, 'e, u8) prog" where
  "usb_out_get_stall env p = prog_map ucast (peripheral_read env p 6)"

definition usb_out_set_stall :: "u32 \<Rightarrow> u8 \<Rightarrow> (bus_trace, 'e, unit) prog" where
  "usb_out_set_stall p v = peripheral_write p 6 (ucast v)"

definition usb_out_get_have :: "environment \<Rightarrow> u32 \<Rightarrow> (bus_trace, 'e, u8) prog" where
  "usb_out_get_have env p = prog_map ucast (peripheral_read env p 7)"

definition usb_out_set_have :: "u32 \<Rightarrow> u8 \<Rightarrow> (bus_trace, 'e, unit) prog" where
  "usb_out_set_have p v = peripheral_write p 7 (ucast v)"

definition usb_out_get_pend :: "environment \<Rightarrow> u32 \<Rightarrow> (bus_trace, 'e, u8) prog" where
  "usb_out_get_pend env p = prog_map ucast (peripheral_read env p 8)"

definition usb_out_set_pend :: "u32 \<Rightarrow> u8 \<Rightarrow> (bus_trace, 'e, unit) prog" where
  "usb_out_set_pend p v = peripheral_write p 8 (ucast v)"

definition usb_out_get_pid :: "environment \<Rightarrow> u32 \<Rightarrow> (bus_trace, 'e, u8) prog" where
  "usb_out_get_pid env p = prog_map ucast (peripheral_read env p 9)"

definition usb_out_set_pid :: "u32 \<Rightarrow> u8 \<Rightarrow> (bus_trace, 'e, unit) prog" where
  "usb_out_set_pid p v = peripheral_write p 9 (ucast v)"

definition usb_out_get_ev_status :: "environment \<Rightarrow> u32 \<Rightarrow> (bus_trace, 'e, u32) prog" where
  "usb_out_get_ev_status env p = peripheral_read env p 11"

definition usb_out_get_ev_pending :: "environment \<Rightarrow> u32 \<Rightarrow> (bus_trace, 'e, u32) prog" where
  "usb_out_get_ev_pending env p = peripheral_read env p 12"

definition usb_out_set_ev_pending :: "u32 \<Rightarrow> u32 \<Rightarrow> (bus_trace, 'e, unit) prog" where
  "usb_out_set_ev_pending p v = peripheral_write p 12 v"

definition usb_out_get_ev_enable :: "environment \<Rightarrow> u32 \<Rightarrow> (bus_trace, 'e, u32) prog" where
  "usb_out_get_ev_enable env p = peripheral_read env p 13"

definition usb_out_set_ev_enable :: "u32 \<Rightarrow> u32 \<Rightarrow> (bus_trace, 'e, unit) prog" where
  "usb_out_set_ev_enable p v = peripheral_write p 13 v"

text \<open>The debugging snapshot of an OUT endpoint.\<close>

record usb_out_state =
  uos_data_ep :: u8
  uos_enable :: u8
  uos_stall :: u8
  uos_have :: u8
  uos_pend :: u8

definition usb_out_state_from_endpoint :: "environment \<Rightarrow> u32 \<Rightarrow> (bus_trace, 'e, usb_out_state) prog" where
  "usb_out_state_from_endpoint env p =
     prog_bind (usb_out_get_data_ep env p) (\<lambda>data_ep.
     prog_bind (usb_out_get_enable env p) (\<lambda>enable.
     prog_bind (usb_out_get_stall env p) (\<lambda>stall.
     prog_bind (usb_out_get_have env p) (\<lambda>have.
     prog_bind (usb_out_get_pend env p) (\<lambda>pend.
       prog_return \<lparr>uos_data_ep = data_ep, uos_enable = enable, uos_stall = stall,
         uos_have = have, uos_pend = pend\<rparr>)))))"

definition usb_out_state_print :: "nat \<Rightarrow> environment \<Rightarrow> u32 \<Rightarrow> usb_out_state \<Rightarrow> unit soc" where
  "usb_out_state_print fuel env uart s = seq_all
     [uart_write_str fuel env uart ''O['',
      uart_write_hex_u8 fuel env uart (uos_data_ep s),
      uart_write_char fuel env uart (0x30 + uos_enable s),
      uart_write_char fuel env uart (0x30 + uos_stall s),
      uart_write_char fuel env uart (0x30 + uos_have s),
      uart_write_char fuel env uart (0x30 + uos_pend s),
      uart_write_str fuel env uart ('']'' @ [CHR 0x0a])]"

subsection \<open>The framer chip on the bus\<close>

text \<open>
  \<open>Access\<close> of \<^verbatim>\<open>framer.rs\<close> implements \<open>DeviceAccess\<close> by 32-bit accesses at \<open>p\<close> plus four times the
  chip address; \<open>Device<Access>\<close> is the trait \<open>Xyz\<close> over it. Neither ever returns an error.
\<close>

definition framer_address :: "u32 \<Rightarrow> register_address \<Rightarrow> u32" where
  "framer_address p address = p + 4 * ucast address"

definition framer_access_read :: "environment \<Rightarrow> u32 \<Rightarrow> register_address \<Rightarrow> (bus_trace, 'e, u8) prog" where
  "framer_access_read env p address = prog_map ucast (bus_read env (framer_address p address))"

definition framer_access_write :: "u32 \<Rightarrow> register_address \<Rightarrow> u8 \<Rightarrow> (bus_trace, 'e, unit) prog" where
  "framer_access_write p address value = bus_write (framer_address p address) (ucast value)"

definition soc_device :: "environment \<Rightarrow> u32 \<Rightarrow> (bus_trace, 'e) xyz" where
  "soc_device env p = \<lparr>xyz_register_read = framer_access_read env p,
     xyz_register_write = framer_access_write p\<rparr>"

lemma soc_device_sel [simp]:
  "xyz_register_read (soc_device env p) = framer_access_read env p"
  "xyz_register_write (soc_device env p) = framer_access_write p"
  by (simp_all add: soc_device_def)

section \<open>What a program adds to the trace\<close>

text \<open>
  \<open>emits m Q\<close>: from every trace, and whatever the environment answers, \<open>m\<close> returns a value and
  extends the trace; \<open>Q\<close> holds of the value and the events it added. The rules compute the
  weakest such precondition.
\<close>

definition emits :: "(bus_trace, 'e, 'a) prog \<Rightarrow> ('a \<Rightarrow> bus_trace \<Rightarrow> bool) \<Rightarrow> bool" where
  "emits m Q \<longleftrightarrow> (\<forall>t. \<exists>a d. m t = (Ok a, t @ d) \<and> Q a d)"

named_theorems emits_rules \<open>weakest preconditions for the events a program adds\<close>

lemma emitsI: "(\<And>t. \<exists>a d. m t = (Ok a, t @ d) \<and> Q a d) \<Longrightarrow> emits m Q"
  by (simp add: emits_def)

lemma emitsE:
  assumes "emits m Q"
  obtains a d where "m t = (Ok a, t @ d)" and "Q a d"
  using assms unfolding emits_def by meson

lemma emits_mono:
  assumes "emits m Q" and "\<And>a d. Q a d \<Longrightarrow> R a d"
  shows "emits m R"
  using assms by (fastforce simp: emits_def)

lemma emits_return [emits_rules]: "Q a [] \<Longrightarrow> emits (prog_return a) Q"
  by (simp add: emits_def prog_return_def)

lemma emits_bind [emits_rules]:
  assumes "emits m (\<lambda>a d. emits (f a) (\<lambda>b d'. Q b (d @ d')))"
  shows "emits (prog_bind m f) Q"
proof (rule emitsI)
  fix t
  from assms obtain a d where m: "m t = (Ok a, t @ d)"
    and f: "emits (f a) (\<lambda>b d'. Q b (d @ d'))" by (rule emitsE)
  from f obtain b d' where "f a (t @ d) = (Ok b, (t @ d) @ d')" and "Q b (d @ d')"
    by (rule emitsE)
  with m show "\<exists>b d. prog_bind m f t = (Ok b, t @ d) \<and> Q b d"
    by (simp add: prog_bind_eval)
qed

lemma emits_then [emits_rules]:
  "emits m (\<lambda>a d. emits n (\<lambda>b d'. Q b (d @ d'))) \<Longrightarrow> emits (prog_then m n) Q"
  unfolding prog_then_def by (rule emits_bind)

lemma emits_read [emits_rules]: "(\<And>v. Q v [BusRead a v]) \<Longrightarrow> emits (bus_read env a) Q"
  by (simp add: emits_def bus_read_def)

lemma emits_write [emits_rules]: "Q () [BusWrite a v] \<Longrightarrow> emits (bus_write a v) Q"
  by (simp add: emits_def bus_write_def)

lemma emits_map [emits_rules]: "emits m (\<lambda>a. Q (f a)) \<Longrightarrow> emits (prog_map f m) Q"
  unfolding prog_map_def by (rule emits_bind, erule emits_mono) (simp add: emits_return)

lemma emits_unwrap [emits_rules]:
  assumes "emits m Q"
  shows "emits (prog_unwrap m) Q"
proof (rule emitsI)
  fix t
  from assms obtain a d where "m t = (Ok a, t @ d)" and "Q a d" by (rule emitsE)
  then show "\<exists>a d. prog_unwrap m t = (Ok a, t @ d) \<and> Q a d"
    by (simp add: prog_unwrap_def)
qed

lemma emits_of_option [emits_rules]: "x = Some a \<Longrightarrow> Q a [] \<Longrightarrow> emits (prog_of_option x) Q"
  by (simp add: emits_return)

lemma emits_peripheral_read [emits_rules]:
  "(\<And>v. Q v [BusRead (peripheral_address p n) v]) \<Longrightarrow> emits (peripheral_read env p n) Q"
  unfolding peripheral_read_def by (rule emits_read)

lemma emits_peripheral_write [emits_rules]:
  "Q () [BusWrite (peripheral_address p n) v] \<Longrightarrow> emits (peripheral_write p n v) Q"
  unfolding peripheral_write_def by (rule emits_write)

text \<open>A loop whose iterations each add events related to their item adds the related list.\<close>

lemma emits_for_each:
  assumes "\<And>x. x \<in> set xs \<Longrightarrow> emits (f x) (\<lambda>_ d. R x d)"
  shows "emits (for_each xs f) (\<lambda>_ d. \<exists>ds. d = concat ds \<and> list_all2 R xs ds)"
  using assms
proof (induction xs)
  case Nil
  show ?case by (simp add: emits_return)
next
  case (Cons x xs)
  have "emits (for_each xs f) (\<lambda>_ d. \<exists>ds. d = concat ds \<and> list_all2 R xs ds)"
    using Cons by simp
  moreover have "emits (f x) (\<lambda>_ d. R x d)"
    using Cons.prems by simp
  ultimately have "emits (f x) (\<lambda>_ d. emits (for_each xs f)
      (\<lambda>_ d'. \<exists>ds. d @ d' = concat ds \<and> list_all2 R (x # xs) ds))"
    by (elim emits_mono) (metis concat.simps(2) list_all2_Cons)
  then show ?case by (simp add: emits_then)
qed

text \<open>The values a trace writes to an address, and the reads and writes it makes elsewhere.\<close>

definition bus_writes :: "u32 \<Rightarrow> bus_trace \<Rightarrow> u32 list" where
  "bus_writes a t = concat (map (\<lambda>ev. case ev of BusWrite b v \<Rightarrow> if b = a then [v] else []
     | BusRead _ _ \<Rightarrow> []) t)"

lemma bus_writes_simps [simp]:
  "bus_writes a [] = []"
  "bus_writes a (BusRead b v # t) = bus_writes a t"
  "bus_writes a (BusWrite b v # t) = (if b = a then v # bus_writes a t else bus_writes a t)"
  "bus_writes a (s @ t) = bus_writes a s @ bus_writes a t"
  by (simp_all add: bus_writes_def)

end
