(* ===== verification/Soc_Bus.thy ===== *)
theory Soc_Bus
  imports Soc_IO Register_Settings
begin

text \<open>
  Laws of the firmware's peripherals: what the UART routines put on the wire when the transmitter
  becomes ready within a bounded number of polls, and the framer chip as a register file behind
  the bus (the interpretation of \<open>register_file\<close> the configuration code is proved against).
\<close>

section \<open>UART\<close>

text \<open>The transmitter answers ready after at most \<open>k\<close> not-ready polls in a row.\<close>

definition uart_prompt :: "nat \<Rightarrow> environment \<Rightarrow> u32 \<Rightarrow> bool" where
  "uart_prompt k env p \<longleftrightarrow>
     (\<forall>t. \<exists>j\<le>k. env (t @ replicate j (BusRead (p + 5 * 4) 0)) (p + 5 * 4) \<noteq> 0)"

text \<open>What a UART routine may do: poll the status register and write the data register.\<close>

definition uart_only :: "u32 \<Rightarrow> bus_trace \<Rightarrow> bool" where
  "uart_only p d \<longleftrightarrow> (\<forall>ev\<in>set d. case ev of BusRead a _ \<Rightarrow> a = p + 5 * 4 | BusWrite a _ \<Rightarrow> a = p + 4 * 4)"

lemma uart_only_simps [simp]:
  "uart_only p []"
  "uart_only p (BusRead a v # d) \<longleftrightarrow> a = p + 5 * 4 \<and> uart_only p d"
  "uart_only p (BusWrite a v # d) \<longleftrightarrow> a = p + 4 * 4 \<and> uart_only p d"
  "uart_only p (d @ e) \<longleftrightarrow> uart_only p d \<and> uart_only p e"
  by (auto simp: uart_only_def)

lemma bus_writes_replicate_read [simp]: "bus_writes b (replicate j (BusRead a v)) = []"
  by (induction j) simp_all

lemma uart_only_replicate [simp]: "uart_only p (replicate j (BusRead (p + 20) v))"
  by (simp add: uart_only_def)

lemma uart_wait_polls:
  assumes "env (t @ replicate j (BusRead (p + 5 * 4) 0)) (p + 5 * 4) \<noteq> 0" and "j < fuel"
  shows "\<exists>i v. uart_wait fuel env p t =
    (Ok (), t @ replicate i (BusRead (p + 5 * 4) 0) @ [BusRead (p + 5 * 4) v])"
  using assms
proof (induction fuel arbitrary: t j)
  case (Suc fuel)
  let ?a = "p + 5 * 4"
  have step: "uart_wait (Suc fuel) env p t =
      (if env t ?a \<noteq> 0 then (Ok (), t @ [BusRead ?a (env t ?a)])
       else uart_wait fuel env p (t @ [BusRead ?a (env t ?a)]))"
    by (simp add: uart_tx_rdy_def prog_map_def bus_read_def prog_bind_def prog_return_def)
  show ?case
  proof (cases "env t ?a = 0")
    case False
    then show ?thesis
      unfolding step by (intro exI [of _ 0] exI [of _ "env t ?a"]) simp
  next
    case True
    then obtain i where j: "j = Suc i"
      using Suc.prems(1) by (cases j) simp_all
    let ?t = "t @ [BusRead ?a 0]"
    have "env (?t @ replicate i (BusRead ?a 0)) ?a \<noteq> 0" and "i < fuel"
      using Suc.prems by (simp_all add: j)
    from Suc.IH [OF this] obtain n v where
      "uart_wait fuel env p ?t = (Ok (), ?t @ replicate n (BusRead ?a 0) @ [BusRead ?a v])"
      by blast
    then have "uart_wait (Suc fuel) env p t =
        (Ok (), t @ replicate (Suc n) (BusRead ?a 0) @ [BusRead ?a v])"
      unfolding step using True by simp
    then show ?thesis by blast
  qed
qed simp

lemma emits_uart_write_char:
  assumes "uart_prompt k env p" and "k < fuel"
  shows "emits (uart_write_char fuel env p c)
    (\<lambda>_ d. bus_writes (p + 4 * 4) d = [ucast c] \<and> uart_only p d)"
proof -
  have "emits (uart_wait fuel env p) (\<lambda>_ d. bus_writes (p + 4 * 4) d = [] \<and> uart_only p d)"
  proof (rule emitsI)
    fix t
    obtain j where "j \<le> k" and "env (t @ replicate j (BusRead (p + 5 * 4) 0)) (p + 5 * 4) \<noteq> 0"
      using assms(1) by (auto simp: uart_prompt_def)
    with uart_wait_polls [of env t j p fuel] assms(2) obtain i v where
      "uart_wait fuel env p t =
        (Ok (), t @ replicate i (BusRead (p + 5 * 4) 0) @ [BusRead (p + 5 * 4) v])"
      by auto
    then show "\<exists>a d. uart_wait fuel env p t = (Ok a, t @ d)
        \<and> bus_writes (p + 4 * 4) d = [] \<and> uart_only p d"
      by (intro exI [of _ "()"] exI [of _ "replicate i (BusRead (p + 5 * 4) 0) @ [BusRead (p + 5 * 4) v]"])
        simp
  qed
  then show ?thesis
    unfolding uart_write_char_def uart_tx_data_def
    by (intro emits_then, elim emits_mono) (auto intro: emits_write)
qed

lemma emits_uart_chars:
  assumes "uart_prompt k env p" and "k < fuel"
  shows "emits (for_each cs (uart_write_char fuel env p))
    (\<lambda>_ d. bus_writes (p + 4 * 4) d = map ucast cs \<and> uart_only p d)"
proof (induction cs)
  case (Cons c cs)
  have "emits (uart_write_char fuel env p c) (\<lambda>_ d. emits (for_each cs (uart_write_char fuel env p))
      (\<lambda>_ d'. bus_writes (p + 4 * 4) (d @ d') = map ucast (c # cs) \<and> uart_only p (d @ d')))"
    by (rule emits_mono [OF emits_uart_write_char [OF assms]], rule emits_mono [OF Cons]) simp
  then show ?case by (simp add: emits_then)
qed (simp add: emits_return)

lemma uart_hex_loop_chars:
  "uart_hex_loop fuel env p n x =
    for_each (map (\<lambda>i. HEXCHAR ! unat (drop_bit 28 (push_bit (4 * i) x))) [0..<n])
      (uart_write_char fuel env p)"
proof (induction n arbitrary: x)
  case (Suc n)
  have "map (\<lambda>i. HEXCHAR ! unat (drop_bit 28 (push_bit (4 * i) x))) [0..<Suc n] =
      HEXCHAR ! unat (drop_bit 28 x) #
      map (\<lambda>i. HEXCHAR ! unat (drop_bit 28 (push_bit (4 * i) (push_bit 4 x)))) [0..<n]"
    by (simp only: upt_conv_Cons [OF zero_less_Suc] map_Suc_upt [symmetric] list.map map_map)
      (simp add: o_def algebra_simps)
  then show ?case by (simp only: uart_hex_loop.simps Suc.IH for_each_simps)
qed simp

lemma top_nibble_shifted:
  assumes "k \<le> 28"
  shows "unat (drop_bit 28 (push_bit k (v :: u32))) = unat v div 2 ^ (28 - k) mod 16"
proof -
  have "drop_bit 28 (push_bit k v) = take_bit 4 (drop_bit (28 - k) v)"
    using assms by (intro bit_word_eqI) (auto simp: bit_simps)
  then have "unat (drop_bit 28 (push_bit k v)) = take_bit 4 (unat v div 2 ^ (28 - k))"
    by (simp only: unsigned_take_bit_eq unat_drop_bit_eq) (simp only: drop_bit_eq_div)
  then show ?thesis by (simp add: take_bit_eq_mod)
qed

text \<open>
  C40: if the transmitter becomes ready within \<open>k\<close> polls, every hexadecimal print with more than \<open>k\<close>
  fuel returns, and the bytes it sends are the low \<open>digits\<close> hexadecimal digits of the value, most
  significant first.
\<close>

theorem uart_write_hex_digits:
  assumes "uart_prompt k env p" and "k < fuel" and "digits \<le> 8"
  shows "\<exists>d. uart_write_hex fuel env p v digits t = (Ok (), t @ d) \<and> uart_only p d \<and>
    bus_writes (p + 4 * 4) d =
      map (\<lambda>i. ucast (HEXCHAR ! (unat v div 16 ^ (digits - 1 - i) mod 16))) [0..<digits]"
proof -
  have nibble: "HEXCHAR ! unat (drop_bit 28 (push_bit (4 * i) (push_bit ((8 - digits) * 4) v))) =
      HEXCHAR ! (unat v div 16 ^ (digits - 1 - i) mod 16)" if "i < digits" for i
  proof -
    have "28 - (4 * i + (8 - digits) * 4) = 4 * (digits - 1 - i)" and "4 * i + (8 - digits) * 4 \<le> 28"
      using that assms(3) by simp_all
    then show ?thesis
      using top_nibble_shifted [of "4 * i + (8 - digits) * 4" v] by (simp add: power_mult)
  qed
  have "map (\<lambda>i. HEXCHAR ! unat (drop_bit 28 (push_bit (4 * i) (push_bit ((8 - digits) * 4) v))))
      [0..<digits] = map (\<lambda>i. HEXCHAR ! (unat v div 16 ^ (digits - 1 - i) mod 16)) [0..<digits]"
    by (rule map_cong [OF refl]) (simp only: nibble atLeastLessThan_iff set_upt)
  then have eq: "uart_write_hex fuel env p v digits =
      for_each (map (\<lambda>i. HEXCHAR ! (unat v div 16 ^ (digits - 1 - i) mod 16)) [0..<digits])
        (uart_write_char fuel env p)"
    by (simp only: uart_write_hex_def uart_hex_loop_chars)
  show ?thesis
    unfolding eq by (rule emitsE [OF emits_uart_chars [OF assms(1,2)]]) (auto simp: o_def)
qed

theorem uart_write_hex_digits_witness:
  "\<exists>d. uart_write_hex 2 (\<lambda>t a. 1) 0x80000000 0xbeef 4 [] = (Ok (), [] @ d) \<and> uart_only 0x80000000 d \<and>
    bus_writes (0x80000000 + 4 * 4) d = [0x62, 0x65, 0x65, 0x66]"
proof -
  have "uart_prompt 0 (\<lambda>t a. 1) 0x80000000"
    by (simp add: uart_prompt_def)
  from uart_write_hex_digits [OF this, of 2 4 "0xbeef" "[]"] show ?thesis
    by (simp add: upt_rec HEXCHAR_def)
qed

section \<open>The chip as a register file\<close>

text \<open>The last value written to an address, or its value at reset.\<close>

fun ram_value :: "(u32 \<Rightarrow> u32) \<Rightarrow> bus_trace \<Rightarrow> u32 \<Rightarrow> u32" where
  "ram_value mem [] a = mem a"
| "ram_value mem (BusRead b v # t) a = ram_value mem t a"
| "ram_value mem (BusWrite b v # t) a = ram_value (mem(b := v)) t a"

text \<open>
  An environment in which the bus addresses \<open>P\<close> are plain storage; \<open>other\<close> answers everywhere else
  (status registers, FIFOs, the other peripherals), in any way.
\<close>

definition chip_environment ::
  "u32 set \<Rightarrow> (u32 \<Rightarrow> u32) \<Rightarrow> environment \<Rightarrow> environment" where
  "chip_environment P mem other t a = (if a \<in> P then ram_value mem t a else other t a)"

lemma ram_value_append [simp]:
  "ram_value mem (t @ [BusRead b v]) a = ram_value mem t a"
  "ram_value mem (t @ [BusWrite b v]) a = (if a = b then v else ram_value mem t a)"
  by (induction mem t a rule: ram_value.induct) auto

lemma framer_address_inj: "framer_address p a = framer_address p b \<longleftrightarrow> a = b"
proof
  assume "framer_address p a = framer_address p b"
  then have "unat (4 * (ucast a :: u32)) = unat (4 * (ucast b :: u32))"
    by (simp add: framer_address_def)
  then have "4 * unat a = 4 * unat b"
    using unat_u16_lt [of a] unat_u16_lt [of b] by (simp add: unat_word_ariths unat_ucast_u16_u32)
  then show "a = b" by (simp add: word_unat_eq_iff)
qed simp

definition chip_reg :: "(u32 \<Rightarrow> u32) \<Rightarrow> u32 \<Rightarrow> bus_trace \<Rightarrow> u16 \<Rightarrow> u8" where
  "chip_reg mem p t a = ucast (ram_value mem t (framer_address p a))"

interpretation soc_chip: register_file
  "soc_device (chip_environment (framer_address p ` plain) mem other) p" "chip_reg mem p" plain
  for p :: u32 and mem :: "u32 \<Rightarrow> u32" and other :: environment and plain :: "u16 set"
proof unfold_locales
  fix a :: u16 and v :: u8 and t
  let ?D = "soc_device (chip_environment (framer_address p ` plain) mem other) p"
  assume "a \<in> plain"
  then show "\<exists>s'. xyz_register_read ?D a t = (Ok (chip_reg mem p t a), s')
    \<and> (\<forall>b\<in>plain. chip_reg mem p s' b = chip_reg mem p t b)"
    by (simp add: framer_access_read_def prog_map_def bus_read_def prog_bind_def prog_return_def
        chip_environment_def chip_reg_def)
  show "\<exists>s'. xyz_register_write ?D a v t = (Ok (), s')
    \<and> (\<forall>b\<in>plain. chip_reg mem p s' b = ((chip_reg mem p t)(a := v)) b)"
    by (simp add: framer_access_write_def bus_write_def framer_address_inj chip_reg_def)
next
  fix a :: u16 and t
  let ?D = "soc_device (chip_environment (framer_address p ` plain) mem other) p"
  show "\<exists>v s'. xyz_register_read ?D a t = (Ok v, s')
    \<and> (\<forall>b\<in>plain. chip_reg mem p s' b = chip_reg mem p t b)"
    by (simp add: framer_access_read_def prog_map_def bus_read_def prog_bind_def prog_return_def
        chip_reg_def)
qed

end
