(* ===== verification/Soc_Configure.thy ===== *)
theory Soc_Configure
  imports Register_Settings Memory_Map Soc_Bus
begin

text \<open>
  The configuration half of \<^verbatim>\<open>tedium-soc/src/main.rs\<close>: \<open>configure_timeslot\<close>, \<open>configure_channel\<close>,
  \<open>configure\<close> and \<open>enable_interrupts\<close>, statement by statement, and the register values they leave
  behind. Code under \<open>if false\<close> and commented-out code is not there; \<open>if true\<close> blocks are.
\<close>

section \<open>The routines\<close>

definition configure_timeslot :: "('s, 'e) xyz \<Rightarrow> nat \<Rightarrow> nat \<Rightarrow> ('s, 'e, unit) prog" where
  "configure_timeslot D c t = seq_all
     [access_write D (ts_tccr c t)
        [(''LAPDcntl'', TransmitLAPDSource_bits TransmitLAPDSource_TSDLSR_TxDE),
         (''TxZERO'', ZeroCodeSuppression_bits ZeroCodeSuppression_None),
         (''TxCOND'', ChannelConditioning_bits ChannelConditioning_Unchanged)],
      access_write D (ts_tucr c t)
        [(''TUCR'', 0b00010111)],
      access_write D (ts_tscr c t)
        [(''A_x'', 0), (''B_y'', 1), (''C_x'', 0), (''D_x'', 1), (''Rob_Enb'', 1),
         (''TxSIGSRC'', ChannelSignalingSource_bits ChannelSignalingSource_TSCR)],
      access_write D (ts_rccr c t)
        [(''LAPDcntl'', ReceiveLAPDSource_bits ReceiveLAPDSource_RSDLSR_RxDE),
         (''RxZERO'', ZeroCodeSuppression_bits ZeroCodeSuppression_None),
         (''RxCOND'', ChannelConditioning_bits ChannelConditioning_Unchanged)],
      access_write D (ts_rucr c t)
        [(''RxUSER'', 0b11111111)],
      access_write D (ts_rscr c t)
        [(''SIGC_ENB'', 0), (''OH_ENB'', 0), (''DEB_ENB'', 1),
         (''RxSIGC'', ReceiveSignalingConditioning_bits ReceiveSignalingConditioning_SixteenCode_ABCD),
         (''RxSIGE'', ReceiveSignalingExtraction_bits ReceiveSignalingExtraction_SixteenCode_ABCD)],
      access_write D (ts_rssr c t)
        [(''SIG_16A_4A_2A'', 0), (''SIG_16B_4B_2A'', 0), (''SIG_16C_4A_2A'', 0),
         (''SIG_16D_4B_2A'', 0)]]"

definition configure_channel :: "('s, 'e) xyz \<Rightarrow> nat \<Rightarrow> ('s, 'e, unit) prog" where
  "configure_channel D c = seq_all
     [access_write D (ch_csr c)
        [(''LCV_Insert'', 0), (''Set_T1_Mode'', 1),
         (''Sync_All_Transmitters_to_8kHz'', 0), (''Clock_Loss_Detect'', 1),
         (''CSS'', ClockSource_bits ClockSource_External)],
      access_write D (ch_licr c)
        [(''FORCE_LOS'', 0), (''Single_Rail_Mode'', 0),
         (''LB'', FramerLoopback_bits FramerLoopback_No), (''Encode_B8ZS'', 0),
         (''Decode_AMI_B8ZS'', 0)],
      access_write D (ch_fsr c)
        [(''Signaling_update_on_Superframe_Boundaries'', 1), (''Force_CRC_Errors'', 0),
         (''J1_MODE'', 0), (''ONEONLY'', 1), (''FASTSYNC'', 0),
         (''FSI'', T1Framing_bits T1Framing_ExtendedSuperFrame)],
      access_write D (ch_smr c)
        [(''MFRAMEALIGN'', 0), (''MSYNC'', 0), (''Transmit_Frame_Sync_Select'', 0),
         (''CRC6_Bits_Source_Select'', 0), (''Framing_Bits_Source_Select'', 0)],
      access_write D (ch_fcr c)
        [(''Reframe'', 0), (''Framing_with_CRC_Checking'', 1), (''LOF_Tolerance'', 2),
         (''LOF_Range'', 5)],
      access_modify D (ch_dlcr1 c)
        [(''SLC96_Data_Link_Enable'', 0), (''MOS_ABORT_Disable'', 0), (''Rx_FCS_DIS'', 0),
         (''AutoRx'', 0), (''Tx_ABORT'', 0), (''Tx_IDLE'', 0), (''Tx_FCS_EN'', 0),
         (''MOS_BOSn'', 1)],
      access_modify D (ch_tsprmcr c)
        [(''FC_Bit'', 0), (''PA_Bit'', 0), (''U1_Bit'', 0), (''U2_Bit'', 0),
         (''R_Bit'', 0b0000)],
      access_modify D (ch_prcr c)
        [(''LBO_ADJ_ENB'', 0), (''FAR_END'', 0), (''NPRM'', 0b00), (''C_R_Bit'', 0),
         (''APCR'', AutomaticPerformanceReport_bits AutomaticPerformanceReport_EverySecond)],
      access_write D (ch_sbcr c)
        [(''TxSB_ISFIFO'', 0), (''SB_FORCESF'', 0), (''SB_SFENB'', 0), (''SB_SDIR'', 1),
         (''SB_ENB'', ReceiveSlipBuffer_bits ReceiveSlipBuffer_SlipBuffer)],
      access_write D (ch_ticr c)
        [(''TxSyncFrD'', 0), (''TxPLClkEnb_TxSync_Is_Low'', 0), (''TxFr1544'', 0),
         (''TxICLKINV'', 0), (''TxIMODE'', 0b00)],
      access_write D (ch_ricr c)
        [(''RxSyncFrD'', 0), (''RxPLClkEnb_RxSync_Is_Low'', 0), (''RxFr1544'', 1),
         (''RxICLKINV'', 0), (''RxMUXEN'', 0), (''RxIMODE'', 0b00)],
      access_write D (ch_liuccr0 c)
        [(''QRSS_n_PRBS_n'', PRBSPattern_bits PRBSPattern_PRBS),
         (''PRBS_Rx_n_PRBS_Tx_n'', PRBSDestination_bits PRBSDestination_TTIP_TRING),
         (''RXON_n'', 1), (''EQC'', 0x08)],
      access_write D (ch_liuccr1 c)
        [(''RXTSEL_n'', Termination_bits Termination_Internal),
         (''TXTSEL_n'', Termination_bits Termination_Internal),
         (''TERSEL'', TerminationImpedance_bits TerminationImpedance_Ohms100),
         (''RxJASEL_n'', 1), (''TxJASEL_n'', 1), (''JABW_n'', 0), (''FIFOS_n'', 0)],
      access_write D (ch_liuccr2 c)
        [(''INVQRSS_n'', 0),
         (''TXTEST'', TransmitTestPattern_bits TransmitTestPattern_None), (''TXON_n'', 1),
         (''LOOP2_n'', LIULoopback_bits LIULoopback_None)],
      for_each timeslots (configure_timeslot D c)]"

definition configure :: "('s, 'e) xyz \<Rightarrow> ('s, 'e, unit) prog" where
  "configure D = seq_all
     [access_write D dev_liugcr4
        [(''CLKSEL'', ClockSelect_bits ClockSelect_M16_384)],
      for_each channels (configure_channel D)]"

text \<open>The block \<open>if clear_interrupts\<close> at the end of \<open>enable_interrupts\<close>.\<close>

definition clear_pending_interrupts :: "('s, 'e) xyz \<Rightarrow> nat \<Rightarrow> ('s, 'e, unit) prog" where
  "clear_pending_interrupts D c = seq_all
     [prog_ignore (access_read D (ch_dlsr1 c)),
      prog_ignore (access_read D (ch_dlsr2 c)),
      prog_ignore (access_read D (ch_dlsr3 c)),
      prog_ignore (access_read D (ch_rdlbcr1 c)),
      prog_ignore (access_read D (ch_rdlbcr2 c)),
      prog_ignore (access_read D (ch_rdlbcr3 c)),
      for_each [0..<96] (\<lambda>_. seq_all
        [prog_ignore (access_read D (ch_lapdbcr0 c 0)),
         prog_ignore (access_read D (ch_lapdbcr1 c 0))]),
      prog_ignore (access_read D (ch_ss7sr1 c)),
      prog_ignore (access_read D (ch_ss7sr2 c)),
      prog_ignore (access_read D (ch_ss7sr3 c)),
      prog_ignore (access_read D (ch_sbisr c)),
      prog_ignore (access_read D (ch_aeisr c)),
      prog_ignore (access_read D (ch_exzsr c)),
      prog_ignore (access_read D (ch_ciasr c)),
      prog_ignore (access_read D (ch_fisr c))]"

definition enable_interrupts :: "('s, 'e) xyz \<Rightarrow> nat \<Rightarrow> ('s, 'e, unit) prog" where
  "enable_interrupts D c = seq_all
     [access_write D (ch_bier c)
        [(''LBCODE_ENB'', 0), (''RXCLKLOSS'', 0), (''ONESEC_ENB'', 0), (''HDLC_ENB'', 0),
         (''SLIP_ENB'', 0), (''ALARM_ENB'', 0), (''T1FRAME_ENB'', 0)],
      access_modify D (ch_agr c)
        [(''Transmit_AIS_Pattern_Select'', TransmitAISPattern_bits TransmitAISPattern_Disable),
         (''AIS_Defect_Declaration_Criteria'', AISDetection_bits AISDetection_UnframedAndFramed)],
      access_modify D (ch_agr c)
        [(''Yellow_Alarm_One_Second_Rule'', 1), (''ALARM_ENB'', 0), (''YEL'', 0b01)],
      access_modify D (ch_ciagr c)
        [(''CIAD'', 0b10)],
      access_modify D (ch_icr c)
        [(''INT_WC_RUR'', 0), (''ENBCLR'', 0), (''INTRUP_ENB'', 1)],
      access_modify D (ch_bier c)
        [(''LBCODE_ENB'', 0), (''RXCLKLOSS'', 0), (''ONESEC_ENB'', 0), (''HDLC_ENB'', 1),
         (''SLIP_ENB'', 1), (''ALARM_ENB'', 1), (''T1FRAME_ENB'', 1)],
      access_modify D (ch_aeier c)
        [(''LCV_ENB'', 1), (''RxOOF_ENB'', 1), (''RxAIS_ENB'', 1), (''RxYEL_ENB'', 1)],
      access_modify D (ch_fier c)
        [(''DS0_ENB'', 1), (''SIG_ENB'', 1), (''COFA_ENB'', 1), (''OOF_ENB'', 1),
         (''FMD_ENB'', 1), (''SE_ENB'', 1), (''FE_ENB'', 1)],
      access_modify D (ch_dlier1 c)
        [(''TxSOT_ENB'', 0), (''RxSOT_ENB'', 0), (''TxEOT_ENB'', 0), (''RxEOT_ENB'', 1),
         (''FCS_ERR_ENB'', 0), (''RxIDLE_ENB'', 0)],
      access_modify D (ch_sbier c)
        [(''TxFULL_ENB'', 1), (''TxEMPT_ENB'', 1), (''TxSLIP_ENB'', 1),
         (''RxFULL_ENB'', 1), (''RxEMPT_ENB'', 1), (''RxSLIP_ENB'', 1)],
      access_modify D (ch_exzer c)
        [(''EXZ_ENB'', 1)],
      access_modify D (ch_ss7er1 c)
        [(''SS7_ENB'', 0)],
      access_modify D (ch_rlcier c)
        [(''RxLOS_ENB'', 0)],
      access_modify D (ch_ciaier c)
        [(''RxAIS_CI_ENB'', 0), (''RxRAI_CI_ENB'', 0)],
      access_modify D (ch_bocier c)
        [(''RMTCH3'', 0), (''RMTCH2'', 0), (''BOCC'', 0), (''RFDLAD'', 0), (''RFDLF'', 0),
         (''TFDLE'', 0), (''RMTCH1'', 0), (''RBOC'', 0)],
      access_modify D (ch_bocuier c)
        [(''Unstable'', 0)],
      access_modify D (ch_liuccier c)
        [(''DMOIE_n'', 0), (''FLSIE_n'', 0), (''LCVIE_n'', 0), (''NLCDIE_n'', 0),
         (''AISDIE_n'', 0), (''RLOSIE_n'', 0), (''QRPDIE_n'', 0)],
      clear_pending_interrupts D c]"

section \<open>The register values\<close>

text \<open>
  Address, bits kept and bits set, as one reads them off the data sheet. \<open>interrupt_writes\<close> lists
  the writes of \<open>enable_interrupts\<close> in order (two registers are written twice),
  \<open>interrupt_settings\<close> what they amount to.
\<close>

definition timeslot_settings :: "nat \<Rightarrow> nat \<Rightarrow> setting list" where
  "timeslot_settings c t =
    [(of_nat (0x1000 * c + (0x300 + t)), 0x00, 0x80),
     (of_nat (0x1000 * c + (0x320 + t)), 0x00, 0x17),
     (of_nat (0x1000 * c + (0x340 + t)), 0x00, 0x55),
     (of_nat (0x1000 * c + (0x360 + t)), 0x00, 0x80),
     (of_nat (0x1000 * c + (0x380 + t)), 0x00, 0xff),
     (of_nat (0x1000 * c + (0x3a0 + t)), 0x00, 0x15),
     (of_nat (0x1000 * c + (0x3c0 + t)), 0x00, 0x00)]"

definition channel_settings :: "nat \<Rightarrow> setting list" where
  "channel_settings c =
    [(of_nat (0x1000 * c + 0x100), 0x00, 0x51),
     (of_nat (0x1000 * c + 0x101), 0x00, 0x00),
     (of_nat (0x1000 * c + 0x107), 0x00, 0x90),
     (of_nat (0x1000 * c + 0x109), 0x00, 0x00),
     (of_nat (0x1000 * c + 0x10b), 0x00, 0x55),
     (of_nat (0x1000 * c + 0x113), 0x00, 0x01),
     (of_nat (0x1000 * c + 0x142), 0x00, 0x00),
     (of_nat (0x1000 * c + 0x11d), 0x40, 0x02),
     (of_nat (0x1000 * c + 0x116), 0x00, 0x05),
     (of_nat (0x1000 * c + 0x120), 0x00, 0x00),
     (of_nat (0x1000 * c + 0x122), 0x00, 0x10),
     (of_nat (0xf00 + 16 * c + 0x0), 0x00, 0x28),
     (of_nat (0xf00 + 16 * c + 0x1), 0x00, 0xcc),
     (of_nat (0xf00 + 16 * c + 0x2), 0x00, 0x08)]"

definition configured_settings :: "setting list" where
  "configured_settings = (0xfe9, 0x00, 0x0c) #
     concat (map (\<lambda>c. channel_settings c @ concat (map (timeslot_settings c) timeslots)) channels)"

definition interrupt_writes :: "nat \<Rightarrow> setting list" where
  "interrupt_writes c =
    [(of_nat (0x1000 * c + 0xb01), 0x00, 0x00),
     (of_nat (0x1000 * c + 0x108), 0xf0, 0x01),
     (of_nat (0x1000 * c + 0x108), 0x0f, 0x90),
     (of_nat (0x1000 * c + 0x11c), 0xfc, 0x02),
     (of_nat (0x1000 * c + 0x11a), 0xf8, 0x01),
     (of_nat (0x1000 * c + 0xb01), 0x80, 0x0f),
     (of_nat (0x1000 * c + 0xb03), 0xf0, 0x0f),
     (of_nat (0x1000 * c + 0xb05), 0x40, 0xbf),
     (of_nat (0x1000 * c + 0xb07), 0x82, 0x08),
     (of_nat (0x1000 * c + 0xb09), 0x18, 0xe7),
     (of_nat (0x1000 * c + 0xb0f), 0xfe, 0x01),
     (of_nat (0x1000 * c + 0xb11), 0xfe, 0x00),
     (of_nat (0x1000 * c + 0xb13), 0xf7, 0x00),
     (of_nat (0x1000 * c + 0xb41), 0xfc, 0x00),
     (of_nat (0x1000 * c + 0xb71), 0x00, 0x00),
     (of_nat (0x1000 * c + 0xb75), 0xbf, 0x00),
     (of_nat (0xf00 + 16 * c + 0x4), 0x80, 0x00)]"

section \<open>Every routine has its settings\<close>

lemma mask_u8: "mask 1 = (1 :: u8)" "mask (Suc 0) = (1 :: u8)" "mask 2 = (3 :: u8)" "mask 3 = (7 :: u8)"
  "mask 4 = (15 :: u8)" "mask 5 = (31 :: u8)" "mask 6 = (63 :: u8)" "mask 7 = (127 :: u8)" "mask 8 = (255 :: u8)"
  by (simp_all add: mask_eq_exp_minus_1)

lemmas setting_simps = setting_of_write_def access_simps access_framer_eq access_liu_eq
  timeslot_access_eq access_liu_global_eq layout_simps mask_u8 Let_def
  RSCR_MAP_def RDLBCR_MAP_def RLCISR_MAP_def RLCIER_MAP_def DLSR_MAP_def SS7SR_MAP_def

context register_file
begin

lemma configures_configure_timeslot:
  assumes "c < 8" and "t < 24" and "fst ` set (timeslot_settings c t) \<subseteq> plain"
  shows "configures (configure_timeslot D c t) (timeslot_settings c t)"
  using assms unfolding configure_timeslot_def timeslot_settings_def
  by (intro configures_seq_Cons configures_seq_Nil configures_write) (simp_all add: setting_simps)

lemma configures_clear_pending_interrupts:
  assumes "c < 8"
  shows "configures (clear_pending_interrupts D c) []"
  using assms unfolding clear_pending_interrupts_def
  by (intro configures_seq_read configures_seq_Nil configures_read configures_for_each_read)
    (simp_all add: setting_simps)

lemma configures_enable_interrupts:
  assumes "c < 8" and "fst ` set (interrupt_writes c) \<subseteq> plain"
  shows "configures (enable_interrupts D c) (interrupt_writes c)"
  using assms unfolding enable_interrupts_def interrupt_writes_def
  by (intro configures_seq_Cons configures_seq_read configures_seq_Nil configures_write
      configures_modify configures_clear_pending_interrupts) (simp_all add: setting_simps)

lemma configures_configure_channel:
  assumes "c < 8" and "fst ` set (channel_settings c @ concat (map (timeslot_settings c) timeslots)) \<subseteq> plain"
  shows "configures (configure_channel D c)
    (channel_settings c @ concat (map (timeslot_settings c) timeslots))"
proof -
  have ts: "configures (for_each timeslots (configure_timeslot D c))
      (concat (map (timeslot_settings c) timeslots))"
  proof (rule configures_for_each)
    fix t assume t: "t \<in> set timeslots"
    then have "set (timeslot_settings c t) \<subseteq>
        set (channel_settings c @ concat (map (timeslot_settings c) timeslots))" by auto
    then have "fst ` set (timeslot_settings c t) \<subseteq> plain"
      using assms(2) by (meson image_mono order_trans)
    with t assms(1) show "configures (configure_timeslot D c t) (timeslot_settings c t)"
      by (intro configures_configure_timeslot) (simp_all only: in_timeslots)
  qed
  have "fst ` set (channel_settings c) \<subseteq> plain"
    using assms(2) by auto
  with assms(1) show ?thesis
    unfolding configure_channel_def channel_settings_def append_Cons append_Nil
    by (intro configures_seq_Cons configures_seq_last configures_write configures_modify ts)
      (simp_all add: setting_simps)
qed

lemma configures_configure:
  assumes "fst ` set configured_settings \<subseteq> plain"
  shows "configures (configure D) configured_settings"
proof -
  have "configures (for_each channels (configure_channel D))
      (concat (map (\<lambda>c. channel_settings c @ concat (map (timeslot_settings c) timeslots)) channels))"
  proof (rule configures_for_each)
    fix c assume c: "c \<in> set channels"
    let ?sts = "channel_settings c @ concat (map (timeslot_settings c) timeslots)"
    have "set ?sts \<subseteq> set configured_settings"
      using c unfolding configured_settings_def by (auto simp del: append.simps)
    then have "fst ` set ?sts \<subseteq> plain"
      using assms by (meson image_mono order_trans)
    with c show "configures (configure_channel D c) ?sts"
      by (intro configures_configure_channel) (simp_all only: in_channels)
  qed
  moreover have "0xfe9 \<in> plain"
    using assms by (auto simp: configured_settings_def)
  ultimately show ?thesis
    unfolding configure_def configured_settings_def
    by (intro configures_seq_Cons configures_seq_last configures_write) (simp_all add: setting_simps)
qed

end

section \<open>The addresses are distinct\<close>

definition config_framer :: "nat list" where
  "config_framer = [0x100, 0x101, 0x107, 0x109, 0x10b, 0x113, 0x142, 0x11d, 0x116, 0x120, 0x122]"

definition config_timeslot :: "nat list" where
  "config_timeslot = concat (map (\<lambda>t. [0x300 + t, 0x320 + t, 0x340 + t, 0x360 + t, 0x380 + t,
     0x3a0 + t, 0x3c0 + t]) timeslots)"

definition config_addresses :: "nat \<Rightarrow> nat list" where
  "config_addresses c = map (\<lambda>off. 0x1000 * c + off) config_framer
     @ map (\<lambda>off. 0xf00 + 16 * c + off) [0, 1, 2] @ map (\<lambda>off. 0x1000 * c + off) config_timeslot"

lemma config_offsets_subset: "set config_framer \<union> set config_timeslot \<subseteq> set all_offsets"
proof -
  have "{0x300 + t, 0x320 + t, 0x340 + t, 0x360 + t, 0x380 + t, 0x3a0 + t, 0x3c0 + t}
      \<subseteq> set (timeslot_offsets t)" for t
    by (simp add: timeslot_offsets_def)
  then have "set config_timeslot \<subseteq> set (concat (map timeslot_offsets timeslots))"
    unfolding config_timeslot_def by fastforce
  moreover have "set config_framer \<subseteq> set framer_offsets"
    by (simp add: config_framer_def framer_offsets_def)
  ultimately show ?thesis
    unfolding all_offsets_def set_append by blast
qed

lemma config_addresses_subset: "set (config_addresses c) \<subseteq> set (channel_addresses c)"
proof -
  have "set (channel_addresses c) =
      (\<lambda>off. 0x1000 * c + off) ` set all_offsets \<union> (\<lambda>off. 0xf00 + 16 * c + off) ` set liu_offsets"
    by (auto simp: channel_addresses_def all_offsets_def)
  moreover have "set (config_addresses c) = (\<lambda>off. 0x1000 * c + off) ` (set config_framer \<union> set config_timeslot)
      \<union> (\<lambda>off. 0xf00 + 16 * c + off) ` {0, 1, 2}"
    by (auto simp: config_addresses_def)
  moreover have "{0, 1, 2} \<subseteq> set liu_offsets"
    by (simp add: liu_offsets_def)
  ultimately show ?thesis
    using config_offsets_subset by (simp only: Un_mono image_mono)
qed

lemma distinct_config_offsets: "distinct (config_framer @ config_timeslot)"
proof -
  have "distinct config_timeslot"
    unfolding config_timeslot_def
    by (rule distinct_concat_key [where key = timeslot_of])
      (simp only: timeslots_def distinct_upt, simp,
        rule timeslot_offsets_facts(2), simp only: in_timeslots, auto simp: timeslot_offsets_def)
  moreover have "distinct config_framer"
    by (simp add: config_framer_def)
  moreover have "\<forall>x\<in>set config_framer. x < 0x300" and "\<forall>x\<in>set config_timeslot. 0x300 \<le> x"
    by (auto simp: config_framer_def config_timeslot_def)
  ultimately show ?thesis
    by fastforce
qed

lemma distinct_config_addresses:
  assumes "c < 8"
  shows "distinct (config_addresses c)"
proof -
  have "0x100 \<le> off \<and> off < 0xf00" if "off \<in> set config_framer \<union> set config_timeslot" for off
  proof -
    have "off \<in> set all_offsets" using that config_offsets_subset by blast
    then show ?thesis using all_offsets_facts(2) by (simp add: list_all_iff)
  qed
  then have neq: "0x1000 * c + off \<noteq> 0xf00 + 16 * c + l"
    if "off \<in> set config_framer \<union> set config_timeslot" "l < 16" for off l
    using that assms by (cases "c = 0") fastforce+
  have "set (map (\<lambda>off. 0x1000 * c + off) (config_framer @ config_timeslot))
      \<inter> set (map (\<lambda>off. 0xf00 + 16 * c + off) [0, 1, 2]) = {}"
    using neq [of _ 0] neq [of _ 1] neq [of _ 2] by (auto simp: image_iff)
  moreover have "distinct (map (\<lambda>off. 0x1000 * c + off) (config_framer @ config_timeslot))"
    using distinct_config_offsets by (simp only: distinct_map) simp
  moreover have "distinct (map (\<lambda>off. 0xf00 + 16 * c + off) [0, 1, 2 :: nat])"
    by simp
  ultimately show ?thesis
    unfolding config_addresses_def map_append distinct_append set_append by blast
qed

lemma setting_addresses:
  "map fst (timeslot_settings c t) = map (\<lambda>off. of_nat (0x1000 * c + off))
     [0x300 + t, 0x320 + t, 0x340 + t, 0x360 + t, 0x380 + t, 0x3a0 + t, 0x3c0 + t]"
  "map fst (channel_settings c) = map of_nat (map (\<lambda>off. 0x1000 * c + off) config_framer
     @ map (\<lambda>off. 0xf00 + 16 * c + off) [0, 1, 2])"
  by (simp_all add: timeslot_settings_def channel_settings_def config_framer_def)

lemma configured_addresses:
  "map fst configured_settings = map of_nat (0xfe9 # concat (map config_addresses channels))"
proof -
  have "map fst (channel_settings c @ concat (map (timeslot_settings c) timeslots)) =
      map of_nat (config_addresses c)" for c
    unfolding map_append map_concat config_addresses_def config_timeslot_def
    by (simp add: setting_addresses(2) map_concat comp_def setting_addresses(1) [unfolded comp_def])
  then show ?thesis
    by (simp add: configured_settings_def map_concat comp_def)
qed

lemma distinct_configured: "distinct (map fst configured_settings)"
proof -
  let ?as = "0xfe9 # concat (map config_addresses channels)"
  have key: "channel_of a = c \<and> a < 65536 \<and> a \<noteq> 0xfe9" if "c < 8" "a \<in> set (config_addresses c)" for a c
    using channel_of_address [of c a] config_addresses_subset [of c] that
    by (auto simp: device_addresses_def)
  have "distinct (concat (map config_addresses channels))"
    by (rule distinct_concat_key [where key = channel_of])
      (simp only: channels_def distinct_upt, simp only: in_channels distinct_config_addresses,
        simp only: in_channels key)
  moreover have "0xfe9 \<notin> set (concat (map config_addresses channels))"
    using key by (fastforce simp: in_channels)
  ultimately have "distinct ?as" by simp
  moreover have "set ?as \<subseteq> {..<65536}"
    using key by (auto simp: in_channels)
  ultimately show ?thesis
    unfolding configured_addresses distinct_map
    using inj_on_subset [OF of_nat_u16_inj] by blast
qed

section \<open>The configuration as a whole\<close>

text \<open>
  C2: configuration. On a chip whose configured registers are plain storage (everything else may
  answer in any way), \<open>configure\<close> returns without error or panic; afterwards every register of the
  settings table holds its value (kept bits included), and no other control register has changed.
\<close>

theorem configure_registers:
  assumes "fst ` set configured_settings \<subseteq> plain"
  shows "\<exists>t'. configure (soc_device (chip_environment (framer_address p ` plain) mem other) p) t = (Ok (), t')
    \<and> (\<forall>(a, kv) \<in> set configured_settings. chip_reg mem p t' a = masked kv (chip_reg mem p t a))
    \<and> (\<forall>a \<in> plain - fst ` set configured_settings. chip_reg mem p t' a = chip_reg mem p t a)"
proof -
  have "soc_chip.configures mem p plain
      (configure (soc_device (chip_environment (framer_address p ` plain) mem other) p)) configured_settings"
    by (rule soc_chip.configures_configure [OF assms])
  note result = soc_chip.configures_result [OF this distinct_configured, of t]
  have "fst st \<in> plain" if "st \<in> set configured_settings" for st
    using assms that by blast
  then have "\<forall>(a, kv) \<in> set configured_settings. a \<in> plain"
    by auto
  with result show ?thesis by (simp add: split_beta Ball_def) blast
qed

text \<open>Channel 3 of a chip that comes up with all registers zero.\<close>

theorem configure_registers_witness:
  "\<exists>t'. configure (soc_device (chip_environment (framer_address 0x80100000 ` UNIV) (\<lambda>_. 0) (\<lambda>_ _. 0))
      0x80100000) [] = (Ok () :: (soc_error, unit) outcome, t')
    \<and> chip_reg (\<lambda>_. 0) 0x80100000 t' 0x3100 = 0x51"
proof -
  have "(of_nat (0x1000 * 3 + 0x100), 0x00, 0x51) \<in> set (channel_settings 3)"
    by (simp add: channel_settings_def)
  then have "(0x3100, 0x00, 0x51) \<in> set (channel_settings 3)"
    by simp
  moreover have "3 \<in> set channels"
    by (simp only: in_channels)
  ultimately have mem: "(0x3100, 0x00, 0x51) \<in> set configured_settings"
    unfolding configured_settings_def by (auto simp del: of_nat_numeral)
  obtain t' where ok: "configure (soc_device (chip_environment (framer_address 0x80100000 ` UNIV) (\<lambda>_. 0)
      (\<lambda>_ _. 0)) 0x80100000) [] = (Ok () :: (soc_error, unit) outcome, t')"
    and regs: "\<forall>(a, kv) \<in> set configured_settings. chip_reg (\<lambda>_. 0) 0x80100000 t' a
      = masked kv (chip_reg (\<lambda>_. 0) 0x80100000 [] a)"
    using configure_registers [of UNIV "0x80100000" "\<lambda>_. 0" "\<lambda>_ _. 0" "[]"] by blast
  from regs mem have "chip_reg (\<lambda>_. 0) 0x80100000 t' 0x3100 = 0x51"
    by (auto simp: masked_def chip_reg_def dest!: bspec)
  with ok show ?thesis by blast
qed

section \<open>Interrupt enables\<close>

definition interrupt_settings :: "nat \<Rightarrow> setting list" where
  "interrupt_settings c =
    [(of_nat (0x1000 * c + 0x108), 0x00, 0x91),
     (of_nat (0x1000 * c + 0x11c), 0xfc, 0x02),
     (of_nat (0x1000 * c + 0x11a), 0xf8, 0x01),
     (of_nat (0x1000 * c + 0xb01), 0x00, 0x0f),
     (of_nat (0x1000 * c + 0xb03), 0xf0, 0x0f),
     (of_nat (0x1000 * c + 0xb05), 0x40, 0xbf),
     (of_nat (0x1000 * c + 0xb07), 0x82, 0x08),
     (of_nat (0x1000 * c + 0xb09), 0x18, 0xe7),
     (of_nat (0x1000 * c + 0xb0f), 0xfe, 0x01),
     (of_nat (0x1000 * c + 0xb11), 0xfe, 0x00),
     (of_nat (0x1000 * c + 0xb13), 0xf7, 0x00),
     (of_nat (0x1000 * c + 0xb41), 0xfc, 0x00),
     (of_nat (0x1000 * c + 0xb71), 0x00, 0x00),
     (of_nat (0x1000 * c + 0xb75), 0xbf, 0x00),
     (of_nat (0xf00 + 16 * c + 0x4), 0x80, 0x00)]"

lemma apply_setting_merge:
  "apply_setting (a, k', v') (apply_setting (a, k, v) R) = apply_setting (a, k AND k', (v AND k') OR v') R"
proof -
  have "masked (k', v') (masked (k, v) b) = masked (k AND k', (v AND k') OR v') b" for b
    unfolding masked_def by (rule bit_word_eqI) (auto simp: bit_simps)
  then show ?thesis by (simp add: apply_setting_def)
qed

lemma apply_setting_commute:
  "fst st \<noteq> fst st' \<Longrightarrow> apply_setting st' (apply_setting st R) = apply_setting st (apply_setting st' R)"
  by (auto simp: apply_setting_def)

lemma fold_interrupt_writes: "fold apply_setting (interrupt_writes c) R = fold apply_setting (interrupt_settings c) R"
proof -
  have 1: "apply_setting (x + 0x108, 0x0f, 0x90) (apply_setting (x + 0x108, 0xf0, 0x01) S) =
      apply_setting (x + 0x108, 0x00, 0x91) S" for x S
    by (simp add: apply_setting_merge)
  have 2: "apply_setting (x + 0xb01, 0x80, 0x0f) (apply_setting (x + 0x11a, ka) (apply_setting (x + 0x11c, kb)
      (apply_setting (x + 0x108, kc) (apply_setting (x + 0xb01, 0x00, 0x00) S)))) =
      apply_setting (x + 0xb01, 0x00, 0x0f) (apply_setting (x + 0x11a, ka) (apply_setting (x + 0x11c, kb)
      (apply_setting (x + 0x108, kc) S)))" for x ka kb kc S
    by (simp add: apply_setting_commute [of "(x + 0xb01, 0x00, 0x00)"] apply_setting_merge)
  show ?thesis
    by (simp only: interrupt_writes_def interrupt_settings_def fold.simps o_apply id_apply
        of_nat_add of_nat_mult of_nat_numeral 1 2)
qed

lemma distinct_framer_liu:
  assumes "c < 8" and "distinct F" and "\<And>off. off \<in> set F \<Longrightarrow> 0x100 \<le> off \<and> off < 0xf00"
    and "distinct L" and "\<And>l. l \<in> set L \<Longrightarrow> l < 16"
  shows "distinct (map of_nat (map (\<lambda>off. 0x1000 * c + off) F @ map (\<lambda>l. 0xf00 + 16 * c + l) L) :: u16 list)"
proof -
  let ?as = "map (\<lambda>off. 0x1000 * c + off) F @ map (\<lambda>l. 0xf00 + 16 * c + l) L"
  have neq: "0x1000 * c + off \<noteq> 0xf00 + 16 * c + l" if "off \<in> set F" "l \<in> set L" for off l
    using assms(1) assms(3) [OF that(1)] assms(5) [OF that(2)] by (cases "c = 0") auto
  have "distinct (map (\<lambda>off. 0x1000 * c + off) F)" "distinct (map (\<lambda>l. 0xf00 + 16 * c + l) L)"
    using assms(2,4) by (simp_all add: distinct_map)
  moreover have "(\<lambda>off. 0x1000 * c + off) ` set F \<inter> (\<lambda>l. 0xf00 + 16 * c + l) ` set L = {}"
    using neq by (auto simp: image_iff)
  ultimately have "distinct ?as"
    by (simp only: distinct_append set_map)
  moreover have "set ?as \<subseteq> {..<65536}"
    using assms(1,3,5) by fastforce
  ultimately show ?thesis
    unfolding distinct_map [of of_nat] using inj_on_subset [OF of_nat_u16_inj] by blast
qed

lemma distinct_interrupt_settings:
  assumes "c < 8"
  shows "distinct (map fst (interrupt_settings c))"
proof -
  have "map fst (interrupt_settings c) = map of_nat (map (\<lambda>off. 0x1000 * c + off) [0x108, 0x11c, 0x11a,
      0xb01, 0xb03, 0xb05, 0xb07, 0xb09, 0xb0f, 0xb11, 0xb13, 0xb41, 0xb71, 0xb75]
      @ map (\<lambda>l. 0xf00 + 16 * c + l) [4])"
    by (simp add: interrupt_settings_def)
  then show ?thesis
    by (simp only:) (rule distinct_framer_liu [OF assms], auto)
qed

text \<open>
  C34: enabling interrupts. For every channel \<open>enable_interrupts\<close> returns, whatever the status
  registers it reads to clear answer, and leaves exactly the enables of the table set; no other
  control register changes.
\<close>

theorem enable_interrupts_registers:
  assumes "c < 8" and "fst ` set (interrupt_settings c) \<subseteq> plain"
  shows "\<exists>t'. enable_interrupts (soc_device (chip_environment (framer_address p ` plain) mem other) p) c t
      = (Ok (), t')
    \<and> (\<forall>(a, kv) \<in> set (interrupt_settings c). chip_reg mem p t' a = masked kv (chip_reg mem p t a))
    \<and> (\<forall>a \<in> plain - fst ` set (interrupt_settings c). chip_reg mem p t' a = chip_reg mem p t a)"
proof -
  have "fst ` set (interrupt_writes c) = fst ` set (interrupt_settings c)"
    by (simp only: interrupt_writes_def interrupt_settings_def list.set image_insert fst_conv image_empty)
      blast
  then have "soc_chip.configures mem p plain
      (enable_interrupts (soc_device (chip_environment (framer_address p ` plain) mem other) p) c)
      (interrupt_writes c)"
    using assms by (intro soc_chip.configures_enable_interrupts) simp_all
  then have "soc_chip.configures mem p plain
      (enable_interrupts (soc_device (chip_environment (framer_address p ` plain) mem other) p) c)
      (interrupt_settings c)"
    by (simp only: soc_chip.configures_def fold_interrupt_writes)
  note result = soc_chip.configures_result [OF this distinct_interrupt_settings [OF assms(1)], of t]
  have "\<forall>(a, kv) \<in> set (interrupt_settings c). a \<in> plain"
    using assms(2) by auto
  with result show ?thesis by (simp add: split_beta Ball_def) blast
qed

theorem enable_interrupts_registers_witness:
  "\<exists>t'. enable_interrupts (soc_device (chip_environment (framer_address 0x80100000 ` UNIV) (\<lambda>_. 0xff)
      (\<lambda>_ _. 0)) 0x80100000) 2 [] = (Ok () :: (soc_error, unit) outcome, t')
    \<and> chip_reg (\<lambda>_. 0xff) 0x80100000 t' 0x2b07 = 0x8a"
proof -
  have mem: "(0x2b07, 0x82, 0x08) \<in> set (interrupt_settings 2)"
    by (simp add: interrupt_settings_def)
  obtain t' where ok: "enable_interrupts (soc_device (chip_environment (framer_address 0x80100000 ` UNIV)
      (\<lambda>_. 0xff) (\<lambda>_ _. 0)) 0x80100000) 2 [] = (Ok () :: (soc_error, unit) outcome, t')"
    and regs: "\<forall>(a, kv) \<in> set (interrupt_settings 2). chip_reg (\<lambda>_. 0xff) 0x80100000 t' a
      = masked kv (chip_reg (\<lambda>_. 0xff) 0x80100000 [] a)"
    using enable_interrupts_registers [of 2 UNIV "0x80100000" "\<lambda>_. 0xff" "\<lambda>_ _. 0" "[]"] by auto
  from regs mem have "chip_reg (\<lambda>_. 0xff) 0x80100000 t' 0x2b07 = 0x8a"
    by (auto simp: masked_def chip_reg_def dest!: bspec)
  with ok show ?thesis by blast
qed

end
