(* ===== verification/Host_Interrupt.thy ===== *)
theory Host_Interrupt
  imports Registers
begin

text \<open>
  The host's view of an interrupt report: the structs and the parser \<open>from_slice\<close> of
  \<^verbatim>\<open>tedium-tool/src/framer/interrupt.rs\<close>. A \<open>Cursor\<close> is the list of bytes not read yet; a read into a
  fixed-size buffer copies what is left and leaves the rest of the buffer zero, so parsing never
  fails, and \<open>from_slice\<close> panics exactly when bytes are left over. What the tool prints of a status is
  in theory Host_Status, the transfer callback in Host_Monitor.
\<close>

section \<open>The structs\<close>

record loopback_code_status =
  rlcisrs :: "u8 list"

record hdlc_controller_status =
  hc_dlsr :: u8
  hc_rdlbcr :: u8
  hc_data :: "u8 list"
  hc_ss7sr :: u8

record hdlc_status =
  hdlc_controller :: "hdlc_controller_status list"

record slip_status =
  st_sbisr :: u8

record alarm_status =
  al_aeisr :: u8
  al_exzsr :: u8
  al_ciasr :: u8

record receive_signaling_status =
  rsars :: "u8 list"

record t1frame_status =
  t1_fisr :: u8
  t1_sig :: "receive_signaling_status option"

record framer_interrupt_status =
  fis_channel_index :: nat
  fis_bisr :: u8
  fis_lbcode :: "loopback_code_status option"
  fis_hdlc :: "hdlc_status option"
  fis_slip :: "slip_status option"
  fis_alarm :: "alarm_status option"
  fis_t1frame :: "t1frame_status option"

section \<open>The parser\<close>

definition cursor_read :: "nat \<Rightarrow> u8 list \<Rightarrow> u8 list \<times> u8 list" where
  "cursor_read n bs = (take n bs @ replicate (n - length bs) 0, drop n bs)"

definition cursor_read_u8 :: "u8 list \<Rightarrow> u8 \<times> u8 list" where
  "cursor_read_u8 bs = (let (buf, r) = cursor_read 1 bs in (buf ! 0, r))"

definition loopback_code_from_read :: "u8 list \<Rightarrow> loopback_code_status \<times> u8 list" where
  "loopback_code_from_read bs = (let (buf, r) = cursor_read 8 bs in (\<lparr>rlcisrs = buf\<rparr>, r))"

definition hdlc_controller_from_read :: "u8 list \<Rightarrow> hdlc_controller_status \<times> u8 list" where
  "hdlc_controller_from_read bs =
     (let (dlsr, r) = cursor_read_u8 bs;
          (rdlbcr, r) = cursor_read_u8 r;
          rdlbc = unat (reg_field RDLBCR ''RDLBC'' rdlbcr);
          (data, r) = cursor_read rdlbc r;
          (ss7sr, r) = cursor_read_u8 r
      in (\<lparr>hc_dlsr = dlsr, hc_rdlbcr = rdlbcr, hc_data = data, hc_ss7sr = ss7sr\<rparr>, r))"

definition hdlc_from_read :: "u8 list \<Rightarrow> hdlc_status \<times> u8 list" where
  "hdlc_from_read bs =
     (let (c0, r) = hdlc_controller_from_read bs;
          (c1, r) = hdlc_controller_from_read r;
          (c2, r) = hdlc_controller_from_read r
      in (\<lparr>hdlc_controller = [c0, c1, c2]\<rparr>, r))"

definition slip_from_read :: "u8 list \<Rightarrow> slip_status \<times> u8 list" where
  "slip_from_read bs = (let (sbisr, r) = cursor_read_u8 bs in (\<lparr>st_sbisr = sbisr\<rparr>, r))"

definition alarm_from_read :: "u8 list \<Rightarrow> alarm_status \<times> u8 list" where
  "alarm_from_read bs = (let (buffer, r) = cursor_read 3 bs
     in (\<lparr>al_aeisr = buffer ! 0, al_exzsr = buffer ! 1, al_ciasr = buffer ! 2\<rparr>, r))"

definition receive_signaling_from_read :: "u8 list \<Rightarrow> receive_signaling_status \<times> u8 list" where
  "receive_signaling_from_read bs =
     (let (buffer, r) = cursor_read 12 bs
      in (\<lparr>rsars = concat (map (\<lambda>v. [drop_bit 4 v, v AND 15]) buffer)\<rparr>, r))"

definition t1frame_from_read :: "u8 list \<Rightarrow> t1frame_status \<times> u8 list" where
  "t1frame_from_read bs =
     (let (fisr, r) = cursor_read_u8 bs
      in if reg_field FISR ''SIG'' fisr \<noteq> 0
         then let (sig, r) = receive_signaling_from_read r
              in (\<lparr>t1_fisr = fisr, t1_sig = Some sig\<rparr>, r)
         else (\<lparr>t1_fisr = fisr, t1_sig = None\<rparr>, r))"

text \<open>\<open>if bisr.X() != 0 { Some(T::from_read(r)?) } else { None }\<close>\<close>

definition block_from_read :: "bool \<Rightarrow> (u8 list \<Rightarrow> 'a \<times> u8 list) \<Rightarrow> u8 list \<Rightarrow> 'a option \<times> u8 list" where
  "block_from_read present from_read bs =
     (if present then (let (x, r) = from_read bs in (Some x, r)) else (None, bs))"

definition framer_interrupt_from_read :: "u8 list \<Rightarrow> framer_interrupt_status \<times> u8 list" where
  "framer_interrupt_from_read bs =
     (let (channel_index, r) = cursor_read_u8 bs;
          (bisr, r) = cursor_read_u8 r;
          (lbcode, r) = block_from_read (reg_field BISR ''LBCODE'' bisr \<noteq> 0) loopback_code_from_read r;
          (hdlc, r) = block_from_read (reg_field BISR ''HDLC'' bisr \<noteq> 0) hdlc_from_read r;
          (slip, r) = block_from_read (reg_field BISR ''SLIP'' bisr \<noteq> 0) slip_from_read r;
          (alarm, r) = block_from_read (reg_field BISR ''ALARM'' bisr \<noteq> 0) alarm_from_read r;
          (t1frame, r) = block_from_read (reg_field BISR ''T1FRAME'' bisr \<noteq> 0) t1frame_from_read r
      in (\<lparr>fis_channel_index = unat channel_index, fis_bisr = bisr, fis_lbcode = lbcode,
           fis_hdlc = hdlc, fis_slip = slip, fis_alarm = alarm, fis_t1frame = t1frame\<rparr>, r))"

text \<open>\<open>None\<close> is the panic of the final \<open>assert_eq!\<close>; there is no error result.\<close>

definition from_slice :: "u8 list \<Rightarrow> framer_interrupt_status option" where
  "from_slice bs = (let (result, r) = framer_interrupt_from_read bs in if r = [] then Some result else None)"

section \<open>The message format\<close>

text \<open>
  The abstract format both sides implement: the bytes of a status, and the statuses that have one
  (a block is present exactly when its bit is set, arrays have their lengths, signaling states are
  four bits).
\<close>

fun pack_nibbles :: "u8 list \<Rightarrow> u8 list" where
  "pack_nibbles (hi # lo # vs) = (push_bit 4 hi OR lo AND 0xf) # pack_nibbles vs"
| "pack_nibbles _ = []"

definition encode_controller :: "hdlc_controller_status \<Rightarrow> u8 list" where
  "encode_controller h = hc_dlsr h # hc_rdlbcr h # hc_data h @ [hc_ss7sr h]"

definition encode_option :: "('a \<Rightarrow> u8 list) \<Rightarrow> 'a option \<Rightarrow> u8 list" where
  "encode_option f x = (case x of None \<Rightarrow> [] | Some a \<Rightarrow> f a)"

definition encode_t1frame :: "t1frame_status \<Rightarrow> u8 list" where
  "encode_t1frame s = t1_fisr s # encode_option (\<lambda>sig. pack_nibbles (rsars sig)) (t1_sig s)"

definition encode_hdlc :: "hdlc_status \<Rightarrow> u8 list" where
  "encode_hdlc h = concat (map encode_controller (hdlc_controller h))"

definition encode_status :: "framer_interrupt_status \<Rightarrow> u8 list" where
  "encode_status s =
     of_nat (fis_channel_index s) # fis_bisr s
     # encode_option rlcisrs (fis_lbcode s)
     @ encode_option encode_hdlc (fis_hdlc s)
     @ encode_option (\<lambda>x. [st_sbisr x]) (fis_slip s)
     @ encode_option (\<lambda>x. [al_aeisr x, al_exzsr x, al_ciasr x]) (fis_alarm s)
     @ encode_option encode_t1frame (fis_t1frame s)"

definition controller_ok :: "hdlc_controller_status \<Rightarrow> bool" where
  "controller_ok h \<longleftrightarrow> length (hc_data h) = unat (reg_field RDLBCR ''RDLBC'' (hc_rdlbcr h))"

definition t1frame_ok :: "t1frame_status \<Rightarrow> bool" where
  "t1frame_ok s \<longleftrightarrow> (case t1_sig s of
     None \<Rightarrow> reg_field FISR ''SIG'' (t1_fisr s) = 0
   | Some sig \<Rightarrow> reg_field FISR ''SIG'' (t1_fisr s) \<noteq> 0 \<and> length (rsars sig) = 24
       \<and> list_all (\<lambda>v. v < 16) (rsars sig))"

definition hdlc_ok :: "hdlc_status \<Rightarrow> bool" where
  "hdlc_ok h \<longleftrightarrow> length (hdlc_controller h) = 3 \<and> list_all controller_ok (hdlc_controller h)"

definition block_ok :: "bool \<Rightarrow> ('a \<Rightarrow> bool) \<Rightarrow> 'a option \<Rightarrow> bool" where
  "block_ok present ok x \<longleftrightarrow> (case x of None \<Rightarrow> \<not> present | Some a \<Rightarrow> present \<and> ok a)"

definition status_ok :: "framer_interrupt_status \<Rightarrow> bool" where
  "status_ok s \<longleftrightarrow>
     fis_channel_index s < 256
     \<and> block_ok (reg_field BISR ''LBCODE'' (fis_bisr s) \<noteq> 0) (\<lambda>x. length (rlcisrs x) = 8) (fis_lbcode s)
     \<and> block_ok (reg_field BISR ''HDLC'' (fis_bisr s) \<noteq> 0) hdlc_ok (fis_hdlc s)
     \<and> block_ok (reg_field BISR ''SLIP'' (fis_bisr s) \<noteq> 0) (\<lambda>_. True) (fis_slip s)
     \<and> block_ok (reg_field BISR ''ALARM'' (fis_bisr s) \<noteq> 0) (\<lambda>_. True) (fis_alarm s)
     \<and> block_ok (reg_field BISR ''T1FRAME'' (fis_bisr s) \<noteq> 0) t1frame_ok (fis_t1frame s)"

section \<open>Parsing a well-formed message\<close>

lemma cursor_read_append [simp]: "length xs = n \<Longrightarrow> cursor_read n (xs @ r) = (xs, r)"
  by (simp add: cursor_read_def)

lemma cursor_read_u8_Cons [simp]: "cursor_read_u8 (b # r) = (b, r)"
  using cursor_read_append [of "[b]" 1 r] by (simp add: cursor_read_u8_def)

lemma loopback_code_parse:
  "length (rlcisrs x) = 8 \<Longrightarrow> loopback_code_from_read (rlcisrs x @ r) = (x, r)"
  by (simp add: loopback_code_from_read_def)

lemma hdlc_controller_parse:
  "controller_ok h \<Longrightarrow> hdlc_controller_from_read (encode_controller h @ r) = (h, r)"
  by (simp add: hdlc_controller_from_read_def encode_controller_def controller_ok_def)

lemma list_of_length_3: "length xs = 3 \<Longrightarrow> \<exists>a b c. xs = [a, b, c]"
  by (cases xs; cases "tl xs"; cases "tl (tl xs)") auto

lemma hdlc_parse: "hdlc_ok h \<Longrightarrow> hdlc_from_read (encode_hdlc h @ r) = (h, r)"
  using list_of_length_3 [of "hdlc_controller h"]
  by (auto simp: hdlc_from_read_def encode_hdlc_def hdlc_ok_def hdlc_controller_parse)

lemma slip_parse: "slip_from_read (st_sbisr x # r) = (x, r)"
  by (simp add: slip_from_read_def)

lemma alarm_parse: "alarm_from_read (al_aeisr x # al_exzsr x # al_ciasr x # r) = (x, r)"
  using cursor_read_append [of "[al_aeisr x, al_exzsr x, al_ciasr x]" 3 r]
  by (simp add: alarm_from_read_def)

lemma unpack_nibbles:
  assumes "hi < 16" and "lo < 16"
  shows "drop_bit 4 (push_bit 4 hi OR lo AND 0xf :: u8) = hi"
    and "(push_bit 4 hi OR lo AND 0xf :: u8) AND 15 = lo"
    and "drop_bit 4 (push_bit 4 hi) = hi"
proof -
  have bits: "bit hi n \<Longrightarrow> n < 4" "bit lo n \<Longrightarrow> n < 4" for n
    using assms bit_below_width [of hi 4 n] bit_below_width [of lo 4 n] by (simp_all add: word_less_nat_alt)
  have m: "(15 :: u8) = mask 4" by (simp add: mask_eq_exp_minus_1)
  show "drop_bit 4 (push_bit 4 hi OR lo AND 0xf) = hi"
    unfolding m by (rule bit_word_eqI) (auto simp: bit_simps dest: bits)
  show "(push_bit 4 hi OR lo AND 0xf) AND 15 = lo"
    unfolding m by (rule bit_word_eqI) (auto simp: bit_simps dest: bits)
  show "drop_bit 4 (push_bit 4 hi) = hi"
    by (rule bit_word_eqI) (auto simp: bit_simps dest: bits)
qed

lemma unpack_pack_nibbles:
  "even (length vs) \<Longrightarrow> list_all (\<lambda>v. v < 16) vs \<Longrightarrow>
    concat (map (\<lambda>v. [drop_bit 4 v, v AND 15]) (pack_nibbles vs)) = vs"
  by (induction vs rule: pack_nibbles.induct) (auto simp: unpack_nibbles)

lemma length_pack_nibbles: "length (pack_nibbles vs) = length vs div 2"
  by (induction vs rule: pack_nibbles.induct) auto

lemma t1frame_parse: "t1frame_ok s \<Longrightarrow> t1frame_from_read (encode_t1frame s @ r) = (s, r)"
  by (cases "t1_sig s")
    (auto simp: t1frame_ok_def t1frame_from_read_def encode_t1frame_def encode_option_def
      receive_signaling_from_read_def length_pack_nibbles unpack_pack_nibbles)

lemma block_parse:
  assumes "block_ok present ok x" and "\<And>a r. ok a \<Longrightarrow> from_read (enc a @ r) = (a, r)"
  shows "block_from_read present from_read (encode_option enc x @ r) = (x, r)"
  using assms by (cases x) (auto simp: block_ok_def block_from_read_def encode_option_def)

lemma parse_encode_status:
  assumes "status_ok s"
  shows "from_slice (encode_status s) = Some s"
proof -
  have "unat (of_nat (fis_channel_index s) :: u8) = fis_channel_index s"
    using assms by (simp add: status_ok_def unsigned_of_nat take_bit_nat_eq_self)
  moreover have blocks:
    "block_from_read (reg_field BISR ''LBCODE'' (fis_bisr s) \<noteq> 0) loopback_code_from_read
      (encode_option rlcisrs (fis_lbcode s) @ r) = (fis_lbcode s, r)"
    "block_from_read (reg_field BISR ''HDLC'' (fis_bisr s) \<noteq> 0) hdlc_from_read
      (encode_option encode_hdlc (fis_hdlc s) @ r) = (fis_hdlc s, r)"
    "block_from_read (reg_field BISR ''SLIP'' (fis_bisr s) \<noteq> 0) slip_from_read
      (encode_option (\<lambda>x. [st_sbisr x]) (fis_slip s) @ r) = (fis_slip s, r)"
    "block_from_read (reg_field BISR ''ALARM'' (fis_bisr s) \<noteq> 0) alarm_from_read
      (encode_option (\<lambda>x. [al_aeisr x, al_exzsr x, al_ciasr x]) (fis_alarm s) @ r) = (fis_alarm s, r)"
    "block_from_read (reg_field BISR ''T1FRAME'' (fis_bisr s) \<noteq> 0) t1frame_from_read
      (encode_option encode_t1frame (fis_t1frame s) @ r) = (fis_t1frame s, r)" for r
    using assms unfolding status_ok_def
    by (auto elim!: block_parse simp: loopback_code_parse hdlc_parse slip_parse alarm_parse t1frame_parse)
  ultimately show ?thesis
    using blocks(5) [of "[]"]
    by (simp add: from_slice_def framer_interrupt_from_read_def encode_status_def)
qed

text \<open>
  C28: the host reads back every well-formed interrupt status from its bytes, with all its optional
  blocks and variable-length HDLC data, and consumes the message exactly.
\<close>

theorem from_slice_encode:
  assumes "status_ok s"
  shows "from_slice (encode_status s) = Some s"
  by (rule parse_encode_status [OF assms])

text \<open>A report of channel 5 with an HDLC block (one controller holding two bytes) and signaling.\<close>

definition example_status :: framer_interrupt_status where
  "example_status = \<lparr>fis_channel_index = 5, fis_bisr = 0x09, fis_lbcode = None,
     fis_hdlc = Some \<lparr>hdlc_controller =
       [\<lparr>hc_dlsr = 8, hc_rdlbcr = 0x82, hc_data = [1, 2], hc_ss7sr = 0\<rparr>,
        \<lparr>hc_dlsr = 0, hc_rdlbcr = 0, hc_data = [], hc_ss7sr = 0\<rparr>,
        \<lparr>hc_dlsr = 0, hc_rdlbcr = 0x80, hc_data = [], hc_ss7sr = 1\<rparr>]\<rparr>,
     fis_slip = None, fis_alarm = None,
     fis_t1frame = Some \<lparr>t1_fisr = 0x20, t1_sig = Some \<lparr>rsars = replicate 24 0xa\<rparr>\<rparr>\<rparr>"

theorem from_slice_encode_witness:
  "from_slice ([5, 9, 8, 0x82, 1, 2, 0, 0, 0, 0, 0, 0x80, 1, 0x20] @ replicate 12 0xaa) = Some example_status"
proof -
  have "status_ok example_status"
    by code_simp
  moreover have "encode_status example_status =
      [5, 9, 8, 0x82, 1, 2, 0, 0, 0, 0, 0, 0x80, 1, 0x20] @ replicate 12 0xaa"
    by code_simp
  ultimately show ?thesis
    using from_slice_encode [of example_status] by simp
qed

section \<open>How long a message is\<close>

definition INTERRUPT_BYTES_MAX :: nat where
  "INTERRUPT_BYTES_MAX = 256"

definition hdlc_data_length :: "framer_interrupt_status \<Rightarrow> nat" where
  "hdlc_data_length s = (case fis_hdlc s of None \<Rightarrow> 0
     | Some h \<Rightarrow> sum_list (map (\<lambda>c. length (hc_data c)) (hdlc_controller h)))"

lemma rdlbc_lt: "unat (reg_field RDLBCR ''RDLBC'' b) < 128"
proof -
  have "reg_field RDLBCR ''RDLBC'' b = take_bit 7 b"
    by (simp add: reg_field_def reg_get_def RDLBCR_def bits_get_def)
  then have "unat (reg_field RDLBCR ''RDLBC'' b) = unat b mod 128"
    by (simp only: unsigned_take_bit_eq) (simp only: take_bit_eq_mod, simp)
  then show ?thesis by simp
qed

lemma length_encode_hdlc:
  "hdlc_ok h \<Longrightarrow> length (encode_hdlc h) = 9 + sum_list (map (\<lambda>c. length (hc_data c)) (hdlc_controller h))"
  using list_of_length_3 [of "hdlc_controller h"]
  by (auto simp: hdlc_ok_def encode_hdlc_def encode_controller_def)

lemma length_encode_t1frame: "t1frame_ok s \<Longrightarrow> length (encode_t1frame s) \<le> 13"
  by (cases "t1_sig s") (auto simp: t1frame_ok_def encode_t1frame_def encode_option_def length_pack_nibbles)

lemma length_block: "block_ok p ok x \<Longrightarrow> (\<And>a. ok a \<Longrightarrow> length (enc a) \<le> n) \<Longrightarrow> length (encode_option enc x) \<le> n"
  by (cases x) (auto simp: block_ok_def encode_option_def)

text \<open>
  The size of a report. It has at most 36 bytes besides the HDLC data and at most 417 in all,
  so it fits the host's 256-byte buffer whenever the three controllers hold at most 220 bytes.
\<close>

theorem status_length:
  assumes "status_ok s"
  shows "length (encode_status s) \<le> 36 + hdlc_data_length s \<and> length (encode_status s) \<le> 417
    \<and> (hdlc_data_length s \<le> 220 \<longrightarrow> length (encode_status s) \<le> INTERRUPT_BYTES_MAX)"
proof -
  have "length (encode_option rlcisrs (fis_lbcode s)) \<le> 8"
    using assms by (auto simp: status_ok_def intro: length_block)
  moreover have "length (encode_option encode_hdlc (fis_hdlc s)) \<le> 9 + hdlc_data_length s"
    using assms by (auto simp: status_ok_def block_ok_def encode_option_def hdlc_data_length_def
        length_encode_hdlc split: option.splits)
  moreover have "hdlc_data_length s \<le> 381"
  proof (cases "fis_hdlc s")
    case (Some h)
    then have "hdlc_ok h" using assms by (simp add: status_ok_def block_ok_def)
    then obtain a b c where abc: "hdlc_controller h = [a, b, c]" "controller_ok a" "controller_ok b"
        "controller_ok c"
      using list_of_length_3 [of "hdlc_controller h"] by (auto simp: hdlc_ok_def)
    then show ?thesis
      using rdlbc_lt [of "hc_rdlbcr a"] rdlbc_lt [of "hc_rdlbcr b"] rdlbc_lt [of "hc_rdlbcr c"]
      by (simp add: hdlc_data_length_def Some controller_ok_def)
  qed (simp add: hdlc_data_length_def)
  moreover have "length (encode_option (\<lambda>x. [st_sbisr x]) (fis_slip s)) \<le> 1"
    using assms by (auto simp: status_ok_def intro: length_block)
  moreover have "length (encode_option (\<lambda>x. [al_aeisr x, al_exzsr x, al_ciasr x]) (fis_alarm s)) \<le> 3"
    using assms by (auto simp: status_ok_def intro: length_block)
  moreover have "length (encode_option encode_t1frame (fis_t1frame s)) \<le> 13"
    using assms by (auto simp: status_ok_def intro: length_block length_encode_t1frame)
  ultimately show ?thesis
    by (simp add: encode_status_def INTERRUPT_BYTES_MAX_def)
qed

theorem status_length_witness:
  "length (encode_status example_status) \<le> 36 + hdlc_data_length example_status
    \<and> length (encode_status example_status) \<le> INTERRUPT_BYTES_MAX"
proof -
  have "status_ok example_status" and "hdlc_data_length example_status \<le> 220"
    by code_simp+
  with status_length [of example_status] show ?thesis by blast
qed

definition full_status :: framer_interrupt_status where
  "full_status = \<lparr>fis_channel_index = 0, fis_bisr = 0x4f, fis_lbcode = Some \<lparr>rlcisrs = replicate 8 0\<rparr>,
     fis_hdlc = Some \<lparr>hdlc_controller =
       replicate 3 \<lparr>hc_dlsr = 8, hc_rdlbcr = 96, hc_data = replicate 96 0, hc_ss7sr = 0\<rparr>\<rparr>,
     fis_slip = Some \<lparr>st_sbisr = 0\<rparr>, fis_alarm = Some \<lparr>al_aeisr = 0, al_exzsr = 0, al_ciasr = 0\<rparr>,
     fis_t1frame = Some \<lparr>t1_fisr = 0x20, t1_sig = Some \<lparr>rsars = replicate 24 0\<rparr>\<rparr>\<rparr>"

text \<open>
  A report that does not fit the host's buffer: all blocks, and three full 96-byte receive
  buffers, as a resynchronisation can produce.
\<close>

theorem status_exceeds_buffer:
  "status_ok full_status \<and> INTERRUPT_BYTES_MAX < length (encode_status full_status)"
proof -
  have "status_ok full_status"
    by code_simp
  moreover have "length (encode_status full_status) = 324"
    by (simp add: encode_status_def full_status_def encode_option_def encode_hdlc_def
        encode_controller_def encode_t1frame_def length_pack_nibbles numeral_3_eq_3)
  ultimately show ?thesis by (simp add: INTERRUPT_BYTES_MAX_def)
qed

end
