(* ===== verification/Soc_Main.thy ===== *)
theory Soc_Main
  imports Soc_Configure Host_Interrupt
begin

text \<open>
  The rest of \<^verbatim>\<open>tedium-soc/src/main.rs\<close>: register dump, host requests, the interrupt service loop and
  \<open>main\<close>. Busy-wait loops (UART, idle USB endpoint) take fuel, and the endless main loop is modelled
  by the passes it makes. \<open>delay_us\<close> of the \<^verbatim>\<open>riscv\<close> crate is a parameter.
\<close>

section \<open>Constants\<close>

datatype EndpointNumber = EndpointNumber_FrameStream | EndpointNumber_Interrupt | EndpointNumber_FramerControl

primrec EndpointNumber_u8 :: "EndpointNumber \<Rightarrow> u8" where
  "EndpointNumber_u8 EndpointNumber_FrameStream = 1"
| "EndpointNumber_u8 EndpointNumber_Interrupt = 2"
| "EndpointNumber_u8 EndpointNumber_FramerControl = 3"

definition UART_BASE :: u32 where "UART_BASE = 0x80000000"
definition TEST_POINTS_BASE :: u32 where "TEST_POINTS_BASE = 0x80002000"
definition FRAMER_CONTROL_BASE :: u32 where "FRAMER_CONTROL_BASE = 0x80003000"
definition USB_IN_INT_BASE :: u32 where "USB_IN_INT_BASE = 0x80090000"
definition USB_OUT_BASE :: u32 where "USB_OUT_BASE = 0x800a0000"
definition USB_IN_BASE :: u32 where "USB_IN_BASE = 0x800b0000"
definition FRAMER_BASE :: u32 where "FRAMER_BASE = 0x80100000"

text \<open>The device of \<open>main\<close>.\<close>

definition main_device :: "environment \<Rightarrow> (bus_trace, 'e) xyz" where
  "main_device env = soc_device env FRAMER_BASE"

section \<open>Register dump\<close>

definition dump_registers :: "nat \<Rightarrow> environment \<Rightarrow> unit soc" where
  "dump_registers fuel env =
     for_each [0..<1] (\<lambda>s. prog_then
       (for_each [0x100..<0x200] (\<lambda>r.
         let address = push_bit 12 s + r :: nat in
         seq_all
           [if address AND 15 = 0
            then seq_all [uart_write_char fuel env UART_BASE UART_EOL,
                   uart_write_hex_u16 fuel env UART_BASE (of_nat address)]
            else prog_return (),
            prog_bind (prog_unwrap (xyz_register_read (main_device env) (of_nat address))) (\<lambda>v.
              prog_then (uart_write_char fuel env UART_BASE UART_SPACE)
                (uart_write_hex_u8 fuel env UART_BASE v))]))
       (uart_write_char fuel env UART_BASE UART_EOL))"

section \<open>Host requests\<close>

datatype HostRequestError = WrongEndpoint | ShortPacket | LongPacket | InvalidCommand

fun error_str :: "HostRequestError \<Rightarrow> string" where
  "error_str InvalidCommand = ''invalid''"
| "error_str ShortPacket = ''short''"
| "error_str LongPacket = ''long''"
| "error_str WrongEndpoint = ''endpoint''"

datatype HostRequestCommand = RegisterRead u16 | RegisterWrite u16 u8

definition out_reader_read :: "environment \<Rightarrow> u32 \<Rightarrow> (bus_trace, HostRequestError, u8) prog" where
  "out_reader_read env ep =
     prog_bind (usb_out_get_have env ep) (\<lambda>have.
       if have \<noteq> 0 then usb_out_get_data env ep else prog_fail ShortPacket)"

definition parse_host_request ::
  "environment \<Rightarrow> u32 \<Rightarrow> (bus_trace, HostRequestError, HostRequestCommand) prog" where
  "parse_host_request env usb_out =
     prog_bind (out_reader_read env usb_out) (\<lambda>command.
       if command = 0x00 then
         prog_bind (out_reader_read env usb_out) (\<lambda>l.
         prog_bind (out_reader_read env usb_out) (\<lambda>h.
           prog_return (RegisterRead (push_bit 8 (ucast h) OR ucast l))))
       else if command = 0x01 then
         prog_bind (out_reader_read env usb_out) (\<lambda>l.
         prog_bind (out_reader_read env usb_out) (\<lambda>h.
         prog_bind (out_reader_read env usb_out) (\<lambda>value.
           prog_return (RegisterWrite (push_bit 8 (ucast h) OR ucast l) value))))
       else prog_fail InvalidCommand)"

text \<open>
  \<open>match m { Ok(x) => f(x), Err(e) => g(e) }\<close>
\<close>

definition prog_match ::
  "('s, 'e, 'a) prog \<Rightarrow> ('a \<Rightarrow> ('s, 'f, 'b) prog) \<Rightarrow> ('e \<Rightarrow> ('s, 'f, 'b) prog) \<Rightarrow> ('s, 'f, 'b) prog" where
  "prog_match m f g = (\<lambda>s. case m s of
     (Ok a, s') \<Rightarrow> f a s'
   | (Err e, s') \<Rightarrow> g e s'
   | (Panic, s') \<Rightarrow> (Panic, s'))"

definition perform_request :: "nat \<Rightarrow> environment \<Rightarrow> HostRequestCommand \<Rightarrow> unit soc" where
  "perform_request fuel env cmd = (case cmd of
     RegisterRead address \<Rightarrow>
       prog_match (framer_access_read env FRAMER_BASE address :: (bus_trace, soc_error, u8) prog)
         (\<lambda>value. seq_all
           [usb_in_write_fifo USB_IN_BASE value,
            usb_in_transmit USB_IN_BASE (EndpointNumber_u8 EndpointNumber_FramerControl)])
         (\<lambda>_. seq_all
           [uart_write_str fuel env UART_BASE ''rr '',
            uart_write_hex_u16 fuel env UART_BASE address,
            uart_write_str fuel env UART_BASE ('' failed'' @ [CHR 0x0a])])
   | RegisterWrite address value \<Rightarrow>
       prog_match (framer_access_write FRAMER_BASE address value :: (bus_trace, soc_error, unit) prog)
         (\<lambda>_. usb_in_transmit USB_IN_BASE (EndpointNumber_u8 EndpointNumber_FramerControl))
         (\<lambda>_. seq_all
           [uart_write_str fuel env UART_BASE ''wr '',
            uart_write_hex_u16 fuel env UART_BASE address,
            uart_write_str fuel env UART_BASE ('' write failed'' @ [CHR 0x0a])]))"

definition handle_request :: "nat \<Rightarrow> environment \<Rightarrow> unit soc" where
  "handle_request fuel env = prog_match (parse_host_request env USB_OUT_BASE)
     (perform_request fuel env) (\<lambda>e. uart_write_str fuel env UART_BASE (error_str e))"

text \<open>\<open>if m { body }\<close> with an effectful condition.\<close>

definition prog_when :: "('s, 'e, bool) prog \<Rightarrow> ('s, 'e, unit) prog \<Rightarrow> ('s, 'e, unit) prog" where
  "prog_when m body = prog_bind m (\<lambda>b. if b then body else prog_return ())"

text \<open>\<open>a && b\<close>: the second condition is evaluated only if the first holds.\<close>

definition prog_and :: "('s, 'e, bool) prog \<Rightarrow> ('s, 'e, bool) prog \<Rightarrow> ('s, 'e, bool) prog" where
  "prog_and a b = prog_bind a (\<lambda>x. if x then b else prog_return False)"

definition service_usb_out :: "nat \<Rightarrow> environment \<Rightarrow> unit soc" where
  "service_usb_out fuel env =
     prog_when (prog_map (\<lambda>v. v = 0) (usb_out_get_enable env USB_OUT_BASE)) (seq_all
       [prog_when
          (prog_and (prog_map (\<lambda>v. v \<noteq> 0) (usb_out_get_have env USB_OUT_BASE))
             (prog_map (\<lambda>v. v = EndpointNumber_u8 EndpointNumber_FramerControl)
                (usb_out_get_data_ep env USB_OUT_BASE)))
          (seq_all
            [prog_when (usb_in_is_stalled env USB_IN_BASE) (seq_all
               [usb_in_clear_stall USB_IN_BASE,
                uart_write_str fuel env UART_BASE (''IN: stall'' @ [CHR 0x0a])]),
             prog_when (prog_map Not (usb_in_is_idle env USB_IN_BASE))
               (uart_write_str fuel env UART_BASE (''IN: !idle'' @ [CHR 0x0a])),
             prog_when (prog_map Not (usb_in_is_fifo_empty env USB_IN_BASE))
               (uart_write_str fuel env UART_BASE (''IN: !empty'' @ [CHR 0x0a])),
             handle_request fuel env]),
        usb_out_set_stall USB_OUT_BASE 0,
        usb_out_set_prime USB_OUT_BASE 1,
        usb_out_set_enable USB_OUT_BASE 1])"

text \<open>The inner loop: serve the host until the interrupt endpoint is idle; fuel for its turns.\<close>

fun wait_interrupt_idle :: "nat \<Rightarrow> nat \<Rightarrow> environment \<Rightarrow> unit soc" where
  "wait_interrupt_idle 0 fuel env = prog_fail Waiting"
| "wait_interrupt_idle (Suc turns) fuel env =
     prog_then (service_usb_out fuel env)
       (prog_bind (usb_in_is_idle env USB_IN_INT_BASE) (\<lambda>idle.
          if idle then prog_return () else wait_interrupt_idle turns fuel env))"

section \<open>Interrupt reports\<close>

text \<open>\<open>let x = acc.read().unwrap(); usb_in_int.write_fifo(x.into());\<close>\<close>

definition forward_register :: "environment \<Rightarrow> access option \<Rightarrow> (bus_trace, soc_error, u8) prog" where
  "forward_register env acc =
     prog_bind (prog_unwrap (access_read (main_device env) acc)) (\<lambda>v.
     prog_bind (usb_in_write_fifo USB_IN_INT_BASE v) (\<lambda>_. prog_return v))"

definition report_lbcode :: "environment \<Rightarrow> nat \<Rightarrow> unit soc" where
  "report_lbcode env c = for_each [0..<8] (\<lambda>i. prog_ignore (forward_register env (ch_rlcisr_x c i)))"

definition report_hdlc_controller :: "environment \<Rightarrow> nat \<Rightarrow> nat \<Rightarrow> unit soc" where
  "report_hdlc_controller env c hdlc_index =
     prog_then (prog_ignore (forward_register env (ch_dlsr c hdlc_index)))
       (prog_bind (forward_register env (ch_rdlbcr c hdlc_index)) (\<lambda>rdlbcr.
        prog_bind
          (if reg_field RDLBCR ''RBUFPTR'' rdlbcr = 0 then prog_return (ch_lapdbcr0 c 0)
           else if reg_field RDLBCR ''RBUFPTR'' rdlbcr = 1 then prog_return (ch_lapdbcr1 c 0)
           else prog_panic) (\<lambda>lapdbcr.
        prog_then
          (for_each [0..<unat (reg_field RDLBCR ''RDLBC'' rdlbcr)]
             (\<lambda>_. prog_ignore (forward_register env lapdbcr)))
          (prog_ignore (forward_register env (ch_ss7sr c hdlc_index))))))"

definition report_hdlc :: "environment \<Rightarrow> nat \<Rightarrow> unit soc" where
  "report_hdlc env c = for_each [0..<3] (report_hdlc_controller env c)"

definition report_slip :: "environment \<Rightarrow> nat \<Rightarrow> unit soc" where
  "report_slip env c = prog_ignore (forward_register env (ch_sbisr c))"

definition report_alarm :: "environment \<Rightarrow> nat \<Rightarrow> unit soc" where
  "report_alarm env c = seq_all
     [prog_ignore (forward_register env (ch_aeisr c)),
      prog_ignore (forward_register env (ch_exzsr c)),
      prog_ignore (forward_register env (ch_ciasr c))]"

text \<open>The loop \<open>for n in (0..24).step_by(2)\<close>, with \<open>n = 2 * i\<close>.\<close>

definition report_signaling :: "environment \<Rightarrow> nat \<Rightarrow> unit soc" where
  "report_signaling env c =
     for_each [0..<12] (\<lambda>i.
       prog_bind (prog_unwrap (access_read (main_device env) (ch_rsar c (2 * i + 0)))) (\<lambda>even.
       prog_bind (prog_unwrap (access_read (main_device env) (ch_rsar c (2 * i + 1)))) (\<lambda>odd.
         usb_in_write_fifo USB_IN_INT_BASE (push_bit 4 even OR (odd AND 0xf)))))"

definition report_t1frame :: "environment \<Rightarrow> nat \<Rightarrow> unit soc" where
  "report_t1frame env c =
     prog_bind (forward_register env (ch_fisr c)) (\<lambda>fisr.
       if reg_field FISR ''SIG'' fisr \<noteq> 0 then report_signaling env c else prog_return ())"

definition report_when :: "bool \<Rightarrow> unit soc \<Rightarrow> unit soc" where
  "report_when b m = (if b then m else prog_return ())"

definition report_interrupt :: "environment \<Rightarrow> nat \<Rightarrow> u8 \<Rightarrow> unit soc" where
  "report_interrupt env c bisr = seq_all
     [usb_in_write_fifo USB_IN_INT_BASE (of_nat c),
      usb_in_write_fifo USB_IN_INT_BASE bisr,
      report_when (reg_field BISR ''LBCODE'' bisr \<noteq> 0) (report_lbcode env c),
      report_when (reg_field BISR ''HDLC'' bisr \<noteq> 0) (report_hdlc env c),
      report_when (reg_field BISR ''SLIP'' bisr \<noteq> 0) (report_slip env c),
      report_when (reg_field BISR ''ALARM'' bisr \<noteq> 0) (report_alarm env c),
      report_when (reg_field BISR ''T1FRAME'' bisr \<noteq> 0) (report_t1frame env c)]"

definition RESYNC_FIELDS :: "(string \<times> u8) list" where
  "RESYNC_FIELDS = [(''LBCODE'', 1), (''HDLC'', 1), (''SLIP'', 1), (''ALARM'', 1), (''T1FRAME'', 1)]"

definition channel_bisr :: "environment \<Rightarrow> bool \<Rightarrow> nat \<Rightarrow> (bus_trace, soc_error, u8) prog" where
  "channel_bisr env resync c =
     (if resync then prog_of_option (reg_chain BISR RESYNC_FIELDS 0)
      else prog_unwrap (access_read (main_device env) (ch_bisr c)))"

text \<open>From the BISR to the end of the pass: report if an interrupt other than ONESEC is pending, send
  the FIFO if something is in it.\<close>

definition service_interrupt :: "environment \<Rightarrow> bool \<Rightarrow> nat \<Rightarrow> unit soc" where
  "service_interrupt env resync c =
     prog_bind (channel_bisr env resync c) (\<lambda>bisr.
       prog_then (report_when (bisr AND 0b01101111 \<noteq> 0) (report_interrupt env c bisr))
         (prog_when (prog_map Not (usb_in_is_fifo_empty env USB_IN_INT_BASE))
            (usb_in_transmit USB_IN_INT_BASE (EndpointNumber_u8 EndpointNumber_Interrupt))))"

section \<open>The main loop\<close>

record main_state =
  ms_test_points :: test_points
  ms_resync_start :: bool
  ms_resync :: bool

definition channel_pass ::
  "nat \<Rightarrow> nat \<Rightarrow> environment \<Rightarrow> main_state \<Rightarrow> nat \<Rightarrow> (bus_trace, soc_error, main_state) prog" where
  "channel_pass turns fuel env ms c =
     prog_then (wait_interrupt_idle turns fuel env)
       (prog_then (usb_in_clear_stall USB_IN_INT_BASE)
         (prog_bind (test_points_toggle (ms_test_points ms) 0) (\<lambda>tp.
          prog_bind (if c = 0 then test_points_toggle tp 2 else prog_return tp) (\<lambda>tp.
            let start = ms_resync_start ms \<and> c = 0;
                resync = start \<or> ms_resync ms
            in prog_then (service_interrupt env resync c)
                 (prog_return \<lparr>ms_test_points = tp,
                    ms_resync_start = (if start then False else ms_resync_start ms),
                    ms_resync = (if c = 7 then False else resync)\<rparr>)))))"

fun channels_pass ::
  "nat list \<Rightarrow> nat \<Rightarrow> nat \<Rightarrow> environment \<Rightarrow> main_state \<Rightarrow> (bus_trace, soc_error, main_state) prog" where
  "channels_pass [] turns fuel env ms = prog_return ms"
| "channels_pass (c # cs) turns fuel env ms =
     prog_bind (channel_pass turns fuel env ms c) (channels_pass cs turns fuel env)"

text \<open>\<open>n\<close> passes of the endless loop.\<close>

fun main_loop :: "nat \<Rightarrow> nat \<Rightarrow> nat \<Rightarrow> environment \<Rightarrow> main_state \<Rightarrow> (bus_trace, soc_error, main_state) prog" where
  "main_loop 0 turns fuel env ms = prog_return ms"
| "main_loop (Suc n) turns fuel env ms =
     prog_bind (channels_pass channels turns fuel env ms) (main_loop n turns fuel env)"

text \<open>\<open>main\<close> up to its loop. The result of \<open>enable_interrupts\<close> is dropped in the source.\<close>

definition main_init :: "(nat \<Rightarrow> unit soc) \<Rightarrow> nat \<Rightarrow> environment \<Rightarrow> (bus_trace, soc_error, main_state) prog" where
  "main_init delay_us fuel env =
     prog_then (seq_all
       [uart_write_str fuel env UART_BASE (''reset'' @ [CHR 0x0a]),
        framer_control_set_outputs_control FRAMER_CONTROL_BASE False,
        framer_control_set_reset FRAMER_CONTROL_BASE True,
        delay_us 50,
        framer_control_set_reset FRAMER_CONTROL_BASE False,
        delay_us 50,
        dump_registers fuel env,
        uart_write_str fuel env UART_BASE (''configure'' @ [CHR 0x0a]),
        configure (main_device env),
        framer_control_set_outputs_control FRAMER_CONTROL_BASE True,
        dump_registers fuel env,
        for_each channels (\<lambda>c. prog_match (enable_interrupts (main_device env) c)
          prog_return (\<lambda>e :: soc_error. prog_return ())),
        prog_bind (usb_out_get_ev_pending env USB_OUT_BASE) (usb_out_set_ev_pending USB_OUT_BASE),
        usb_out_set_ev_enable USB_OUT_BASE 1,
        usb_out_set_epno USB_OUT_BASE (EndpointNumber_u8 EndpointNumber_FramerControl),
        usb_out_set_stall USB_OUT_BASE 0,
        usb_out_set_prime USB_OUT_BASE 1,
        usb_out_set_enable USB_OUT_BASE 1])
     (prog_return \<lparr>ms_test_points = test_points_new TEST_POINTS_BASE,
        ms_resync_start = False, ms_resync = False\<rparr>)"

definition soc_main :: "nat \<Rightarrow> (nat \<Rightarrow> unit soc) \<Rightarrow> nat \<Rightarrow> nat \<Rightarrow> environment \<Rightarrow> (bus_trace, soc_error, main_state) prog" where
  "soc_main n delay_us turns fuel env =
     prog_bind (main_init delay_us fuel env) (main_loop n turns fuel env)"

end
