(* ===== verification/Soc_Request.thy ===== *)
theory Soc_Request
  imports Soc_Main
begin

text \<open>
  Host requests: the request parser against an abstract grammar, on an OUT endpoint that behaves as
  a FIFO, and what serving a request does on the bus.
\<close>

section \<open>The OUT endpoint as a FIFO\<close>

definition fifo_reads :: "u32 \<Rightarrow> bus_trace \<Rightarrow> nat" where
  "fifo_reads ep t = length (filter (\<lambda>ev. case ev of BusRead a _ \<Rightarrow> a = peripheral_address ep 0
     | BusWrite _ _ \<Rightarrow> False) t)"

text \<open>The endpoint holds \<open>bs\<close>; \<open>have\<close> says whether bytes are left, each data read takes the next.\<close>

definition out_fifo :: "u32 \<Rightarrow> u8 list \<Rightarrow> environment \<Rightarrow> environment" where
  "out_fifo ep bs other t a =
     (if a = peripheral_address ep 0 then
        (if fifo_reads ep t < length bs then ucast (bs ! fifo_reads ep t) else 0)
      else if a = peripheral_address ep 7 then (if fifo_reads ep t < length bs then 1 else 0)
      else other t a)"

definition bytes_left :: "u32 \<Rightarrow> u8 list \<Rightarrow> bus_trace \<Rightarrow> u8 list" where
  "bytes_left ep bs t = drop (fifo_reads ep t) bs"

section \<open>The grammar of requests\<close>

definition request_address :: "u8 \<Rightarrow> u8 \<Rightarrow> u16" where
  "request_address l h = of_nat (unat l + 256 * unat h)"

text \<open>The request at the front of the bytes, or the error, and the bytes it leaves.\<close>

fun request_of :: "u8 list \<Rightarrow> (HostRequestError, HostRequestCommand) outcome \<times> u8 list" where
  "request_of [] = (Err ShortPacket, [])"
| "request_of (b # bs) =
     (if b = 0 then
        (case bs of l # h # r \<Rightarrow> (Ok (RegisterRead (request_address l h)), r)
         | _ \<Rightarrow> (Err ShortPacket, []))
      else if b = 1 then
        (case bs of l # h # v # r \<Rightarrow> (Ok (RegisterWrite (request_address l h) v), r)
         | _ \<Rightarrow> (Err ShortPacket, []))
      else (Err InvalidCommand, bs))"

section \<open>The parser\<close>

lemma fifo_reads_append:
  "fifo_reads ep (t @ [BusRead a v]) = (if a = peripheral_address ep 0 then Suc (fifo_reads ep t) else fifo_reads ep t)"
  by (simp add: fifo_reads_def)

lemma data_address_neq: "peripheral_address ep 7 \<noteq> peripheral_address ep 0"
  by (simp add: peripheral_address_def)

lemma out_reader_read_step:
  "out_reader_read (out_fifo ep bs other) ep t =
    (case bytes_left ep bs t of
       [] \<Rightarrow> (Err ShortPacket, t @ [BusRead (peripheral_address ep 7) 0])
     | b # r \<Rightarrow> (Ok b, t @ [BusRead (peripheral_address ep 7) 1, BusRead (peripheral_address ep 0) (ucast b)]))"
proof (cases "fifo_reads ep t < length bs")
  case True
  then have left: "bytes_left ep bs t = bs ! fifo_reads ep t # drop (Suc (fifo_reads ep t)) bs"
    by (simp add: bytes_left_def Cons_nth_drop_Suc)
  have hv: "out_fifo ep bs other t (peripheral_address ep 7) = 1"
    using True by (simp add: out_fifo_def data_address_neq)
  let ?t = "t @ [BusRead (peripheral_address ep 7) 1]"
  have "fifo_reads ep ?t = fifo_reads ep t"
    by (simp add: fifo_reads_append data_address_neq)
  then have data: "out_fifo ep bs other ?t (peripheral_address ep 0) = ucast (bs ! fifo_reads ep t)"
    using True by (simp add: out_fifo_def)
  show ?thesis
    by (simp add: left out_reader_read_def usb_out_get_have_def usb_out_get_data_def prog_map_def
        peripheral_read_def bus_read_def prog_bind_def prog_return_def hv data)
next
  case False
  then have left: "bytes_left ep bs t = []"
    by (simp add: bytes_left_def)
  have hv: "out_fifo ep bs other t (peripheral_address ep 7) = 0"
    using False by (simp add: out_fifo_def data_address_neq)
  show ?thesis
    by (simp add: left out_reader_read_def usb_out_get_have_def prog_map_def peripheral_read_def
        bus_read_def prog_bind_def prog_return_def prog_fail_def hv)
qed

text \<open>What a reader call does to the bytes left.\<close>

lemma bytes_left_step:
  "bytes_left ep bs (t @ [BusRead (peripheral_address ep 7) 0]) = bytes_left ep bs t"
  "bytes_left ep bs (t @ [BusRead (peripheral_address ep 7) 1, BusRead (peripheral_address ep 0) v])
    = tl (bytes_left ep bs t)"
  using fifo_reads_append [of ep "t @ [BusRead (peripheral_address ep 7) 1]" "peripheral_address ep 0" v]
  by (simp_all add: bytes_left_def fifo_reads_append data_address_neq drop_Suc drop_tl)

lemma of_nat_unat_u8: "(of_nat (unat (b :: u8)) :: u16) = ucast b"
  by (rule bit_word_eqI) (simp add: bit_simps)

lemma request_address_or: "push_bit 8 (ucast h) OR ucast l = request_address l h"
proof -
  have "push_bit 8 (ucast h :: u16) AND ucast l = 0"
    by (rule bit_word_eqI) (auto simp: bit_simps dest: bit_imp_le_length)
  then have "push_bit 8 (ucast h :: u16) OR ucast l = push_bit 8 (ucast h) + ucast l"
    by (rule disjunctive_add_eq_or [symmetric])
  also have "\<dots> = of_nat (unat l + 256 * unat h)"
    by (simp add: push_bit_eq_mult of_nat_unat_u8)
  finally show ?thesis by (simp add: request_address_def)
qed

lemma parse_host_request_fifo:
  "\<exists>d. parse_host_request (out_fifo ep bs other) ep t = (fst (request_of (bytes_left ep bs t)), t @ d)
    \<and> bytes_left ep bs (t @ d) = snd (request_of (bytes_left ep bs t))"
proof -
  let ?E = "out_fifo ep bs other"
  obtain o' t' where run: "parse_host_request ?E ep t = (o', t')" by (cases "parse_host_request ?E ep t")
  have "o' = fst (request_of (bytes_left ep bs t)) \<and> (\<exists>d. t' = t @ d)
      \<and> bytes_left ep bs t' = snd (request_of (bytes_left ep bs t))"
    using run [symmetric]
    by (auto simp: parse_host_request_def prog_bind_def prog_return_def prog_fail_def out_reader_read_step
        bytes_left_step request_address_or split: list.splits if_splits simp del: append_assoc; simp)
  with run show ?thesis by auto
qed

text \<open>
  C6: on an OUT endpoint that behaves as a FIFO the parser implements the grammar \<open>request_of\<close>: same
  command (16-bit address, little-endian) or same error, same bytes left in the FIFO. What follows a
  complete request stays there, and so does what follows an unknown command byte.
\<close>

theorem parse_host_request_grammar:
  "\<exists>d. parse_host_request (out_fifo ep bs other) ep t = (fst (request_of (bytes_left ep bs t)), t @ d)
    \<and> bytes_left ep bs (t @ d) = snd (request_of (bytes_left ep bs t))"
  by (rule parse_host_request_fifo)

section \<open>Serving a request\<close>

lemma parse_reads_only:
  "\<exists>d. snd (parse_host_request env ep t) = t @ d \<and> (\<forall>a. bus_writes a d = [])
    \<and> fst (parse_host_request env ep t) \<notin> {Panic, Err LongPacket, Err WrongEndpoint}"
proof -
  obtain o' t' where run: "parse_host_request env ep t = (o', t')" by (cases "parse_host_request env ep t")
  have "(\<exists>d. t' = t @ d \<and> (\<forall>a. bus_writes a d = [])) \<and> o' \<notin> {Panic, Err LongPacket, Err WrongEndpoint}"
    using run [symmetric]
    by (auto simp: parse_host_request_def out_reader_read_def usb_out_get_have_def usb_out_get_data_def
        peripheral_read_def bus_read_def prog_map_def prog_bind_def prog_return_def prog_fail_def
        split: list.splits if_splits)
  with run show ?thesis by simp
qed

lemma perform_write: "perform_request fuel env (RegisterWrite address v) t =
    (Ok (), t @ [BusWrite (framer_address FRAMER_BASE address) (ucast v),
      BusWrite (peripheral_address USB_IN_BASE 1) 3])"
  by (simp add: perform_request_def prog_match_def framer_access_write_def bus_write_def
      usb_in_transmit_def peripheral_write_def)

lemma perform_read: "perform_request fuel env (RegisterRead address) t =
    (let w = env t (framer_address FRAMER_BASE address)
     in (Ok (), t @ [BusRead (framer_address FRAMER_BASE address) w,
          BusWrite (peripheral_address USB_IN_BASE 0) (ucast (ucast w :: u8)),
          BusWrite (peripheral_address USB_IN_BASE 1) 3]))"
  by (simp add: perform_request_def prog_match_def framer_access_read_def bus_read_def bus_write_def
      usb_in_transmit_def usb_in_write_fifo_def peripheral_write_def prog_map_def prog_bind_def
      prog_then_def prog_return_def Let_def)

text \<open>
  C31: a register-write request of the host reaches the chip: with the bytes \<open>1, l, h, v\<close> at the front
  of the FIFO, handling the request makes exactly two bus writes, \<open>v\<close> to the chip register
  \<open>l + 256 * h\<close> and the acknowledging (empty) transmission to endpoint 3, and takes the four bytes.
\<close>

theorem write_request_served:
  assumes "bytes_left USB_OUT_BASE bs t = 1 # l # h # v # r"
  shows "\<exists>d. handle_request fuel (out_fifo USB_OUT_BASE bs other) t = (Ok (), t @ d @
      [BusWrite (framer_address FRAMER_BASE (request_address l h)) (ucast v),
       BusWrite (peripheral_address USB_IN_BASE 1) 3])
    \<and> (\<forall>a. bus_writes a d = []) \<and> bytes_left USB_OUT_BASE bs (t @ d) = r"
proof -
  obtain d where run: "parse_host_request (out_fifo USB_OUT_BASE bs other) USB_OUT_BASE t =
      (Ok (RegisterWrite (request_address l h) v), t @ d)"
    and left: "bytes_left USB_OUT_BASE bs (t @ d) = r"
    using parse_host_request_fifo [of USB_OUT_BASE bs other t] assms by auto
  moreover have "\<forall>a. bus_writes a d = []"
    using parse_reads_only [of "out_fifo USB_OUT_BASE bs other" USB_OUT_BASE t] run by auto
  ultimately show ?thesis
    by (auto simp: handle_request_def prog_match_def perform_write)
qed

theorem write_request_served_witness:
  "\<exists>d. handle_request 1 (out_fifo USB_OUT_BASE [1, 0x00, 0x31, 0x51] (\<lambda>_ _. 0)) [] = (Ok (), [] @ d @
      [BusWrite (framer_address FRAMER_BASE 0x3100) 0x51, BusWrite (peripheral_address USB_IN_BASE 1) 3])"
proof -
  have "bytes_left USB_OUT_BASE [1, 0x00, 0x31, 0x51] [] = 1 # 0x00 # 0x31 # 0x51 # []"
    by (simp add: bytes_left_def fifo_reads_def)
  from write_request_served [OF this, of 1 "\<lambda>_ _. 0"] show ?thesis
    by (auto simp: request_address_def)
qed

text \<open>
  C32: a register-read request returns the chip's answer: the register \<open>l + 256 * h\<close> is read once,
  its low byte goes into the reply FIFO and the reply is sent to endpoint 3.
\<close>

theorem read_request_served:
  assumes "bytes_left USB_OUT_BASE bs t = 0 # l # h # r"
  shows "\<exists>d w. handle_request fuel (out_fifo USB_OUT_BASE bs other) t = (Ok (), t @ d @
      [BusRead (framer_address FRAMER_BASE (request_address l h)) w,
       BusWrite (peripheral_address USB_IN_BASE 0) (ucast (ucast w :: u8)),
       BusWrite (peripheral_address USB_IN_BASE 1) 3])
    \<and> w = out_fifo USB_OUT_BASE bs other (t @ d) (framer_address FRAMER_BASE (request_address l h))
    \<and> (\<forall>a. bus_writes a d = []) \<and> bytes_left USB_OUT_BASE bs (t @ d) = r"
proof -
  obtain d where run: "parse_host_request (out_fifo USB_OUT_BASE bs other) USB_OUT_BASE t =
      (Ok (RegisterRead (request_address l h)), t @ d)"
    and left: "bytes_left USB_OUT_BASE bs (t @ d) = r"
    using parse_host_request_fifo [of USB_OUT_BASE bs other t] assms by auto
  moreover have "\<forall>a. bus_writes a d = []"
    using parse_reads_only [of "out_fifo USB_OUT_BASE bs other" USB_OUT_BASE t] run by auto
  ultimately show ?thesis
    by (auto simp: handle_request_def prog_match_def perform_read Let_def)
qed

theorem read_request_served_witness:
  "\<exists>d w. handle_request 1 (out_fifo USB_OUT_BASE [0, 0xfe, 0x01] (\<lambda>_ _. 0x5a)) [] = (Ok (), [] @ d @
      [BusRead (framer_address FRAMER_BASE 0x1fe) w, BusWrite (peripheral_address USB_IN_BASE 0) (ucast (ucast w :: u8)),
       BusWrite (peripheral_address USB_IN_BASE 1) 3])"
proof -
  have "bytes_left USB_OUT_BASE [0, 0xfe, 0x01] [] = 0 # 0xfe # 0x01 # []"
    by (simp add: bytes_left_def fifo_reads_def)
  from read_request_served [OF this, of 1 "\<lambda>_ _. 0x5a"] show ?thesis
    by (auto simp: request_address_def)
qed

section \<open>The service step\<close>

lemma emits_match:
  assumes "\<And>t. \<exists>o' d. m t = (o', t @ d) \<and> (case o' of
      Ok a \<Rightarrow> emits (f a) (\<lambda>b d'. Q b (d @ d')) | Err e \<Rightarrow> emits (g e) (\<lambda>b d'. Q b (d @ d')) | Panic \<Rightarrow> False)"
  shows "emits (prog_match m f g) Q"
proof (rule emitsI)
  fix t
  obtain o' d where m: "m t = (o', t @ d)" and o': "case o' of
      Ok a \<Rightarrow> emits (f a) (\<lambda>b d'. Q b (d @ d')) | Err e \<Rightarrow> emits (g e) (\<lambda>b d'. Q b (d @ d')) | Panic \<Rightarrow> False"
    using assms [of t] by blast
  show "\<exists>a d. prog_match m f g t = (Ok a, t @ d) \<and> Q a d"
  proof (cases o')
    case (Ok a)
    with o' have "emits (f a) (\<lambda>b d'. Q b (d @ d'))" by simp
    then obtain b d' where "f a (t @ d) = (Ok b, (t @ d) @ d')" "Q b (d @ d')" by (rule emitsE)
    with m Ok show ?thesis by (simp add: prog_match_def)
  next
    case (Err e)
    with o' have "emits (g e) (\<lambda>b d'. Q b (d @ d'))" by simp
    then obtain b d' where "g e (t @ d) = (Ok b, (t @ d) @ d')" "Q b (d @ d')" by (rule emitsE)
    with m Err show ?thesis by (simp add: prog_match_def)
  qed (use o' in simp)
qed

lemma emits_when:
  assumes "emits m (\<lambda>b d. if b then emits body (\<lambda>u d'. Q u (d @ d')) else Q () d)"
  shows "emits (prog_when m body) Q"
  unfolding prog_when_def
  by (rule emits_bind, rule emits_mono [OF assms]) (auto intro: emits_return split: if_splits)

lemma emits_True_uart_str:
  "uart_prompt k env p \<Longrightarrow> k < fuel \<Longrightarrow> emits (uart_write_str fuel env p s) (\<lambda>_ _. True)"
  unfolding uart_write_str_def by (rule emits_mono [OF emits_uart_chars]) auto

lemma emits_True_poll:
  "emits (prog_map f (peripheral_read env p n)) (\<lambda>_ _. True)"
  by (intro emits_map emits_peripheral_read) simp

lemma emits_True_bind:
  "emits m (\<lambda>_ _. True) \<Longrightarrow> (\<And>a. emits (f a) (\<lambda>_ _. True)) \<Longrightarrow> emits (prog_bind m f) (\<lambda>_ _. True)"
  by (rule emits_bind) (auto elim: emits_mono)

lemma emits_True_then:
  "emits m (\<lambda>_ _. True) \<Longrightarrow> emits n (\<lambda>_ _. True) \<Longrightarrow> emits (prog_then m n) (\<lambda>_ _. True)"
  unfolding prog_then_def by (rule emits_True_bind)

lemma emits_True_when:
  "emits m (\<lambda>_ _. True) \<Longrightarrow> emits body (\<lambda>_ _. True) \<Longrightarrow> emits (prog_when m body) (\<lambda>_ _. True)"
  unfolding prog_when_def by (rule emits_True_bind) (auto intro: emits_return)

lemma emits_True_handle:
  assumes "uart_prompt k env UART_BASE" and "k < fuel"
  shows "emits (handle_request fuel env) (\<lambda>_ _. True)"
  unfolding handle_request_def
proof (rule emits_match)
  fix t
  have perform: "emits (perform_request fuel env cmd) (\<lambda>_ _. True)" for cmd
    by (cases cmd) (auto simp: emits_def perform_write perform_read Let_def)
  obtain d where "snd (parse_host_request env USB_OUT_BASE t) = t @ d"
    and "fst (parse_host_request env USB_OUT_BASE t) \<noteq> Panic"
    using parse_reads_only [of env USB_OUT_BASE t] by auto
  then show "\<exists>o' d. parse_host_request env USB_OUT_BASE t = (o', t @ d) \<and> (case o' of
      Ok a \<Rightarrow> emits (perform_request fuel env a) (\<lambda>_ _. True)
    | Err e \<Rightarrow> emits (uart_write_str fuel env UART_BASE (error_str e)) (\<lambda>_ _. True) | Panic \<Rightarrow> False)"
    by (intro exI [of _ "fst (parse_host_request env USB_OUT_BASE t)"] exI [of _ d])
      (auto simp: prod_eq_iff perform emits_True_uart_str [OF assms] split: outcome.splits)
qed

text \<open>
  C33: serving the OUT endpoint terminates and re-arms it. If the UART becomes ready within \<open>k\<close>
  polls, the step returns, for any host traffic, malformed requests included; when the endpoint was
  disabled (a packet has arrived) it ends by clearing the stall, priming and enabling the endpoint,
  and otherwise it only reads the enable register.
\<close>

theorem usb_out_service_rearms:
  assumes "uart_prompt k env UART_BASE" and "k < fuel"
  shows "\<exists>v d. service_usb_out fuel env t = (Ok (), t @ BusRead (peripheral_address USB_OUT_BASE 4) v # d)
    \<and> (if (ucast v :: u8) = 0
       then \<exists>d'. d = d' @ [BusWrite (peripheral_address USB_OUT_BASE 6) 0,
           BusWrite (peripheral_address USB_OUT_BASE 5) 1, BusWrite (peripheral_address USB_OUT_BASE 4) 1]
       else d = [])"
proof -
  note str = emits_True_uart_str [OF assms]
  have serve: "emits (prog_when (prog_and (prog_map (\<lambda>v. v \<noteq> 0) (usb_out_get_have env USB_OUT_BASE))
       (prog_map (\<lambda>v. v = EndpointNumber_u8 EndpointNumber_FramerControl) (usb_out_get_data_ep env USB_OUT_BASE)))
      (seq_all [prog_when (usb_in_is_stalled env USB_IN_BASE) (seq_all [usb_in_clear_stall USB_IN_BASE,
            uart_write_str fuel env UART_BASE (''IN: stall'' @ [CHR 0x0a])]),
         prog_when (prog_map Not (usb_in_is_idle env USB_IN_BASE))
           (uart_write_str fuel env UART_BASE (''IN: !idle'' @ [CHR 0x0a])),
         prog_when (prog_map Not (usb_in_is_fifo_empty env USB_IN_BASE))
           (uart_write_str fuel env UART_BASE (''IN: !empty'' @ [CHR 0x0a])),
         handle_request fuel env])) (\<lambda>_ _. True)"
    unfolding prog_and_def usb_out_get_have_def usb_out_get_data_ep_def usb_in_is_stalled_def
      usb_in_is_idle_def usb_in_is_fifo_empty_def usb_in_clear_stall_def seq_all.simps if_distrib
    by (intro emits_True_when emits_True_bind emits_True_then emits_map emits_peripheral_read
        emits_peripheral_write emits_return str emits_True_handle [OF assms] TrueI impI)
      (auto intro: emits_return emits_map emits_peripheral_read)
  have "emits (service_usb_out fuel env) (\<lambda>_ d. \<exists>v d'. d = BusRead (peripheral_address USB_OUT_BASE 4) v # d'
      \<and> (if (ucast v :: u8) = 0
         then \<exists>d''. d' = d'' @ [BusWrite (peripheral_address USB_OUT_BASE 6) 0,
             BusWrite (peripheral_address USB_OUT_BASE 5) 1, BusWrite (peripheral_address USB_OUT_BASE 4) 1]
         else d' = []))"
    unfolding service_usb_out_def
    apply (rule emits_when)
    unfolding usb_out_get_enable_def
    apply (intro emits_map emits_peripheral_read)
    subgoal for v
    proof (cases "(ucast v :: u8) = 0")
      case True
      show ?thesis
        apply (simp only: True simp_thms if_True seq_all.simps)
        apply (rule emits_then, rule emits_mono [OF serve [unfolded seq_all.simps]])
        apply (unfold usb_out_set_stall_def usb_out_set_prime_def usb_out_set_enable_def)
        apply (intro emits_then emits_peripheral_write emits_return)
        using True by auto
    qed simp
    done
  then show ?thesis by (rule emitsE [of _ _ t]) auto
qed

theorem usb_out_service_rearms_witness:
  "\<exists>v d. service_usb_out 1 (\<lambda>_ a. if a = 0x80000014 then 1 else 0) [] =
      (Ok (), [] @ BusRead (peripheral_address USB_OUT_BASE 4) v # d)
    \<and> (if (ucast v :: u8) = 0
       then \<exists>d'. d = d' @ [BusWrite (peripheral_address USB_OUT_BASE 6) 0,
           BusWrite (peripheral_address USB_OUT_BASE 5) 1, BusWrite (peripheral_address USB_OUT_BASE 4) 1]
       else d = [])"
proof (rule usb_out_service_rearms)
  show "uart_prompt 0 (\<lambda>_ a. if a = 0x80000014 then 1 else 0) UART_BASE"
    by (simp add: uart_prompt_def UART_BASE_def)
qed simp

end
