(* ===== verification/Frames.thy ===== *)
theory Frames
  imports Tedium_Prelude
begin

text \<open>
  The frame data of \<^verbatim>\<open>tedium-tool/src/framer/audio.rs\<close>: timeslot addresses, frames of 24 timeslots
  for each of 8 channels, and frames with the count and multiframe bits the gateware reports. The
  struct \<open>Frame\<close> is the array of rows itself; an index out of range panics (\<open>None\<close>).
\<close>

definition CHANNELS :: nat where
  "CHANNELS = 8"

definition TIMESLOTS_PER_CHANNEL :: nat where
  "TIMESLOTS_PER_CHANNEL = 24"

record timeslot_address =
  ta_channel :: nat
  ta_timeslot :: nat

definition timeslot_address_new :: "nat \<Rightarrow> nat \<Rightarrow> timeslot_address" where
  "timeslot_address_new channel timeslot = \<lparr>ta_channel = channel, ta_timeslot = timeslot\<rparr>"

lemma timeslot_address_new_simps [simp]:
  "ta_channel (timeslot_address_new c t) = c"
  "ta_timeslot (timeslot_address_new c t) = t"
  by (simp_all add: timeslot_address_new_def)

lemma timeslot_address_new_eq [simp]:
  "timeslot_address_new c t = timeslot_address_new c' t' \<longleftrightarrow> c = c' \<and> t = t'"
  by (simp add: timeslot_address_new_def)

type_synonym frame = "u8 list list"

definition frame_default :: frame where
  "frame_default = replicate TIMESLOTS_PER_CHANNEL (replicate CHANNELS 0xff)"

definition frame_timeslot :: "frame \<Rightarrow> timeslot_address \<Rightarrow> u8 option" where
  "frame_timeslot f a =
     Option.bind (slice_index f (ta_timeslot a)) (\<lambda>row. slice_index row (ta_channel a))"

text \<open>\<open>*frame.timeslot_mut(&address) = v\<close>\<close>

definition frame_set_timeslot :: "frame \<Rightarrow> timeslot_address \<Rightarrow> u8 \<Rightarrow> frame option" where
  "frame_set_timeslot f a v =
     Option.bind (frame_timeslot f a) (\<lambda>_.
       Some (f[ta_timeslot a := (f ! ta_timeslot a)[ta_channel a := v]]))"

record internal_frame =
  if_frame :: frame
  if_frame_count :: u32
  if_mf_bits :: u8

text \<open>The array type \<open>[[u8; 8]; 24]\<close>.\<close>

definition frame_ok :: "frame \<Rightarrow> bool" where
  "frame_ok f \<longleftrightarrow> length f = 24 \<and> (\<forall>row \<in> set f. length row = 8)"

lemma frame_default_ok [simp]: "frame_ok frame_default"
  by (simp add: frame_ok_def frame_default_def TIMESLOTS_PER_CHANNEL_def CHANNELS_def)

lemma frame_row_length: "frame_ok f \<Longrightarrow> t < 24 \<Longrightarrow> length (f ! t) = 8"
  by (simp add: frame_ok_def)

lemma frame_timeslot_eq:
  assumes "frame_ok f"
  shows "frame_timeslot f a =
    (if ta_timeslot a < 24 \<and> ta_channel a < 8 then Some (f ! ta_timeslot a ! ta_channel a) else None)"
  using assms frame_row_length [OF assms, of "ta_timeslot a"]
  by (simp add: frame_timeslot_def slice_index_def frame_ok_def)

lemma frame_set_timeslot_eq:
  assumes "frame_ok f" and "ta_timeslot a < 24" and "ta_channel a < 8"
  shows "frame_set_timeslot f a v =
    Some (f[ta_timeslot a := (f ! ta_timeslot a)[ta_channel a := v]])"
  using assms by (simp add: frame_set_timeslot_def frame_timeslot_eq)

lemma frame_ok_update:
  assumes "frame_ok f" and "t < 24"
  shows "frame_ok (f[t := (f ! t)[c := v]])"
  using assms frame_row_length [OF assms] set_update_subset_insert [of f t "(f ! t)[c := v]"]
  by (auto simp: frame_ok_def)

lemma frame_set_timeslot_ok:
  assumes "frame_ok f" and "frame_set_timeslot f a v = Some g"
  shows "frame_ok g"
  using assms frame_ok_update [OF assms(1), of "ta_timeslot a" "ta_channel a" v]
  by (auto simp: frame_set_timeslot_def frame_timeslot_eq split: if_splits)

end
