(* ===== verification/Robbed_Bit.thy ===== *)
theory Robbed_Bit
  imports Frames
begin

text \<open>
  Robbed-bit signaling of \<^verbatim>\<open>tedium-tool/src/framer/audio.rs\<close>: collecting the ABCD bits of an extended
  superframe of 24 frames (\<open>RobbedBitFrame\<close>), debouncing them over superframes
  (\<open>RobbedBitDebouncer\<close>), and the monitors of frame counts and of the extended superframe. The
  arrays \<open>[u8; 24]\<close> are lists of length 24 (\<open>robbed_bit_frame_ok\<close>); a callback \<open>change_fn\<close> is the
  list of calls made to it.
\<close>

section \<open>Collecting the robbed bits\<close>

record robbed_bit_frame =
  rb_timeslot :: "u8 list"
  rb_superframe_frame_count :: u32
  rb_bits_collected :: u8

definition rb_from_timestamp :: "u32 \<Rightarrow> robbed_bit_frame" where
  "rb_from_timestamp superframe_frame_count =
     \<lparr>rb_timeslot = replicate 24 0, rb_superframe_frame_count = superframe_frame_count,
      rb_bits_collected = 0\<rparr>"

definition rb_default :: robbed_bit_frame where
  "rb_default =
     \<lparr>rb_timeslot = replicate 24 0b0101, rb_superframe_frame_count = 0, rb_bits_collected = 0\<rparr>"

text \<open>The loop over the timeslots: each code shifts in the low bit of its timeslot.\<close>

fun rb_collect :: "internal_frame \<Rightarrow> nat \<Rightarrow> nat list \<Rightarrow> u8 list \<Rightarrow> u8 list option" where
  "rb_collect frame channel [] codes = Some codes"
| "rb_collect frame channel (timeslot_index # rest) codes =
     (case frame_timeslot (if_frame frame) (timeslot_address_new channel timeslot_index) of
        None \<Rightarrow> None
      | Some timeslot_value \<Rightarrow>
          rb_collect frame channel rest
            (codes[timeslot_index := push_bit 1 (codes ! timeslot_index) OR (timeslot_value AND 1)]))"

definition rb_process_frame ::
  "internal_frame \<Rightarrow> nat \<Rightarrow> robbed_bit_frame \<Rightarrow> (bool \<times> robbed_bit_frame) option" where
  "rb_process_frame frame channel self =
     (let frame_in_superframe = if_frame_count frame - rb_superframe_frame_count self in
      if frame_in_superframe \<ge> 24 then Some (False, self)
      else if frame_in_superframe mod 6 \<noteq> 5 then Some (False, self)
      else
        let bits = rb_bits_collected self OR push_bit (unat (frame_in_superframe div 6)) 1 in
        case rb_collect frame channel [0..<24] (rb_timeslot self) of
          None \<Rightarrow> None
        | Some codes \<Rightarrow>
            Some (frame_in_superframe = 23 \<and> bits = 0b1111,
              self\<lparr>rb_timeslot := codes, rb_bits_collected := bits\<rparr>))"

section \<open>Debouncing\<close>

record robbed_bit_debouncer =
  rd_state :: robbed_bit_frame
  rd_accumulator :: robbed_bit_frame
  rd_history :: robbed_bit_frame

definition debouncer_new :: robbed_bit_debouncer where
  "debouncer_new = \<lparr>rd_state = rb_default, rd_accumulator = rb_default, rd_history = rb_default\<rparr>"

definition debouncer_new_frame :: "u32 \<Rightarrow> robbed_bit_debouncer \<Rightarrow> robbed_bit_debouncer" where
  "debouncer_new_frame frame_count self = self\<lparr>rd_accumulator := rb_from_timestamp frame_count\<rparr>"

type_synonym rbs_change = "u32 \<times> timeslot_address \<times> u8"

text \<open>The loop over the timeslots of a complete superframe: the changes it reports and the states.\<close>

fun debounce_timeslots ::
  "nat \<Rightarrow> robbed_bit_frame \<Rightarrow> robbed_bit_frame \<Rightarrow> nat list \<Rightarrow> u8 list \<Rightarrow> rbs_change list \<times> u8 list" where
  "debounce_timeslots channel_index accumulator history [] state = ([], state)"
| "debounce_timeslots channel_index accumulator history (timeslot_index # rest) state =
     (let rbs_now = rb_timeslot accumulator ! timeslot_index;
          rbs_last = rb_timeslot history ! timeslot_index
      in if rbs_now = rbs_last \<and> rbs_now \<noteq> state ! timeslot_index then
           let (changes, state') = debounce_timeslots channel_index accumulator history rest
                 (state[timeslot_index := rbs_now])
           in ((rb_superframe_frame_count history,
                timeslot_address_new channel_index timeslot_index, rbs_now) # changes, state')
         else debounce_timeslots channel_index accumulator history rest state)"

definition debouncer_process_frame ::
  "internal_frame \<Rightarrow> nat \<Rightarrow> robbed_bit_debouncer \<Rightarrow>
    (rbs_change list \<times> robbed_bit_debouncer) option" where
  "debouncer_process_frame frame channel_index self =
     (case rb_process_frame frame channel_index (rd_accumulator self) of
        None \<Rightarrow> None
      | Some (valid, accumulator) \<Rightarrow>
          if valid then
            let (changes, state) = debounce_timeslots channel_index accumulator (rd_history self)
                  [0..<24] (rb_timeslot (rd_state self))
            in Some (changes, \<lparr>rd_state = (rd_state self)\<lparr>rb_timeslot := state\<rparr>,
                 rd_accumulator = accumulator, rd_history = accumulator\<rparr>)
          else Some ([], self\<lparr>rd_accumulator := accumulator\<rparr>))"

text \<open>
  One channel's turn in \<open>SignalingProcessor::process_frame\<close>: a multiframe bit starts a superframe,
  then the frame is processed.
\<close>

definition channel_mf :: "internal_frame \<Rightarrow> nat \<Rightarrow> bool" where
  "channel_mf frame channel_index \<longleftrightarrow>
     drop_bit channel_index (ucast (if_mf_bits frame) :: u32) AND 1 \<noteq> 0"

definition signaling_channel ::
  "internal_frame \<Rightarrow> nat \<Rightarrow> robbed_bit_debouncer \<Rightarrow>
    (rbs_change list \<times> robbed_bit_debouncer) option" where
  "signaling_channel frame channel_index debouncer =
     debouncer_process_frame frame channel_index
       (if channel_mf frame channel_index
        then debouncer_new_frame (if_frame_count frame) debouncer else debouncer)"

fun signaling_channel_run ::
  "nat \<Rightarrow> internal_frame list \<Rightarrow> robbed_bit_debouncer \<Rightarrow>
    (rbs_change list \<times> robbed_bit_debouncer) option" where
  "signaling_channel_run c [] d = Some ([], d)"
| "signaling_channel_run c (f # fs) d =
     (case signaling_channel f c d of None \<Rightarrow> None
      | Some (xs, d') \<Rightarrow>
          (case signaling_channel_run c fs d' of None \<Rightarrow> None
           | Some (ys, d'') \<Rightarrow> Some (xs @ ys, d'')))"

section \<open>Extended superframe and frame count monitors\<close>

record extended_superframe_state =
  es_superframe_frame_count :: u32
  es_framing_bits :: u32
  es_crc_bits :: u32
  es_fdl_bits :: u32
  es_bits_collected :: u32

definition esf_from_timestamp :: "u32 \<Rightarrow> extended_superframe_state" where
  "esf_from_timestamp superframe_frame_count =
     \<lparr>es_superframe_frame_count = superframe_frame_count, es_framing_bits = 0, es_crc_bits = 0,
      es_fdl_bits = 0, es_bits_collected = 0\<rparr>"

definition esf_default :: extended_superframe_state where
  "esf_default =
     \<lparr>es_superframe_frame_count = 0, es_framing_bits = 0, es_crc_bits = 0, es_fdl_bits = 0,
      es_bits_collected = 0\<rparr>"

definition esf_process_frame ::
  "internal_frame \<Rightarrow> bool \<Rightarrow> extended_superframe_state \<Rightarrow>
    (bool \<times> extended_superframe_state) option" where
  "esf_process_frame frame mf self =
     (let frame_in_superframe = if_frame_count frame - es_superframe_frame_count self in
      if frame_in_superframe \<ge> 24 then Some (False, self)
      else
        let mf_phase = frame_in_superframe AND 3; mf_bit = of_bool mf :: u32 in
        case (if mf_phase = 0 \<or> mf_phase = 2 then
                Some (self\<lparr>es_fdl_bits := push_bit 1 (es_fdl_bits self) OR mf_bit\<rparr>)
              else if mf_phase = 1 then
                Some (self\<lparr>es_crc_bits := push_bit 1 (es_crc_bits self) OR mf_bit\<rparr>)
              else if mf_phase = 3 then
                Some (self\<lparr>es_framing_bits := push_bit 1 (es_framing_bits self) OR mf_bit\<rparr>)
              else None) of
          None \<Rightarrow> None
        | Some self \<Rightarrow>
            Some (frame_in_superframe = 23 \<and> es_bits_collected self = push_bit 23 1 - 1, self))"

record frame_count_monitor =
  fm_last_frame_count :: u32

definition monitor_new :: frame_count_monitor where
  "monitor_new = \<lparr>fm_last_frame_count = 0\<rparr>"

definition monitor_update ::
  "u32 \<Rightarrow> frame_count_monitor \<Rightarrow> u32 option \<times> frame_count_monitor" where
  "monitor_update frame_count self =
     (if fm_last_frame_count self \<noteq> 0 then
        let expected_frame_count = fm_last_frame_count self + 1 in
        if frame_count \<noteq> expected_frame_count then Some (frame_count - expected_frame_count)
        else None
      else None,
      self\<lparr>fm_last_frame_count := frame_count\<rparr>)"

end
