(* ===== verification/Robbed_Bit_Spec.thy ===== *)
theory Robbed_Bit_Spec
  imports Robbed_Bit
begin

text \<open>
  What the robbed-bit receiver of theory \<open>Robbed_Bit\<close> promises. A complete superframe yields the
  ABCD codes of its frames 5, 11, 17 and 23; a superframe with one of these frames missing yields
  nothing, and the other frames do not matter; and over whole superframes the reported changes of every timeslot are those of a
  one-timeslot debouncer, for which stability and completeness are shown.
\<close>

section \<open>Shapes\<close>

definition rb_ok :: "robbed_bit_frame \<Rightarrow> bool" where
  "rb_ok r \<longleftrightarrow> length (rb_timeslot r) = 24"

definition debouncer_ok :: "robbed_bit_debouncer \<Rightarrow> bool" where
  "debouncer_ok d \<longleftrightarrow> rb_ok (rd_state d) \<and> rb_ok (rd_accumulator d) \<and> rb_ok (rd_history d)"

lemma rb_ok_new [simp]: "rb_ok (rb_from_timestamp n)" "rb_ok rb_default"
  by (simp_all add: rb_ok_def rb_from_timestamp_def rb_default_def)

lemma debouncer_new_simps:
  "rb_timeslot (rd_state debouncer_new) = replicate 24 0b0101"
  "rb_timeslot (rd_history debouncer_new) = replicate 24 0b0101"
  "rb_superframe_frame_count (rd_history debouncer_new) = 0"
  by (simp_all add: debouncer_new_def rb_default_def)

lemma debouncer_ok_new [simp]: "debouncer_ok debouncer_new"
  by (simp add: debouncer_ok_def debouncer_new_def)

text \<open>The low bit of a timeslot in a frame.\<close>

definition robbed_bit :: "nat \<Rightarrow> nat \<Rightarrow> internal_frame \<Rightarrow> u8" where
  "robbed_bit c t f = (if_frame f ! t ! c) AND 1"

lemma rb_collect_length:
  "rb_collect f c ts codes = Some codes' \<Longrightarrow> length codes' = length codes"
  by (induction f c ts codes rule: rb_collect.induct) (auto split: option.splits)

lemma rb_collect_eq:
  assumes "frame_ok (if_frame f)" and "c < 8" and "distinct ts" and "set ts \<subseteq> {..<24}"
    and "length codes = 24"
  shows "\<exists>codes'. rb_collect f c ts codes = Some codes' \<and> length codes' = 24 \<and>
    (\<forall>t < 24. codes' ! t =
       (if t \<in> set ts then push_bit 1 (codes ! t) OR robbed_bit c t f else codes ! t))"
  using assms(3-)
proof (induction ts arbitrary: codes)
  case (Cons i ts)
  have "frame_timeslot (if_frame f) (timeslot_address_new c i) = Some (if_frame f ! i ! c)"
    using Cons.prems assms(1,2) by (simp add: frame_timeslot_eq)
  with Cons.prems Cons.IH [of "codes[i := push_bit 1 (codes ! i) OR robbed_bit c i f]"]
  show ?case
    by (auto simp: robbed_bit_def nth_list_update)
qed simp

lemma rb_collect_all:
  assumes "frame_ok (if_frame f)" and "c < 8" and "length codes = 24"
  shows "rb_collect f c [0..<24] codes =
    Some (map (\<lambda>t. push_bit 1 (codes ! t) OR robbed_bit c t f) [0..<24])"
proof -
  have "distinct [0..<24::nat]" and "set [0..<24::nat] \<subseteq> {..<24}"
    by (simp, simp only: set_upt, auto)
  from rb_collect_eq [OF assms(1,2) this assms(3)] obtain codes' where
    1: "rb_collect f c [0..<24] codes = Some codes'" and "length codes' = 24" and
    "\<forall>t < 24. codes' ! t = push_bit 1 (codes ! t) OR robbed_bit c t f"
    by (auto simp del: upt_Suc)
  then have "codes' = map (\<lambda>t. push_bit 1 (codes ! t) OR robbed_bit c t f) [0..<24]"
    by (auto intro!: nth_equalityI simp del: upt_Suc)
  with 1 show ?thesis by simp
qed

lemma rb_process_frame_ok:
  assumes "rb_process_frame f c r = Some (b, r')" and "rb_ok r"
  shows "rb_ok r'"
  using assms by (auto simp: rb_process_frame_def rb_ok_def Let_def
      dest: rb_collect_length split: if_splits option.splits)

section \<open>A complete superframe\<close>

text \<open>
  The 24 frames that follow a multiframe mark with count \<open>n\<close> (counts wrap around), none of which
  but the first carries a mark for the channel.
\<close>

definition superframe :: "nat \<Rightarrow> u32 \<Rightarrow> internal_frame list \<Rightarrow> bool" where
  "superframe c n fs \<longleftrightarrow> length fs = 24 \<and>
     (\<forall>k < 24. if_frame_count (fs ! k) = n + of_nat k \<and> frame_ok (if_frame (fs ! k)) \<and>
        (channel_mf (fs ! k) c \<longleftrightarrow> k = 0))"

text \<open>The frames whose low bit is robbed, and the code they spell, most significant bit first.\<close>

definition robbed_frames :: "nat \<Rightarrow> nat list" where
  "robbed_frames k = filter (\<lambda>j. j mod 6 = 5) [0..<k]"

definition code_until :: "nat \<Rightarrow> nat \<Rightarrow> internal_frame list \<Rightarrow> nat \<Rightarrow> u8" where
  "code_until c k fs t =
     foldl (\<lambda>code j. push_bit 1 code OR robbed_bit c t (fs ! j)) 0 (robbed_frames k)"

definition abcd_code :: "nat \<Rightarrow> internal_frame list \<Rightarrow> nat \<Rightarrow> u8" where
  "abcd_code c fs t =
     push_bit 3 (robbed_bit c t (fs ! 5)) OR push_bit 2 (robbed_bit c t (fs ! 11)) OR
     push_bit 1 (robbed_bit c t (fs ! 17)) OR robbed_bit c t (fs ! 23)"

definition bits_until :: "nat \<Rightarrow> u8" where
  "bits_until k = foldl (\<lambda>bits j. bits OR push_bit (j div 6) 1) 0 (robbed_frames k)"

definition accumulator_at :: "nat \<Rightarrow> u32 \<Rightarrow> internal_frame list \<Rightarrow> nat \<Rightarrow> robbed_bit_frame" where
  "accumulator_at c n fs k =
     \<lparr>rb_timeslot = map (code_until c k fs) [0..<24], rb_superframe_frame_count = n,
      rb_bits_collected = bits_until k\<rparr>"

lemma robbed_frames_simps:
  "robbed_frames 0 = []"
  "robbed_frames (Suc k) = (if k mod 6 = 5 then robbed_frames k @ [k] else robbed_frames k)"
  by (simp_all add: robbed_frames_def)

lemma robbed_frames_24: "robbed_frames 24 = [5, 11, 17, 23]"
  by code_simp

lemma bits_until_simps:
  "bits_until 0 = 0"
  "bits_until (Suc k) =
     (if k mod 6 = 5 then bits_until k OR push_bit (k div 6) 1 else bits_until k)"
  "bits_until 23 = 0b111"
  by (simp_all add: bits_until_def robbed_frames_simps) code_simp

lemma code_until_simps:
  "code_until c 0 fs = (\<lambda>t. 0)"
  "code_until c (Suc k) fs =
     (if k mod 6 = 5 then \<lambda>t. push_bit 1 (code_until c k fs t) OR robbed_bit c t (fs ! k)
      else code_until c k fs)"
  by (simp_all add: code_until_def robbed_frames_simps fun_eq_iff)

lemma accumulator_start: "accumulator_at c n fs 0 = rb_from_timestamp n"
  by (simp add: accumulator_at_def rb_from_timestamp_def code_until_simps bits_until_simps
      map_replicate_const del: upt_Suc)

lemma code_until_24: "code_until c 24 fs t = abcd_code c fs t"
proof -
  have "code_until c 24 fs t = push_bit 1 (push_bit 1 (push_bit 1 (robbed_bit c t (fs ! 5)) OR
      robbed_bit c t (fs ! 11)) OR robbed_bit c t (fs ! 17)) OR robbed_bit c t (fs ! 23)"
    by (simp only: code_until_def robbed_frames_24 foldl_Cons foldl_Nil push_bit_of_0
        or.left_neutral)
  moreover have "1 + 1 = (2::nat)" "1 + 2 = (3::nat)"
    by simp_all
  ultimately show ?thesis
    by (simp only: abcd_code_def push_bit_or push_bit_push_bit or.assoc)
qed

lemma small_word_tests:
  fixes w :: u32
  assumes "unat w = k" and "k < 24"
  shows "\<not> w \<ge> 24" and "w mod 6 = 5 \<longleftrightarrow> k mod 6 = 5" and "unat (w div 6) = k div 6"
    and "w = 23 \<longleftrightarrow> k = 23"
  using assms
  by (simp_all add: word_le_nat_alt unat_div unat_mod word_unat_eq_iff)

lemma process_superframe_step:
  assumes "superframe c n fs" and "k < 24" and "c < 8"
  shows "rb_process_frame (fs ! k) c (accumulator_at c n fs k) =
    Some (k = 23, accumulator_at c n fs (Suc k))"
proof -
  let ?w = "if_frame_count (fs ! k) - n"
  have frame: "frame_ok (if_frame (fs ! k))" and "?w = of_nat k"
    using assms by (auto simp: superframe_def)
  then have "unat ?w = k"
    using assms(2) by (simp add: unat_of_nat take_bit_nat_eq_self_iff)
  note tests = small_word_tests [OF this assms(2)]
  show ?thesis
    using rb_collect_all [OF frame assms(3), of "map (code_until c k fs) [0..<24]"] tests
    by (auto simp: rb_process_frame_def accumulator_at_def Let_def code_until_simps
        bits_until_simps simp del: upt_Suc)
qed


section \<open>Debouncing over superframes\<close>

text \<open>
  The specification for one timeslot: from the reported code \<open>s\<close> and the last superframe (its count
  and code), a code that is seen in two superframes in a row and is not the reported one is
  reported, with the count of the first of the two.
\<close>

fun debounce_slot :: "u8 \<Rightarrow> u32 \<times> u8 \<Rightarrow> (u32 \<times> u8) list \<Rightarrow> (u32 \<times> u8) list" where
  "debounce_slot s (m, h) [] = []"
| "debounce_slot s (m, h) ((n, code) # rest) =
     (if code = h \<and> code \<noteq> s then (m, code) # debounce_slot code (n, code) rest
      else debounce_slot s (n, code) rest)"

fun debounce_final :: "u8 \<Rightarrow> u8 \<Rightarrow> u8 list \<Rightarrow> u8" where
  "debounce_final s h [] = s"
| "debounce_final s h (code # rest) =
     debounce_final (if code = h then code else s) code rest"

definition changes_of :: "nat \<Rightarrow> nat \<Rightarrow> rbs_change list \<Rightarrow> (u32 \<times> u8) list" where
  "changes_of c t xs =
     map (\<lambda>(n, a, v). (n, v)) (filter (\<lambda>(n, a, v). a = timeslot_address_new c t) xs)"

lemma changes_of_simps [simp]:
  "changes_of c t [] = []"
  "changes_of c t ((n, a, v) # xs) =
     (if a = timeslot_address_new c t then (n, v) # changes_of c t xs else changes_of c t xs)"
  "changes_of c t (xs @ ys) = changes_of c t xs @ changes_of c t ys"
  by (simp_all add: changes_of_def)

lemma debounce_timeslots_eq:
  assumes "distinct ts" and "set ts \<subseteq> {..<length st}"
    and "debounce_timeslots c acc hist ts st = (xs, st')"
  shows "length st' = length st \<and>
    (\<forall>t. st' ! t = (if t \<in> set ts \<and> rb_timeslot acc ! t = rb_timeslot hist ! t
       then rb_timeslot acc ! t else st ! t)) \<and>
    (\<forall>t. changes_of c t xs =
       (if t \<in> set ts \<and> rb_timeslot acc ! t = rb_timeslot hist ! t \<and> rb_timeslot acc ! t \<noteq> st ! t
        then [(rb_superframe_frame_count hist, rb_timeslot acc ! t)] else [])) \<and>
    (\<forall>(n, a, v) \<in> set xs. ta_channel a = c \<and> ta_timeslot a \<in> set ts)"
  using assms
proof (induction ts arbitrary: st xs st')
  case (Cons i ts)
  let ?change = "rb_timeslot acc ! i = rb_timeslot hist ! i \<and> rb_timeslot acc ! i \<noteq> st ! i"
  show ?case
  proof (cases ?change)
    case True
    then obtain ys where rec: "debounce_timeslots c acc hist ts (st[i := rb_timeslot acc ! i]) = (ys, st')"
      and xs: "xs = (rb_superframe_frame_count hist, timeslot_address_new c i, rb_timeslot acc ! i) # ys"
      using Cons.prems(3) by (auto simp: Let_def split: prod.splits)
    from Cons.IH [OF _ _ rec] Cons.prems(1,2) True show ?thesis
      by (auto simp: xs nth_list_update)
  next
    case False
    then have rec: "debounce_timeslots c acc hist ts st = (xs, st')"
      using Cons.prems(3) by (auto simp: Let_def)
    from Cons.IH [OF _ _ rec] Cons.prems(1,2) False show ?thesis
      by auto
  qed
qed simp

lemma signaling_channel_run_append:
  "signaling_channel_run c (fs @ gs) d =
     (case signaling_channel_run c fs d of None \<Rightarrow> None
      | Some (xs, d') \<Rightarrow>
          (case signaling_channel_run c gs d' of None \<Rightarrow> None
           | Some (ys, d'') \<Rightarrow> Some (xs @ ys, d'')))"
  by (induction fs arbitrary: d) (auto split: option.splits prod.splits)

text \<open>The state a complete superframe leaves behind, and the changes it reports.\<close>

definition superframe_commit ::
  "nat \<Rightarrow> u32 \<Rightarrow> internal_frame list \<Rightarrow> robbed_bit_debouncer \<Rightarrow> rbs_change list \<times> robbed_bit_debouncer" where
  "superframe_commit c n fs d =
     (let (xs, st) = debounce_timeslots c (accumulator_at c n fs 24) (rd_history d) [0..<24]
            (rb_timeslot (rd_state d))
      in (xs, \<lparr>rd_state = (rd_state d)\<lparr>rb_timeslot := st\<rparr>,
           rd_accumulator = accumulator_at c n fs 24, rd_history = accumulator_at c n fs 24\<rparr>))"

lemma signaling_superframe_step:
  assumes "superframe c n fs" and "k < 24" and "c < 8"
    and "0 < k \<Longrightarrow> rd_accumulator d = accumulator_at c n fs k"
  shows "signaling_channel (fs ! k) c d =
    Some (if k = 23 then superframe_commit c n fs d
      else ([], d\<lparr>rd_accumulator := accumulator_at c n fs (Suc k)\<rparr>))"
proof -
  let ?d = "if channel_mf (fs ! k) c then debouncer_new_frame (if_frame_count (fs ! k)) d else d"
  have "channel_mf (fs ! k) c \<longleftrightarrow> k = 0" and "k = 0 \<Longrightarrow> if_frame_count (fs ! k) = n"
    using assms(1,2) by (auto simp: superframe_def)
  with assms(4) have "rd_accumulator ?d = accumulator_at c n fs k"
    and "rd_state ?d = rd_state d" and "rd_history ?d = rd_history d"
    and "\<And>acc. ?d\<lparr>rd_accumulator := acc\<rparr> = d\<lparr>rd_accumulator := acc\<rparr>"
    by (auto simp: debouncer_new_frame_def accumulator_start)
  then show ?thesis
    using process_superframe_step [OF assms(1-3)]
    by (auto simp: signaling_channel_def debouncer_process_frame_def superframe_commit_def
        simp del: upt_Suc split: prod.splits)
qed

lemma signaling_superframe_prefix:
  assumes "superframe c n fs" and "c < 8" and "0 < k" and "k < 24"
  shows "signaling_channel_run c (take k fs) d =
    Some ([], d\<lparr>rd_accumulator := accumulator_at c n fs k\<rparr>)"
  using assms(3,4)
proof (induction k)
  case (Suc k)
  have take: "take (Suc k) fs = take k fs @ [fs ! k]"
    using assms(1) Suc.prems by (simp add: superframe_def take_Suc_conv_app_nth)
  show ?case
  proof (cases "k = 0")
    case True
    with signaling_superframe_step [OF assms(1) _ assms(2), of 0 d] take show ?thesis
      by simp
  next
    case False
    with Suc have "signaling_channel_run c (take k fs) d =
        Some ([], d\<lparr>rd_accumulator := accumulator_at c n fs k\<rparr>)"
      by simp
    moreover have "signaling_channel (fs ! k) c (d\<lparr>rd_accumulator := accumulator_at c n fs k\<rparr>) =
        Some ([], d\<lparr>rd_accumulator := accumulator_at c n fs (Suc k)\<rparr>)"
      using signaling_superframe_step [OF assms(1) _ assms(2), of k] Suc.prems by simp
    ultimately show ?thesis
      by (simp add: take signaling_channel_run_append)
  qed
qed simp

lemma signaling_superframe:
  assumes "superframe c n fs" and "c < 8"
  shows "signaling_channel_run c fs d = Some (superframe_commit c n fs d)"
proof -
  let ?d = "d\<lparr>rd_accumulator := accumulator_at c n fs 23\<rparr>"
  have "fs = take 23 fs @ [fs ! 23]"
    using assms(1) by (simp add: superframe_def take_Suc_conv_app_nth [symmetric])
  then have "signaling_channel_run c fs d = signaling_channel_run c (take 23 fs @ [fs ! 23]) d"
    by simp
  moreover have "signaling_channel (fs ! 23) c ?d = Some (superframe_commit c n fs ?d)"
    using signaling_superframe_step [OF assms(1) _ assms(2), of 23 ?d] by simp
  moreover have "superframe_commit c n fs ?d = superframe_commit c n fs d"
    by (simp add: superframe_commit_def)
  ultimately show ?thesis
    using signaling_superframe_prefix [OF assms, of 23 d]
    by (simp add: signaling_channel_run_append split: prod.splits)
qed

lemma superframe_commit_eq:
  assumes "superframe_commit c n fs d = (xs, d')" and "debouncer_ok d"
  shows "debouncer_ok d'" and "rb_superframe_frame_count (rd_history d') = n"
    and "t < 24 \<Longrightarrow> rb_timeslot (rd_history d') ! t = abcd_code c fs t"
    and "t < 24 \<Longrightarrow> rb_timeslot (rd_state d') ! t =
      (if abcd_code c fs t = rb_timeslot (rd_history d) ! t then abcd_code c fs t
       else rb_timeslot (rd_state d) ! t)"
    and "t < 24 \<Longrightarrow> changes_of c t xs =
      (if abcd_code c fs t = rb_timeslot (rd_history d) ! t \<and>
          abcd_code c fs t \<noteq> rb_timeslot (rd_state d) ! t
       then [(rb_superframe_frame_count (rd_history d), abcd_code c fs t)] else [])"
    and "\<forall>(m, a, v) \<in> set xs. ta_channel a = c \<and> ta_timeslot a < 24"
proof -
  let ?A = "accumulator_at c n fs 24"
  obtain st where run: "debounce_timeslots c ?A (rd_history d) [0..<24]
      (rb_timeslot (rd_state d)) = (xs, st)"
    and d': "d' = \<lparr>rd_state = (rd_state d)\<lparr>rb_timeslot := st\<rparr>, rd_accumulator = ?A, rd_history = ?A\<rparr>"
    using assms(1) by (auto simp: superframe_commit_def split: prod.splits)
  have len: "length (rb_timeslot (rd_state d)) = 24"
    using assms(2) by (simp add: debouncer_ok_def rb_ok_def)
  have A: "t < 24 \<Longrightarrow> rb_timeslot ?A ! t = abcd_code c fs t" for t
    by (simp add: accumulator_at_def code_until_24 del: upt_Suc)
  have "set [0..<24] \<subseteq> {..<length (rb_timeslot (rd_state d))}"
    unfolding len by auto
  note eq = debounce_timeslots_eq [OF distinct_upt this run, unfolded set_upt]
  show "debouncer_ok d'"
    using eq len assms(2) by (simp add: d' debouncer_ok_def rb_ok_def accumulator_at_def del: upt_Suc)
  show "rb_superframe_frame_count (rd_history d') = n"
    by (simp add: d' accumulator_at_def)
  show "t < 24 \<Longrightarrow> rb_timeslot (rd_history d') ! t = abcd_code c fs t"
    by (simp add: d' A)
  show "t < 24 \<Longrightarrow> rb_timeslot (rd_state d') ! t =
      (if abcd_code c fs t = rb_timeslot (rd_history d) ! t then abcd_code c fs t
       else rb_timeslot (rd_state d) ! t)"
    using eq by (simp add: d' A)
  show "t < 24 \<Longrightarrow> changes_of c t xs =
      (if abcd_code c fs t = rb_timeslot (rd_history d) ! t \<and>
          abcd_code c fs t \<noteq> rb_timeslot (rd_state d) ! t
       then [(rb_superframe_frame_count (rd_history d), abcd_code c fs t)] else [])"
    using eq by (auto simp: A)
  show "\<forall>(m, a, v) \<in> set xs. ta_channel a = c \<and> ta_timeslot a < 24"
    using eq by auto
qed

lemma debounce_superframes:
  assumes "\<forall>(n, fs) \<in> set sfs. superframe c n fs" and "c < 8" and "debouncer_ok d"
  shows "\<exists>xs d'. signaling_channel_run c (concat (map snd sfs)) d = Some (xs, d') \<and>
    debouncer_ok d' \<and> (\<forall>(m, a, v) \<in> set xs. ta_channel a = c \<and> ta_timeslot a < 24) \<and>
    (\<forall>t < 24.
       changes_of c t xs = debounce_slot (rb_timeslot (rd_state d) ! t)
         (rb_superframe_frame_count (rd_history d), rb_timeslot (rd_history d) ! t)
         (map (\<lambda>(n, fs). (n, abcd_code c fs t)) sfs) \<and>
       rb_timeslot (rd_state d') ! t = debounce_final (rb_timeslot (rd_state d) ! t)
         (rb_timeslot (rd_history d) ! t) (map (\<lambda>(n, fs). abcd_code c fs t) sfs))"
  using assms(1,3)
proof (induction sfs arbitrary: d)
  case (Cons sf sfs)
  obtain n fs where sf: "sf = (n, fs)"
    by (cases sf)
  obtain xs e where commit: "superframe_commit c n fs d = (xs, e)"
    by fastforce
  note facts = superframe_commit_eq [OF commit Cons.prems(2)]
  have "\<forall>(n, fs) \<in> set sfs. superframe c n fs"
    using Cons.prems(1) by simp
  from Cons.IH [OF this facts(1)] obtain ys e' where
    run: "signaling_channel_run c (concat (map snd sfs)) e = Some (ys, e')" and
    rest: "debouncer_ok e'" "\<forall>(m, a, v) \<in> set ys. ta_channel a = c \<and> ta_timeslot a < 24"
    "\<forall>t < 24.
       changes_of c t ys = debounce_slot (rb_timeslot (rd_state e) ! t)
         (rb_superframe_frame_count (rd_history e), rb_timeslot (rd_history e) ! t)
         (map (\<lambda>(n, fs). (n, abcd_code c fs t)) sfs) \<and>
       rb_timeslot (rd_state e') ! t = debounce_final (rb_timeslot (rd_state e) ! t)
         (rb_timeslot (rd_history e) ! t) (map (\<lambda>(n, fs). abcd_code c fs t) sfs)"
    by blast
  show ?case
  proof (intro exI conjI)
    show "signaling_channel_run c (concat (map snd (sf # sfs))) d = Some (xs @ ys, e')"
      using Cons.prems(1) signaling_superframe [of c n fs d] run assms(2)
      by (simp add: sf commit signaling_channel_run_append)
    show "debouncer_ok e'"
      by (rule rest(1))
    show "\<forall>(m, a, v) \<in> set (xs @ ys). ta_channel a = c \<and> ta_timeslot a < 24"
      using facts(6) rest(2) by (simp add: ball_Un)
  qed (use rest(3) facts(2-5) in \<open>auto simp: sf\<close>)
qed simp

section \<open>The debouncer as a specification\<close>

lemma debounce_slot_stable:
  "(m, v) \<in> set (debounce_slot s (m0, h) codes) \<Longrightarrow>
   \<exists>i < length codes. ((m0, h) # codes) ! i = (m, v) \<and> snd (codes ! i) = v"
proof (induction s "(m0, h)" codes arbitrary: m0 h rule: debounce_slot.induct)
  case (2 s m0 h n code rest)
  let ?s = "if code = h \<and> code \<noteq> s then code else s"
  consider "(m, v) = (m0, code)" "code = h" | "(m, v) \<in> set (debounce_slot ?s (n, code) rest)"
    using "2.prems" by (auto split: if_splits)
  then show ?case
  proof cases
    case 1
    then show ?thesis by (intro exI [of _ 0]) simp
  next
    case 2
    then obtain i where "i < length rest" "((n, code) # rest) ! i = (m, v)" "snd (rest ! i) = v"
      using "2.hyps" by (auto split: if_splits)
    then show ?thesis by (intro exI [of _ "Suc i"]) simp
  qed
qed simp

text \<open>No report repeats the code that was reported before it.\<close>

fun alternating :: "u8 \<Rightarrow> u8 list \<Rightarrow> bool" where
  "alternating s [] \<longleftrightarrow> True"
| "alternating s (v # vs) \<longleftrightarrow> v \<noteq> s \<and> alternating v vs"

lemma debounce_slot_alternating: "alternating s (map snd (debounce_slot s mh codes))"
proof (cases mh)
  case (Pair m h)
  show ?thesis
    unfolding Pair by (induction s "(m, h)" codes arbitrary: m h rule: debounce_slot.induct) auto
qed

lemma debounce_final_append:
  "debounce_final s h (codes @ [v, v]) = v"
  by (induction codes arbitrary: s h) simp_all

lemma debounce_final_eq:
  "debounce_final s (snd mh) (map snd codes) =
     last (s # map snd (debounce_slot s mh codes))"
proof (cases mh)
  case (Pair m h)
  show ?thesis
    unfolding Pair
    by (induction s "(m, h)" codes arbitrary: m h rule: debounce_slot.induct) (auto split: if_splits)
qed

section \<open>Lost frames\<close>

lemma rb_process_frame_total:
  assumes "frame_ok (if_frame f)" and "c < 8" and "rb_ok r"
  shows "\<exists>b r'. rb_process_frame f c r = Some (b, r') \<and> rb_ok r'"
  using rb_collect_all [OF assms(1,2), of "rb_timeslot r"] assms(3)
  by (auto simp: rb_process_frame_def rb_ok_def Let_def simp del: upt_Suc)

text \<open>
  A collected bit comes from its frame: if the robbed frame \<open>6 * q + 5\<close> of a superframe is not among
  the frames processed, its bit stays clear and the superframe never becomes valid.
\<close>

definition waiting_for :: "u32 \<Rightarrow> nat \<Rightarrow> robbed_bit_frame \<Rightarrow> bool" where
  "waiting_for n q r \<longleftrightarrow> rb_superframe_frame_count r = n \<and> \<not> bit (rb_bits_collected r) q"

lemma robbed_frame_of_offset:
  fixes w :: u32
  assumes "\<not> w \<ge> 24" and "w mod 6 = 5" and "unat (w div 6) = q"
  shows "w = of_nat (6 * q + 5)"
proof -
  have "unat w mod 6 = 5" and "unat w div 6 = q"
    using assms(2,3) by (simp_all add: word_unat_eq_iff unat_mod unat_div)
  then have "unat w = 6 * q + 5"
    using mult_div_mod_eq [of 6 "unat w"] by simp
  moreover have "w = of_nat (unat w)"
    by simp
  ultimately show ?thesis
    by (simp only:)
qed

lemma rb_process_frame_waiting:
  assumes "rb_process_frame f c r = Some (b, r')" and "waiting_for n q r" and "q < 4"
    and "if_frame_count f \<noteq> n + of_nat (6 * q + 5)"
  shows "\<not> b" and "waiting_for n q r'"
proof -
  have off: "if_frame_count f - n \<noteq> of_nat (6 * q + 5)"
    using assms(4) by (metis add.commute diff_add_cancel)
  let ?w = "if_frame_count f - n"
  let ?B = "rb_bits_collected r OR push_bit (unat (?w div 6)) 1"
  have n: "rb_superframe_frame_count r = n"
    using assms(2) by (simp add: waiting_for_def)
  have bit15: "bit (0b1111 :: u8) q"
    using assms(3) by (auto simp: less_Suc_eq numeral_eq_Suc)
  consider "\<not> b" "r' = r"
    | codes where "\<not> ?w \<ge> 24" "?w mod 6 = 5" "b \<longrightarrow> ?B = 0b1111"
        "r' = r\<lparr>rb_timeslot := codes, rb_bits_collected := ?B\<rparr>"
    using assms(1) by (auto simp: rb_process_frame_def Let_def n split: if_splits option.splits)
  then have "\<not> b \<and> waiting_for n q r'"
  proof cases
    case 1
    with assms(2) show ?thesis by simp
  next
    case 2
    have "unat (?w div 6) \<noteq> q"
      using robbed_frame_of_offset [OF 2(1,2)] off by metis
    then have "\<not> bit ?B q"
      using assms(2) by (auto simp: waiting_for_def bit_or_iff bit_exp_iff)
    with 2(3,4) bit15 n show ?thesis
      by (auto simp: waiting_for_def)
  qed
  then show "\<not> b" and "waiting_for n q r'"
    by simp_all
qed

lemma signaling_channel_run_waiting:
  assumes "\<forall>f \<in> set fs. frame_ok (if_frame f) \<and> \<not> channel_mf f c \<and>
      if_frame_count f \<noteq> n + of_nat (6 * q + 5)"
    and "c < 8" and "q < 4" and "debouncer_ok d" and "waiting_for n q (rd_accumulator d)"
  shows "\<exists>acc. signaling_channel_run c fs d = Some ([], d\<lparr>rd_accumulator := acc\<rparr>) \<and>
    rb_ok acc \<and> waiting_for n q acc"
  using assms(1,4,5)
proof (induction fs arbitrary: d)
  case Nil
  then show ?case
    by (intro exI [of _ "rd_accumulator d"]) (simp add: debouncer_ok_def)
next
  case (Cons f fs)
  have "rb_ok (rd_accumulator d)"
    using Cons.prems(2) by (simp add: debouncer_ok_def)
  moreover have "frame_ok (if_frame f)"
    using Cons.prems(1) by simp
  ultimately obtain b r where
    p: "rb_process_frame f c (rd_accumulator d) = Some (b, r)" and "rb_ok r"
    using rb_process_frame_total [of f c "rd_accumulator d"] assms(2) by blast
  have "if_frame_count f \<noteq> n + of_nat (6 * q + 5)"
    using Cons.prems(1) by auto
  note w = rb_process_frame_waiting [OF p Cons.prems(3) assms(3) this]
  from w(1) p Cons.prems(1) have "signaling_channel f c d = Some ([], d\<lparr>rd_accumulator := r\<rparr>)"
    by (simp add: signaling_channel_def debouncer_process_frame_def)
  moreover have "debouncer_ok (d\<lparr>rd_accumulator := r\<rparr>)"
    using Cons.prems(2) \<open>rb_ok r\<close> by (simp add: debouncer_ok_def)
  moreover have "\<forall>f \<in> set fs. frame_ok (if_frame f) \<and> \<not> channel_mf f c \<and>
      if_frame_count f \<noteq> n + of_nat (6 * q + 5)"
    using Cons.prems(1) by simp
  moreover have "waiting_for n q (rd_accumulator (d\<lparr>rd_accumulator := r\<rparr>))"
    using w(2) by simp
  ultimately obtain acc where
    "signaling_channel_run c fs (d\<lparr>rd_accumulator := r\<rparr>) =
       Some ([], d\<lparr>rd_accumulator := r\<rparr>\<lparr>rd_accumulator := acc\<rparr>)"
    and "rb_ok acc \<and> waiting_for n q acc"
    using Cons.IH by blast
  with \<open>signaling_channel f c d = _\<close> show ?case
    by (intro exI [of _ acc]) simp
qed

lemma signaling_channel_mark:
  assumes "channel_mf f c" and "frame_ok (if_frame f)"
  shows "signaling_channel f c d =
    Some ([], d\<lparr>rd_accumulator := rb_from_timestamp (if_frame_count f)\<rparr>)"
  using assms
  by (simp add: signaling_channel_def debouncer_process_frame_def debouncer_new_frame_def
      rb_process_frame_def rb_from_timestamp_def)

text \<open>The frames 5, 11, 17 and 23 after a multiframe mark with count \<open>n\<close>.\<close>

definition robbed_frame :: "u32 \<Rightarrow> internal_frame \<Rightarrow> bool" where
  "robbed_frame n f \<longleftrightarrow> (\<exists>q < 4. if_frame_count f = n + of_nat (6 * q + 5))"

lemma signaling_channel_skip:
  assumes "\<not> channel_mf f c" and "\<not> robbed_frame (rb_superframe_frame_count (rd_accumulator d)) f"
  shows "signaling_channel f c d = Some ([], d)"
proof -
  let ?n = "rb_superframe_frame_count (rd_accumulator d)"
  have "w \<ge> 24 \<or> w mod 6 \<noteq> 5" if w: "w = if_frame_count f - ?n" for w
  proof (rule ccontr)
    assume "\<not> (w \<ge> 24 \<or> w mod 6 \<noteq> 5)"
    then have off: "w = of_nat (6 * unat (w div 6) + 5)" and less: "w < 24"
      by (blast intro: robbed_frame_of_offset, simp add: not_le)
    have "unat (w div 6) < 4"
      using less by (simp add: unat_div word_less_nat_alt)
    moreover have "if_frame_count f = ?n + of_nat (6 * unat (w div 6) + 5)"
      using off w by (metis add.commute diff_add_cancel)
    ultimately show False
      using assms(2) unfolding robbed_frame_def by blast
  qed
  then show ?thesis
    using assms(1)
    by (auto simp: signaling_channel_def debouncer_process_frame_def rb_process_frame_def Let_def)
qed

lemma signaling_channel_count:
  assumes "\<not> channel_mf f c" and "signaling_channel f c d = Some (xs, d')"
  shows "rb_superframe_frame_count (rd_accumulator d') = rb_superframe_frame_count (rd_accumulator d)"
  using assms
  by (auto simp: signaling_channel_def debouncer_process_frame_def rb_process_frame_def Let_def
      split: option.splits if_splits prod.splits)

lemma signaling_channel_run_robbed:
  assumes "\<forall>f \<in> set fs. \<not> channel_mf f c" and "rb_superframe_frame_count (rd_accumulator d) = n"
  shows "signaling_channel_run c fs d = signaling_channel_run c (filter (robbed_frame n) fs) d"
  using assms
proof (induction fs arbitrary: d)
  case (Cons f fs)
  show ?case
  proof (cases "robbed_frame n f")
    case True
    with Cons signaling_channel_count [of f c d] show ?thesis
      by (auto split: option.splits)
  next
    case False
    with Cons have "signaling_channel f c d = Some ([], d)"
      by (simp add: signaling_channel_skip)
    with Cons False show ?thesis
      by (auto split: option.splits)
  qed
qed simp

section \<open>Properties of the robbed-bit receiver\<close>

text \<open>Example data: a superframe in which every timeslot of every frame carries the sample \<open>v\<close>.\<close>

definition example_frame :: "u32 \<Rightarrow> u8 \<Rightarrow> bool \<Rightarrow> internal_frame" where
  "example_frame n v mf = \<lparr>if_frame = replicate 24 (replicate 8 v), if_frame_count = n,
     if_mf_bits = (if mf then 0xff else 0)\<rparr>"

definition example_superframe :: "u32 \<Rightarrow> u8 \<Rightarrow> internal_frame list" where
  "example_superframe n v = map (\<lambda>k. example_frame (n + of_nat k) v (k = 0)) [0..<24]"

lemma example_frame_simps [simp]:
  "frame_ok (if_frame (example_frame n v mf))"
  "channel_mf (example_frame n v True) 0" "\<not> channel_mf (example_frame n v False) 0"
  "if_frame_count (example_frame n v mf) = n"
  "t < 24 \<Longrightarrow> robbed_bit 0 t (example_frame n v mf) = v AND 1"
  by (simp_all add: example_frame_def frame_ok_def channel_mf_def robbed_bit_def)

lemma example_superframe_ok: "superframe 0 n (example_superframe n v)"
proof -
  have "channel_mf (example_frame m v b) 0 \<longleftrightarrow> b" for m b
    by (cases b) simp_all
  then show ?thesis
    by (simp add: superframe_def example_superframe_def del: upt_Suc)
qed

lemma example_superframe_code:
  "t < 24 \<Longrightarrow> abcd_code 0 (example_superframe n 1) t = 0b1111"
  "t < 24 \<Longrightarrow> abcd_code 0 (example_superframe n 0) t = 0b0000"
  by (simp_all add: abcd_code_def example_superframe_def del: upt_Suc)

text \<open>
  C8: robbed-bit signaling refines a one-timeslot debouncer. Over complete superframes (24 frames
  with consecutive, wrapping counts, a multiframe mark on the first) the receiver of a channel never
  panics, reports changes of that channel's timeslots only, and for every timeslot reports exactly
  what \<open>debounce_slot\<close> says of the superframes' ABCD codes, the bits of frames 5, 11, 17 and 23.
\<close>

theorem rbs_refines_debouncer:
  assumes "\<forall>(n, fs) \<in> set sfs. superframe c n fs" and "c < 8" and "debouncer_ok d"
  shows "\<exists>xs d'. signaling_channel_run c (concat (map snd sfs)) d = Some (xs, d') \<and>
    (\<forall>(m, a, v) \<in> set xs. ta_channel a = c \<and> ta_timeslot a < 24) \<and>
    (\<forall>t < 24. changes_of c t xs = debounce_slot (rb_timeslot (rd_state d) ! t)
         (rb_superframe_frame_count (rd_history d), rb_timeslot (rd_history d) ! t)
         (map (\<lambda>(n, fs). (n, abcd_code c fs t)) sfs))"
  using debounce_superframes [OF assms] by blast

text \<open>Two superframes of ones after start-up: each timeslot reports the code 1111 once.\<close>

theorem rbs_refines_debouncer_witness:
  "\<exists>xs d'. signaling_channel_run 0 (example_superframe 100 1 @ example_superframe 124 1)
      debouncer_new = Some (xs, d') \<and> changes_of 0 3 xs = [(100, 0b1111)]"
proof -
  let ?sfs = "[(100, example_superframe 100 1), (124, example_superframe 124 1)]"
  have "\<forall>(n, fs) \<in> set ?sfs. superframe 0 n fs"
    by (simp add: example_superframe_ok)
  from rbs_refines_debouncer [OF this _ debouncer_ok_new] show ?thesis
    by (auto simp: example_superframe_code debouncer_new_simps)
qed

text \<open>
  Reported changes are stable. Every change the receiver reports for a timeslot is a code that
  the timeslot carried in two successive superframes (the one before the run counting as the first),
  and the count it is reported with is that of the first of the two; successive reports of a
  timeslot differ, and the first differs from the state it had. A code seen in one superframe only
  is never reported.
\<close>

theorem rbs_reports_stable:
  assumes "\<forall>(n, fs) \<in> set sfs. superframe c n fs" and "c < 8" and "debouncer_ok d"
    and "signaling_channel_run c (concat (map snd sfs)) d = Some (xs, d')" and "t < 24"
  shows "(\<forall>(m, v) \<in> set (changes_of c t xs). \<exists>i < length sfs.
      ((rb_superframe_frame_count (rd_history d), rb_timeslot (rd_history d) ! t) #
        map (\<lambda>(n, fs). (n, abcd_code c fs t)) sfs) ! i = (m, v) \<and>
      abcd_code c (snd (sfs ! i)) t = v) \<and>
    alternating (rb_timeslot (rd_state d) ! t) (map snd (changes_of c t xs))"
proof (rule conjI [rotated])
  let ?codes = "map (\<lambda>(n, fs). (n, abcd_code c fs t)) sfs"
  from debounce_superframes [OF assms(1-3)] assms(4,5)
  have eq: "changes_of c t xs = debounce_slot (rb_timeslot (rd_state d) ! t)
      (rb_superframe_frame_count (rd_history d), rb_timeslot (rd_history d) ! t) ?codes"
    by auto
  show "alternating (rb_timeslot (rd_state d) ! t) (map snd (changes_of c t xs))"
    by (simp only: eq debounce_slot_alternating)
  show "\<forall>(m, v) \<in> set (changes_of c t xs). \<exists>i < length sfs.
      ((rb_superframe_frame_count (rd_history d), rb_timeslot (rd_history d) ! t) # ?codes) ! i =
        (m, v) \<and> abcd_code c (snd (sfs ! i)) t = v"
  proof clarify
    fix m v
    assume "(m, v) \<in> set (changes_of c t xs)"
    from debounce_slot_stable [OF this [unfolded eq]] obtain i where "i < length sfs"
      "((rb_superframe_frame_count (rd_history d), rb_timeslot (rd_history d) ! t) # ?codes) ! i =
        (m, v)" "snd (?codes ! i) = v"
      by auto
    then show "\<exists>i < length sfs.
        ((rb_superframe_frame_count (rd_history d), rb_timeslot (rd_history d) ! t) # ?codes) ! i =
          (m, v) \<and> abcd_code c (snd (sfs ! i)) t = v"
      by (auto simp: split_beta)
  qed
qed

text \<open>A run with a glitch: the single superframe of zeros between superframes of ones reports nothing.\<close>

theorem rbs_reports_stable_witness:
  "\<exists>xs d'. signaling_channel_run 0 (concat (map snd
        [(0 :: u32, example_superframe 0 1), (24, example_superframe 24 0), (48, example_superframe 48 1)]))
      debouncer_new = Some (xs, d') \<and> changes_of 0 7 xs = []"
proof -
  let ?sfs = "[(0 :: u32, example_superframe 0 1), (24, example_superframe 24 0),
      (48, example_superframe 48 1)]"
  have sfs: "\<forall>(n, fs) \<in> set ?sfs. superframe 0 n fs"
    by (simp add: example_superframe_ok)
  from debounce_superframes [OF this, of debouncer_new] obtain xs d' where
    run: "signaling_channel_run 0 (concat (map snd ?sfs)) debouncer_new = Some (xs, d')"
    by auto
  have "(0 :: nat) < 8" and "(7 :: nat) < 24"
    by simp_all
  note stable = rbs_reports_stable [OF sfs this(1) debouncer_ok_new run this(2), THEN conjunct1]
  have "(m, v) \<notin> set (changes_of 0 7 xs)" for m v
  proof
    assume "(m, v) \<in> set (changes_of 0 7 xs)"
    from bspec [OF stable this] show False
      by (auto simp: less_Suc_eq example_superframe_code debouncer_new_simps)
  qed
  then have "set (changes_of 0 7 xs) = {}"
    by (metis all_not_in_conv surj_pair)
  with run show ?thesis
    by auto
qed

text \<open>
  C20: changes are not missed. After a run whose last two superframes carry the same code for a
  timeslot, the last code reported for it (or its old state, when nothing was reported) is that
  code: a lasting change is reported after two superframes.
\<close>

theorem rbs_change_reported:
  assumes "\<forall>(n, fs) \<in> set (sfs @ [(n1, fs1), (n2, fs2)]). superframe c n fs"
    and "c < 8" and "debouncer_ok d" and "t < 24"
    and "abcd_code c fs1 t = v" and "abcd_code c fs2 t = v"
  shows "\<exists>xs d'. signaling_channel_run c (concat (map snd (sfs @ [(n1, fs1), (n2, fs2)]))) d =
      Some (xs, d') \<and> rb_timeslot (rd_state d') ! t = v \<and>
    last (rb_timeslot (rd_state d) ! t # map snd (changes_of c t xs)) = v"
proof -
  let ?sfs = "sfs @ [(n1, fs1), (n2, fs2)]"
  let ?codes = "map (\<lambda>(n, fs). (n, abcd_code c fs t)) ?sfs"
  from debounce_superframes [OF assms(1-3)] obtain xs d' where
    run: "signaling_channel_run c (concat (map snd ?sfs)) d = Some (xs, d')" and
    eq: "changes_of c t xs = debounce_slot (rb_timeslot (rd_state d) ! t)
      (rb_superframe_frame_count (rd_history d), rb_timeslot (rd_history d) ! t) ?codes" and
    state: "rb_timeslot (rd_state d') ! t = debounce_final (rb_timeslot (rd_state d) ! t)
      (rb_timeslot (rd_history d) ! t) (map (\<lambda>(n, fs). abcd_code c fs t) ?sfs)"
    using assms(4) by blast
  have "map snd ?codes = map (\<lambda>(n, fs). abcd_code c fs t) sfs @ [v, v]"
    using assms(5,6) by (simp add: comp_def split_beta)
  then have "debounce_final s h (map snd ?codes) = v" for s h
    by (simp only: debounce_final_append)
  moreover have "map (\<lambda>(n, fs). abcd_code c fs t) ?sfs = map (\<lambda>(n, fs). abcd_code c fs t) sfs @ [v, v]"
    using assms(5,6) by simp
  then have "debounce_final s h (map (\<lambda>(n, fs). abcd_code c fs t) ?sfs) = v" for s h
    by (simp only: debounce_final_append)
  ultimately show ?thesis
    using run state debounce_final_eq [of _ "(_, _)" ?codes, unfolded snd_conv]
    by (metis eq)
qed

theorem rbs_change_reported_witness:
  "\<exists>xs d'. signaling_channel_run 0 (concat (map snd
      ([(0, example_superframe 0 0)] @ [(24, example_superframe 24 1), (48, example_superframe 48 1)])))
      debouncer_new = Some (xs, d') \<and> rb_timeslot (rd_state d') ! 5 = 0b1111"
proof -
  let ?sfs = "[(0 :: u32, example_superframe 0 0)] @
    [(24, example_superframe 24 1), (48, example_superframe 48 1)]"
  have "\<forall>(n, fs) \<in> set ?sfs. superframe 0 n fs"
    by (simp add: example_superframe_ok)
  from rbs_change_reported [OF this _ debouncer_ok_new, of 5] show ?thesis
    by (auto simp: example_superframe_code)
qed

text \<open>
  C21: which lost frames matter. Take the frames that follow a multiframe mark up to the next one, any
  of them missing, repeated or out of order. If one of the frames 5, 11, 17 and 23 is missing, the
  receiver does not panic, reports no change, and keeps its states and its history. And only these
  frames count: the receiver does exactly what it does on the frames 5, 11, 17 and 23 alone, so that
  the loss of any other frame after the mark has no effect.
\<close>

theorem incomplete_superframe_ignored:
  assumes "channel_mf mark c" and "frame_ok (if_frame mark)" and "if_frame_count mark = n"
    and "\<forall>f \<in> set fs. frame_ok (if_frame f) \<and> \<not> channel_mf f c" and "c < 8" and "debouncer_ok d"
  shows "((\<exists>q < 4. n + of_nat (6 * q + 5) \<notin> if_frame_count ` set fs) \<longrightarrow>
      (\<exists>acc. signaling_channel_run c (mark # fs) d = Some ([], d\<lparr>rd_accumulator := acc\<rparr>))) \<and>
    signaling_channel_run c (mark # fs) d =
      signaling_channel_run c (mark # filter (robbed_frame n) fs) d"
proof (intro conjI impI)
  let ?d = "d\<lparr>rd_accumulator := rb_from_timestamp n\<rparr>"
  have mark: "signaling_channel mark c d = Some ([], ?d)"
    using signaling_channel_mark [OF assms(1,2), of d] assms(3) by simp
  have ok: "debouncer_ok ?d"
    using assms(6) by (simp add: debouncer_ok_def)
  show "signaling_channel_run c (mark # fs) d =
      signaling_channel_run c (mark # filter (robbed_frame n) fs) d"
    using signaling_channel_run_robbed [of fs c ?d n] assms(4) mark
    by (simp add: rb_from_timestamp_def)
  assume "\<exists>q < 4. n + of_nat (6 * q + 5) \<notin> if_frame_count ` set fs"
  then obtain q where q: "q < 4" "\<forall>f \<in> set fs. if_frame_count f \<noteq> n + of_nat (6 * q + 5)"
    by (metis image_eqI)
  have "waiting_for n q (rd_accumulator ?d)"
    by (simp add: waiting_for_def rb_from_timestamp_def)
  with assms(4) q signaling_channel_run_waiting [OF _ assms(5) q(1) ok, of fs n] obtain acc where
    "signaling_channel_run c fs ?d = Some ([], d\<lparr>rd_accumulator := acc\<rparr>)"
    by auto
  with mark show "\<exists>acc. signaling_channel_run c (mark # fs) d = Some ([], d\<lparr>rd_accumulator := acc\<rparr>)"
    by auto
qed

text \<open>The frames 1 to 23 of a superframe but frame 11.\<close>

definition example_lossy :: "internal_frame list" where
  "example_lossy = map (\<lambda>k. example_frame (100 + of_nat k) 1 False) 
     [1, 2, 3, 4, 5, 6, 7, 8, 9, 10, 12, 13, 14, 15, 16, 17, 18, 19, 20, 21, 22, 23]"

theorem incomplete_superframe_ignored_witness:
  "\<exists>acc. signaling_channel_run 0 (example_frame 100 1 True # example_lossy) debouncer_new =
    Some ([], debouncer_new\<lparr>rd_accumulator := acc\<rparr>)"
proof -
  have "\<forall>f \<in> set example_lossy. frame_ok (if_frame f) \<and> \<not> channel_mf f 0"
    by (simp add: example_lossy_def)
  moreover have "100 + of_nat (6 * 1 + 5) \<notin> if_frame_count ` set example_lossy"
    by (simp add: example_lossy_def)
  then have "\<exists>q < (4 :: nat). 100 + of_nat (6 * q + 5) \<notin> if_frame_count ` set example_lossy"
    by (intro exI [of _ 1]) simp
  ultimately show ?thesis
    using incomplete_superframe_ignored [of "example_frame 100 1 True" 0 100 example_lossy debouncer_new,
        THEN conjunct1, THEN mp] by simp
qed

section \<open>Frame count and extended superframe monitors\<close>

fun monitor_run :: "frame_count_monitor \<Rightarrow> u32 list \<Rightarrow> u32 option list" where
  "monitor_run m [] = []"
| "monitor_run m (n # ns) =
     fst (monitor_update n m) # monitor_run (snd (monitor_update n m)) ns"

definition missing :: "u32 option \<Rightarrow> u32" where
  "missing x = (case x of None \<Rightarrow> 0 | Some k \<Rightarrow> k)"

text \<open>
  The losses the monitor does not see: the frames missing after one with count 0, which it takes for
  the state before the first frame. The first argument is the count before the run.
\<close>

fun unseen :: "u32 \<Rightarrow> u32 list \<Rightarrow> u32" where
  "unseen before [] = 0"
| "unseen before (n # ns) = (if before = 0 then n - 1 else 0) + unseen n ns"

lemma unseen_nonzero: "before \<noteq> 0 \<Longrightarrow> 0 \<notin> set (butlast ns) \<Longrightarrow> unseen before ns = 0"
  by (induction before ns rule: unseen.induct) (auto split: if_splits)

text \<open>
  C22: the discontinuity monitor accounts for the lost frames, but for those right after a count of 0.
  Over any frame counts, the counts it reports as missing, the frames it saw, and the frames missing
  right after a frame of count 0 (at start-up, or when the count wraps around), which it does not
  report, add up, modulo \<open>2 ^ 32\<close>, to the distance from the count before to the last count of the
  run. If no count but the last is 0, all losses are reported.
\<close>

theorem monitor_accounts_losses:
  "sum_list (map missing (monitor_run m ns)) + unseen (fm_last_frame_count m) ns + of_nat (length ns) =
      last (fm_last_frame_count m # ns) - fm_last_frame_count m \<and>
    (0 \<notin> set (butlast (fm_last_frame_count m # ns)) \<longrightarrow>
      sum_list (map missing (monitor_run m ns)) + of_nat (length ns) =
        last (fm_last_frame_count m # ns) - fm_last_frame_count m)"
proof -
  have sum: "sum_list (map missing (monitor_run m ns)) + unseen (fm_last_frame_count m) ns +
      of_nat (length ns) = last (fm_last_frame_count m # ns) - fm_last_frame_count m"
  proof (induction ns arbitrary: m)
    case (Cons n ns)
    have "missing (fst (monitor_update n m)) + (if fm_last_frame_count m = 0 then n - 1 else 0) + 1 =
        n - fm_last_frame_count m"
      by (simp add: monitor_update_def missing_def Let_def)
    moreover have "fm_last_frame_count (snd (monitor_update n m)) = n"
      by (simp add: monitor_update_def)
    then have "sum_list (map missing (monitor_run (snd (monitor_update n m)) ns)) +
        unseen n ns + of_nat (length ns) = last (n # ns) - n"
      using Cons.IH [of "snd (monitor_update n m)"] by simp
    moreover have "sum_list (map missing (monitor_run m (n # ns))) + unseen (fm_last_frame_count m) (n # ns) +
        of_nat (length (n # ns)) =
      (missing (fst (monitor_update n m)) + (if fm_last_frame_count m = 0 then n - 1 else 0) + 1) +
      (sum_list (map missing (monitor_run (snd (monitor_update n m)) ns)) + unseen n ns + of_nat (length ns))"
      by simp
    ultimately show ?case
      by simp
  qed simp
  moreover have "unseen (fm_last_frame_count m) ns = 0" if "0 \<notin> set (butlast (fm_last_frame_count m # ns))"
    using that by (cases ns) (auto simp: unseen_nonzero split: if_splits)
  ultimately show ?thesis
    by auto
qed

text \<open>
  Counts 9 and 10 are reported missing. Of a start with frame 3 nothing is reported, 1 and 2 are the
  unseen ones.
\<close>

theorem monitor_accounts_losses_witness:
  "sum_list (map missing (monitor_run \<lparr>fm_last_frame_count = 7\<rparr> [8, 11, 12])) + 3 = (12 - 7 :: u32) \<and>
   sum_list (map missing (monitor_run monitor_new [3, 4])) + unseen 0 [3, 4] + 2 = (4 :: u32) \<and>
   unseen 0 [3, 4] = 2"
  using monitor_accounts_losses [of "\<lparr>fm_last_frame_count = 7\<rparr>" "[8, 11, 12]"]
    monitor_accounts_losses [of monitor_new "[3, 4]"]
  by (simp add: monitor_new_def)

fun esf_run :: "extended_superframe_state \<Rightarrow> (internal_frame \<times> bool) list \<Rightarrow> bool list option" where
  "esf_run s [] = Some []"
| "esf_run s ((f, mf) # fs) =
     (case esf_process_frame f mf s of None \<Rightarrow> None
      | Some (valid, s') \<Rightarrow> map_option ((#) valid) (esf_run s' fs))"

lemma and_3_cases:
  fixes w :: u32
  shows "w AND 3 = 0 \<or> w AND 3 = 2 \<or> w AND 3 = 1 \<or> w AND 3 = 3"
proof -
  have "w AND 3 = take_bit 2 w"
    by (simp add: take_bit_eq_mask mask_numeral)
  moreover have "unat (take_bit 2 w) < 4"
    using take_bit_nat_less_exp [of 2 "unat w"] by (simp add: unsigned_take_bit_eq)
  ultimately have "unat (w AND 3) \<in> {0, 1, 2, 3}"
    by auto
  then show ?thesis
    by (auto simp: word_unat_eq_iff)
qed

text \<open>
  The extended-superframe state never reports a valid superframe: it runs without reaching its
  \<open>unreachable!()\<close>, but \<open>bits_collected\<close> is never updated, so the answer to every frame is false.
\<close>

theorem esf_never_valid:
  "esf_run (esf_from_timestamp n) fs = Some (replicate (length fs) False)"
proof -
  have "esf_run s fs = Some (replicate (length fs) False)" if "es_bits_collected s = 0" for s
    using that
  proof (induction fs arbitrary: s)
    case (Cons x fs)
    obtain f mf where x: "x = (f, mf)"
      by (cases x)
    have "\<exists>s'. esf_process_frame f mf s = Some (False, s') \<and> es_bits_collected s' = 0"
      using Cons.prems and_3_cases [of "if_frame_count f - es_superframe_frame_count s"]
      by (auto simp: esf_process_frame_def Let_def)
    with Cons.IH show ?case
      by (auto simp: x)
  qed simp
  then show ?thesis
    by (simp add: esf_from_timestamp_def)
qed

end
