(* ===== verification/F32.thy ===== *)
theory F32
  imports Complex_Main "HOL-Library.Log_Nat"
begin

text \<open>
  Rust's \<open>f32\<close>: IEEE 754 binary32 with rounding to nearest, ties to even. A finite number is a sign,
  a mantissa (not negative) below \<open>2 ^ 24\<close> and an exponent from -149 to 104, with the value
  \<open>(-1)^sign * mantissa * 2 powi exponent\<close>; there is one NaN, because the code never looks at a payload.
  Each operation computes the exact rational result and rounds it. The transcendental functions of
  the standard library have no specified precision and are not part of this theory.
\<close>

section \<open>Numbers and rounding\<close>

datatype f32 =
    F32_nan
  | F32_inf bool
  | F32_fin bool int int

primrec f32_value :: "f32 \<Rightarrow> rat" where
  "f32_value F32_nan = 0"
| "f32_value (F32_inf neg) = 0"
| "f32_value (F32_fin neg m e) = (if neg then -1 else 1) * (of_int m * 2 powi e)"

primrec f32_negative :: "f32 \<Rightarrow> bool" where
  "f32_negative F32_nan = False"
| "f32_negative (F32_inf neg) = neg"
| "f32_negative (F32_fin neg m e) = neg"

fun f32_is_finite :: "f32 \<Rightarrow> bool" where
  "f32_is_finite (F32_fin neg m e) = True"
| "f32_is_finite x = False"

text \<open>The numbers of the format.\<close>

fun f32_ok :: "f32 \<Rightarrow> bool" where
  "f32_ok (F32_fin neg m e) \<longleftrightarrow>
     0 \<le> m \<and> m < 2 ^ 24 \<and> -149 \<le> e \<and> e \<le> 104 \<and> (2 ^ 23 \<le> m \<or> e = -149)"
| "f32_ok x \<longleftrightarrow> True"

definition floor_log2 :: "rat \<Rightarrow> int" where
  "floor_log2 q =
     (let k = bitlen (fst (quotient_of q)) - bitlen (snd (quotient_of q))
      in if 2 powi k \<le> q then k else k - 1)"

definition round_half_even :: "rat \<Rightarrow> int" where
  "round_half_even x =
     (let f = \<lfloor>x\<rfloor>; r = x - of_int f
      in if r < 1 / 2 then f else if r > 1 / 2 then f + 1 else if even f then f else f + 1)"

text \<open>The number with sign \<open>neg\<close> nearest to the magnitude \<open>q\<close>.\<close>

definition f32_round_to :: "bool \<Rightarrow> rat \<Rightarrow> f32" where
  "f32_round_to neg q =
     (if q = 0 then F32_fin neg 0 (-149)
      else
        let e = max (-149) (floor_log2 q - 23);
            m = round_half_even (q / 2 powi e);
            (m', e') = (if m = 2 ^ 24 then (2 ^ 23, e + 1) else (m, e))
        in if e' > 104 then F32_inf neg else F32_fin neg m' e')"

definition f32_of_rat :: "rat \<Rightarrow> f32" where
  "f32_of_rat q = f32_round_to (q < 0) \<bar>q\<bar>"

text \<open>\<open>i as f32\<close>\<close>

definition f32_of_int :: "int \<Rightarrow> f32" where
  "f32_of_int i = f32_of_rat (of_int i)"

section \<open>Arithmetic\<close>

fun f32_neg :: "f32 \<Rightarrow> f32" where
  "f32_neg F32_nan = F32_nan"
| "f32_neg (F32_inf s) = F32_inf (\<not> s)"
| "f32_neg (F32_fin s m e) = F32_fin (\<not> s) m e"

fun f32_add :: "f32 \<Rightarrow> f32 \<Rightarrow> f32" where
  "f32_add F32_nan y = F32_nan"
| "f32_add x F32_nan = F32_nan"
| "f32_add (F32_inf s) (F32_inf t) = (if s = t then F32_inf s else F32_nan)"
| "f32_add (F32_inf s) y = F32_inf s"
| "f32_add x (F32_inf t) = F32_inf t"
| "f32_add x y =
     (let q = f32_value x + f32_value y
      in if q = 0 then F32_fin (f32_negative x \<and> f32_negative y) 0 (-149) else f32_of_rat q)"

definition f32_sub :: "f32 \<Rightarrow> f32 \<Rightarrow> f32" where
  "f32_sub x y = f32_add x (f32_neg y)"

fun f32_mul :: "f32 \<Rightarrow> f32 \<Rightarrow> f32" where
  "f32_mul F32_nan y = F32_nan"
| "f32_mul x F32_nan = F32_nan"
| "f32_mul (F32_inf s) (F32_inf t) = F32_inf (s \<noteq> t)"
| "f32_mul (F32_inf s) (F32_fin t m e) = (if m = 0 then F32_nan else F32_inf (s \<noteq> t))"
| "f32_mul (F32_fin s m e) (F32_inf t) = (if m = 0 then F32_nan else F32_inf (s \<noteq> t))"
| "f32_mul x y =
     f32_round_to (f32_negative x \<noteq> f32_negative y) \<bar>f32_value x * f32_value y\<bar>"

fun f32_div :: "f32 \<Rightarrow> f32 \<Rightarrow> f32" where
  "f32_div F32_nan y = F32_nan"
| "f32_div x F32_nan = F32_nan"
| "f32_div (F32_inf s) (F32_inf t) = F32_nan"
| "f32_div (F32_inf s) (F32_fin t m e) = F32_inf (s \<noteq> t)"
| "f32_div (F32_fin s m e) (F32_inf t) = F32_fin (s \<noteq> t) 0 (-149)"
| "f32_div (F32_fin s m e) (F32_fin t n f) =
     (if n = 0 then (if m = 0 then F32_nan else F32_inf (s \<noteq> t))
      else f32_round_to (s \<noteq> t)
        \<bar>f32_value (F32_fin s m e) / f32_value (F32_fin t n f)\<bar>)"

text \<open>\<open>x % y\<close>: the remainder of truncated division, exact, with the sign of \<open>x\<close>.\<close>

fun f32_rem :: "f32 \<Rightarrow> f32 \<Rightarrow> f32" where
  "f32_rem F32_nan y = F32_nan"
| "f32_rem x F32_nan = F32_nan"
| "f32_rem (F32_inf s) y = F32_nan"
| "f32_rem (F32_fin s m e) (F32_inf t) = F32_fin s m e"
| "f32_rem (F32_fin s m e) (F32_fin t n f) =
     (if n = 0 then F32_nan
      else
        let x = of_int m * 2 powi e :: rat; y = of_int n * 2 powi f
        in f32_round_to s (x - of_int \<lfloor>x / y\<rfloor> * y))"

section \<open>Comparison and conversion\<close>

fun f32_lt :: "f32 \<Rightarrow> f32 \<Rightarrow> bool" where
  "f32_lt F32_nan y = False"
| "f32_lt x F32_nan = False"
| "f32_lt (F32_inf s) (F32_inf t) = (s \<and> \<not> t)"
| "f32_lt (F32_inf s) (F32_fin t n f) = s"
| "f32_lt (F32_fin s m e) (F32_inf t) = (\<not> t)"
| "f32_lt x y = (f32_value x < f32_value y)"

fun f32_eq :: "f32 \<Rightarrow> f32 \<Rightarrow> bool" where
  "f32_eq (F32_inf s) (F32_inf t) = (s = t)"
| "f32_eq (F32_fin s m e) (F32_fin t n f) = (f32_value (F32_fin s m e) = f32_value (F32_fin t n f))"
| "f32_eq x y = False"

definition f32_le :: "f32 \<Rightarrow> f32 \<Rightarrow> bool" where
  "f32_le x y \<longleftrightarrow> f32_lt x y \<or> f32_eq x y"

text \<open>\<open>x.clamp(lo, hi)\<close>; it panics unless \<open>lo <= hi\<close>.\<close>

definition f32_clamp :: "f32 \<Rightarrow> f32 \<Rightarrow> f32 \<Rightarrow> f32 option" where
  "f32_clamp lo hi x =
     (if f32_le lo hi then
        let x' = (if f32_lt x lo then lo else x) in Some (if f32_lt hi x' then hi else x')
      else None)"

text \<open>\<open>x.round()\<close>: half way cases away from zero, the sign of zero kept.\<close>

fun f32_round :: "f32 \<Rightarrow> f32" where
  "f32_round (F32_fin s m e) = f32_round_to s (of_int \<lfloor>of_int m * 2 powi e + 1 / 2 :: rat\<rfloor>)"
| "f32_round x = x"

text \<open>\<open>x as i16\<close>: truncated, saturating, 0 for NaN.\<close>

fun f32_as_i16 :: "f32 \<Rightarrow> int" where
  "f32_as_i16 F32_nan = 0"
| "f32_as_i16 (F32_inf s) = (if s then -32768 else 32767)"
| "f32_as_i16 (F32_fin s m e) =
     (let t = \<lfloor>of_int m * 2 powi e :: rat\<rfloor>
      in max (-32768) (min 32767 (if s then - t else t)))"

section \<open>Rounding errors\<close>

lemma floor_log2_bounds:
  assumes "0 < q"
  shows "2 powi floor_log2 q \<le> q" and "q < 2 powi (floor_log2 q + 1)"
proof -
  obtain a b where ab: "quotient_of q = (a, b)"
    by (cases "quotient_of q")
  have b: "0 < b" and q: "q = of_int a / of_int b"
    using quotient_of_denom_pos [OF ab] quotient_of_div [OF ab] by simp_all
  then have a: "0 < a"
    using assms by (simp add: zero_less_divide_iff)
  define la where "la = bitlen a"
  define lb where "lb = bitlen b"
  have la: "2 ^ nat (la - 1) \<le> a" "a < 2 ^ nat la" "0 < la"
    using bitlen_bounds [OF a] bitlen_nonneg [of a] bitlen_eq_zero_iff [of a] a
    by (auto simp: la_def order.strict_iff_order)
  have lb: "2 ^ nat (lb - 1) \<le> b" "b < 2 ^ nat lb" "0 < lb"
    using bitlen_bounds [OF b] bitlen_nonneg [of b] bitlen_eq_zero_iff [of b] b
    by (auto simp: lb_def order.strict_iff_order)
  have pow: "of_int (2 ^ nat k) = (2 powi k :: rat)" if "0 \<le> k" for k
    using that by (simp add: power_int_def)
  have a1: "2 powi (la - 1) \<le> (of_int a :: rat)" and a2: "of_int a < (2 powi la :: rat)"
    using la pow [of "la - 1"] pow [of la] of_int_le_iff [of "2 ^ nat (la - 1)" a, where 'a = rat]
      of_int_less_iff [of a "2 ^ nat la", where 'a = rat] by auto
  have b1: "2 powi (lb - 1) \<le> (of_int b :: rat)" and b2: "of_int b < (2 powi lb :: rat)"
    using lb pow [of "lb - 1"] pow [of lb] of_int_le_iff [of "2 ^ nat (lb - 1)" b, where 'a = rat]
      of_int_less_iff [of b "2 ^ nat lb", where 'a = rat] by auto
  have b0: "0 < (of_int b :: rat)"
    using b by simp
  have "2 powi (la - lb - 1) * of_int b < 2 powi (la - lb - 1) * (2 powi lb :: rat)"
    using b2 by simp
  also have "\<dots> = 2 powi (la - 1)"
    by (simp add: power_int_add [symmetric])
  also have "\<dots> \<le> of_int a"
    by (rule a1)
  finally have low: "2 powi (la - lb - 1) < q"
    using b0 by (simp add: q pos_less_divide_eq)
  have "of_int a < (2 powi (la - lb + 1) * 2 powi (lb - 1) :: rat)"
    using a2 by (simp add: power_int_add [symmetric])
  also have "\<dots> \<le> 2 powi (la - lb + 1) * of_int b"
    using b1 by simp
  finally have high: "q < 2 powi (la - lb + 1)"
    using b0 by (simp add: q pos_divide_less_eq)
  have k: "floor_log2 q = (if 2 powi (la - lb) \<le> q then la - lb else la - lb - 1)"
    by (simp add: floor_log2_def ab la_def lb_def Let_def)
  show "2 powi floor_log2 q \<le> q"
    using low by (simp add: k)
  show "q < 2 powi (floor_log2 q + 1)"
    using high by (simp add: k)
qed

lemma round_half_even_error: "\<bar>of_int (round_half_even x) - x\<bar> \<le> 1 / 2"
proof -
  have "of_int \<lfloor>x\<rfloor> \<le> x" "x < of_int \<lfloor>x\<rfloor> + 1"
    by linarith+
  then show ?thesis
    by (auto simp: round_half_even_def Let_def)
qed

lemma round_half_even_int [simp]: "round_half_even (of_int i) = i"
  by (simp add: round_half_even_def)

lemma powi_less_imp: "(2 :: rat) powi a < 2 powi b \<Longrightarrow> a < b"
  using power_int_increasing [of b a "2 :: rat"] by (cases "a < b") auto

lemma f32_round_to_normal:
  assumes "2 powi (-126) \<le> q" and "q < 2 powi 127"
  defines "e \<equiv> floor_log2 q - 23"
  shows "\<exists>m e'. f32_round_to neg q = F32_fin neg m e' \<and>
    of_int m * 2 powi e' = (of_int (round_half_even (q / 2 powi e)) * 2 powi e :: rat)"
    and "2 powi (e + 23) \<le> q" and "-149 \<le> e" and "e \<le> 103"
proof -
  have "(0 :: rat) < 2 powi (-126)"
    by simp
  with assms(1) have q: "0 < q"
    by linarith
  note b = floor_log2_bounds [OF q]
  have "2 powi (-126) < (2 powi (floor_log2 q + 1) :: rat)"
    using assms(1) b(2) by linarith
  then have k1: "-126 \<le> floor_log2 q"
    by (drule_tac powi_less_imp) simp
  have "2 powi floor_log2 q < (2 powi 127 :: rat)"
    using assms(2) b(1) by linarith
  then have k2: "floor_log2 q \<le> 126"
    by (drule_tac powi_less_imp) simp
  show "2 powi (e + 23) \<le> q" and "-149 \<le> e" and "e \<le> 103"
    using b(1) k1 k2 by (simp_all add: e_def)
  have "1 \<le> q / 2 powi e"
  proof -
    have "2 powi e \<le> (2 powi floor_log2 q :: rat)"
      by (rule power_int_increasing) (simp_all add: e_def)
    with b(1) show ?thesis
      by (simp add: pos_le_divide_eq)
  qed
  then have r: "0 \<le> round_half_even (q / 2 powi e)"
    using round_half_even_error [of "q / 2 powi e"] by linarith
  define m where "m = round_half_even (q / 2 powi e)"
  have m: "of_int m = (of_int (round_half_even (q / 2 powi e)) :: rat)"
    using r by (simp add: m_def)
  have max: "max (-149) (floor_log2 q - 23) = e"
    using k1 by (simp add: e_def)
  show "\<exists>m e'. f32_round_to neg q = F32_fin neg m e' \<and>
      of_int m * 2 powi e' = (of_int (round_half_even (q / 2 powi e)) * 2 powi e :: rat)"
  proof (cases "m = 2 ^ 24")
    case True
    have "f32_round_to neg q = F32_fin neg (2 ^ 23) (e + 1)"
      using q k2 True by (simp add: f32_round_to_def max m_def [symmetric] Let_def) (simp add: e_def)
    moreover have "of_int (2 ^ 23) * 2 powi (e + 1) = (of_int m * 2 powi e :: rat)"
      using True by (simp add: power_int_add)
    ultimately show ?thesis
      unfolding m by blast
  next
    case False
    have "f32_round_to neg q = F32_fin neg m e"
      using q k2 False by (simp add: f32_round_to_def max m_def [symmetric] Let_def) (simp add: e_def)
    then show ?thesis
      unfolding m [symmetric] by blast
  qed
qed

text \<open>The relative error of rounding a magnitude in the normal range is at most \<open>2 powi (-24)\<close>.\<close>

lemma f32_round_to_error:
  assumes "2 powi (-126) \<le> q" and "q < 2 powi 127"
  obtains m e where "f32_round_to neg q = F32_fin neg m e"
    and "\<bar>of_int m * 2 powi e - q\<bar> \<le> q / 2 ^ 24"
proof -
  let ?e = "floor_log2 q - 23"
  from f32_round_to_normal [OF assms] obtain m e where
    fin: "f32_round_to neg q = F32_fin neg m e" and
    m: "of_int m * 2 powi e = (of_int (round_half_even (q / 2 powi ?e)) * 2 powi ?e :: rat)" and
    low: "2 powi (?e + 23) \<le> q"
    by blast
  have "of_int m * 2 powi e - q =
      (of_int (round_half_even (q / 2 powi ?e)) - q / 2 powi ?e) * 2 powi ?e"
    by (simp add: m left_diff_distrib)
  then have "\<bar>of_int m * 2 powi e - q\<bar> =
      \<bar>of_int (round_half_even (q / 2 powi ?e)) - q / 2 powi ?e\<bar> * 2 powi ?e"
    by (simp add: abs_mult)
  also have "\<dots> \<le> 1 / 2 * 2 powi ?e"
    using round_half_even_error by (intro mult_right_mono) auto
  also have "\<dots> = 2 powi (?e + 23) / 2 ^ 24"
    using power_int_add [of "2 :: rat" ?e 23] by simp
  also have "\<dots> \<le> q / 2 ^ 24"
    using low by (intro divide_right_mono) auto
  finally show thesis
    using that fin by blast
qed

text \<open>Integers of at most 24 bits are exact.\<close>

lemma f32_round_to_int:
  assumes "0 \<le> i" and "i < 2 ^ 24"
  obtains m e where "f32_round_to neg (of_int i) = F32_fin neg m e"
    and "of_int m * 2 powi e = (of_int i :: rat)"
proof (cases "i = 0")
  case True
  then show thesis
    using that [of 0 "-149"] by (simp add: f32_round_to_def)
next
  case False
  with assms have i: "1 \<le> (of_int i :: rat)"
    by simp
  have lt: "(of_int i :: rat) < 2 powi 24"
    using assms(2) of_int_less_iff [of i "2 ^ 24", where 'a = rat] by simp
  let ?k = "floor_log2 (of_int i :: rat)"
  have "2 powi (-126) \<le> (of_int i :: rat)"
    using i order_trans [of "2 powi (-126)" 1 "of_int i :: rat"] by simp
  moreover have "(of_int i :: rat) < 2 powi 127"
    using lt by (rule less_le_trans) simp
  ultimately obtain m e where
    fin: "f32_round_to neg (of_int i) = F32_fin neg m e" and
    m: "of_int m * 2 powi e =
      (of_int (round_half_even (of_int i / 2 powi (?k - 23))) * 2 powi (?k - 23) :: rat)"
    using f32_round_to_normal(1) by blast
  have "2 powi ?k < (2 powi 24 :: rat)"
    using floor_log2_bounds(1) [of "of_int i"] lt i by linarith
  then have "?k \<le> 23"
    by (drule_tac powi_less_imp) simp
  then have "of_int i / 2 powi (?k - 23) = (of_int (i * 2 ^ nat (23 - ?k)) :: rat)"
    by (simp add: power_int_def power_int_minus field_simps)
  with m have "of_int m * 2 powi e = (of_int (i * 2 ^ nat (23 - ?k)) * 2 powi (?k - 23) :: rat)"
    by (simp only: round_half_even_int)
  also have "\<dots> = of_int i / 2 powi (?k - 23) * 2 powi (?k - 23)"
    using \<open>of_int i / 2 powi (?k - 23) = _\<close> by (simp only:)
  finally show thesis
    using that fin by simp
qed

section \<open>Range and exactness\<close>

lemma round_half_even_bounds:
  assumes "of_int a \<le> x" and "x \<le> of_int b"
  shows "a \<le> round_half_even x" and "round_half_even x \<le> b"
proof -
  have "(of_int a - 1 :: rat) < of_int (round_half_even x)"
    and "(of_int (round_half_even x) :: rat) < of_int b + 1"
    using round_half_even_error [of x] assms by linarith+
  then show "a \<le> round_half_even x" and "round_half_even x \<le> b"
    by linarith+
qed

lemma scaled_mantissa:
  assumes "0 < q"
  defines "e \<equiv> max (-149) (floor_log2 q - 23)"
  shows "0 < q / 2 powi e" and "q / 2 powi e < 2 ^ 24" and "e \<noteq> -149 \<Longrightarrow> 2 ^ 23 \<le> q / 2 powi e"
proof -
  show "0 < q / 2 powi e"
    using assms by simp
  have "(2 :: rat) powi (floor_log2 q + 1) \<le> 2 powi (e + 24)"
    by (rule power_int_increasing) (simp_all add: e_def)
  with floor_log2_bounds(2) [OF assms(1)] have "q < 2 powi (e + 24)"
    by linarith
  also have "\<dots> = 2 ^ 24 * 2 powi e"
    using power_int_add [of "2 :: rat" e 24] by simp
  finally show "q / 2 powi e < 2 ^ 24"
    by (simp add: pos_divide_less_eq)
  show "2 ^ 23 \<le> q / 2 powi e" if "e \<noteq> -149"
  proof -
    have "floor_log2 q = e + 23"
      using that by (simp add: e_def max_def split: if_splits)
    then have "2 powi (e + 23) \<le> q"
      using floor_log2_bounds(1) [OF assms(1)] by simp
    then have "2 ^ 23 * 2 powi e \<le> q"
      using power_int_add [of "2 :: rat" e 23] by simp
    then show ?thesis
      by (simp add: pos_le_divide_eq)
  qed
qed

lemma f32_round_to_finite:
  assumes "0 \<le> q" and "q < 2 powi 127"
  obtains m e where "f32_round_to neg q = F32_fin neg m e" and "f32_ok (F32_fin neg m e)"
proof (cases "q = 0")
  case True
  then show thesis
    using that by (simp add: f32_round_to_def)
next
  case False
  with assms(1) have q: "0 < q" by simp
  define e where "e = max (-149) (floor_log2 q - 23)"
  define m where "m = round_half_even (q / 2 powi e)"
  note s = scaled_mantissa [OF q, folded e_def]
  have "2 powi floor_log2 q < (2 powi 127 :: rat)"
    using floor_log2_bounds(1) [OF q] assms(2) by linarith
  then have "floor_log2 q < 127"
    by (rule powi_less_imp)
  then have e: "-149 \<le> e" "e \<le> 103"
    by (simp_all add: e_def)
  have m: "0 \<le> m" "m \<le> 2 ^ 24"
    unfolding m_def using s(1,2) round_half_even_bounds [of 0 "q / 2 powi e" "2 ^ 24"] by simp_all
  have m': "2 ^ 23 \<le> m" if "e \<noteq> -149"
    unfolding m_def using s(3) [OF that] s(2) round_half_even_bounds(1) [of "2 ^ 23" "q / 2 powi e" "2 ^ 24"]
    by simp
  have eq: "f32_round_to neg q = (if m = 2 ^ 24 then F32_fin neg (2 ^ 23) (e + 1) else F32_fin neg m e)"
    using q e by (auto simp: f32_round_to_def Let_def e_def [symmetric] m_def [symmetric])
  show thesis
    by (cases "m = 2 ^ 24") (use that eq m m' e in auto)
qed

text \<open>A multiple of a power of two with at most 24 significant bits is exact.\<close>

lemma f32_round_to_exact:
  assumes "0 \<le> k" and "k < 2 ^ 24" and "-149 \<le> g" and "g \<le> 104"
  obtains m e where "f32_round_to neg (of_int k * 2 powi g) = F32_fin neg m e"
    and "f32_ok (F32_fin neg m e)" and "of_int m * 2 powi e = (of_int k * 2 powi g :: rat)"
proof (cases "k = 0")
  case True
  then show thesis
    using that by (simp add: f32_round_to_def)
next
  case False
  define q where "q = (of_int k * 2 powi g :: rat)"
  have k: "1 \<le> (of_int k :: rat)" "(of_int k :: rat) < 2 powi 24"
    using False assms(1,2) of_int_less_iff [of k "2 ^ 24", where 'a = rat] by simp_all
  then have q: "0 < q"
    by (simp add: q_def)
  define e where "e = max (-149) (floor_log2 q - 23)"
  note s = scaled_mantissa [OF q, folded e_def]
  have "2 powi floor_log2 q \<le> q"
    by (rule floor_log2_bounds [OF q])
  also have "q < 2 powi 24 * 2 powi g"
    using k(2) by (simp add: q_def)
  also have "\<dots> = 2 powi (24 + g)"
    by (simp add: power_int_add)
  finally have "floor_log2 q < 24 + g"
    by (rule powi_less_imp)
  then have eg: "e \<le> g"
    using assms(3) by (simp add: e_def)
  define m where "m = k * 2 ^ nat (g - e)"
  have m: "q / 2 powi e = of_int m"
  proof -
    have "(2 :: rat) powi g = 2 powi (g - e) * 2 powi e"
      by (simp add: power_int_add [symmetric])
    moreover have "(2 :: rat) powi (g - e) = of_int (2 ^ nat (g - e))"
      using eg by (simp add: power_int_def)
    ultimately show ?thesis
      by (simp add: q_def m_def)
  qed
  have "(of_int m :: rat) < of_int (2 ^ 24)"
    using s(2) unfolding m by simp
  then have m24: "m < 2 ^ 24"
    by (simp only: of_int_less_iff)
  have m0: "0 \<le> m"
    using assms(1) by (simp add: m_def)
  have m23: "2 ^ 23 \<le> m" if "e \<noteq> -149"
  proof -
    have "(of_int (2 ^ 23) :: rat) \<le> of_int m"
      using s(3) [OF that] unfolding m by simp
    then show ?thesis
      by (simp only: of_int_le_iff)
  qed
  have "f32_round_to neg q = F32_fin neg m e"
    using q m m24 eg assms(4) by (simp add: f32_round_to_def Let_def e_def [symmetric])
  moreover have "f32_ok (F32_fin neg m e)"
    using m0 m24 m23 eg assms(4) by (auto simp: e_def)
  moreover have "of_int m * 2 powi e = q"
    using m by (simp add: field_simps)
  ultimately show thesis
    using that by (simp add: q_def)
qed

lemma scaled_nonneg: "0 \<le> (of_int k * 2 powi h :: rat) \<longleftrightarrow> 0 \<le> k"
proof -
  have "(0 :: rat) < 2 powi h"
    by simp
  then show ?thesis
    by (metis mult_nonneg_nonneg mult_less_0_iff not_le of_int_0_le_iff order_less_imp_le)
qed

lemma f32_rem_bounds:
  assumes "f32_ok (F32_fin s m e)" and "f32_ok (F32_fin t n f)" and "0 < n"
  obtains k g where "f32_rem (F32_fin s m e) (F32_fin t n f) = F32_fin s k g"
    and "f32_ok (F32_fin s k g)" and "(of_int k * 2 powi g :: rat) < of_int n * 2 powi f"
proof -
  let ?x = "of_int m * 2 powi e :: rat" and ?y = "of_int n * 2 powi f :: rat"
  define r where "r = ?x - of_int \<lfloor>?x / ?y\<rfloor> * ?y"
  have y: "0 < ?y"
    using assms(3) by simp
  have x: "0 \<le> ?x"
    using assms(1) by simp
  have fl: "of_int \<lfloor>?x / ?y\<rfloor> \<le> ?x / ?y" "?x / ?y < of_int \<lfloor>?x / ?y\<rfloor> + 1"
    by linarith+
  have "of_int \<lfloor>?x / ?y\<rfloor> * ?y \<le> ?x" and "?x < (of_int \<lfloor>?x / ?y\<rfloor> + 1) * ?y"
    using fl by (simp_all only: pos_le_divide_eq [OF y] pos_divide_less_eq [OF y])
  then have r: "0 \<le> r" "r < ?y"
    by (simp_all add: r_def distrib_right)
  have fl0: "0 \<le> \<lfloor>?x / ?y\<rfloor>"
    using x y by simp
  have rx: "r \<le> ?x"
    using fl0 y by (simp add: r_def)
  have "\<exists>k h. r = of_int k * 2 powi h \<and> 0 \<le> k \<and> k < 2 ^ 24 \<and> -149 \<le> h \<and> h \<le> 104"
  proof (cases "f \<le> e")
    case True
    define k where "k = m * 2 ^ nat (e - f) - \<lfloor>?x / ?y\<rfloor> * n"
    have "(2 :: rat) powi e = of_int (2 ^ nat (e - f)) * 2 powi f"
      using True power_int_add [of "2 :: rat" "e - f" f] by (simp add: power_int_def)
    then have k: "r = of_int k * 2 powi f"
      by (simp add: r_def k_def left_diff_distrib)
    then have "0 \<le> k" and "k < n"
      using r by (simp_all add: scaled_nonneg)
    with k assms(2) show ?thesis
      by (intro exI [of _ k] exI [of _ f]) auto
  next
    case False
    define k where "k = m - \<lfloor>?x / ?y\<rfloor> * n * 2 ^ nat (f - e)"
    have "(2 :: rat) powi f = of_int (2 ^ nat (f - e)) * 2 powi e"
      using False power_int_add [of "2 :: rat" "f - e" e] by (simp add: power_int_def)
    then have k: "r = of_int k * 2 powi e"
      by (simp add: r_def k_def left_diff_distrib)
    then have "0 \<le> k" and "k \<le> m"
      using r(1) rx by (simp_all add: scaled_nonneg)
    with k assms(1) show ?thesis
      by (intro exI [of _ k] exI [of _ e]) auto
  qed
  then obtain k h where kh: "r = of_int k * 2 powi h" "0 \<le> k" "k < 2 ^ 24" "-149 \<le> h" "h \<le> 104"
    by blast
  from f32_round_to_exact [OF kh(2-5), of s] obtain k' g where
    "f32_round_to s r = F32_fin s k' g" "f32_ok (F32_fin s k' g)" "of_int k' * 2 powi g = r"
    unfolding kh(1) by metis
  moreover have "f32_rem (F32_fin s m e) (F32_fin t n f) = f32_round_to s r"
    using assms(3) by (simp add: r_def Let_def)
  ultimately show thesis
    using that r(2) by metis
qed

end
