(* ===== verification/Dtmf.thy ===== *)
theory Dtmf
  imports F32
begin

text \<open>
  The tone detectors of \<^verbatim>\<open>tedium-tool/src/detector\<close>: the Goertzel filter (\<^verbatim>\<open>goertzel.rs\<close>) and the DTMF
  detector (\<^verbatim>\<open>dtmf.rs\<close>) with its detection state machine. The functions of the \<^verbatim>\<open>num_complex\<close> crate
  and the transcendental functions of the standard library are the parameter \<open>maths\<close>. A computation
  that panics is \<open>Inl\<close> of the reason.
\<close>

section \<open>Panics\<close>

datatype dtmf_panic =
    Iteration_out_of_range  \<comment> \<open>an assertion on the iteration number\<close>
  | Two_low_results         \<comment> \<open>\<open>assert!(low_result.is_none())\<close>\<close>
  | No_low_result           \<comment> \<open>\<open>unreachable!()\<close> in \<open>advance\<close>\<close>
  | Nan_comparison          \<comment> \<open>\<open>partial_cmp(..).unwrap()\<close>\<close>

definition attempt :: "'e + 'a \<Rightarrow> ('a \<Rightarrow> 'e + 'b) \<Rightarrow> 'e + 'b" where
  "attempt x f = (case x of Inl e \<Rightarrow> Inl e | Inr a \<Rightarrow> f a)"

lemma attempt_simps [simp]:
  "attempt (Inl e) f = Inl e" "attempt (Inr a) f = f a"
  by (simp_all add: attempt_def)

fun attempt_map :: "('a \<Rightarrow> 'e + 'b) \<Rightarrow> 'a list \<Rightarrow> 'e + 'b list" where
  "attempt_map f [] = Inr []"
| "attempt_map f (x # xs) = attempt (f x) (\<lambda>y. attempt (attempt_map f xs) (\<lambda>ys. Inr (y # ys)))"

section \<open>Goertzel filter\<close>

record 'c maths =
  m_sin :: "f32 \<Rightarrow> f32"
  m_cos :: "f32 \<Rightarrow> f32"
  m_log10 :: "f32 \<Rightarrow> f32"
  m_complex :: "f32 \<Rightarrow> f32 \<Rightarrow> 'c"
  m_exp :: "'c \<Rightarrow> 'c"
  m_neg :: "'c \<Rightarrow> 'c"
  m_scale :: "f32 \<Rightarrow> 'c \<Rightarrow> 'c"
  m_shift :: "f32 \<Rightarrow> 'c \<Rightarrow> 'c"
  m_norm :: "'c \<Rightarrow> f32"

definition TAU :: f32 where
  "TAU = f32_of_rat (6283185307179586477 / 1000000000000000000)"

record 'c goertzel_detector =
  gd_w_n :: f32
  gd_w_n_z1 :: f32
  gd_w_n_z2 :: f32
  gd_k_fb :: f32
  gd_k_ff :: 'c
  gd_n :: nat

definition goertzel_new :: "'c maths \<Rightarrow> f32 \<Rightarrow> nat \<Rightarrow> 'c goertzel_detector" where
  "goertzel_new M m n =
     (let tau_m_over_n = f32_div (f32_mul TAU m) (f32_of_int (int n))
      in \<lparr>gd_w_n = f32_of_rat 0, gd_w_n_z1 = f32_of_rat 0, gd_w_n_z2 = f32_of_rat 0,
          gd_k_fb = f32_mul (m_cos M tau_m_over_n) (f32_of_rat 2),
          gd_k_ff = m_neg M (m_exp M (m_complex M (f32_of_rat 0) (f32_neg tau_m_over_n))),
          gd_n = n\<rparr>)"

definition goertzel_from_hz :: "'c maths \<Rightarrow> f32 \<Rightarrow> nat \<Rightarrow> 'c goertzel_detector" where
  "goertzel_from_hz M frequency_hz n =
     (let m = f32_div frequency_hz (f32_div (f32_of_rat 8000) (f32_of_int (int n)))
      in goertzel_new M m n)"

definition goertzel_poll :: "'c maths \<Rightarrow> 'c goertzel_detector \<Rightarrow> f32 \<times> 'c goertzel_detector" where
  "goertzel_poll M self =
     (let y_n = m_shift M (gd_w_n self) (m_scale M (gd_w_n_z1 self) (gd_k_ff self));
          magnitude = m_norm M y_n
      in (f32_mul (m_log10 M (f32_div magnitude (f32_of_int (int (gd_n self))))) (f32_of_rat 20),
          self\<lparr>gd_w_n := f32_of_rat 0, gd_w_n_z1 := f32_of_rat 0, gd_w_n_z2 := f32_of_rat 0\<rparr>))"

definition goertzel_iterate ::
  "nat \<Rightarrow> f32 \<Rightarrow> 'c goertzel_detector \<Rightarrow> dtmf_panic + 'c goertzel_detector" where
  "goertzel_iterate iteration x_n self =
     (if iteration < gd_n self then
        let z2 = gd_w_n_z1 self; z1 = gd_w_n self
        in Inr (self\<lparr>gd_w_n_z2 := z2, gd_w_n_z1 := z1,
             gd_w_n := f32_sub (f32_add x_n (f32_mul z1 (gd_k_fb self))) z2\<rparr>)
      else Inl Iteration_out_of_range)"

section \<open>Detector groups\<close>

record 'c detector_group =
  dg_detectors :: "'c goertzel_detector list"
  dg_n :: nat
  dg_iteration :: nat

definition detector_group_new ::
  "'c maths \<Rightarrow> f32 list \<Rightarrow> nat \<Rightarrow> nat \<Rightarrow> 'c detector_group" where
  "detector_group_new M frequencies n initial_iteration =
     \<lparr>dg_detectors = map (\<lambda>frequency. goertzel_from_hz M frequency n) frequencies,
      dg_n = n, dg_iteration = initial_iteration\<rparr>"

definition detector_group_poll ::
  "'c maths \<Rightarrow> 'c detector_group \<Rightarrow> f32 list \<times> 'c detector_group" where
  "detector_group_poll M self =
     (map (\<lambda>d. fst (goertzel_poll M d)) (dg_detectors self),
      self\<lparr>dg_detectors := map (\<lambda>d. snd (goertzel_poll M d)) (dg_detectors self)\<rparr>)"

definition detector_group_iterate ::
  "'c maths \<Rightarrow> f32 \<Rightarrow> 'c detector_group \<Rightarrow> dtmf_panic + f32 list option \<times> 'c detector_group" where
  "detector_group_iterate M x_n self =
     (if dg_iteration self < dg_n self then
        attempt (attempt_map (goertzel_iterate (dg_iteration self) x_n) (dg_detectors self))
          (\<lambda>ds.
             let self = self\<lparr>dg_detectors := ds, dg_iteration := dg_iteration self + 1\<rparr>
             in if dg_iteration self = dg_n self then
                  let (powers, self) = detector_group_poll M (self\<lparr>dg_iteration := 0\<rparr>)
                  in Inr (Some powers, self)
                else Inr (None, self))
      else Inl Iteration_out_of_range)"

section \<open>Detection state machine\<close>

datatype detection_event = DtmfDigit char | PulseDigit char

datatype detection_state = S0 | S1 | S2 | S3

record detection_state_machine =
  sm_state :: detection_state
  sm_last_detection :: "char option"

definition state_machine_new :: detection_state_machine where
  "state_machine_new = \<lparr>sm_state = S0, sm_last_detection = None\<rparr>"

text \<open>The match of \<open>feed\<close>: the new state and whether a tone is new.\<close>

definition next_state :: "detection_state \<Rightarrow> bool \<Rightarrow> bool \<Rightarrow> bool \<Rightarrow> bool \<Rightarrow> detection_state \<times> bool" where
  "next_state state length_ok same valid pause =
     (case state of
        S0 \<Rightarrow>
          (case (length_ok, same, valid) of
             (True, True, False) \<Rightarrow> (S1, False)
           | (_, True, True) \<Rightarrow> (S2, False)
           | _ \<Rightarrow> (state, False))
      | S1 \<Rightarrow>
          (if \<not> length_ok \<or> \<not> same \<or> pause then (S0, False)
           else if valid \<and> same then (S3, True)
           else (state, False))
      | S2 \<Rightarrow>
          (if pause then (S0, False)
           else if \<not> length_ok \<or> \<not> same then (S3, False)
           else (S3, True))
      | S3 \<Rightarrow> (if pause then (S0, False) else (state, False)))"

definition state_machine_feed ::
  "char option \<Rightarrow> detection_state_machine \<Rightarrow> detection_event option \<times> detection_state_machine" where
  "state_machine_feed detection self =
     (let valid = detection \<noteq> None \<and> sm_last_detection self \<noteq> None;
          same = valid \<and> detection = sm_last_detection self;
          length_ok = True;
          pause = detection = None \<and> sm_last_detection self = None;
          (new_state, new_tone) = next_state (sm_state self) length_ok same valid pause
      in (if new_tone then map_option DtmfDigit detection else None,
          \<lparr>sm_state = new_state, sm_last_detection = detection\<rparr>))"

section \<open>The detector\<close>

record 'c dtmf_detector =
  dd_tones_low :: "'c detector_group list"
  dd_tones_high :: "'c detector_group"
  dd_state_machine :: detection_state_machine

definition FREQUENCIES_LOW :: "f32 list" where
  "FREQUENCIES_LOW = map f32_of_rat [697, 770, 852, 941]"

definition FREQUENCIES_HIGH :: "f32 list" where
  "FREQUENCIES_HIGH = map f32_of_rat [1209, 1336, 1477, 1633]"

definition dtmf_new :: "'c maths \<Rightarrow> 'c dtmf_detector" where
  "dtmf_new M =
     \<lparr>dd_tones_low =
        [detector_group_new M FREQUENCIES_LOW 212 0, detector_group_new M FREQUENCIES_LOW 212 106],
      dd_tones_high = detector_group_new M FREQUENCIES_HIGH 106 0,
      dd_state_machine = state_machine_new\<rparr>"

definition KEY_MAP :: "char list list" where
  "KEY_MAP = [''123A'', ''456B'', ''789C'', ''*0#D'']"

text \<open>
  \<open>sort_by(|a, b| b.1.partial_cmp(&a.1).unwrap())\<close>: the stable sort by falling power. Every element
  takes part in a comparison, so a NaN anywhere panics.
\<close>

fun insert_power :: "nat \<times> f32 \<Rightarrow> (nat \<times> f32) list \<Rightarrow> (nat \<times> f32) list" where
  "insert_power x [] = [x]"
| "insert_power x (y # ys) = (if f32_lt (snd y) (snd x) then x # y # ys else y # insert_power x ys)"

definition sort_powers :: "(nat \<times> f32) list \<Rightarrow> dtmf_panic + (nat \<times> f32) list" where
  "sort_powers xs =
     (if \<exists>x \<in> set xs. snd x = F32_nan then Inl Nan_comparison
      else Inr (foldl (\<lambda>acc x. insert_power x acc) [] xs))"

text \<open>The detection of the strongest tone of a group, done for both groups in turn.\<close>

definition range_contains :: "f32 \<Rightarrow> f32 \<Rightarrow> f32 \<Rightarrow> bool" where
  "range_contains lo hi x \<longleftrightarrow> f32_le lo x \<and> f32_le x hi"

definition strongest :: "f32 list \<Rightarrow> dtmf_panic + (nat \<times> f32) option" where
  "strongest powers =
     attempt (sort_powers (map (\<lambda>n. (n, powers ! n)) [0, 1, 2, 3])) (\<lambda>sorted.
       let (power_index, power_max) = sorted ! 0 in
       if \<not> range_contains (f32_of_rat (-25)) (f32_of_rat 0) power_max then Inr None
       else if f32_lt (f32_sub power_max (snd (sorted ! 1))) (f32_of_rat 10) then Inr None
       else Inr (Some (power_index, power_max)))"

definition dtmf_detect :: "f32 list \<Rightarrow> f32 list \<Rightarrow> dtmf_panic + char option" where
  "dtmf_detect low_powers high_powers =
     attempt (strongest low_powers) (\<lambda>low. case low of
        None \<Rightarrow> Inr None
      | Some (row, power_low_max) \<Rightarrow>
          attempt (strongest high_powers) (\<lambda>high. case high of
             None \<Rightarrow> Inr None
           | Some (column, power_high_max) \<Rightarrow>
               if range_contains (f32_of_rat (-8)) (f32_of_rat 4) (f32_sub power_high_max power_low_max)
               then Inr (Some (KEY_MAP ! row ! column))
               else Inr None))"

text \<open>The loop over the low groups: at most one of them has a result.\<close>

fun iterate_low ::
  "'c maths \<Rightarrow> f32 \<Rightarrow> 'c detector_group list \<Rightarrow> f32 list option \<Rightarrow>
    dtmf_panic + f32 list option \<times> 'c detector_group list" where
  "iterate_low M x_n [] low_result = Inr (low_result, [])"
| "iterate_low M x_n (g # gs) low_result =
     attempt (detector_group_iterate M x_n g) (\<lambda>(result, g').
       if result \<noteq> None \<and> low_result \<noteq> None then Inl Two_low_results
       else
         attempt (iterate_low M x_n gs (if result \<noteq> None then result else low_result))
           (\<lambda>(low_result, gs'). Inr (low_result, g' # gs')))"

definition dtmf_advance ::
  "'c maths \<Rightarrow> f32 \<Rightarrow> 'c dtmf_detector \<Rightarrow> dtmf_panic + detection_event option \<times> 'c dtmf_detector" where
  "dtmf_advance M x_n self =
     attempt (iterate_low M x_n (dd_tones_low self) None) (\<lambda>(low_result, tones_low).
     attempt (detector_group_iterate M x_n (dd_tones_high self)) (\<lambda>(high_result, tones_high).
       let self = self\<lparr>dd_tones_low := tones_low, dd_tones_high := tones_high\<rparr> in
       case high_result of
         None \<Rightarrow> Inr (None, self)
       | Some high_powers \<Rightarrow>
           (case low_result of
              None \<Rightarrow> Inl No_low_result
            | Some low_powers \<Rightarrow>
                attempt (dtmf_detect low_powers high_powers) (\<lambda>detection.
                  let (event, sm) = state_machine_feed detection (dd_state_machine self)
                  in Inr (event, self\<lparr>dd_state_machine := sm\<rparr>)))))"

text \<open>A library whose logarithm is constant: no power is NaN.\<close>

definition example_maths :: "f32 maths" where
  "example_maths = \<lparr>m_sin = (\<lambda>x. x), m_cos = (\<lambda>x. f32_of_rat 0), m_log10 = (\<lambda>x. f32_of_rat (-4)),
     m_complex = (\<lambda>x y. x), m_exp = (\<lambda>x. x), m_neg = f32_neg, m_scale = f32_mul, m_shift = f32_add,
     m_norm = (\<lambda>x. x)\<rparr>"

end
