(* ===== verification/Dtmf_Spec.thy ===== *)
theory Dtmf_Spec
  imports Dtmf "HOL-Library.Multiset"
begin

text \<open>
  What the DTMF detector of theory \<open>Dtmf\<close> promises: its phases keep in step, so that no assertion and
  no \<open>unreachable!()\<close> is reached, the state machine reports a digit once per key press, and a
  key is detected exactly if one low and one high tone dominate their groups within the twist range.
\<close>

section \<open>The state machine over a sequence of detections\<close>

fun feed_run ::
  "char option list \<Rightarrow> detection_state_machine \<Rightarrow> detection_event list \<times> detection_state_machine" where
  "feed_run [] sm = ([], sm)"
| "feed_run (d # ds) sm =
     (let (event, sm') = state_machine_feed d sm; (events, sm'') = feed_run ds sm'
      in (case event of None \<Rightarrow> events | Some e \<Rightarrow> e # events, sm''))"

lemma feed_run_append:
  "feed_run (ds @ es) sm =
     (fst (feed_run ds sm) @ fst (feed_run es (snd (feed_run ds sm))),
      snd (feed_run es (snd (feed_run ds sm))))"
  by (induction ds arbitrary: sm) (auto simp: Let_def split_beta split: option.splits)

text \<open>
  The specification: a digit is reported if the first two equal detections in a row are followed by
  a third. A pause is two windows in a row without a detection.
\<close>

fun spec_digit :: "char option \<Rightarrow> char option list \<Rightarrow> detection_event list" where
  "spec_digit before [] = []"
| "spec_digit before (d # ds) =
     (if d \<noteq> None \<and> d = before then
        (case (d, ds) of
           (Some digit, e # _) \<Rightarrow> if e = d then [DtmfDigit digit] else []
         | _ \<Rightarrow> [])
      else spec_digit d ds)"

definition no_pause :: "char option list \<Rightarrow> bool" where
  "no_pause ds \<longleftrightarrow> successively (\<lambda>a b. a \<noteq> None \<or> b \<noteq> None) ds"

lemmas feed_simps = state_machine_feed_def next_state_def Let_def

lemma feed_run_latched:
  assumes "no_pause (sm_last_detection sm # ds)" and "sm_state sm = S3"
  shows "fst (feed_run ds sm) = []"
  using assms
proof (induction ds arbitrary: sm)
  case (Cons d ds)
  have "state_machine_feed d sm = (None, \<lparr>sm_state = S3, sm_last_detection = d\<rparr>)"
    using Cons.prems by (auto simp: feed_simps no_pause_def)
  moreover have "no_pause (d # ds)"
    using Cons.prems(1) by (simp add: no_pause_def)
  ultimately show ?case
    using Cons.IH [of "\<lparr>sm_state = S3, sm_last_detection = d\<rparr>"]
    by (simp add: split_beta)
qed simp

lemma feed_run_idle:
  assumes "no_pause ds" and "sm_state sm = S0"
  shows "fst (feed_run ds sm) = spec_digit (sm_last_detection sm) ds"
  using assms
proof (induction ds arbitrary: sm)
  case (Cons d ds)
  show ?case
  proof (cases "d \<noteq> None \<and> d = sm_last_detection sm")
    case True
    then obtain c where c: "d = Some c" "sm_last_detection sm = Some c"
      by auto
    let ?sm = "\<lparr>sm_state = S2, sm_last_detection = Some c\<rparr>"
    have step: "state_machine_feed d sm = (None, ?sm)"
      using Cons.prems(2) by (simp add: feed_simps c)
    show ?thesis
    proof (cases ds)
      case Nil
      with step c show ?thesis by simp
    next
      case (Cons e es)
      have "state_machine_feed e ?sm =
          (if e = d then Some (DtmfDigit c) else None, \<lparr>sm_state = S3, sm_last_detection = e\<rparr>)"
        by (auto simp: feed_simps c)
      moreover have "fst (feed_run es \<lparr>sm_state = S3, sm_last_detection = e\<rparr>) = []"
        using Cons.prems(1) Cons by (intro feed_run_latched) (simp_all add: no_pause_def)
      ultimately show ?thesis
        using step c Cons by (auto simp: split_beta)
    qed
  next
    case False
    then have "state_machine_feed d sm = (None, \<lparr>sm_state = S0, sm_last_detection = d\<rparr>)"
      using Cons.prems(2) by (auto simp: feed_simps split: option.splits)
    moreover have "no_pause ds"
      using Cons.prems(1) by (cases ds) (simp_all add: no_pause_def)
    ultimately show ?thesis
      using False Cons.IH [of "\<lparr>sm_state = S0, sm_last_detection = d\<rparr>"]
      by (auto simp: split_beta)
  qed
qed simp

lemma feed_pause: "feed_run [None, None] sm = ([], state_machine_new)"
  by (cases "sm_state sm"; cases "sm_last_detection sm")
    (simp_all add: feed_simps state_machine_new_def)

lemma feed_pause_Cons: "feed_run (None # None # ds) sm = feed_run ds state_machine_new"
  using feed_run_append [of "[None, None]" ds sm] by (simp add: feed_pause del: feed_run.simps)

text \<open>
  C11: a key press is reported once. Over any sequence of detections split at its pauses, the state
  machine reports for every stretch between two pauses what \<open>spec_digit\<close> says of it: one digit,
  when the first two equal detections in a row are followed by a third, and nothing otherwise. It
  is idle again after every pause.
\<close>

theorem state_machine_reports_presses:
  assumes "\<forall>press \<in> set presses. no_pause press"
  shows "feed_run (concat (map (\<lambda>press. press @ [None, None]) presses)) state_machine_new =
    (concat (map (spec_digit None) presses), state_machine_new)"
  using assms
proof (induction presses)
  case (Cons p ps)
  have "fst (feed_run p state_machine_new) = spec_digit None p"
    using Cons.prems feed_run_idle [of p state_machine_new] by (simp add: state_machine_new_def)
  with Cons show ?case
    by (simp add: feed_run_append feed_pause_Cons del: feed_run.simps(2))
qed simp

text \<open>Pressing 5 for four windows, then 9 for two, then 7 with a dropout in the middle.\<close>

theorem state_machine_reports_presses_witness:
  "fst (feed_run ([Some CHR ''5'', Some CHR ''5'', Some CHR ''5'', Some CHR ''5'', None, None] @
      [Some CHR ''9'', Some CHR ''9'', None, None] @
      [Some CHR ''7'', None, Some CHR ''7'', Some CHR ''7'', Some CHR ''7'', None, None])
    state_machine_new) = [DtmfDigit CHR ''5'', DtmfDigit CHR ''7'']"
  using state_machine_reports_presses [of
    "[[Some CHR ''5'', Some CHR ''5'', Some CHR ''5'', Some CHR ''5''],
      [Some CHR ''9'', Some CHR ''9''],
      [Some CHR ''7'', None, Some CHR ''7'', Some CHR ''7'', Some CHR ''7'']]"]
  by (simp add: no_pause_def del: feed_run.simps)

lemma spec_digit_hold:
  "spec_digit (Some d) (replicate k (Some d)) = (if 2 \<le> k then [DtmfDigit d] else [])"
  by (cases k; cases "k - 1") auto

text \<open>
  A key held for any time is one digit: \<open>k\<close> windows of the same detection between pauses give one
  report if \<open>k\<close> is at least three and none otherwise, and state \<open>S1\<close> is never entered.
\<close>

theorem held_key_reported_once:
  "feed_run (replicate k (Some d) @ [None, None]) state_machine_new =
     (if 3 \<le> k then [DtmfDigit d] else [], state_machine_new) \<and>
   sm_state (snd (feed_run ds state_machine_new)) \<noteq> S1"
proof -
  have "no_pause (replicate k (Some d))"
    unfolding no_pause_def by (induction k) (auto simp: successively_Cons)
  then have "fst (feed_run (replicate k (Some d)) state_machine_new) =
      spec_digit None (replicate k (Some d))"
    using feed_run_idle [of _ state_machine_new] by (simp add: state_machine_new_def)
  also have "\<dots> = (if 3 \<le> k then [DtmfDigit d] else [])"
    by (cases k) (simp_all add: spec_digit_hold)
  finally have "feed_run (replicate k (Some d) @ [None, None]) state_machine_new =
     (if 3 \<le> k then [DtmfDigit d] else [], state_machine_new)"
    by (simp add: feed_run_append feed_pause del: feed_run.simps)
  moreover have "sm_state (snd (feed_run ds sm)) \<noteq> S1" if "sm_state sm \<noteq> S1" for sm
    using that
  proof (induction ds arbitrary: sm)
    case (Cons d ds)
    have "sm_state (snd (state_machine_feed d sm)) \<noteq> S1"
      using Cons.prems by (cases "sm_state sm") (auto simp: feed_simps split_beta split: bool.splits)
    with Cons.IH show ?case
      by (simp add: split_beta Let_def)
  qed simp
  then have "sm_state (snd (feed_run ds state_machine_new)) \<noteq> S1"
    by (simp add: state_machine_new_def)
  ultimately show ?thesis
    by blast
qed

section \<open>Phases of the detector groups\<close>

definition group_ok :: "nat \<Rightarrow> nat \<Rightarrow> 'c detector_group \<Rightarrow> bool" where
  "group_ok n k g \<longleftrightarrow> dg_n g = n \<and> dg_iteration g = k mod n \<and> length (dg_detectors g) = 4 \<and>
     (\<forall>d \<in> set (dg_detectors g). gd_n d = n)"

lemma goertzel_iterate_all:
  assumes "\<forall>d \<in> set ds. gd_n d = n" and "i < n"
  shows "\<exists>ds'. attempt_map (goertzel_iterate i x) ds = Inr ds' \<and> length ds' = length ds \<and>
    (\<forall>d \<in> set ds'. gd_n d = n)"
  using assms(1)
proof (induction ds)
  case (Cons d ds)
  then obtain ds' where "attempt_map (goertzel_iterate i x) ds = Inr ds'" "length ds' = length ds"
    "\<forall>d \<in> set ds'. gd_n d = n"
    by auto
  moreover obtain d' where "goertzel_iterate i x d = Inr d'" "gd_n d' = n"
    using Cons.prems assms(2) by (simp add: goertzel_iterate_def Let_def)
  ultimately show ?case
    by auto
qed simp

lemma group_iterate_ok:
  assumes "group_ok n k g" and "0 < n"
  shows "\<exists>r g'. detector_group_iterate M x g = Inr (r, g') \<and> group_ok n (Suc k) g' \<and>
    (r \<noteq> None \<longleftrightarrow> Suc k mod n = 0) \<and> (\<forall>ps. r = Some ps \<longrightarrow> length ps = 4)"
proof -
  have i: "dg_iteration g < n" "dg_iteration g = k mod n" "dg_n g = n"
    using assms by (simp_all add: group_ok_def)
  from goertzel_iterate_all [of "dg_detectors g" n "dg_iteration g" x] assms i obtain ds where
    "attempt_map (goertzel_iterate (dg_iteration g) x) (dg_detectors g) = Inr ds"
    "length ds = 4" "\<forall>d \<in> set ds. gd_n d = n"
    by (auto simp: group_ok_def)
  moreover have "gd_n (snd (goertzel_poll M d)) = gd_n d" for d
    by (simp add: goertzel_poll_def Let_def)
  ultimately show ?thesis
    using i by (cases "Suc (k mod n) = n")
      (auto simp: detector_group_iterate_def Let_def detector_group_poll_def group_ok_def mod_Suc)
qed

lemma group_new_ok:
  "length fs = 4 \<Longrightarrow> i < n \<Longrightarrow> group_ok n i (detector_group_new M fs n i)"
  by (simp add: group_ok_def detector_group_new_def goertzel_from_hz_def goertzel_new_def Let_def)

text \<open>After \<open>k\<close> samples: the second low group is half a period ahead of the first.\<close>

definition dtmf_ok :: "nat \<Rightarrow> 'c dtmf_detector \<Rightarrow> bool" where
  "dtmf_ok k d \<longleftrightarrow> (\<exists>g0 g1. dd_tones_low d = [g0, g1] \<and> group_ok 212 k g0 \<and>
     group_ok 212 (k + 106) g1) \<and> group_ok 106 k (dd_tones_high d)"

lemma dtmf_new_ok: "dtmf_ok 0 (dtmf_new M)"
  by (simp add: dtmf_ok_def dtmf_new_def group_new_ok FREQUENCIES_LOW_def FREQUENCIES_HIGH_def)

lemma phase_arith:
  fixes k :: nat
  shows "k mod 106 = 0 \<longleftrightarrow> k mod 212 = 0 \<or> (k + 106) mod 212 = 0"
    and "\<not> (k mod 212 = 0 \<and> (k + 106) mod 212 = 0)"
  by presburger+

lemma strongest_nan: "strongest ps = Inl r \<Longrightarrow> r = Nan_comparison"
  by (auto simp: strongest_def sort_powers_def attempt_def Let_def split_beta
      split: sum.splits if_splits)

lemma dtmf_detect_nan:
  assumes "dtmf_detect low high = Inl r"
  shows "r = Nan_comparison"
  using assms strongest_nan [of low r] strongest_nan [of high r]
  by (auto simp: dtmf_detect_def attempt_def split: sum.splits option.splits if_splits)

lemma dtmf_advance_ok:
  assumes "dtmf_ok k d"
  shows "dtmf_advance M x d = Inl Nan_comparison \<or>
    (\<exists>event d'. dtmf_advance M x d = Inr (event, d') \<and> dtmf_ok (Suc k) d' \<and>
      (if Suc k mod 106 = 0
       then \<exists>detection. state_machine_feed detection (dd_state_machine d) = (event, dd_state_machine d')
       else event = None \<and> dd_state_machine d' = dd_state_machine d))"
proof -
  obtain g0 g1 where low: "dd_tones_low d = [g0, g1]" "group_ok 212 k g0" "group_ok 212 (k + 106) g1"
    and high: "group_ok 106 k (dd_tones_high d)"
    using assms by (auto simp: dtmf_ok_def)
  obtain r0 g0' where 0: "detector_group_iterate M x g0 = Inr (r0, g0')" "group_ok 212 (Suc k) g0'"
    "r0 \<noteq> None \<longleftrightarrow> Suc k mod 212 = 0"
    using group_iterate_ok [OF low(2)] by (metis zero_less_numeral)
  obtain r1 g1' where 1: "detector_group_iterate M x g1 = Inr (r1, g1')" "group_ok 212 (Suc k + 106) g1'"
    "r1 \<noteq> None \<longleftrightarrow> (Suc k + 106) mod 212 = 0"
    using group_iterate_ok [OF low(3)] by (metis add_Suc zero_less_numeral)
  obtain r2 g2' where 2: "detector_group_iterate M x (dd_tones_high d) = Inr (r2, g2')"
    "group_ok 106 (Suc k) g2'" "r2 \<noteq> None \<longleftrightarrow> Suc k mod 106 = 0"
    using group_iterate_ok [OF high] by (metis zero_less_numeral)
  have excl: "\<not> (r0 \<noteq> None \<and> r1 \<noteq> None)" and cover: "r2 \<noteq> None \<longleftrightarrow> r0 \<noteq> None \<or> r1 \<noteq> None"
    using phase_arith [of "Suc k"] 0(3) 1(3) 2(3) by auto
  have iter: "iterate_low M x (dd_tones_low d) None =
      Inr (if r1 \<noteq> None then r1 else r0, [g0', g1'])"
    using 0(1) 1(1) excl by (auto simp: low(1))
  let ?d = "d\<lparr>dd_tones_low := [g0', g1'], dd_tones_high := g2'\<rparr>"
  have ok: "dtmf_ok (Suc k) (?d\<lparr>dd_state_machine := sm\<rparr>)" "dtmf_ok (Suc k) ?d" for sm
    using 0(2) 1(2) 2(2) by (simp_all add: dtmf_ok_def)
  show ?thesis
  proof (cases r2)
    case None
    with iter 2(1,3) ok(2) show ?thesis
      by (simp add: dtmf_advance_def)
  next
    case (Some hp)
    then obtain lp where lp: "(if r1 \<noteq> None then r1 else r0) = Some lp"
      using cover by (cases r1) auto
    show ?thesis
    proof (cases "dtmf_detect lp hp")
      case (Inl r)
      with iter lp 2(1) Some dtmf_detect_nan [OF Inl] show ?thesis
        by (simp add: dtmf_advance_def)
    next
      case (Inr detection)
      obtain event sm where "state_machine_feed detection (dd_state_machine d) = (event, sm)"
        by fastforce
      with iter lp 2(1,3) Some Inr ok(1) show ?thesis
        by (auto simp: dtmf_advance_def)
    qed
  qed
qed

fun dtmf_run ::
  "'c maths \<Rightarrow> f32 list \<Rightarrow> 'c dtmf_detector \<Rightarrow> dtmf_panic + detection_event list \<times> 'c dtmf_detector" where
  "dtmf_run M [] d = Inr ([], d)"
| "dtmf_run M (x # xs) d =
     attempt (dtmf_advance M x d) (\<lambda>(event, d'). attempt (dtmf_run M xs d') (\<lambda>(events, d'').
       Inr (case event of None \<Rightarrow> events | Some e \<Rightarrow> e # events, d'')))"

lemma dtmf_run_ok:
  assumes "dtmf_ok k d"
  shows "dtmf_run M xs d = Inl Nan_comparison \<or>
    (\<exists>events d' ds. dtmf_run M xs d = Inr (events, d') \<and>
      k div 106 + length ds = (k + length xs) div 106 \<and>
      feed_run ds (dd_state_machine d) = (events, dd_state_machine d'))"
  using assms
proof (induction xs arbitrary: k d)
  case Nil
  show ?case
    by (auto intro: exI [of _ "[]"])
next
  case (Cons x xs)
  from dtmf_advance_ok [OF Cons.prems, of M x] consider "dtmf_advance M x d = Inl Nan_comparison"
    | event d' where "dtmf_advance M x d = Inr (event, d')" "dtmf_ok (Suc k) d'"
      "if Suc k mod 106 = 0
       then \<exists>detection. state_machine_feed detection (dd_state_machine d) = (event, dd_state_machine d')
       else event = None \<and> dd_state_machine d' = dd_state_machine d"
    by blast
  then show ?case
  proof cases
    case 1
    then show ?thesis by simp
  next
    case 2
    from Cons.IH [OF 2(2)] consider "dtmf_run M xs d' = Inl Nan_comparison"
      | events d'' ds where "dtmf_run M xs d' = Inr (events, d'')"
        "Suc k div 106 + length ds = (Suc k + length xs) div 106"
        "feed_run ds (dd_state_machine d') = (events, dd_state_machine d'')"
      by blast
    then show ?thesis
    proof cases
      case 1
      with 2(1) show ?thesis by simp
    next
      case run: 2
      let ?events = "case event of None \<Rightarrow> events | Some e \<Rightarrow> e # events"
      have result: "dtmf_run M (x # xs) d = Inr (?events, d'')"
        using 2(1) run(1) by simp
      show ?thesis
      proof (cases "Suc k mod 106 = 0")
        case True
        with 2(3) obtain detection where
          "state_machine_feed detection (dd_state_machine d) = (event, dd_state_machine d')"
          by auto
        then have "feed_run (detection # ds) (dd_state_machine d) = (?events, dd_state_machine d'')"
          using run(3) by simp
        moreover have "k div 106 + length (detection # ds) = (k + length (x # xs)) div 106"
          using run(2) True by (simp add: div_Suc)
        ultimately show ?thesis
          using result by blast
      next
        case False
        with 2(3) have "event = None" and "dd_state_machine d' = dd_state_machine d"
          by auto
        then have "feed_run ds (dd_state_machine d) = (?events, dd_state_machine d'')"
          using run(3) by simp
        moreover have "k div 106 + length ds = (k + length (x # xs)) div 106"
          using run(2) False by (simp add: div_Suc)
        ultimately show ?thesis
          using result by blast
      qed
    qed
  qed
qed

text \<open>
  C23: the detector keeps in phase. For every sequence of samples, whatever the library functions
  compute, a fresh detector reaches none of its assertions and not the \<open>unreachable!()\<close> (only a NaN
  power can make it panic, in the comparison of powers), and it feeds its state machine exactly one
  detection per 106 samples: the digits it reports are those of the state machine.
\<close>

theorem dtmf_detector_in_phase:
  "dtmf_run M xs (dtmf_new M) = Inl Nan_comparison \<or>
    (\<exists>events d ds. dtmf_run M xs (dtmf_new M) = Inr (events, d) \<and>
      length ds = length xs div 106 \<and>
      feed_run ds state_machine_new = (events, dd_state_machine d))"
  using dtmf_run_ok [OF dtmf_new_ok, of M xs] by (simp add: dtmf_new_def)

section \<open>What a detection says\<close>

lemma f32_lt_trans_not:
  assumes "\<not> f32_lt x y" and "\<not> f32_lt y z" and "x \<noteq> F32_nan" and "y \<noteq> F32_nan" and "z \<noteq> F32_nan"
  shows "\<not> f32_lt x z"
  using assms by (cases x; cases y; cases z) (auto split: if_splits)

lemma f32_lt_asym: "f32_lt x y \<Longrightarrow> \<not> f32_lt y x"
  by (cases x; cases y) auto

definition falling :: "(nat \<times> f32) list \<Rightarrow> bool" where
  "falling xs \<longleftrightarrow> sorted_wrt (\<lambda>a b. \<not> f32_lt (snd a) (snd b)) xs"

lemma insert_power_mset: "mset (insert_power x ys) = add_mset x (mset ys)"
  by (induction ys) auto

lemma insert_power_set [simp]: "set (insert_power x ys) = insert x (set ys)"
  by (induction ys) auto

lemma insert_power_falling:
  assumes "falling ys" and "\<forall>y \<in> set (x # ys). snd y \<noteq> F32_nan"
  shows "falling (insert_power x ys)"
  using assms
proof (induction ys)
  case (Cons y ys)
  show ?case
  proof (cases "f32_lt (snd y) (snd x)")
    case True
    have "\<not> f32_lt (snd x) (snd z)" if "z \<in> set (y # ys)" for z
      using that Cons.prems f32_lt_asym [OF True] f32_lt_trans_not [of "snd x" "snd y" "snd z"]
      by (auto simp: falling_def)
    with Cons.prems True show ?thesis
      by (simp add: falling_def)
  next
    case False
    with Cons show ?thesis
      by (auto simp: falling_def)
  qed
qed (simp add: falling_def)

lemma sort_powers_props:
  assumes "sort_powers xs = Inr ys"
  shows "falling ys" and "mset ys = mset xs" and "\<forall>x \<in> set xs. snd x \<noteq> F32_nan"
proof -
  have nan: "\<forall>x \<in> set xs. snd x \<noteq> F32_nan" and ys: "ys = foldl (\<lambda>acc x. insert_power x acc) [] xs"
    using assms by (auto simp: sort_powers_def split: if_splits)
  have "falling (foldl (\<lambda>acc x. insert_power x acc) zs xs) \<and>
      mset (foldl (\<lambda>acc x. insert_power x acc) zs xs) = mset zs + mset xs"
    if "falling zs" "\<forall>x \<in> set zs. snd x \<noteq> F32_nan" for zs
    using that nan
  proof (induction xs arbitrary: zs)
    case (Cons x xs)
    from Cons.IH [of "insert_power x zs"] Cons.prems show ?case
      by (simp add: insert_power_falling insert_power_mset)
  qed simp
  from this [of "[]"] show "falling ys" and "mset ys = mset xs"
    by (simp_all add: ys falling_def)
  show "\<forall>x \<in> set xs. snd x \<noteq> F32_nan"
    by (rule nan)
qed

text \<open>
  A dominant tone: its power is in the detection range, no other tone of the group is stronger, and
  the strongest of the others is at least 10 dB weaker.
\<close>

definition dominant :: "f32 list \<Rightarrow> nat \<Rightarrow> bool" where
  "dominant powers i \<longleftrightarrow> i < 4 \<and> range_contains (f32_of_rat (-25)) (f32_of_rat 0) (powers ! i) \<and>
     (\<exists>j < 4. j \<noteq> i \<and> \<not> f32_lt (powers ! i) (powers ! j) \<and>
        \<not> f32_lt (f32_sub (powers ! i) (powers ! j)) (f32_of_rat 10) \<and>
        (\<forall>k < 4. k \<noteq> i \<longrightarrow> \<not> f32_lt (powers ! j) (powers ! k)))"

text \<open>Powers neither of which is less than the other are the same to a difference.\<close>

lemma f32_sub_lt_cong:
  assumes "\<not> f32_lt y z" and "\<not> f32_lt z y" and "y \<noteq> F32_nan" and "z \<noteq> F32_nan"
  shows "f32_lt (f32_sub x y) t = f32_lt (f32_sub x z) t"
proof (cases "y = z")
  case False
  have val: "f32_value (f32_neg w) = - f32_value w" for w
    by (cases w) auto
  have fin: "f32_add (F32_fin s m e) w = (let q = f32_value (F32_fin s m e) + f32_value w
      in if q = 0 then F32_fin (s \<and> f32_negative w) 0 (-149) else f32_of_rat q)"
    if "f32_is_finite w" for s m e w
    using that by (cases w) (auto simp: Let_def)
  from False assms have f: "f32_is_finite y" "f32_is_finite z" and eq: "f32_value y = f32_value z"
    by (cases y; cases z; auto)+
  then have g: "f32_is_finite (f32_neg y)" "f32_is_finite (f32_neg z)"
    by (cases y; cases z; simp)+
  show ?thesis
  proof (cases x)
    case (F32_fin s m e)
    with g eq show ?thesis
      by (cases t) (simp_all add: f32_sub_def fin val Let_def del: f32_value.simps f32_add.simps, simp_all)
  next
    case F32_nan
    then show ?thesis by (simp add: f32_sub_def)
  next
    case (F32_inf s)
    with f show ?thesis by (cases y; cases z) (simp_all add: f32_sub_def)
  qed
qed simp

lemma f32_lt_ten: "f32_lt (F32_fin s 0 e) (f32_of_rat 10)"
proof -
  have "f32_of_rat 10 = F32_fin False 10485760 (-20)"
    by code_simp
  then show ?thesis
    by simp
qed

lemma equal_in_range_close:
  assumes "range_contains (f32_of_rat (-25)) (f32_of_rat 0) x"
    and "\<not> f32_lt x y" and "\<not> f32_lt y x" and "y \<noteq> F32_nan"
  shows "f32_lt (f32_sub x y) (f32_of_rat 10)"
proof -
  have "f32_of_rat 0 = F32_fin False 0 (-149)" "f32_of_rat (-25) = F32_fin True 13107200 (-19)"
    by code_simp+
  with assms(1) obtain s m e where x: "x = F32_fin s m e"
    by (cases x) (auto simp: range_contains_def f32_le_def split: if_splits)
  with assms(2-) have "f32_lt (f32_sub x y) (f32_of_rat 10) = f32_lt (f32_sub x x) (f32_of_rat 10)"
    by (intro f32_sub_lt_cong) simp_all
  also have "f32_sub x x = F32_fin False 0 (-149)"
    by (simp add: x f32_sub_def)
  finally show ?thesis
    using f32_lt_ten by blast
qed

text \<open>The sorted powers of a group, as four pairs of an index and its power.\<close>

lemma sort_powers_cases:
  assumes "\<forall>i < 4. powers ! i \<noteq> F32_nan"
  obtains a b c d where
    "sort_powers (map (\<lambda>n. (n, powers ! n)) [0, 1, 2, 3]) = Inr [a, b, c, d]"
    and "falling [a, b, c, d]" and "fst b \<noteq> fst a"
    and "\<And>z. z \<in> {a, b, c, d} \<longleftrightarrow> fst z < 4 \<and> snd z = powers ! fst z"
proof -
  let ?xs = "map (\<lambda>n. (n, powers ! n)) [0, 1, 2, 3 :: nat]"
  have "\<not> (\<exists>x \<in> set ?xs. snd x = F32_nan)"
    using assms by simp
  then obtain ys where ys: "sort_powers ?xs = Inr ys"
    unfolding sort_powers_def by (simp only: if_False)
  note props = sort_powers_props [OF this]
  have "length ys = 4"
    using arg_cong [OF props(2), of size] by simp
  then obtain a b c d where abcd: "ys = [a, b, c, d]"
    by (auto simp: length_Suc_conv numeral_eq_Suc)
  have "set ys = (\<lambda>n. (n, powers ! n)) ` set [0, 1, 2, 3]"
    using mset_eq_setD [OF props(2)] by (simp only: set_map)
  moreover have "set [0, 1, 2, 3] = {..<4 :: nat}"
    by auto
  ultimately have set_ys: "set ys = (\<lambda>n. (n, powers ! n)) ` {..<4}"
    by (simp only:)
  have mem: "z \<in> {a, b, c, d} \<longleftrightarrow> fst z < 4 \<and> snd z = powers ! fst z" for z
  proof -
    have "z \<in> {a, b, c, d} \<longleftrightarrow> z \<in> set ys"
      by (simp add: abcd)
    then show ?thesis
      unfolding set_ys by (cases z) auto
  qed
  have "distinct ys"
    using mset_eq_imp_distinct_iff [OF props(2)] by simp
  then have "a \<noteq> b"
    by (simp add: abcd)
  moreover have "snd a = powers ! fst a" "snd b = powers ! fst b"
    using mem by blast+
  ultimately have "fst b \<noteq> fst a"
    by (metis prod.expand)
  from that [OF _ _ this mem] ys props(1) show thesis
    unfolding abcd by blast
qed

lemma strongest_Inl: "(\<exists>r. strongest powers = Inl r) \<longleftrightarrow> (\<exists>i < 4. powers ! i = F32_nan)"
proof
  assume fail: "\<exists>r. strongest powers = Inl r"
  show "\<exists>i < 4. powers ! i = F32_nan"
  proof (rule ccontr)
    assume "\<not> (\<exists>i < 4. powers ! i = F32_nan)"
    then have "\<forall>i < 4. powers ! i \<noteq> F32_nan"
      by blast
    then obtain ys where "sort_powers (map (\<lambda>n. (n, powers ! n)) [0, 1, 2, 3]) = Inr ys"
      by (rule sort_powers_cases) blast
    then show False
      using fail by (auto simp only: strongest_def attempt_simps Let_def split_beta split: if_splits)
  qed
next
  assume "\<exists>i < 4. powers ! i = F32_nan"
  then have "\<exists>x \<in> set (map (\<lambda>n. (n, powers ! n)) [0, 1, 2, 3 :: nat]). snd x = F32_nan"
    by (auto simp: less_Suc_eq numeral_eq_Suc)
  then show "\<exists>r. strongest powers = Inl r"
    unfolding strongest_def sort_powers_def by (simp only: if_True attempt_simps) blast
qed

text \<open>
  \<open>strongest\<close> finds the dominant tone whenever there is one. Of the tones that share the greatest
  power none is dominant, because a difference of 0 is below 10 dB, so the order in which the sort
  leaves equal powers does not matter.
\<close>

lemma strongest_iff:
  "strongest powers = Inr (Some (i, p)) \<longleftrightarrow>
    (\<forall>k < 4. powers ! k \<noteq> F32_nan) \<and> dominant powers i \<and> p = powers ! i"
proof (cases "\<forall>k < 4. powers ! k \<noteq> F32_nan")
  case False
  then obtain r where "strongest powers = Inl r"
    using strongest_Inl by blast
  with False show ?thesis
    by auto
next
  case nan: True
  then obtain a b c d where sorted:
    "sort_powers (map (\<lambda>n. (n, powers ! n)) [0, 1, 2, 3]) = Inr [a, b, c, d]"
    and fall: "falling [a, b, c, d]" and ne: "fst b \<noteq> fst a"
    and mem: "\<And>z. z \<in> {a, b, c, d} \<longleftrightarrow> fst z < 4 \<and> snd z = powers ! fst z"
    by (rule sort_powers_cases) blast
  have a: "fst a < 4" "snd a = powers ! fst a" and b: "fst b < 4" "snd b = powers ! fst b"
    using mem by blast+
  have top: "\<not> f32_lt (powers ! fst a) (powers ! k)" if "k < 4" for k
  proof -
    have "(k, powers ! k) \<in> {a, b, c, d}"
      using mem [of "(k, powers ! k)"] that by auto
    then show ?thesis
      using fall f32_lt_asym [of "snd a" "snd a"] a(2) by (auto simp: falling_def)
  qed
  have second: "\<not> f32_lt (powers ! fst b) (powers ! k)" if "k < 4" "k \<noteq> fst a" for k
  proof -
    have "(k, powers ! k) \<in> {b, c, d}"
      using mem [of "(k, powers ! k)"] that by auto
    then show ?thesis
      using fall f32_lt_asym [of "snd b" "snd b"] b(2) by (auto simp: falling_def)
  qed
  have res: "strongest powers = Inr (Some (i, p)) \<longleftrightarrow> i = fst a \<and> p = powers ! i \<and>
      range_contains (f32_of_rat (-25)) (f32_of_rat 0) (powers ! i) \<and>
      \<not> f32_lt (f32_sub (powers ! i) (powers ! fst b)) (f32_of_rat 10)"
    unfolding strongest_def sorted using a b by (auto simp: Let_def split_beta)
  have "dominant powers (fst a)" if "strongest powers = Inr (Some (i, p))"
    using that a(1) b(1) ne top second unfolding res dominant_def by metis
  moreover have "i = fst a \<and> \<not> f32_lt (f32_sub (powers ! i) (powers ! fst b)) (f32_of_rat 10)"
    if dom: "dominant powers i"
  proof -
    obtain j where i: "i < 4" "range_contains (f32_of_rat (-25)) (f32_of_rat 0) (powers ! i)"
      and j: "j < 4" "j \<noteq> i" "\<not> f32_lt (powers ! i) (powers ! j)"
      and gap: "\<not> f32_lt (f32_sub (powers ! i) (powers ! j)) (f32_of_rat 10)"
      and j2: "\<And>k. k < 4 \<Longrightarrow> k \<noteq> i \<Longrightarrow> \<not> f32_lt (powers ! j) (powers ! k)"
      using dom unfolding dominant_def by metis
    have less: "f32_lt (powers ! j) (powers ! i)"
      using equal_in_range_close [OF i(2) j(3)] gap nan j(1) by blast
    have "i = fst a"
    proof (rule ccontr)
      assume "i \<noteq> fst a"
      then have "\<not> f32_lt (powers ! j) (powers ! fst a)"
        using j2 a(1) by metis
      moreover have "\<not> f32_lt (powers ! fst a) (powers ! i)"
        using top i(1) by blast
      ultimately have "\<not> f32_lt (powers ! j) (powers ! i)"
        using f32_lt_trans_not nan a(1) i(1) j(1) by metis
      with less show False
        by simp
    qed
    moreover have "\<not> f32_lt (powers ! j) (powers ! fst b)" "\<not> f32_lt (powers ! fst b) (powers ! j)"
      using j2 b(1) ne second j(1,2) \<open>i = fst a\<close> by metis+
    ultimately show ?thesis
      using gap f32_sub_lt_cong [of "powers ! j" "powers ! fst b"] nan j(1) b(1) by metis
  qed
  ultimately show ?thesis
    using nan res unfolding dominant_def by metis
qed

text \<open>
  C24: a key is detected exactly if it is the crossing of dominant tones. \<open>detect\<close> returns a key if and
  only if none of the eight powers is NaN, one low tone and one high tone dominate their groups, and
  their difference in power is within the twist range from -8 to 4 dB; the key is then the one of
  their row and column. Dominant tones that are within the twist range are always decoded.
\<close>

theorem dtmf_detect_dominant:
  "dtmf_detect low high = Inr (Some key) \<longleftrightarrow>
    (\<forall>i < 4. low ! i \<noteq> F32_nan \<and> high ! i \<noteq> F32_nan) \<and>
    (\<exists>row < 4. \<exists>column < 4. dominant low row \<and> dominant high column \<and>
      range_contains (f32_of_rat (-8)) (f32_of_rat 4) (f32_sub (high ! column) (low ! row)) \<and>
      key = KEY_MAP ! row ! column)"
proof -
  have "dtmf_detect low high = Inr (Some key) \<longleftrightarrow>
      (\<exists>row p column q. strongest low = Inr (Some (row, p)) \<and> strongest high = Inr (Some (column, q)) \<and>
        range_contains (f32_of_rat (-8)) (f32_of_rat 4) (f32_sub q p) \<and> key = KEY_MAP ! row ! column)"
    by (auto simp: dtmf_detect_def attempt_def split: sum.splits option.splits if_splits)
  then show ?thesis
    unfolding strongest_iff dominant_def by blast
qed

text \<open>The key 5: 770 Hz at -10 dB and 1336 Hz at -9 dB over noise.\<close>

definition example_low :: "f32 list" where
  "example_low = map f32_of_rat [-30, -10, -32, -40]"

definition example_high :: "f32 list" where
  "example_high = map f32_of_rat [-35, -9, -29, -50]"

theorem dtmf_detect_dominant_witness:
  "dtmf_detect example_low example_high = Inr (Some CHR ''5'') \<and>
   (\<exists>row < 4. \<exists>column < 4. dominant example_low row \<and> dominant example_high column \<and>
     KEY_MAP ! row ! column = CHR ''5'')"
proof -
  have "dtmf_detect example_low example_high = Inr (Some CHR ''5'')"
    by code_simp
  with dtmf_detect_dominant [of example_low example_high "CHR ''5''"] show ?thesis
    by metis
qed

end
