(* ===== verification/Ulaw.thy ===== *)
theory Ulaw
  imports Tedium_Prelude
begin

text \<open>
  The mu-law codec of \<^verbatim>\<open>tedium-tool/src/codec/ulaw.rs\<close>: the fast encoder \<open>encode_i14\<close> of 14-bit
  samples, the table decoder \<open>decode_i16\<close>, and the two G.191 reference routines the file keeps for
  its tests. \<open>i16\<close> and \<open>u16\<close> are the same 16 bits, read with \<open>sint\<close> and \<open>unat\<close>; a checked
  addition that overflows and a failed \<open>debug_assert\<close> are \<open>None\<close>. The \<open>f32\<close> wrappers \<open>encode\<close> and
  \<open>decode\<close> around them are not modelled here.
\<close>

section \<open>The codec\<close>

definition ULAW_TO_LINEAR :: "int list" where
  "ULAW_TO_LINEAR =
    [-32124, -31100, -30076, -29052, -28028, -27004, -25980, -24956,
     -23932, -22908, -21884, -20860, -19836, -18812, -17788, -16764,
     -15996, -15484, -14972, -14460, -13948, -13436, -12924, -12412,
     -11900, -11388, -10876, -10364, -9852, -9340, -8828, -8316,
     -7932, -7676, -7420, -7164, -6908, -6652, -6396, -6140,
     -5884, -5628, -5372, -5116, -4860, -4604, -4348, -4092,
     -3900, -3772, -3644, -3516, -3388, -3260, -3132, -3004,
     -2876, -2748, -2620, -2492, -2364, -2236, -2108, -1980,
     -1884, -1820, -1756, -1692, -1628, -1564, -1500, -1436,
     -1372, -1308, -1244, -1180, -1116, -1052, -988, -924,
     -876, -844, -812, -780, -748, -716, -684, -652,
     -620, -588, -556, -524, -492, -460, -428, -396,
     -372, -356, -340, -324, -308, -292, -276, -260,
     -244, -228, -212, -196, -180, -164, -148, -132,
     -120, -112, -104, -96, -88, -80, -72, -64,
     -56, -48, -40, -32, -24, -16, -8, 0,
     32124, 31100, 30076, 29052, 28028, 27004, 25980, 24956,
     23932, 22908, 21884, 20860, 19836, 18812, 17788, 16764,
     15996, 15484, 14972, 14460, 13948, 13436, 12924, 12412,
     11900, 11388, 10876, 10364, 9852, 9340, 8828, 8316,
     7932, 7676, 7420, 7164, 6908, 6652, 6396, 6140,
     5884, 5628, 5372, 5116, 4860, 4604, 4348, 4092,
     3900, 3772, 3644, 3516, 3388, 3260, 3132, 3004,
     2876, 2748, 2620, 2492, 2364, 2236, 2108, 1980,
     1884, 1820, 1756, 1692, 1628, 1564, 1500, 1436,
     1372, 1308, 1244, 1180, 1116, 1052, 988, 924,
     876, 844, 812, 780, 748, 716, 684, 652,
     620, 588, 556, 524, 492, 460, 428, 396,
     372, 356, 340, 324, 308, 292, 276, 260,
     244, 228, 212, 196, 180, 164, 148, 132,
     120, 112, 104, 96, 88, 80, 72, 64,
     56, 48, 40, 32, 24, 16, 8, 0]"

definition decode_i16 :: "u8 \<Rightarrow> int" where
  "decode_i16 code = ULAW_TO_LINEAR ! unat code"

definition encode_i14 :: "16 word \<Rightarrow> u8 option" where
  "encode_i14 linear_in =
     (let linear = i16_clamp (-8031) 8031 linear_in;
          sign_extended = 0 - drop_bit 15 linear;
          shifted = push_bit 3 linear XOR sign_extended;
          bias = push_bit 3 33 :: u16
      in if unat shifted + unat bias \<ge> 2 ^ 16 then None
         else
           let magnitude = shifted + bias;
               zeros = leading_zeros magnitude
           in if \<not> zeros < 8 then None
              else
                let abcd = (ucast (drop_bit (11 - zeros) magnitude) :: u8) AND 0b1111;
                    exponent = 7 - zeros;
                    code = (ucast sign_extended AND 0x80) OR push_bit 4 (of_nat exponent) OR abcd
                in Some (code XOR 0xff))"

section \<open>The G.191 reference\<close>

text \<open>The segment loop \<open>while i != 0 { segno += 1; i >>= 1; }\<close>.\<close>

function g191_segment :: "u16 \<Rightarrow> nat \<Rightarrow> nat" where
  "g191_segment i segno = (if i \<noteq> 0 then g191_segment (drop_bit 1 i) (segno + 1) else segno)"
  by pat_completeness auto
termination
proof (relation "measure (\<lambda>(i, segno). unat i)", goal_cases)
  case (2 i segno)
  then have "0 < unat i" by (simp add: unat_gt_0)
  then show ?case by (simp add: drop_bit_eq_div unat_div_distrib)
qed simp

declare g191_segment.simps [simp del]

definition encode_ulaw_g191 :: "16 word \<Rightarrow> u8 option" where
  "encode_ulaw_g191 linear =
     (let (absno0, sign_bit) =
            (if sint linear < 0 then (linear XOR 0xffff, 0x00) else (linear, 0x80 :: u8));
          absno = min (drop_bit 2 absno0 + 33) 0x1fff;
          segno = g191_segment (drop_bit 6 absno) 1
      in if \<not> segno \<le> 8 then None
         else
           let high_nibble = of_nat (8 - segno);
               low_nibble = (ucast (drop_bit segno absno) :: u8) AND 0x0F
           in Some (sign_bit OR push_bit 4 high_nibble OR (0x0F - low_nibble)))"

definition decode_ulaw_g191 :: "u8 \<Rightarrow> int" where
  "decode_ulaw_g191 code =
     (let sgn_code = (if code < 0x80 then -1 else 1 :: int);
          mantissa = code XOR 0xff;
          exponent = unat (drop_bit 4 mantissa AND 0x07);
          segment = exponent + 1;
          mantissa = mantissa AND 0x0f;
          step = push_bit segment 4 :: u16
      in sgn_code * sint (push_bit exponent 0x80 + step * ucast mantissa + step div 2 - 4 * 33))"

section \<open>The decoder is the reference decoder\<close>

lemma all_u8:
  assumes "list_all (\<lambda>n. P (of_nat n :: u8)) [0..<256]"
  shows "P c"
proof -
  have "unat c \<in> set [0..<256]" by simp
  with assms have "P (of_nat (unat c))"
    unfolding list_all_iff by blast
  then show ?thesis by simp
qed

lemma decode_table_g191: "decode_i16 c = decode_ulaw_g191 c"
  by (rule all_u8 [where P = "\<lambda>c. decode_i16 c = decode_ulaw_g191 c"]) code_simp

section \<open>The encoder, segment by segment\<close>

text \<open>
  \<open>ulaw_magnitude v\<close> is the biased magnitude of a sample; in the segment \<open>e\<close> with
  \<open>2 ^ (e + 5) \<le> m < 2 ^ (e + 6)\<close> the code is \<open>255 - (16 * e + (m div 2 ^ (e + 1) - 16))\<close>, less
  128 for a negative sample.
\<close>

definition ulaw_magnitude :: "int \<Rightarrow> nat" where
  "ulaw_magnitude v = (if v < 0 then nat (- v) + 32 else nat v + 33)"

definition ulaw_code :: "bool \<Rightarrow> nat \<Rightarrow> nat \<Rightarrow> u8" where
  "ulaw_code neg e q = of_nat ((if neg then 127 else 255) - (16 * e + q))"

lemma bit_iff_unat: "bit (x :: 'a::len word) j \<longleftrightarrow> odd (unat x div 2 ^ j)"
proof -
  have "bit (unat x) j = bit x j"
    by (simp add: bit_unsigned_iff)
  then show ?thesis by (simp add: bit_iff_odd)
qed

lemma leading_zeros_16:
  assumes "2 ^ k \<le> unat x" and "unat x < 2 ^ Suc k" and "k < 16"
  shows "leading_zeros (x :: u16) = 15 - k"
proof -
  have high: "\<not> bit x j" if "k < j" for j
  proof -
    have "unat x < 2 ^ j"
      using assms(2) that by (meson Suc_leI le_trans not_le one_le_numeral power_increasing)
    then show ?thesis
      by (simp add: bit_iff_unat)
  qed
  have "unat x div 2 ^ k = 1"
    using assms(1,2) by (simp add: div_nat_eqI)
  then have top: "bit x k"
    by (simp add: bit_iff_unat)
  have "rev (map (bit x) [0..<16]) =
      rev (map (bit x) [Suc k..<16]) @ bit x k # rev (map (bit x) [0..<k])"
  proof -
    have "[0..<16] = [0..<k] @ k # [Suc k..<16]"
      using assms(3) upt_add_eq_append [of 0 k "16 - k"] by (simp add: upt_conv_Cons)
    then show ?thesis by simp
  qed
  moreover have "takeWhile Not (rev (map (bit x) [Suc k..<16]) @ bit x k # zs)
      = rev (map (bit x) [Suc k..<16])" for zs
    using top high by (subst takeWhile_append2) auto
  ultimately show ?thesis
    by (simp add: leading_zeros_def)
qed

lemma all_segments:
  assumes "list_all (\<lambda>e. list_all (\<lambda>q. P e q) [0..<16]) [0..<8]" and "e < 8" and "q < 16"
  shows "P e q"
  using assms by (simp add: list_all_iff del: upt_Suc)

text \<open>How the encoder packs sign, exponent and mantissa bits.\<close>

lemma ulaw_pack:
  assumes "e < 8" and "q < 16"
  shows "((0x80 :: u8) OR push_bit 4 (of_nat e) OR of_nat q) XOR 0xff = ulaw_code True e q"
    and "((0 :: u8) OR push_bit 4 (of_nat e) OR of_nat q) XOR 0xff = ulaw_code False e q"
  by (rule all_segments [where P = "\<lambda>e q. (0x80 OR push_bit 4 (of_nat e) OR of_nat q) XOR 0xff
          = ulaw_code True e q", OF _ assms], code_simp)
    (rule all_segments [where P = "\<lambda>e q. (0 OR push_bit 4 (of_nat e) OR of_nat q) XOR 0xff
          = ulaw_code False e q", OF _ assms], code_simp)

lemma drop_bit_15: "drop_bit 15 (x :: u16) = (if sint x < 0 then 1 else 0)"
proof -
  have "bit x 15 \<longleftrightarrow> sint x < 0"
    using bit_last_iff [of x] by simp
  moreover have "bit (drop_bit 15 x) n = (n = 0 \<and> bit x 15)" for n
    by (cases n) (auto simp: bit_drop_bit_eq dest: bit_imp_le_length)
  ultimately show ?thesis
    by (auto simp: bit_eq_iff bit_1_iff)
qed

lemma unat_word_of_int_16:
  "0 \<le> k \<Longrightarrow> k < 65536 \<Longrightarrow> unat (word_of_int k :: u16) = nat k"
  by (simp add: unsigned_of_int take_bit_int_eq_self)

text \<open>The shifted, bias-free magnitude the encoder computes.\<close>

lemma ulaw_shifted:
  assumes "sint (x :: u16) = v" and "-8031 \<le> v" and "v \<le> 8031"
  shows "unat (push_bit 3 x XOR - drop_bit 15 x) + 264 =
    8 * ulaw_magnitude v + (if v < 0 then 7 else 0)"
proof -
  have x: "x = word_of_int v"
    by (metis assms(1) scast_eq scast_id)
  have shift: "push_bit 3 x = word_of_int (8 * v)"
    by (simp add: x push_bit_eq_mult)
  show ?thesis
  proof (cases "v < 0")
    case True
    have "drop_bit 15 x = 1"
      using True assms(1) by (simp add: drop_bit_15)
    then have "push_bit 3 x XOR - drop_bit 15 x = NOT (push_bit 3 x)"
      by (simp only: bit.xor_one_right)
    also have "\<dots> = word_of_int (- 8 * v - 1)"
      by (simp add: shift not_eq_complement)
    finally have eq: "push_bit 3 x XOR - drop_bit 15 x = word_of_int (- 8 * v - 1)" .
    have "unat (word_of_int (- 8 * v - 1) :: u16) = nat (- 8 * v - 1)"
      by (rule unat_word_of_int_16) (use True assms in simp_all)
    then show ?thesis
      using True by (simp only: eq) (simp add: ulaw_magnitude_def nat_diff_distrib nat_mult_distrib)
  next
    case False
    then have eq: "push_bit 3 x XOR - drop_bit 15 x = word_of_int (8 * v)"
      using assms(1) by (simp add: drop_bit_15 shift)
    have "unat (word_of_int (8 * v) :: u16) = nat (8 * v)"
      by (rule unat_word_of_int_16) (use False assms in simp_all)
    then show ?thesis
      using False by (simp only: eq) (simp add: ulaw_magnitude_def nat_mult_distrib)
  qed
qed

text \<open>The segment of a magnitude and the mantissa bits it leaves.\<close>

lemma ulaw_segment_exists:
  assumes "33 \<le> (m :: nat)" and "m < 8192"
  obtains e where "e < 8" and "2 ^ (e + 5) \<le> m" and "m < 2 ^ (e + 6)"
proof -
  have "\<exists>e\<in>{0..<8}. 2 ^ (e + 5) \<le> m \<and> m < 2 ^ (e + 6)"
    using assms by (simp add: atLeastLessThan_nat_numeral) linarith
  then show ?thesis using that by auto
qed

lemma ulaw_mantissa_range:
  assumes "2 ^ (e + 5) \<le> (m :: nat)" and "m < 2 ^ (e + 6)"
  shows "16 \<le> m div 2 ^ (e + 1)" and "m div 2 ^ (e + 1) < 32"
proof -
  have "(16 :: nat) * 2 ^ (e + 1) \<le> m" and "m < 32 * 2 ^ (e + 1)"
    using assms by (simp_all add: power_add)
  then show "16 \<le> m div 2 ^ (e + 1)" and "m div 2 ^ (e + 1) < 32"
    by (simp_all add: less_eq_div_iff_mult_less_eq div_less_iff_less_mult)
qed

lemma low_nibble_of_mantissa:
  assumes "16 \<le> d" and "d < 32"
  shows "(of_nat d :: u8) AND 15 = of_nat (d - 16)"
proof -
  have "list_all (\<lambda>d. (of_nat d :: u8) AND 15 = of_nat (d - 16)) [16..<32]"
    by code_simp
  moreover have "d \<in> set [16..<32]"
    unfolding set_upt using assms by simp
  ultimately show ?thesis
    unfolding list_all_iff by (rule bspec)
qed

lemma ucast_drop_bit_u8:
  "(ucast (drop_bit k (x :: u16)) :: u8) = of_nat (unat x div 2 ^ k)"
proof (rule unsigned_word_eqI [where 'a = nat])
  show "unat (ucast (drop_bit k x) :: u8) = unat (of_nat (unat x div 2 ^ k) :: u8)"
    by (simp only: unsigned_ucast_eq unsigned_of_nat unat_drop_bit_eq) (simp add: drop_bit_eq_div)
qed

lemma encode_i14_segment:
  assumes v: "sint x = v" "-8031 \<le> v" "v \<le> 8031" and e: "e < 8"
    and lo: "2 ^ (e + 5) \<le> ulaw_magnitude v" and hi: "ulaw_magnitude v < 2 ^ (e + 6)"
  shows "encode_i14 x = Some (ulaw_code (v < 0) e (ulaw_magnitude v div 2 ^ (e + 1) - 16))"
proof -
  let ?m = "ulaw_magnitude v"
  define r :: nat where "r = (if v < 0 then 7 else 0)"
  define y where "y = push_bit 3 x XOR - drop_bit 15 x"
  have y: "unat y + 264 = 8 * ?m + r"
    unfolding y_def r_def by (rule ulaw_shifted [OF v])
  have m_hi: "?m \<le> 8064"
    using v(2,3) by (auto simp: ulaw_magnitude_def)
  then have sum: "unat (y + 264) = 8 * ?m + r"
    using y by (simp add: unat_word_ariths r_def)
  have "2 ^ (e + 8) \<le> unat (y + 264)" and "unat (y + 264) < 2 ^ Suc (e + 8)"
    using lo hi by (simp_all add: sum power_add r_def)
  then have zeros: "leading_zeros (y + 264) = 7 - e"
    using leading_zeros_16 [of "e + 8" "y + 264"] e by simp
  have "(8 * ?m + r) div 2 ^ (e + 4) = ((8 * ?m + r) div 8) div 2 ^ (e + 1)"
    by (simp only: power_add div_mult2_eq [symmetric]) (simp add: mult.commute)
  also have "(8 * ?m + r) div 8 = ?m"
    by (simp add: r_def)
  finally have abcd: "(ucast (drop_bit (e + 4) (y + 264)) :: u8) AND 15
      = of_nat (?m div 2 ^ (e + 1) - 16)"
    by (simp only: ucast_drop_bit_u8 sum low_nibble_of_mantissa [OF ulaw_mantissa_range [OF lo hi]])
  have clamp: "i16_clamp (-8031) 8031 x = x"
    using v by (simp add: i16_clamp_def)
  have shift: "11 - (7 - e) = e + 4" "7 - (7 - e) = e"
    using e by simp_all
  have q: "?m div 2 ^ (e + 1) - 16 < 16"
    using ulaw_mantissa_range [OF lo hi] by simp
  have ones: "(ucast (- 1 :: u16) :: u8) AND 0x80 = 0x80"
    by code_simp
  have sign: "(ucast (- drop_bit 15 x) :: u8) AND 0x80 = (if v < 0 then 0x80 else 0)"
    using ones by (simp add: drop_bit_15 v(1))
  have y_lt: "unat y < 65272"
    using y m_hi by (simp add: r_def split: if_splits)
  show ?thesis
    using y_lt e ulaw_pack [OF e q]
    by (simp add: encode_i14_def Let_def clamp zeros shift abcd sign r_def flip: y_def)
qed

lemma ulaw_magnitude_range:
  "-8031 \<le> v \<Longrightarrow> v \<le> 8031 \<Longrightarrow> 33 \<le> ulaw_magnitude v \<and> ulaw_magnitude v < 8192"
  by (auto simp: ulaw_magnitude_def)

lemma sint_word_of_int_16:
  "-32768 \<le> k \<Longrightarrow> k < 32768 \<Longrightarrow> sint (word_of_int k :: u16) = k"
  by (simp add: signed_of_int signed_take_bit_int_eq_self)

lemma i16_clamp_idem:
  "i16_clamp (-8031) 8031 (i16_clamp (-8031) 8031 x) = i16_clamp (-8031) 8031 x"
  by (simp add: i16_clamp_def sint_word_of_int_16)

lemma encode_i14_clamp: "encode_i14 x = encode_i14 (i16_clamp (-8031) 8031 x)"
  by (simp only: encode_i14_def i16_clamp_idem)

lemma sint_i16_clamp: "sint (i16_clamp (-8031) 8031 x) = max (-8031) (min 8031 (sint x))"
  by (simp add: i16_clamp_def sint_word_of_int_16)

text \<open>Every sample has a segment, and the encoder returns its code: there is no panic.\<close>

lemma encode_i14_cases:
  assumes "v = max (-8031) (min 8031 (sint x))"
  obtains e where "e < 8" and "2 ^ (e + 5) \<le> ulaw_magnitude v" and "ulaw_magnitude v < 2 ^ (e + 6)"
    and "encode_i14 x = Some (ulaw_code (v < 0) e (ulaw_magnitude v div 2 ^ (e + 1) - 16))"
proof -
  have v: "-8031 \<le> v" "v \<le> 8031" using assms by simp_all
  have m: "33 \<le> ulaw_magnitude v" "ulaw_magnitude v < 8192"
    using ulaw_magnitude_range [OF v] by simp_all
  obtain e where e: "e < 8" "2 ^ (e + 5) \<le> ulaw_magnitude v" "ulaw_magnitude v < 2 ^ (e + 6)"
    by (rule ulaw_segment_exists [OF m])
  have s: "sint (i16_clamp (-8031) 8031 x) = v"
    using assms by (simp add: sint_i16_clamp)
  show ?thesis
    by (rule that [OF e]) (simp only: encode_i14_clamp [of x] encode_i14_segment [OF s v e])
qed

lemma encode_i14_examples:
  "encode_i14 (word_of_int 1000) = Some 0xaf" "encode_i14 (word_of_int (-500)) = Some 0x3f"
  using encode_i14_segment [of "word_of_int 1000" 1000 5]
    encode_i14_segment [of "word_of_int (-500)" "-500" 4]
  by (simp_all add: sint_word_of_int_16 ulaw_magnitude_def ulaw_code_def)

section \<open>The encoder is the reference encoder\<close>

lemma g191_segment_steps:
  assumes "2 ^ k \<le> unat i" and "unat i < 2 ^ Suc k"
  shows "g191_segment i n = n + k + 1"
  using assms
proof (induction k arbitrary: i n)
  case 0
  then have "unat i = 1" by simp
  then have "i \<noteq> 0" and "drop_bit 1 i = 0"
    by (auto simp: drop_bit_eq_div unat_div_distrib simp flip: unat_eq_zero)
  then show ?case by (simp add: g191_segment.simps [of i] g191_segment.simps [of 0])
next
  case (Suc k)
  have half: "unat (drop_bit 1 i) = unat i div 2"
    by (simp add: unat_drop_bit_eq drop_bit_eq_div unat_div_distrib)
  have "2 ^ k \<le> unat (drop_bit 1 i)" and "unat (drop_bit 1 i) < 2 ^ Suc k"
    using Suc.prems by (simp_all only: half) simp_all
  moreover have "i \<noteq> 0"
    using Suc.prems(1) by (auto simp: not_le)
  ultimately show ?case
    using Suc.IH [of "drop_bit 1 i" "n + 1"] by (simp add: g191_segment.simps [of i])
qed

lemma g191_pack:
  assumes "e < 8" and "q < 16"
  shows "((0 :: u8) OR push_bit 4 (of_nat (7 - e)) OR (15 - of_nat q)) = ulaw_code True e q"
    and "((0x80 :: u8) OR push_bit 4 (of_nat (7 - e)) OR (15 - of_nat q)) = ulaw_code False e q"
  by (rule all_segments [where P = "\<lambda>e q. (0 OR push_bit 4 (of_nat (7 - e)) OR (15 - of_nat q))
          = ulaw_code True e q", OF _ assms], code_simp)
    (rule all_segments [where P = "\<lambda>e q. (0x80 OR push_bit 4 (of_nat (7 - e)) OR (15 - of_nat q))
          = ulaw_code False e q", OF _ assms], code_simp)

lemma g191_segno:
  assumes "2 ^ (e + 5) \<le> unat a" and "unat a < 2 ^ (e + 6)"
  shows "g191_segment (drop_bit 6 a) 1 = e + 1"
proof -
  have d: "unat (drop_bit 6 a) = unat a div 64"
    by (simp only: unat_drop_bit_eq) (simp add: drop_bit_eq_div)
  show ?thesis
  proof (cases e)
    case 0
    then have "unat (drop_bit 6 a) = 0" using assms(2) by (simp only: d) simp
    then have "drop_bit 6 a = 0" by (simp only: unsigned_eq_0_iff)
    then show ?thesis using 0 by (simp add: g191_segment.simps [of 0])
  next
    case (Suc k)
    have "2 ^ k \<le> unat (drop_bit 6 a)" and "unat (drop_bit 6 a) < 2 ^ Suc k"
      using assms Suc by (simp_all only: d) (simp_all add: less_eq_div_iff_mult_less_eq
          div_less_iff_less_mult power_add)
    then have "g191_segment (drop_bit 6 a) 1 = 1 + k + 1"
      by (rule g191_segment_steps)
    with Suc show ?thesis by simp
  qed
qed

text \<open>The reference code of a magnitude \<open>m\<close>, once the reference has computed it.\<close>

lemma g191_code:
  assumes "unat a = m" and e: "e < 8" and lo: "2 ^ (e + 5) \<le> m" and hi: "m < 2 ^ (e + 6)"
  shows "(let segno = g191_segment (drop_bit 6 a) 1
      in if \<not> segno \<le> 8 then None
         else Some ((if neg then 0 else 0x80) OR push_bit 4 (of_nat (8 - segno))
            OR (0x0F - ((ucast (drop_bit segno a) :: u8) AND 0x0F)))) =
    Some (ulaw_code neg e (m div 2 ^ (e + 1) - 16))"
proof -
  have segno: "g191_segment (drop_bit 6 a) 1 = e + 1"
    using g191_segno [of e a] assms by simp
  have low: "(ucast (drop_bit (e + 1) a) :: u8) AND 0x0F = of_nat (m div 2 ^ (e + 1) - 16)"
    by (simp only: ucast_drop_bit_u8 assms(1) low_nibble_of_mantissa [OF ulaw_mantissa_range [OF lo hi]])
  have q: "m div 2 ^ (e + 1) - 16 < 16"
    using ulaw_mantissa_range [OF lo hi] by simp
  show ?thesis
    unfolding Let_def segno low using g191_pack [OF e q] e by simp
qed

lemma g191_magnitude:
  assumes "-8192 \<le> v" and "v < 8192"
  shows "unat (drop_bit 2 (if v < 0 then word_of_int (4 * v) XOR 0xffff else word_of_int (4 * v) :: u16)
      + 33) = ulaw_magnitude v"
proof -
  let ?y = "if v < 0 then word_of_int (4 * v) XOR 0xffff else word_of_int (4 * v) :: u16"
  define k where "k = (if v < 0 then - 4 * v - 1 else 4 * v)"
  have "(word_of_int (4 * v) :: u16) XOR 0xffff = NOT (word_of_int (4 * v))"
  proof -
    have "(0xffff :: u16) = - 1" by simp
    then show ?thesis by (simp only: bit.xor_one_right)
  qed
  then have "?y = word_of_int k"
    by (simp add: k_def not_eq_complement)
  moreover have "unat (word_of_int k :: u16) = nat k"
    by (rule unat_word_of_int_16) (use assms in \<open>simp_all add: k_def\<close>)
  ultimately have "unat ?y = nat k" by (simp only:)
  then have "unat (drop_bit 2 ?y) = nat k div 4"
    by (simp only: unat_drop_bit_eq) (simp add: drop_bit_eq_div)
  moreover have "nat k div 4 + 33 = ulaw_magnitude v" and "ulaw_magnitude v \<le> 8224"
  proof (atomize (full), cases "v < 0")
    case True
    then obtain n where "v = - int (Suc n)" by (metis negD)
    then show "nat k div 4 + 33 = ulaw_magnitude v \<and> ulaw_magnitude v \<le> 8224"
      using assms by (simp add: k_def ulaw_magnitude_def nat_add_distrib nat_mult_distrib)
  next
    case False
    then obtain n where "v = int n" by (metis nonneg_int_cases not_less)
    then show "nat k div 4 + 33 = ulaw_magnitude v \<and> ulaw_magnitude v \<le> 8224"
      using assms by (simp add: k_def ulaw_magnitude_def nat_mult_distrib)
  qed
  ultimately show ?thesis
    by (simp add: unat_word_ariths)
qed

lemma encode_g191_code:
  assumes v: "-8192 \<le> v" "v < 8192" and m: "m = min (ulaw_magnitude v) 8191"
    and e: "e < 8" "2 ^ (e + 5) \<le> m" "m < 2 ^ (e + 6)"
  shows "encode_ulaw_g191 (word_of_int (4 * v)) = Some (ulaw_code (v < 0) e (m div 2 ^ (e + 1) - 16))"
proof -
  let ?absno0 = "if v < 0 then word_of_int (4 * v) XOR 0xffff else word_of_int (4 * v) :: u16"
  define a where "a = min (drop_bit 2 ?absno0 + 33) 0x1fff"
  have min_unat: "unat (min x y) = min (unat x) (unat y)" for x y :: u16
    by (simp add: min_def word_le_nat_alt)
  have a: "unat a = m"
    unfolding a_def by (simp only: min_unat g191_magnitude [OF v] m) simp
  have s: "sint (word_of_int (4 * v) :: u16) = 4 * v"
    by (rule sint_word_of_int_16) (use v in simp_all)
  have "encode_ulaw_g191 (word_of_int (4 * v)) =
      (let segno = g191_segment (drop_bit 6 a) 1
       in if \<not> segno \<le> 8 then None
          else Some ((if v < 0 then 0 else 0x80) OR push_bit 4 (of_nat (8 - segno))
             OR (0x0F - ((ucast (drop_bit segno a) :: u8) AND 0x0F))))"
    unfolding encode_ulaw_g191_def a_def s by (cases "v < 0") (simp_all add: Let_def)
  also have "\<dots> = Some (ulaw_code (v < 0) e (m div 2 ^ (e + 1) - 16))"
    by (rule g191_code [OF a e])
  finally show ?thesis .
qed

lemma top_segment:
  assumes "2 ^ (e + 5) \<le> (m :: nat)" and "m < 2 ^ (e + 6)" and "4096 \<le> m" and "m < 8192"
  shows "e = 7"
proof -
  have "(2 :: nat) ^ 12 < 2 ^ (e + 6)" and "(2 :: nat) ^ (e + 5) < 2 ^ 13"
    using assms by simp_all
  then have "12 < e + 6" and "e + 5 < 13"
    by (simp_all only: power_strict_increasing_iff [of "2 :: nat"])
  then show ?thesis by simp
qed

text \<open>
  C7: the table-free encoder the tool uses agrees with the G.191 reference routine on every
  14-bit sample (the reference takes the same sample left-justified in 16 bits), the samples
  beyond the clamping limit included.
\<close>

theorem encode_i14_matches_g191:
  assumes "-8192 \<le> v" and "v < 8192"
  shows "encode_i14 (word_of_int v) = encode_ulaw_g191 (word_of_int (4 * v))"
proof -
  have s: "sint (word_of_int v :: u16) = v"
    by (rule sint_word_of_int_16) (use assms in simp_all)
  define v' where "v' = max (-8031) (min 8031 v)"
  define m where "m = min (ulaw_magnitude v) 8191"
  obtain e where e: "e < 8" "2 ^ (e + 5) \<le> ulaw_magnitude v'" "ulaw_magnitude v' < 2 ^ (e + 6)"
    and enc: "encode_i14 (word_of_int v) =
      Some (ulaw_code (v' < 0) e (ulaw_magnitude v' div 2 ^ (e + 1) - 16))"
    by (rule encode_i14_cases [of v' "word_of_int v"]) (simp_all add: s v'_def)
  have sign: "(v' < 0) = (v < 0)" by (auto simp: v'_def max_def min_def)
  show ?thesis
  proof (cases "-8031 \<le> v \<and> v \<le> 8031")
    case True
    then have v': "v' = v" and m: "m = ulaw_magnitude v"
      using ulaw_magnitude_range [of v] by (simp_all add: v'_def m_def)
    have "encode_ulaw_g191 (word_of_int (4 * v)) =
        Some (ulaw_code (v < 0) e (ulaw_magnitude v div 2 ^ (e + 1) - 16))"
      using encode_g191_code [OF assms m_def e(1)] e(2,3) by (simp only: v' m)
    then show ?thesis by (simp only: enc v')
  next
    case False
    then have m': "8063 \<le> ulaw_magnitude v'" "ulaw_magnitude v' \<le> 8064"
      and m: "8063 \<le> m" "m \<le> 8191"
      using assms by (auto simp: v'_def m_def ulaw_magnitude_def)
    then have "e = 7"
      using top_segment [OF e(2,3)] by simp
    moreover have "ulaw_magnitude v' div 256 = 31" and "m div 256 = 31"
      using m m' by (simp_all add: div_nat_eqI)
    ultimately show ?thesis
      using m enc sign encode_g191_code [OF assms m_def, of 7] by (simp del: of_int_mult)
  qed
qed

theorem encode_i14_matches_g191_witness:
  "encode_i14 (word_of_int (-8100)) = encode_ulaw_g191 (word_of_int (4 * (-8100)))"
  by (rule encode_i14_matches_g191) simp_all

lemma encode_i14_is_total: "\<exists>c. encode_i14 x = Some c"
  by (rule encode_i14_cases [OF refl, of x]) blast

text \<open>
  C38: the encoder is total. The checked addition never overflows and both \<open>debug_assert\<close>s hold,
  for every 16-bit input.
\<close>

theorem encode_i14_total: "\<exists>c. encode_i14 x = Some c"
  by (rule encode_i14_is_total)

text \<open>The decoding table is what the G.191 decoder computes, for every code.\<close>

theorem decode_i16_matches_g191: "decode_i16 c = decode_ulaw_g191 c"
  by (rule decode_table_g191)

section \<open>Decoding a code\<close>

lemma decode_ulaw_code:
  assumes "e < 8" and "q < 16"
  shows "decode_i16 (ulaw_code neg e q) =
    (if neg then -1 else 1) * (2 ^ (e + 3) * (16 + int q) + 2 ^ (e + 2) - 132)"
proof (cases neg)
  case True
  have "decode_i16 (ulaw_code True e q) = -1 * (2 ^ (e + 3) * (16 + int q) + 2 ^ (e + 2) - 132)"
    by (rule all_segments [OF _ assms]) code_simp
  with True show ?thesis by simp
next
  case False
  have "decode_i16 (ulaw_code False e q) = 1 * (2 ^ (e + 3) * (16 + int q) + 2 ^ (e + 2) - 132)"
    by (rule all_segments [OF _ assms]) code_simp
  with False show ?thesis by simp
qed

text \<open>The exponent field of a code, which sets the quantisation step \<open>2 ^ (e + 1)\<close>.\<close>

definition ulaw_exponent :: "u8 \<Rightarrow> nat" where
  "ulaw_exponent c = unat (drop_bit 4 (c XOR 0xff) AND 0x07)"

lemma ulaw_exponent_code:
  assumes "e < 8" and "q < 16"
  shows "ulaw_exponent (ulaw_code neg e q) = e"
proof (cases neg)
  case True
  have "ulaw_exponent (ulaw_code True e q) = e"
    by (rule all_segments [OF _ assms]) code_simp
  with True show ?thesis by simp
next
  case False
  have "ulaw_exponent (ulaw_code False e q) = e"
    by (rule all_segments [OF _ assms]) code_simp
  with False show ?thesis by simp
qed

text \<open>The linear value of the code of a magnitude in segment \<open>e\<close>.\<close>

definition ulaw_level :: "nat \<Rightarrow> nat \<Rightarrow> int" where
  "ulaw_level e m = 2 ^ (e + 3) * int (m div 2 ^ (e + 1)) + 2 ^ (e + 2) - 132"

lemma encode_i14_level:
  assumes "v = max (-8031) (min 8031 (sint x))" and "encode_i14 x = Some c"
  obtains e where "e < 8" and "2 ^ (e + 5) \<le> ulaw_magnitude v" and "ulaw_magnitude v < 2 ^ (e + 6)"
    and "ulaw_exponent c = e"
    and "decode_i16 c = (if v < 0 then -1 else 1) * ulaw_level e (ulaw_magnitude v)"
proof -
  obtain e where e: "e < 8" "2 ^ (e + 5) \<le> ulaw_magnitude v" "ulaw_magnitude v < 2 ^ (e + 6)"
    and "encode_i14 x = Some (ulaw_code (v < 0) e (ulaw_magnitude v div 2 ^ (e + 1) - 16))"
    by (rule encode_i14_cases [OF assms(1)])
  with assms(2) have c: "c = ulaw_code (v < 0) e (ulaw_magnitude v div 2 ^ (e + 1) - 16)"
    by simp
  have q: "ulaw_magnitude v div 2 ^ (e + 1) - 16 < 16" "16 \<le> ulaw_magnitude v div 2 ^ (e + 1)"
    using ulaw_mantissa_range [OF e(2,3)] by simp_all
  have "16 + int (ulaw_magnitude v div 2 ^ (e + 1) - 16) = int (ulaw_magnitude v div 2 ^ (e + 1))"
    using q(2) by linarith
  then have "decode_i16 c = (if v < 0 then -1 else 1) * ulaw_level e (ulaw_magnitude v)"
    by (simp only: c decode_ulaw_code [OF e(1) q(1)] ulaw_level_def)
  moreover have "ulaw_exponent c = e"
    by (simp only: c ulaw_exponent_code [OF e(1) q(1)])
  ultimately show ?thesis
    using that [OF e] by blast
qed

lemma ulaw_level_error:
  "4 * (int m - 33) - 2 ^ (e + 2) < ulaw_level e m" "ulaw_level e m \<le> 4 * (int m - 33) + 2 ^ (e + 2)"
  "4 * (int m - 32) - 2 ^ (e + 2) \<le> ulaw_level e m" "ulaw_level e m < 4 * (int m - 32) + 2 ^ (e + 2)"
proof -
  define P d r where "P = (2 :: int) ^ (e + 1)" and "d = int (m div 2 ^ (e + 1))"
    and "r = int (m mod 2 ^ (e + 1))"
  have m: "int m = P * d + r"
    unfolding P_def d_def r_def
    by (metis mult_div_mod_eq of_nat_add of_nat_mult of_nat_numeral of_nat_power)
  have "m mod 2 ^ (e + 1) < 2 ^ (e + 1)" by simp
  then have "r < int (2 ^ (e + 1))"
    unfolding r_def by (simp only: of_nat_less_iff)
  then have r: "0 \<le> r" "r + 1 \<le> P"
    by (simp_all add: r_def P_def)
  have level: "ulaw_level e m = 4 * (P * d) + 2 * P - 132"
    by (simp add: ulaw_level_def d_def P_def power_add)
  have pow: "(2 :: int) ^ (e + 2) = 2 * P" by (simp add: P_def)
  show "4 * (int m - 33) - 2 ^ (e + 2) < ulaw_level e m"
    "ulaw_level e m \<le> 4 * (int m - 33) + 2 ^ (e + 2)"
    "4 * (int m - 32) - 2 ^ (e + 2) \<le> ulaw_level e m"
    "ulaw_level e m < 4 * (int m - 32) + 2 ^ (e + 2)"
    using r unfolding level m pow by (simp_all add: algebra_simps)
qed

text \<open>
  C39: decoding the code of an unclipped sample gives the sample back up to half a quantisation
  step of its segment, \<open>2 ^ e\<close> in units of the 14-bit sample (times four at 16 bits).
\<close>

theorem ulaw_quantisation_error:
  assumes "-8031 \<le> v" and "v \<le> 8031" and "encode_i14 (word_of_int v) = Some c"
  shows "\<bar>decode_i16 c - 4 * v\<bar> \<le> 4 * 2 ^ ulaw_exponent c"
proof -
  have s: "sint (word_of_int v :: u16) = v"
    by (rule sint_word_of_int_16) (use assms in simp_all)
  have "v = max (-8031) (min 8031 (sint (word_of_int v :: u16)))"
    using assms(1,2) by (simp add: s)
  then obtain e where "ulaw_exponent c = e"
    and d: "decode_i16 c = (if v < 0 then -1 else 1) * ulaw_level e (ulaw_magnitude v)"
    by (rule encode_i14_level [OF _ assms(3)])
  then show ?thesis
    using ulaw_level_error [where m = "ulaw_magnitude v" and e = e]
    by (cases "v < 0") (simp_all add: ulaw_magnitude_def power_add abs_le_iff)
qed

theorem ulaw_quantisation_error_witness:
  "encode_i14 (word_of_int 1000) = Some 0xaf \<and> \<bar>decode_i16 0xaf - 4 * 1000\<bar> \<le> 4 * 2 ^ ulaw_exponent 0xaf"
proof -
  note x = encode_i14_examples(1)
  from ulaw_quantisation_error [OF _ _ x] x show ?thesis by simp
qed

section \<open>Monotonicity and round trip\<close>

lemma ulaw_level_nonneg:
  assumes "2 ^ (e + 5) \<le> m"
  shows "0 \<le> ulaw_level e m"
proof -
  have "16 \<le> m div 2 ^ (e + 1)"
    using assms by (simp add: less_eq_div_iff_mult_less_eq power_add)
  then have "(2 :: int) ^ (e + 3) * 16 \<le> 2 ^ (e + 3) * int (m div 2 ^ (e + 1))"
    by simp
  moreover have "(132 :: int) \<le> 2 ^ (e + 3) * 16 + 2 ^ (e + 2)"
    by (simp add: power_add)
  ultimately show ?thesis
    unfolding ulaw_level_def by linarith
qed

lemma ulaw_level_mono:
  assumes lo: "2 ^ (e + 5) \<le> m" and hi: "m < 2 ^ (e + 6)"
    and lo': "2 ^ (e' + 5) \<le> m'" and hi': "m' < 2 ^ (e' + 6)" and le: "m \<le> m'"
  shows "ulaw_level e m \<le> ulaw_level e' m'"
proof -
  have "(2 :: nat) ^ (e + 5) < 2 ^ (e' + 6)"
    using lo hi' le by linarith
  then have "e + 5 < e' + 6"
    by (simp only: power_strict_increasing_iff [of "2 :: nat"])
  then consider "e = e'" | "e + 1 \<le> e'" by linarith
  then show ?thesis
  proof cases
    case 1
    then show ?thesis using le by (simp add: ulaw_level_def div_le_mono)
  next
    case 2
    have "int (m div 2 ^ (e + 1)) \<le> 31" and "16 \<le> int (m' div 2 ^ (e' + 1))"
      using ulaw_mantissa_range [OF lo hi] ulaw_mantissa_range [OF lo' hi'] by linarith+
    then have "(2 :: int) ^ (e + 3) * int (m div 2 ^ (e + 1)) \<le> 2 ^ (e + 3) * 31"
      and "(2 :: int) ^ (e' + 3) * 16 \<le> 2 ^ (e' + 3) * int (m' div 2 ^ (e' + 1))"
      by simp_all
    moreover have "(2 :: int) ^ (e + 1) \<le> 2 ^ e'"
      using 2 by (rule power_increasing) simp
    moreover have "(0 :: int) < 2 ^ e" by simp
    moreover have "(2 :: int) ^ (e + 1) = 2 * 2 ^ e" "(2 :: int) ^ (e + 2) = 4 * 2 ^ e"
      "(2 :: int) ^ (e + 3) = 8 * 2 ^ e" "(2 :: int) ^ (e' + 2) = 4 * 2 ^ e'"
      "(2 :: int) ^ (e' + 3) = 8 * 2 ^ e'"
      by (simp_all add: power_add)
    ultimately show ?thesis
      unfolding ulaw_level_def by linarith
  qed
qed

text \<open>
  Encoding keeps the order of samples: of two samples the smaller one never decodes to a
  larger value, over all segments, both signs and the clipped range.
\<close>

theorem encode_i14_monotone:
  assumes "sint x \<le> sint y" and "encode_i14 x = Some c" and "encode_i14 y = Some d"
  shows "decode_i16 c \<le> decode_i16 d"
proof -
  define v w where "v = max (-8031) (min 8031 (sint x))" and "w = max (-8031) (min 8031 (sint y))"
  have vw: "v \<le> w" using assms(1) by (simp add: v_def w_def)
  obtain e where e: "2 ^ (e + 5) \<le> ulaw_magnitude v" "ulaw_magnitude v < 2 ^ (e + 6)"
    and dx: "decode_i16 c = (if v < 0 then -1 else 1) * ulaw_level e (ulaw_magnitude v)"
    by (rule encode_i14_level [OF v_def assms(2)])
  obtain e' where e': "2 ^ (e' + 5) \<le> ulaw_magnitude w" "ulaw_magnitude w < 2 ^ (e' + 6)"
    and dy: "decode_i16 d = (if w < 0 then -1 else 1) * ulaw_level e' (ulaw_magnitude w)"
    by (rule encode_i14_level [OF w_def assms(3)])
  consider "w < 0" | "v < 0" "0 \<le> w" | "0 \<le> v" by linarith
  then show ?thesis
  proof cases
    case 1
    then have "ulaw_magnitude w \<le> ulaw_magnitude v" and "v < 0"
      using vw by (simp_all add: ulaw_magnitude_def)
    with 1 show ?thesis
      using ulaw_level_mono [OF e' e] by (simp add: dx dy)
  next
    case 2
    then show ?thesis
      using ulaw_level_nonneg [OF e(1)] ulaw_level_nonneg [OF e'(1)] by (simp add: dx dy)
  next
    case 3
    then have "ulaw_magnitude v \<le> ulaw_magnitude w"
      using vw by (simp add: ulaw_magnitude_def)
    with 3 show ?thesis
      using ulaw_level_mono [OF e e'] vw by (simp add: dx dy)
  qed
qed

theorem encode_i14_monotone_witness:
  "encode_i14 (word_of_int (-500)) = Some 0x3f \<and> encode_i14 (word_of_int 1000) = Some 0xaf
    \<and> decode_i16 0x3f \<le> decode_i16 0xaf"
proof -
  note x = encode_i14_examples(2) and y = encode_i14_examples(1)
  have "sint (word_of_int (-500) :: 16 word) \<le> sint (word_of_int 1000 :: 16 word)" by simp
  from encode_i14_monotone [OF this x y] x y show ?thesis by blast
qed

text \<open>Every code is the code of a sign, a segment and a mantissa.\<close>

lemma ulaw_code_cases:
  obtains e q where "e < 8" and "q < 16" and "c = ulaw_code (c < 0x80) e q"
proof -
  let ?n = "(if c < 0x80 then 127 else 255) - unat c"
  have lt: "c < 0x80 \<longleftrightarrow> unat c < 128"
    by (simp add: word_less_nat_alt)
  have "unat c < 256" by simp
  then have "unat c \<le> 255" by linarith
  then have n: "?n < 128" "unat c = (if c < 0x80 then 127 else 255) - ?n"
    by (auto simp: lt)
  have "c = of_nat (unat c)" by simp
  also have "\<dots> = ulaw_code (c < 0x80) (?n div 16) (?n mod 16)"
    by (subst n(2)) (simp add: ulaw_code_def)
  finally show ?thesis
    using n(1) by (intro that [of "?n div 16" "?n mod 16"]) simp_all
qed

lemma encode_i14_level_roundtrip:
  assumes e: "e < 8" and q: "q < 16" and z: "neg \<Longrightarrow> e \<noteq> 0 \<or> q \<noteq> 0"
  shows "encode_i14 (word_of_int ((if neg then -1 else 1) *
      (2 ^ (e + 1) * (16 + int q) + 2 ^ e - 33))) = Some (ulaw_code neg e q)"
proof -
  define m where "m = 2 ^ (e + 1) * (16 + q) + 2 ^ e"
  define v where "v = (if neg then -1 else 1) * (int m - 33)"
  have v_eq: "v = (if neg then -1 else 1) * (2 ^ (e + 1) * (16 + int q) + 2 ^ e - 33)"
    by (simp add: v_def m_def)
  have pow: "(2 :: nat) ^ e \<le> 2 ^ 7"
    using e by (intro power_increasing) simp_all
  have "2 ^ (e + 1) * 16 \<le> 2 ^ (e + 1) * (16 + q)" and "2 ^ (e + 1) * (16 + q) \<le> 2 ^ (e + 1) * 31"
    using q by (simp_all del: power_Suc)
  then have m: "33 * 2 ^ e \<le> m" "m \<le> 63 * 2 ^ e"
    by (simp_all add: m_def)
  then have m_hi: "m \<le> 8064"
    using pow by simp
  have one: "(1 :: nat) \<le> 2 ^ e" by simp
  have m33': "33 \<le> m" using m(1) one by linarith
  have m33: "33 < m" if neg
  proof (cases "e = 0")
    case True
    with z [OF that] show ?thesis by (simp add: m_def)
  next
    case False
    then have "(2 :: nat) ^ 1 \<le> 2 ^ e" by (intro power_increasing) simp_all
    then show ?thesis using m(1) by simp
  qed
  have sign: "(v < 0) = neg"
    using m33 m33' by (cases neg) (auto simp: v_def)
  have mag: "ulaw_magnitude v = (if neg then m - 1 else m)"
    using sign m33 m33' by (cases neg) (simp_all add: ulaw_magnitude_def v_def nat_diff_distrib)
  have "(m - 1) div 2 ^ (e + 1) = 16 + q" and "m div 2 ^ (e + 1) = 16 + q"
    using one unfolding m_def by (intro div_nat_eqI; (simp add: algebra_simps; fail | simp add: algebra_simps; linarith))+
  then have d: "ulaw_magnitude v div 2 ^ (e + 1) - 16 = q"
    by (simp add: mag)
  have range: "-8031 \<le> v" "v \<le> 8031"
    using m m_hi one by (auto simp: v_def)
  then have s: "sint (word_of_int v :: u16) = v"
    by (intro sint_word_of_int_16) simp_all
  have "32 * 2 ^ e \<le> m - 1" "m < 64 * 2 ^ e"
    using m one by linarith+
  then have "2 ^ (e + 5) \<le> ulaw_magnitude v" "ulaw_magnitude v < 2 ^ (e + 6)"
    by (auto simp add: mag power_add)
  from encode_i14_segment [OF s range e this] show ?thesis
    by (simp only: sign d flip: v_eq)
qed

lemma decode_encode_i14:
  "encode_i14 (word_of_int (decode_i16 c div 4)) = Some (if c = 0x7f then 0xff else c)"
proof (cases "c = 0x7f")
  case True
  have "encode_i14 (word_of_int (decode_i16 0x7f div 4)) = Some 0xff" by code_simp
  with True show ?thesis by simp
next
  case False
  obtain e q where eq: "e < 8" "q < 16" and c: "c = ulaw_code (c < 0x80) e q"
    by (rule ulaw_code_cases)
  have z: "e \<noteq> 0 \<or> q \<noteq> 0" if neg: "c < 0x80"
  proof (rule ccontr)
    assume "\<not> (e \<noteq> 0 \<or> q \<noteq> 0)"
    then have "c = ulaw_code True 0 0" using c neg by simp
    with False show False by (simp add: ulaw_code_def)
  qed
  have "decode_i16 c = 4 * ((if c < 0x80 then -1 else 1) * (2 ^ (e + 1) * (16 + int q) + 2 ^ e - 33))"
    by (subst c, subst decode_ulaw_code [OF eq]) (simp add: power_add)
  then have "decode_i16 c div 4 = (if c < 0x80 then -1 else 1) * (2 ^ (e + 1) * (16 + int q) + 2 ^ e - 33)"
    by simp
  then show ?thesis
    using False encode_i14_level_roundtrip [OF eq z] c by simp
qed

text \<open>
  A code survives decoding and encoding, except \<open>0x7f\<close>, the second code of zero, which comes
  back as \<open>0xff\<close>. The decoder works in 16 bits, the encoder in 14.
\<close>

theorem encode_decode_roundtrip:
  "encode_i14 (word_of_int (decode_i16 c div 4)) = Some (if c = 0x7f then 0xff else c)"
  by (rule decode_encode_i14)

end
