(* ===== verification/Ulaw_Float.thy ===== *)
theory Ulaw_Float
  imports F32 Ulaw
begin

text \<open>
  The floating-point ends of the mu-law codec of \<^verbatim>\<open>tedium-tool/src/codec/ulaw.rs\<close>: \<open>encode\<close> maps
  samples of magnitude at most one to codes, \<open>decode\<close> maps codes back. A panic of the encoder would
  be \<open>None\<close>.
\<close>

definition SCALE_ULAW_FLOAT :: f32 where
  "SCALE_ULAW_FLOAT = f32_of_rat 8159"

definition ulaw_encode :: "f32 \<Rightarrow> u8 option" where
  "ulaw_encode sample =
     Option.bind (f32_clamp (f32_of_rat (-1)) (f32_of_rat 1) sample) (\<lambda>clamped.
       let scaled = f32_mul clamped SCALE_ULAW_FLOAT;
           sample_i14 = f32_as_i16 (f32_round scaled)
       in encode_i14 (word_of_int sample_i14))"

definition ulaw_decode :: "u8 \<Rightarrow> f32" where
  "ulaw_decode code =
     (let linear_i16 = decode_i16 code
      in f32_div (f32_of_int linear_i16) (f32_mul SCALE_ULAW_FLOAT (f32_of_rat 4)))"

section \<open>Constants and table bounds\<close>

lemma ulaw_constants:
  "SCALE_ULAW_FLOAT = F32_fin False 16709632 (-11)"
  "f32_mul SCALE_ULAW_FLOAT (f32_of_rat 4) = F32_fin False 16709632 (-9)"
  "f32_of_rat 1 = F32_fin False 8388608 (-23)"
  "f32_of_rat (-1) = F32_fin True 8388608 (-23)"
  by code_simp+

lemma ulaw_constant_values:
  "(16709632 :: rat) * 2 powi (-11) = 8159"
  "(16709632 :: rat) * 2 powi (-9) = 32636"
  "(8388608 :: rat) * 2 powi (-23) = 1"
  by (simp_all add: power_int_def power_divide)

lemma decode_i16_bounds: "\<bar>decode_i16 c\<bar> \<le> 32124 \<and> 4 dvd decode_i16 c"
proof -
  have "list_all (\<lambda>x. \<bar>x\<bar> \<le> 32124 \<and> x mod 4 = 0) ULAW_TO_LINEAR"
    by code_simp
  moreover have "decode_i16 c \<in> set ULAW_TO_LINEAR"
    using unat_u8_lt [of c] unfolding decode_i16_def
    by (intro nth_mem) (simp add: ULAW_TO_LINEAR_def del: unat_u8_lt)
  ultimately show ?thesis
    by (auto simp: list_all_iff)
qed

lemma ulaw_encode_steps:
  assumes "f32_clamp (f32_of_rat (-1)) (f32_of_rat 1) x = Some y"
    and "f32_as_i16 (f32_round (f32_mul y SCALE_ULAW_FLOAT)) = i"
  shows "ulaw_encode x = encode_i14 (word_of_int i)"
  using assms by (simp add: ulaw_encode_def Let_def)

text \<open>The codes of zero and of the two ends of the range; 8159 is clipped to 8031.\<close>

lemma encode_i14_ends:
  "encode_i14 (word_of_int 0) = Some 0xff"
  "encode_i14 (word_of_int 8159) = Some 0x80"
  "encode_i14 (word_of_int (-8159)) = Some 0x00"
proof -
  have clip: "encode_i14 (word_of_int 8159) = encode_i14 (word_of_int 8031)"
    "encode_i14 (word_of_int (-8159)) = encode_i14 (word_of_int (-8031))"
    by (simp_all add: encode_i14_def i16_clamp_def)
  have "decode_i16 0xff div 4 = 0" "decode_i16 0x80 div 4 = 8031" "decode_i16 0x00 div 4 = -8031"
    by code_simp+
  with decode_encode_i14 [of "0xff"] decode_encode_i14 [of "0x80"] decode_encode_i14 [of "0x00"]
  show "encode_i14 (word_of_int 0) = Some 0xff" "encode_i14 (word_of_int 8159) = Some 0x80"
    "encode_i14 (word_of_int (-8159)) = Some 0x00"
    unfolding clip by simp_all
qed

section \<open>Encoding near an integer sample\<close>

lemma f32_clamp_unit:
  assumes "of_int m * 2 powi e \<le> (1 :: rat)" and "0 \<le> m"
  shows "f32_clamp (f32_of_rat (-1)) (f32_of_rat 1) (F32_fin neg m e) = Some (F32_fin neg m e)"
proof -
  have "0 \<le> (of_int m * 2 powi e :: rat)"
    using assms(2) by simp
  then show ?thesis
    using assms(1) ulaw_constant_values(3)
    by (simp add: f32_clamp_def ulaw_constants f32_le_def Let_def)
qed

lemma f32_as_i16_fin:
  assumes "of_int m * 2 powi e = (of_int y :: rat)" and "\<bar>y\<bar> \<le> 32767"
  shows "f32_as_i16 (F32_fin neg m e) = (if neg then - y else y)"
  using assms by (simp add: Let_def)

text \<open>
  A magnitude whose scaled value is within \<open>1 / 4\<close> of an integer is encoded as that integer: both
  roundings together move it by less than \<open>1 / 2\<close>.
\<close>

lemma ulaw_encode_near:
  assumes v: "of_int m * 2 powi e = (v :: rat)" and "0 \<le> m" and "v \<le> 1" and "2 powi (-100) \<le> v"
    and "\<bar>v * 8159 - of_int y\<bar> \<le> 1 / 4" and "0 \<le> y" and "y \<le> 8159"
  shows "ulaw_encode (F32_fin neg m e) = encode_i14 (word_of_int (if neg then - y else y))"
proof -
  have v0: "0 < v"
    using assms(4) by (rule less_le_trans [rotated]) simp
  have pos: "\<bar>v * 8159\<bar> = v * 8159"
    using v0 by simp
  have "(2 powi (-126) :: rat) \<le> 2 powi (-100)"
    by (rule power_int_increasing) simp_all
  then have low: "2 powi (-126) \<le> v * 8159"
    using assms(4) v0 by linarith
  have "v * 8159 < 2 powi 127"
    using assms(3) by (rule le_less_trans [OF mult_right_mono]) simp_all
  from f32_round_to_error [OF low this, of neg] obtain m2 e2 where
    r: "f32_round_to neg (v * 8159) = F32_fin neg m2 e2" and
    err: "\<bar>of_int m2 * 2 powi e2 - v * 8159\<bar> \<le> v * 8159 / 2 ^ 24"
    by blast
  have scaled: "f32_mul (F32_fin neg m e) SCALE_ULAW_FLOAT = F32_fin neg m2 e2"
    using r pos v ulaw_constant_values(1) by (cases neg) (simp_all add: ulaw_constants abs_mult)
  have "v * 8159 / 2 ^ 24 < 1 / 4"
    using assms(3) by simp
  then have "\<bar>of_int m2 * 2 powi e2 - of_int y\<bar> < (1 / 2 :: rat)"
    using err assms(5) by linarith
  then have floor: "\<lfloor>of_int m2 * 2 powi e2 + 1 / 2 :: rat\<rfloor> = y"
    unfolding floor_eq_iff by linarith
  have "y < 2 ^ 24"
    using assms(7) by simp
  from f32_round_to_int [OF assms(6) this, of neg] obtain m3 e3 where
    "f32_round_to neg (of_int y) = F32_fin neg m3 e3" and m3: "of_int m3 * 2 powi e3 = (of_int y :: rat)"
    by blast
  then have "f32_round (F32_fin neg m2 e2) = F32_fin neg m3 e3"
    using floor by simp
  moreover have "f32_as_i16 (F32_fin neg m3 e3) = (if neg then - y else y)"
    using f32_as_i16_fin [OF m3] assms(6,7) by simp
  moreover have "f32_clamp (f32_of_rat (-1)) (f32_of_rat 1) (F32_fin neg m e) = Some (F32_fin neg m e)"
    using v assms(2,3) by (intro f32_clamp_unit) simp_all
  ultimately show ?thesis
    by (simp only: ulaw_encode_def scaled Let_def bind.bind_lunit)
qed

section \<open>Properties\<close>

lemma ulaw_encode_is_total: "\<exists>code. ulaw_encode x = Some code"
proof -
  have "f32_le (f32_of_rat (-1)) (f32_of_rat 1)"
    by code_simp
  with encode_i14_is_total show ?thesis
    by (simp add: ulaw_encode_def f32_clamp_def Let_def)
qed

lemma ulaw_decode_fin:
  assumes "decode_i16 c \<noteq> 0"
  obtains m e where "ulaw_decode c = F32_fin (decode_i16 c < 0) m e"
    and "\<bar>of_int m * 2 powi e - of_int \<bar>decode_i16 c\<bar> / 32636\<bar> \<le> (1 / 2 ^ 24 :: rat)"
proof -
  let ?x = "decode_i16 c"
  let ?q = "of_int \<bar>?x\<bar> / 32636 :: rat"
  have bounds: "1 \<le> \<bar>?x\<bar>" "\<bar>?x\<bar> \<le> 32124"
    using assms decode_i16_bounds [of c] by auto
  have "\<bar>?x\<bar> < 2 ^ 24"
    using bounds by simp
  from f32_round_to_int [OF abs_ge_zero this, of "?x < 0"] obtain m e where
    "f32_round_to (?x < 0) (of_int \<bar>?x\<bar>) = F32_fin (?x < 0) m e" and
    m: "of_int m * 2 powi e = (of_int \<bar>?x\<bar> :: rat)"
    by blast
  then have "f32_of_int ?x = F32_fin (?x < 0) m e"
    by (simp add: f32_of_int_def f32_of_rat_def)
  moreover have "\<bar>f32_value (F32_fin (?x < 0) m e) / f32_value (F32_fin False 16709632 (-9))\<bar> = ?q"
    using m ulaw_constant_values(2) by (simp add: abs_mult)
  ultimately have dec: "ulaw_decode c = f32_round_to (?x < 0) ?q"
    by (simp only: ulaw_decode_def Let_def ulaw_constants(2) f32_div.simps) simp
  have q: "1 / 32636 \<le> ?q" "?q \<le> 1"
    using bounds by (simp_all add: divide_le_cancel)
  have "(2 powi (-126) :: rat) \<le> 2 powi (-15)"
    by (rule power_int_increasing) simp_all
  also have "\<dots> \<le> 1 / 32636"
    by (simp add: power_int_def power_divide)
  finally have "2 powi (-126) \<le> ?q"
    using q(1) by linarith
  moreover have "?q < 2 powi 127"
    using q(2) by (rule le_less_trans) simp
  ultimately obtain m' e' where r: "f32_round_to (?x < 0) ?q = F32_fin (?x < 0) m' e'"
    and err: "\<bar>of_int m' * 2 powi e' - ?q\<bar> \<le> ?q / 2 ^ 24"
    using f32_round_to_error [of ?q "?x < 0"] by blast
  have "?q / 2 ^ 24 \<le> 1 / 2 ^ 24"
    using q(2) by (intro divide_right_mono) simp_all
  with err have "\<bar>of_int m' * 2 powi e' - ?q\<bar> \<le> 1 / 2 ^ 24"
    by (rule order_trans)
  with that dec r show thesis
    by simp
qed

text \<open>
  C26: every code but the second zero survives decoding to floating point and encoding again, with
  both conversions rounded as binary32: \<open>0x7f\<close> comes back as \<open>0xff\<close>.
\<close>

theorem ulaw_float_roundtrip:
  "ulaw_encode (ulaw_decode c) = Some (if c = 0x7f then 0xff else c)"
proof (cases "decode_i16 c = 0")
  case True
  moreover have "f32_div (f32_of_int 0) (f32_mul SCALE_ULAW_FLOAT (f32_of_rat 4)) =
      F32_fin False 0 (-149)"
    by code_simp
  ultimately have "ulaw_decode c = F32_fin False 0 (-149)"
    by (simp only: ulaw_decode_def Let_def)
  moreover have "ulaw_encode (F32_fin False 0 (-149)) = encode_i14 (word_of_int 0)"
    by (rule ulaw_encode_steps) code_simp+
  ultimately have "ulaw_encode (ulaw_decode c) = encode_i14 (word_of_int (decode_i16 c div 4))"
    using True by simp
  then show ?thesis
    by (simp only: decode_encode_i14)
next
  case False
  let ?x = "decode_i16 c"
  define y where "y = \<bar>?x\<bar> div 4"
  have y: "\<bar>?x\<bar> = 4 * y" "0 \<le> y" "y \<le> 8031" "1 \<le> y"
    using decode_i16_bounds [of c] False by (auto simp: y_def)
  from ulaw_decode_fin [OF False] obtain m e where
    d: "ulaw_decode c = F32_fin (?x < 0) m e" and
    err: "\<bar>of_int m * 2 powi e - of_int (4 * y) / 32636\<bar> \<le> (1 / 2 ^ 24 :: rat)"
    unfolding y(1) by blast
  define v where "v = (of_int m * 2 powi e :: rat)"
  have yr: "1 \<le> (of_int y :: rat)" "(of_int y :: rat) \<le> 8031"
    using y by simp_all
  have near: "\<bar>v - of_int y / 8159\<bar> \<le> 1 / 2 ^ 24"
    using err by (simp add: v_def)
  then have "v - of_int y / 8159 \<le> 1 / 2 ^ 24" and "of_int y / 8159 - v \<le> 1 / 2 ^ 24"
    by (simp_all only: abs_le_iff minus_diff_eq)
  then have "v \<le> 1" and low: "1 / 10000 \<le> v" and "v * 8159 - of_int y \<le> 1 / 4"
    and "of_int y - v * 8159 \<le> 1 / 4"
    using yr by simp_all
  then have "\<bar>v * 8159 - of_int y\<bar> \<le> 1 / 4"
    by (simp only: abs_le_iff minus_diff_eq)
  have "0 < (of_int m * 2 powi e :: rat)"
    using low by (simp add: v_def)
  then have "0 < (of_int m :: rat)"
    by (rule zero_less_mult_pos2) simp
  then have "0 \<le> m"
    by simp
  have "2 powi (-100) \<le> (2 powi (-14) :: rat)"
    by (rule power_int_increasing) simp_all
  then have "2 powi (-100) \<le> v"
    using low by (simp add: power_int_def power_divide)
  then have "ulaw_encode (ulaw_decode c) = encode_i14 (word_of_int (if ?x < 0 then - y else y))"
    unfolding d using v_def \<open>0 \<le> m\<close> \<open>v \<le> 1\<close> \<open>\<bar>v * 8159 - of_int y\<bar> \<le> 1 / 4\<close> y by (intro ulaw_encode_near) auto
  moreover have "(if ?x < 0 then - y else y) = ?x div 4"
    using y(1) by auto
  ultimately show ?thesis
    by (simp only: decode_encode_i14)
qed

lemma ulaw_encode_unit:
  assumes "\<bar>f32_value x\<bar> = 1" and "f32_ok x" and "f32_is_finite x"
  shows "ulaw_encode x = Some (if f32_value x < 0 then 0x00 else 0x80)"
proof -
  from assms(3) obtain s m e where x: "x = F32_fin s m e"
    by (cases x) simp_all
  have m: "0 \<le> m"
    using assms(2) by (simp add: x)
  then have v: "of_int m * 2 powi e = (1 :: rat)"
    using assms(1) by (cases s) (simp_all add: x abs_mult)
  have "2 powi (-100) \<le> (2 powi 0 :: rat)"
    by (rule power_int_increasing) simp_all
  then have "ulaw_encode x = encode_i14 (word_of_int (if s then - 8159 else 8159))"
    unfolding x by (intro ulaw_encode_near [OF v m]) simp_all
  then show ?thesis
    using v encode_i14_ends by (simp add: x)
qed

text \<open>
  The float encoder is total: for every \<open>f32\<close>, infinities and NaN included, it returns a code.
  NaN is encoded as silence, and magnitudes from one up saturate to the code of the largest sample of
  their sign.
\<close>

theorem ulaw_encode_saturates:
  assumes "f32_ok x"
  shows "\<exists>code. ulaw_encode x = Some code \<and>
    (x = F32_nan \<longrightarrow> code = 0xff) \<and>
    (f32_le (f32_of_rat 1) x \<longrightarrow> code = 0x80) \<and>
    (f32_le x (f32_of_rat (-1)) \<longrightarrow> code = 0x00)"
proof -
  have order: "f32_le (f32_of_rat (-1)) (f32_of_rat 1)" "f32_lt (f32_of_rat (-1)) (f32_of_rat 1)"
    "\<not> f32_lt (f32_of_rat 1) (f32_of_rat (-1))" "\<not> f32_lt (f32_of_rat 1) (f32_of_rat 1)"
    "\<not> f32_lt (f32_of_rat (-1)) (f32_of_rat (-1))"
    by code_simp+
  have "ulaw_encode F32_nan = encode_i14 (word_of_int 0)"
    by (rule ulaw_encode_steps [of _ F32_nan]) code_simp+
  moreover have "ulaw_encode (f32_of_rat 1) = encode_i14 (word_of_int 8159)"
    by (rule ulaw_encode_steps [of _ "f32_of_rat 1"]) code_simp+
  moreover have "ulaw_encode (f32_of_rat (-1)) = encode_i14 (word_of_int (-8159))"
    by (rule ulaw_encode_steps [of _ "f32_of_rat (-1)"]) code_simp+
  ultimately have at_ends: "ulaw_encode F32_nan = Some 0xff" "ulaw_encode (f32_of_rat 1) = Some 0x80"
    "ulaw_encode (f32_of_rat (-1)) = Some 0x00"
    by (simp_all only: encode_i14_ends)
  obtain code where code: "ulaw_encode x = Some code"
    using ulaw_encode_is_total by blast
  have same: "ulaw_encode y = ulaw_encode z"
    if "f32_clamp (f32_of_rat (-1)) (f32_of_rat 1) y = f32_clamp (f32_of_rat (-1)) (f32_of_rat 1) z"
    for y z
    using that by (simp add: ulaw_encode_def)
  have "code = 0x80" if "f32_le (f32_of_rat 1) x"
  proof (cases "f32_lt (f32_of_rat 1) x")
    case True
    then have "\<not> f32_lt x (f32_of_rat (-1))"
      using ulaw_constant_values(3) by (cases x) (auto simp: ulaw_constants)
    with True order have "ulaw_encode x = ulaw_encode (f32_of_rat 1)"
      by (intro same) (simp add: f32_clamp_def)
    with code at_ends show ?thesis by simp
  next
    case False
    with that have "f32_eq (f32_of_rat 1) x"
      by (simp add: f32_le_def)
    then have "f32_is_finite x" and "f32_value x = 1"
      using ulaw_constant_values(3) by (cases x; simp add: ulaw_constants)+
    with ulaw_encode_unit [of x] assms code show ?thesis by simp
  qed
  moreover have "code = 0x00" if "f32_le x (f32_of_rat (-1))"
  proof (cases "f32_lt x (f32_of_rat (-1))")
    case True
    with order have "ulaw_encode x = ulaw_encode (f32_of_rat (-1))"
      by (intro same) (simp add: f32_clamp_def)
    with code at_ends show ?thesis by simp
  next
    case False
    with that have "f32_eq x (f32_of_rat (-1))"
      by (simp add: f32_le_def)
    then have "f32_is_finite x" and "f32_value x = -1"
      using ulaw_constant_values(3) by (cases x; simp add: ulaw_constants)+
    with ulaw_encode_unit [of x] assms code show ?thesis by simp
  qed
  ultimately show ?thesis
    using code at_ends by auto
qed

theorem ulaw_encode_saturates_witness: "ulaw_encode (F32_inf True) = Some 0x00"
  using ulaw_encode_saturates [of "F32_inf True"]
  by (simp add: f32_le_def ulaw_constants)

end
