(* ===== verification/Signaling.thy ===== *)
theory Signaling
  imports Robbed_Bit_Spec Dtmf_Spec Ulaw_Float
begin

text \<open>
  The signaling thread of \<^verbatim>\<open>tedium-tool/src/framer/audio.rs\<close>: \<open>SignalingProcessor\<close> runs the robbed-bit
  debouncers of the eight channels and the tone detectors over the received frames and sends the
  events of \<^verbatim>\<open>framer/mod.rs\<close>. The result of a step lists the events sent; a panic is \<open>None\<close>. The hash
  map of detectors is an association list (the code puts one entry into it). What is printed to
  standard error is left out, and sending is taken to succeed, as it does on an unbounded channel
  whose receiver exists.
\<close>

section \<open>The processor\<close>

datatype 't framer_event =
    Interrupt 't "u8 list" nat
  | Digit timeslot_address detection_event
  | RobbedBitState u32 timeslot_address u8

record superframe_state =
  ss_robbed_bit_debouncer :: robbed_bit_debouncer

definition superframe_state_default :: superframe_state where
  "superframe_state_default = \<lparr>ss_robbed_bit_debouncer = debouncer_new\<rparr>"

record 'c signaling_processor =
  sp_detectors :: "(timeslot_address \<times> 'c dtmf_detector) list"
  sp_superframe_state :: "superframe_state list"
  sp_frame_count_discontinuity_monitor :: frame_count_monitor

definition signaling_processor_new :: "'c maths \<Rightarrow> 'c signaling_processor" where
  "signaling_processor_new M =
     \<lparr>sp_detectors = [(timeslot_address_new 0 1, dtmf_new M)],
      sp_superframe_state = replicate 8 superframe_state_default,
      sp_frame_count_discontinuity_monitor = monitor_new\<rparr>"

text \<open>The loop over the channels, from channel \<open>c\<close> on.\<close>

fun process_superframes ::
  "internal_frame \<Rightarrow> nat \<Rightarrow> superframe_state list \<Rightarrow>
    ('t framer_event list \<times> superframe_state list) option" where
  "process_superframes frame_in channel_index [] = Some ([], [])"
| "process_superframes frame_in channel_index (state # states) =
     Option.bind (signaling_channel frame_in channel_index (ss_robbed_bit_debouncer state))
       (\<lambda>(changes, debouncer).
          Option.bind (process_superframes frame_in (Suc channel_index) states)
            (\<lambda>(events, states').
               Some (map (\<lambda>(timestamp, address, rbs). RobbedBitState timestamp address rbs) changes @ events,
                 state\<lparr>ss_robbed_bit_debouncer := debouncer\<rparr> # states')))"

text \<open>The loop over the detectors.\<close>

fun process_detectors ::
  "'c maths \<Rightarrow> internal_frame \<Rightarrow> (timeslot_address \<times> 'c dtmf_detector) list \<Rightarrow>
    ('t framer_event list \<times> (timeslot_address \<times> 'c dtmf_detector) list) option" where
  "process_detectors M frame_in [] = Some ([], [])"
| "process_detectors M frame_in ((address, detector) # rest) =
     Option.bind (frame_timeslot (if_frame frame_in) address) (\<lambda>sample_ulaw.
       case dtmf_advance M (ulaw_decode sample_ulaw) detector of
         Inl panic \<Rightarrow> None
       | Inr (output, detector') \<Rightarrow>
           Option.bind (process_detectors M frame_in rest) (\<lambda>(events, rest').
             Some ((case output of None \<Rightarrow> events | Some digit \<Rightarrow> Digit address digit # events),
               (address, detector') # rest')))"

definition signaling_process_frame ::
  "'c maths \<Rightarrow> internal_frame \<Rightarrow> 'c signaling_processor \<Rightarrow>
    ('t framer_event list \<times> 'c signaling_processor) option" where
  "signaling_process_frame M frame_in self =
     (let (missing_frames_count, monitor) =
            monitor_update (if_frame_count frame_in) (sp_frame_count_discontinuity_monitor self)
      in Option.bind (process_superframes frame_in 0 (sp_superframe_state self)) (\<lambda>(rbs_events, states).
         Option.bind (process_detectors M frame_in (sp_detectors self)) (\<lambda>(digit_events, detectors).
           Some (rbs_events @ digit_events,
             self\<lparr>sp_frame_count_discontinuity_monitor := monitor, sp_superframe_state := states,
               sp_detectors := detectors\<rparr>))))"

fun signaling_run ::
  "'c maths \<Rightarrow> internal_frame list \<Rightarrow> 'c signaling_processor \<Rightarrow>
    ('t framer_event list \<times> 'c signaling_processor) option" where
  "signaling_run M [] sp = Some ([], sp)"
| "signaling_run M (f # fs) sp =
     Option.bind (signaling_process_frame M f sp) (\<lambda>(xs, sp').
     Option.bind (signaling_run M fs sp') (\<lambda>(ys, sp''). Some (xs @ ys, sp'')))"

section \<open>Projections\<close>

text \<open>The robbed-bit changes of one channel and the digits of one detector among the events.\<close>

fun rbs_of :: "nat \<Rightarrow> 't framer_event list \<Rightarrow> rbs_change list" where
  "rbs_of c [] = []"
| "rbs_of c (RobbedBitState n a v # es) =
     (if ta_channel a = c then (n, a, v) # rbs_of c es else rbs_of c es)"
| "rbs_of c (e # es) = rbs_of c es"

fun digits_of :: "timeslot_address \<Rightarrow> 't framer_event list \<Rightarrow> detection_event list" where
  "digits_of a [] = []"
| "digits_of a (Digit b d # es) = (if b = a then d # digits_of a es else digits_of a es)"
| "digits_of a (e # es) = digits_of a es"

lemma rbs_of_append [simp]: "rbs_of c (xs @ ys) = rbs_of c xs @ rbs_of c ys"
  by (induction c xs rule: rbs_of.induct) auto

lemma digits_of_append [simp]: "digits_of a (xs @ ys) = digits_of a xs @ digits_of a ys"
  by (induction a xs rule: digits_of.induct) auto

definition rbs_events :: "rbs_change list \<Rightarrow> 't framer_event list" where
  "rbs_events xs = map (\<lambda>(timestamp, address, rbs). RobbedBitState timestamp address rbs) xs"

lemma rbs_of_events: "rbs_of c (rbs_events xs) = filter (\<lambda>(n, a, v). ta_channel a = c) xs"
  by (induction xs) (auto simp: rbs_events_def)

lemma digits_of_events [simp]: "digits_of a (rbs_events xs) = []"
  by (induction xs) (auto simp: rbs_events_def)

text \<open>A channel reports changes of its own timeslots only.\<close>

lemma debounce_timeslots_channel:
  "debounce_timeslots c acc hist ts st = (xs, st') \<Longrightarrow> \<forall>(n, a, v) \<in> set xs. ta_channel a = c"
proof (induction c acc hist ts st arbitrary: xs st' rule: debounce_timeslots.induct)
  case (2 c acc hist i rest st)
  then show ?case
    by (auto simp: Let_def split: if_splits prod.splits) blast+
qed simp

lemma signaling_channel_own:
  assumes "signaling_channel f c d = Some (xs, d')"
  shows "\<forall>(n, a, v) \<in> set xs. ta_channel a = c"
  using assms debounce_timeslots_channel
  by (fastforce simp: signaling_channel_def debouncer_process_frame_def Let_def
      split: option.splits prod.splits if_splits)

lemma process_superframes_channels:
  assumes "process_superframes f k ss = Some (es, ss')"
  shows "length ss' = length ss \<and>
    (\<forall>i < length ss. \<exists>xs d'. signaling_channel f (k + i) (ss_robbed_bit_debouncer (ss ! i)) = Some (xs, d') \<and>
      ss_robbed_bit_debouncer (ss' ! i) = d' \<and> rbs_of (k + i) es = xs) \<and>
    (\<forall>c. c < k \<longrightarrow> rbs_of c es = []) \<and> (\<forall>a. digits_of a es = [])"
  using assms
proof (induction f k ss arbitrary: es ss' rule: process_superframes.induct)
  case (2 f k s ss)
  from "2.prems" obtain xs d ys ss1 where
    step: "signaling_channel f k (ss_robbed_bit_debouncer s) = Some (xs, d)" and
    rest: "process_superframes f (Suc k) ss = Some (ys, ss1)" and
    es: "es = rbs_events xs @ ys" and ss': "ss' = s\<lparr>ss_robbed_bit_debouncer := d\<rparr> # ss1"
    by (auto simp: bind_eq_Some_conv rbs_events_def)
  have own: "filter (\<lambda>(n, a, v). ta_channel a = c) xs = (if c = k then xs else [])" for c
    using signaling_channel_own [OF step] by (auto simp: filter_id_conv filter_empty_conv split_beta)
  from "2.IH" [OF step refl rest] have
    IH: "length ss1 = length ss" "\<forall>c. c < Suc k \<longrightarrow> rbs_of c ys = []" "\<forall>a. digits_of a ys = []"
    "\<forall>i < length ss. \<exists>zs d'. signaling_channel f (Suc k + i) (ss_robbed_bit_debouncer (ss ! i)) = Some (zs, d') \<and>
      ss_robbed_bit_debouncer (ss1 ! i) = d' \<and> rbs_of (Suc k + i) ys = zs"
    by auto
  have "\<exists>zs d'. signaling_channel f (k + i) (ss_robbed_bit_debouncer ((s # ss) ! i)) = Some (zs, d') \<and>
      ss_robbed_bit_debouncer (ss' ! i) = d' \<and> rbs_of (k + i) es = zs" if "i < Suc (length ss)" for i
  proof (cases i)
    case 0
    with step IH(2) show ?thesis
      by (simp add: es ss' rbs_of_events own)
  next
    case (Suc j)
    with IH(4) that show ?thesis
      by (auto simp: es ss' rbs_of_events own)
  qed
  with IH show ?case
    by (auto simp: es ss' rbs_of_events own)
qed simp

section \<open>Steps and runs\<close>

lemma debounce_timeslots_length:
  "length (snd (debounce_timeslots c acc hist ts st)) = length st"
  by (induction ts arbitrary: st) (auto simp: Let_def split_beta)

lemma signaling_channel_total:
  assumes "frame_ok (if_frame f)" and "c < 8" and "debouncer_ok d"
  shows "\<exists>xs d'. signaling_channel f c d = Some (xs, d') \<and> debouncer_ok d'"
proof -
  let ?d = "if channel_mf f c then debouncer_new_frame (if_frame_count f) d else d"
  have d: "rb_ok (rd_state ?d)" "rb_ok (rd_history ?d)" "rb_ok (rd_accumulator ?d)"
    using assms(3) by (simp_all add: debouncer_ok_def debouncer_new_frame_def)
  obtain b r where r: "rb_process_frame f c (rd_accumulator ?d) = Some (b, r)" and "rb_ok r"
    using rb_process_frame_total [OF assms(1,2) d(3)] by blast
  have st: "length (snd (debounce_timeslots c r (rd_history ?d) [0..<24] (rb_timeslot (rd_state ?d)))) = 24"
    using d(1) debounce_timeslots_length by (simp only: rb_ok_def)
  show ?thesis
    unfolding signaling_channel_def debouncer_process_frame_def r
    using d \<open>rb_ok r\<close> st
    by (cases b) (simp_all add: split_beta debouncer_ok_def rb_ok_def del: upt_Suc)
qed

definition states_ok :: "superframe_state list \<Rightarrow> bool" where
  "states_ok ss \<longleftrightarrow> (\<forall>s \<in> set ss. debouncer_ok (ss_robbed_bit_debouncer s))"

lemma process_superframes_total:
  assumes "frame_ok (if_frame f)" and "k + length ss \<le> 8" and "states_ok ss"
  shows "\<exists>(es :: 't framer_event list) ss'. process_superframes f k ss = Some (es, ss') \<and> states_ok ss'"
  using assms
proof (induction ss arbitrary: k)
  case (Cons s ss)
  obtain xs d where "signaling_channel f k (ss_robbed_bit_debouncer s) = Some (xs, d)" "debouncer_ok d"
    using signaling_channel_total [of f k "ss_robbed_bit_debouncer s"] Cons.prems
    by (auto simp: states_ok_def)
  moreover obtain es :: "'t framer_event list" and ss' where "process_superframes f (Suc k) ss = Some (es, ss')" "states_ok ss'"
    using Cons.IH [of "Suc k"] Cons.prems by (auto simp: states_ok_def)
  ultimately show ?case
    by (auto simp: states_ok_def)
qed (simp add: states_ok_def)

text \<open>A processor whose only detector is \<open>d\<close>, at channel 0, timeslot 1.\<close>

definition processor_ok :: "'c dtmf_detector \<Rightarrow> 'c signaling_processor \<Rightarrow> bool" where
  "processor_ok d sp \<longleftrightarrow> sp_detectors sp = [(timeslot_address_new 0 1, d)] \<and>
     length (sp_superframe_state sp) = 8 \<and> states_ok (sp_superframe_state sp)"

definition channel_debouncer :: "'c signaling_processor \<Rightarrow> nat \<Rightarrow> robbed_bit_debouncer" where
  "channel_debouncer sp c = ss_robbed_bit_debouncer (sp_superframe_state sp ! c)"

definition detector_sample :: "internal_frame \<Rightarrow> f32" where
  "detector_sample f = ulaw_decode (if_frame f ! 1 ! 0)"

lemma signaling_process_frame_step:
  assumes "frame_ok (if_frame f)" and "processor_ok d sp"
  shows "case dtmf_advance M (detector_sample f) d of
      Inl r \<Rightarrow> signaling_process_frame M f sp = (None :: ('t framer_event list \<times> _) option)
    | Inr (out, d') \<Rightarrow> \<exists>(es :: 't framer_event list) sp'.
        signaling_process_frame M f sp = Some (es, sp') \<and> processor_ok d' sp' \<and>
        digits_of (timeslot_address_new 0 1) es = (case out of None \<Rightarrow> [] | Some e \<Rightarrow> [e]) \<and>
        (\<forall>c < 8. signaling_channel f c (channel_debouncer sp c) =
           Some (rbs_of c es, channel_debouncer sp' c))"
proof -
  have dets: "sp_detectors sp = [(timeslot_address_new 0 1, d)]"
    and len: "length (sp_superframe_state sp) = 8"
    using assms(2) by (simp_all add: processor_ok_def)
  from process_superframes_total [OF assms(1), of 0 "sp_superframe_state sp"] assms(2) obtain
    es :: "'t framer_event list" and ss where
    ps: "process_superframes f 0 (sp_superframe_state sp) = Some (es, ss)" and ss: "states_ok ss"
    by (auto simp: processor_ok_def)
  note channels = process_superframes_channels [OF ps]
  have sample: "frame_timeslot (if_frame f) (timeslot_address_new 0 1) = Some (if_frame f ! 1 ! 0)"
    using assms(1) by (simp add: frame_timeslot_eq)
  show ?thesis
  proof (cases "dtmf_advance M (detector_sample f) d")
    case (Inl r)
    with ps sample show ?thesis
      by (simp add: signaling_process_frame_def dets detector_sample_def split_beta)
  next
    case (Inr r)
    obtain out d' where r: "r = (out, d')"
      by (cases r)
    have rbs: "rbs_of c (case out of None \<Rightarrow> [] | Some e \<Rightarrow> [Digit (timeslot_address_new 0 1) e]) = []" for c
      by (cases out) simp_all
    have "\<exists>sp'. signaling_process_frame M f sp =
        Some (es @ (case out of None \<Rightarrow> [] | Some e \<Rightarrow> [Digit (timeslot_address_new 0 1) e]), sp') \<and>
        sp_superframe_state sp' = ss \<and> sp_detectors sp' = [(timeslot_address_new 0 1, d')]"
      using ps sample Inr
      by (cases out) (auto simp: signaling_process_frame_def dets detector_sample_def split_beta r)
    then obtain sp' where sp': "signaling_process_frame M f sp =
        Some (es @ (case out of None \<Rightarrow> [] | Some e \<Rightarrow> [Digit (timeslot_address_new 0 1) e]), sp')"
      "sp_superframe_state sp' = ss" "sp_detectors sp' = [(timeslot_address_new 0 1, d')]"
      by blast
    have "processor_ok d' sp'"
      using sp' ss len channels by (simp add: processor_ok_def)
    moreover have "\<forall>c < 8. signaling_channel f c (channel_debouncer sp c) =
        Some (rbs_of c es, channel_debouncer sp' c)"
      using channels len sp'(2) by (auto simp: channel_debouncer_def)
    ultimately show ?thesis
      using Inr r sp'(1) channels rbs by (auto split: option.splits)
  qed
qed

lemma signaling_run_projections:
  assumes "\<forall>f \<in> set fs. frame_ok (if_frame f)" and "processor_ok d sp"
  shows "case dtmf_run M (map detector_sample fs) d of
      Inl r \<Rightarrow> signaling_run M fs sp = (None :: ('t framer_event list \<times> _) option)
    | Inr (digits, d') \<Rightarrow> \<exists>(es :: 't framer_event list) sp'.
        signaling_run M fs sp = Some (es, sp') \<and>
        digits_of (timeslot_address_new 0 1) es = digits \<and>
        (\<forall>c < 8. signaling_channel_run c fs (channel_debouncer sp c) =
           Some (rbs_of c es, channel_debouncer sp' c))"
  using assms
proof (induction fs arbitrary: d sp)
  case (Cons f fs)
  have "frame_ok (if_frame f)" and fs: "\<forall>f \<in> set fs. frame_ok (if_frame f)"
    using Cons.prems(1) by simp_all
  note step = signaling_process_frame_step [OF this(1) Cons.prems(2), of M, where 't = 't]
  show ?case
  proof (cases "dtmf_advance M (detector_sample f) d")
    case (Inl r)
    with step show ?thesis by simp
  next
    case (Inr r)
    obtain out d1 where r: "r = (out, d1)"
      by (cases r)
    with step Inr obtain es :: "'t framer_event list" and sp1 where
      1: "signaling_process_frame M f sp = Some (es, sp1)" "processor_ok d1 sp1"
      "digits_of (timeslot_address_new 0 1) es = (case out of None \<Rightarrow> [] | Some e \<Rightarrow> [e])"
      "\<forall>c < 8. signaling_channel f c (channel_debouncer sp c) = Some (rbs_of c es, channel_debouncer sp1 c)"
      by auto
    note IH = Cons.IH [OF fs 1(2)]
    show ?thesis
    proof (cases "dtmf_run M (map detector_sample fs) d1")
      case (Inl q)
      with IH 1(1) Inr r show ?thesis
        by simp
    next
      case run: (Inr q)
      obtain digits d2 where q: "q = (digits, d2)"
        by (cases q)
      with IH run obtain es2 :: "'t framer_event list" and sp2 where
        2: "signaling_run M fs sp1 = Some (es2, sp2)"
        "digits_of (timeslot_address_new 0 1) es2 = digits"
        "\<forall>c < 8. signaling_channel_run c fs (channel_debouncer sp1 c) = Some (rbs_of c es2, channel_debouncer sp2 c)"
        by auto
      have "signaling_run M (f # fs) sp = Some (es @ es2, sp2)"
        using 1(1) 2(1) by simp
      moreover have "\<forall>c < 8. signaling_channel_run c (f # fs) (channel_debouncer sp c) =
          Some (rbs_of c (es @ es2), channel_debouncer sp2 c)"
        using 1(4) 2(3) by simp
      ultimately show ?thesis
        using Inr r run q 1(3) 2(2) by (auto split: option.splits)
    qed
  qed
qed simp

text \<open>
  C12: the signaling thread runs its channels and its tone detector independently. Over any received
  frames a fresh processor panics only when the tone detector meets a NaN power; otherwise the
  robbed-bit events of every channel are exactly those of that channel's receiver on its own, and
  the digits are those of a DTMF detector on the decoded samples of channel 0, timeslot 1.
\<close>

theorem signaling_channels_independent:
  assumes "\<forall>f \<in> set fs. frame_ok (if_frame f)"
  shows "case signaling_run M fs (signaling_processor_new M) of
      None \<Rightarrow> dtmf_run M (map detector_sample fs) (dtmf_new M) = Inl Nan_comparison
    | Some (es :: 't framer_event list, sp) \<Rightarrow>
        (\<forall>c < 8. \<exists>d. signaling_channel_run c fs debouncer_new = Some (rbs_of c es, d)) \<and>
        (\<exists>d. dtmf_run M (map detector_sample fs) (dtmf_new M) =
           Inr (digits_of (timeslot_address_new 0 1) es, d))"
proof -
  let ?sp = "signaling_processor_new M"
  have ok: "processor_ok (dtmf_new M) ?sp"
    by (simp add: processor_ok_def signaling_processor_new_def states_ok_def superframe_state_default_def)
  have deb: "channel_debouncer ?sp c = debouncer_new" if "c < 8" for c
    using that by (simp add: channel_debouncer_def signaling_processor_new_def superframe_state_default_def)
  have nan: "r = Nan_comparison" if "dtmf_run M (map detector_sample fs) (dtmf_new M) = Inl r" for r
    using dtmf_run_ok [OF dtmf_new_ok [of M], of M "map detector_sample fs"] that by auto
  show ?thesis
    using signaling_run_projections [OF assms ok, of M, where 't = 't] deb nan
    by (auto split: sum.splits prod.splits option.splits)
qed

theorem signaling_channels_independent_witness:
  "\<exists>(es :: unit framer_event list) sp d.
     signaling_run example_maths [example_frame 7 1 True] (signaling_processor_new example_maths) = Some (es, sp) \<and>
     signaling_channel_run 3 [example_frame 7 1 True] debouncer_new = Some (rbs_of 3 es, d)"
proof -
  let ?fs = "[example_frame 7 1 True]"
  have "\<forall>f \<in> set ?fs. frame_ok (if_frame f)"
    by simp
  note run = signaling_channels_independent [OF this, of example_maths, where 't = unit]
  have "\<nexists>r. dtmf_advance example_maths x (dtmf_new example_maths) = Inl r" for x
    by (simp add: dtmf_advance_def dtmf_new_def detector_group_new_def FREQUENCIES_LOW_def
        FREQUENCIES_HIGH_def goertzel_from_hz_def goertzel_new_def detector_group_iterate_def
        goertzel_iterate_def Let_def)
  then have "\<nexists>r. dtmf_run example_maths (map detector_sample ?fs) (dtmf_new example_maths) = Inl r"
    by (auto simp: attempt_def split: sum.splits prod.splits)
  with run obtain es :: "unit framer_event list" and sp where
    es: "signaling_run example_maths ?fs (signaling_processor_new example_maths) = Some (es, sp)"
    by (cases "signaling_run example_maths ?fs (signaling_processor_new example_maths) ::
      (unit framer_event list \<times> _) option") auto
  have "\<forall>c < 8. \<exists>d. signaling_channel_run c ?fs debouncer_new = Some (rbs_of c es, d)"
    using run unfolding es by (simp del: signaling_channel_run.simps)
  then have "\<exists>d. signaling_channel_run 3 ?fs debouncer_new = Some (rbs_of 3 es, d)"
    by (simp del: signaling_channel_run.simps)
  with es show ?thesis
    by blast
qed

end
