(* ===== verification/Host_Registers.thy ===== *)
theory Host_Registers
  imports Registers
begin

text \<open>
  \<^verbatim>\<open>tedium-tool/src/framer/register.rs\<close>: the tool has a copy of its own of the register declarations of
  the crate \<^verbatim>\<open>xrt86vx38-pac\<close> the firmware uses. Its structs and enums are declared here from that copy,
  each name prefixed \<open>Host_\<close>; the lemmas at the end show that the two copies agree, so that what is
  proved of the firmware's declarations holds of the tool's.
\<close>

named_theorems host_layout_simps \<open>unfolding of the tool's register layouts\<close>

datatype Host_ClockSource =
    Host_ClockSource_Loop
  | Host_ClockSource_External
  | Host_ClockSource_Internal

primrec Host_ClockSource_bits :: "Host_ClockSource \<Rightarrow> u8" where
    "Host_ClockSource_bits Host_ClockSource_Loop = 0b00"
  | "Host_ClockSource_bits Host_ClockSource_External = 0b01"
  | "Host_ClockSource_bits Host_ClockSource_Internal = 0b10"

definition Host_CSR :: layout where [host_layout_simps]:
  "Host_CSR =
    [Field ''LCV_Insert'' 1, Field ''Set_T1_Mode'' 1,
     Field ''Sync_All_Transmitters_to_8kHz'' 1, Field ''Clock_Loss_Detect'' 1, Skip 2,
     Field ''CSS'' 2]"

definition Host_CSR_default :: u8 where
  "Host_CSR_default = 0b00010001"

datatype Host_FramerLoopback =
    Host_FramerLoopback_No
  | Host_FramerLoopback_Local
  | Host_FramerLoopback_FarEndRemoteLine
  | Host_FramerLoopback_Payload

primrec Host_FramerLoopback_bits :: "Host_FramerLoopback \<Rightarrow> u8" where
    "Host_FramerLoopback_bits Host_FramerLoopback_No = 0b00"
  | "Host_FramerLoopback_bits Host_FramerLoopback_Local = 0b01"
  | "Host_FramerLoopback_bits Host_FramerLoopback_FarEndRemoteLine = 0b10"
  | "Host_FramerLoopback_bits Host_FramerLoopback_Payload = 0b11"

definition Host_LICR :: layout where [host_layout_simps]:
  "Host_LICR =
    [Field ''FORCE_LOS'' 1, Field ''Single_Rail_Mode'' 1, Field ''LB'' 2, Skip 2,
     Field ''Encode_B8ZS'' 1, Field ''Decode_AMI_B8ZS'' 1]"

datatype Host_T1Framing =
    Host_T1Framing_ExtendedSuperFrame
  | Host_T1Framing_SuperFrame
  | Host_T1Framing_N
  | Host_T1Framing_T1DM
  | Host_T1Framing_SLC96

primrec Host_T1Framing_bits :: "Host_T1Framing \<Rightarrow> u8" where
    "Host_T1Framing_bits Host_T1Framing_ExtendedSuperFrame = 0b000"
  | "Host_T1Framing_bits Host_T1Framing_SuperFrame = 0b101"
  | "Host_T1Framing_bits Host_T1Framing_N = 0b110"
  | "Host_T1Framing_bits Host_T1Framing_T1DM = 0b111"
  | "Host_T1Framing_bits Host_T1Framing_SLC96 = 0b100"

definition Host_FSR :: layout where [host_layout_simps]:
  "Host_FSR =
    [Field ''Signaling_update_on_Superframe_Boundaries'' 1, Field ''Force_CRC_Errors'' 1,
     Field ''J1_MODE'' 1, Field ''ONEONLY'' 1, Field ''FASTSYNC'' 1, Field ''FSI'' 3]"

datatype Host_TransmitAISPattern =
    Host_TransmitAISPattern_Disable
  | Host_TransmitAISPattern_Unframed
  | Host_TransmitAISPattern_Framed

primrec Host_TransmitAISPattern_bits :: "Host_TransmitAISPattern \<Rightarrow> u8" where
    "Host_TransmitAISPattern_bits Host_TransmitAISPattern_Disable = 0b00"
  | "Host_TransmitAISPattern_bits Host_TransmitAISPattern_Unframed = 0b01"
  | "Host_TransmitAISPattern_bits Host_TransmitAISPattern_Framed = 0b11"

datatype Host_AISDetection =
    Host_AISDetection_Disabled
  | Host_AISDetection_UnframedAndFramed
  | Host_AISDetection_Framed

primrec Host_AISDetection_bits :: "Host_AISDetection \<Rightarrow> u8" where
    "Host_AISDetection_bits Host_AISDetection_Disabled = 0b00"
  | "Host_AISDetection_bits Host_AISDetection_UnframedAndFramed = 0b01"
  | "Host_AISDetection_bits Host_AISDetection_Framed = 0b11"

definition Host_AGR :: layout where [host_layout_simps]:
  "Host_AGR =
    [Field ''Yellow_Alarm_One_Second_Rule'' 1, Field ''ALARM_ENB'' 1, Field ''YEL'' 2,
     Field ''Transmit_AIS_Pattern_Select'' 2, Field ''AIS_Defect_Declaration_Criteria'' 2]"

definition Host_SMR :: layout where [host_layout_simps]:
  "Host_SMR =
    [Skip 1, Field ''MFRAMEALIGN'' 1, Field ''MSYNC'' 1,
     Field ''Transmit_Frame_Sync_Select'' 1, Skip 2, Field ''CRC6_Bits_Source_Select'' 1,
     Field ''Framing_Bits_Source_Select'' 1]"

definition Host_TSDLSR :: layout where [host_layout_simps]:
  "Host_TSDLSR =
    [Skip 2, Field ''TxDLBW'' 2, Field ''TxDE'' 2, Field ''TxDL'' 2]"

definition Host_FCR :: layout where [host_layout_simps]:
  "Host_FCR =
    [Field ''Reframe'' 1, Field ''Framing_with_CRC_Checking'' 1,
     Field ''LOF_Tolerance'' 3, Field ''LOF_Range'' 3]"

definition Host_RSDLSR :: layout where [host_layout_simps]:
  "Host_RSDLSR =
    [Skip 2, Field ''RxDLBW'' 2, Field ''RxDE'' 2, Field ''RxDL'' 2]"

definition Host_RSChR :: layout where [host_layout_simps]:
  "Host_RSChR =
    [Field ''Ch'' 8]"

definition Host_RIFR :: layout where [host_layout_simps]:
  "Host_RIFR =
    [Field ''In_Frame'' 1, Skip 1, Field ''AIS_Ingress'' 1, Field ''FRAlarmMask'' 1,
     Field ''DS0Yel'' 1, Field ''DS0Yel_Switch'' 1, Skip 2]"

definition Host_DLCR :: layout where [host_layout_simps]:
  "Host_DLCR =
    [Field ''SLC96_Data_Link_Enable'' 1, Field ''MOS_ABORT_Disable'' 1,
     Field ''Rx_FCS_DIS'' 1, Field ''AutoRx'' 1, Field ''Tx_ABORT'' 1,
     Field ''Tx_IDLE'' 1, Field ''Tx_FCS_EN'' 1, Field ''MOS_BOSn'' 1]"

definition Host_TDLBCR :: layout where [host_layout_simps]:
  "Host_TDLBCR =
    [Field ''TxHDLC_BUFAvail_BUFSel'' 1, Field ''TDLBC'' 7]"

definition Host_RDLBCR :: layout where [host_layout_simps]:
  "Host_RDLBCR =
    [Field ''RBUFPTR'' 1, Field ''RDLBC'' 7]"

datatype Host_ReceiveSlipBuffer =
    Host_ReceiveSlipBuffer_Bypass
  | Host_ReceiveSlipBuffer_SlipBuffer
  | Host_ReceiveSlipBuffer_FIFO

primrec Host_ReceiveSlipBuffer_bits :: "Host_ReceiveSlipBuffer \<Rightarrow> u8" where
    "Host_ReceiveSlipBuffer_bits Host_ReceiveSlipBuffer_Bypass = 0b00"
  | "Host_ReceiveSlipBuffer_bits Host_ReceiveSlipBuffer_SlipBuffer = 0b01"
  | "Host_ReceiveSlipBuffer_bits Host_ReceiveSlipBuffer_FIFO = 0b10"

definition Host_SBCR :: layout where [host_layout_simps]:
  "Host_SBCR =
    [Field ''TxSB_ISFIFO'' 1, Skip 2, Field ''SB_FORCESF'' 1, Field ''SB_SFENB'' 1,
     Field ''SB_SDIR'' 1, Field ''SB_ENB'' 2]"

definition Host_FIFOLR :: layout where [host_layout_simps]:
  "Host_FIFOLR =
    [Skip 3, Field ''Rx_Slip_Buffer_FIFO_Latency'' 5]"

definition Host_ICR :: layout where [host_layout_simps]:
  "Host_ICR =
    [Skip 5, Field ''INT_WC_RUR'' 1, Field ''ENBCLR'' 1, Field ''INTRUP_ENB'' 1]"

definition Host_LAPDSR :: layout where [host_layout_simps]:
  "Host_LAPDSR =
    [Skip 3, Field ''HDLC3en'' 1, Field ''HDLC2en'' 1, Field ''HDLC1en'' 1,
     Field ''HDLC_Controller_Select'' 2]"

definition Host_CIAGR :: layout where [host_layout_simps]:
  "Host_CIAGR =
    [Skip 4, Field ''CIAG'' 2, Field ''CIAD'' 2]"

datatype Host_AutomaticPerformanceReport =
    Host_AutomaticPerformanceReport_No
  | Host_AutomaticPerformanceReport_Once
  | Host_AutomaticPerformanceReport_EverySecond

primrec Host_AutomaticPerformanceReport_bits :: "Host_AutomaticPerformanceReport \<Rightarrow> u8" where
    "Host_AutomaticPerformanceReport_bits Host_AutomaticPerformanceReport_No = 0b00"
  | "Host_AutomaticPerformanceReport_bits Host_AutomaticPerformanceReport_Once = 0b01"
  | "Host_AutomaticPerformanceReport_bits Host_AutomaticPerformanceReport_EverySecond = 0b10"

definition Host_PRCR :: layout where [host_layout_simps]:
  "Host_PRCR =
    [Field ''LBO_ADJ_ENB'' 1, Field ''RLOS_OUT_ENB'' 1, Field ''FAR_END'' 1,
     Field ''NPRM'' 2, Field ''C_R_Bit'' 1, Field ''APCR'' 2]"

definition Host_GCCR :: layout where [host_layout_simps]:
  "Host_GCCR =
    [Field ''FrOutclk'' 1, Skip 5, Field ''TxGCCR'' 1, Field ''RxGCCR'' 1]"

definition Host_TICR :: layout where [host_layout_simps]:
  "Host_TICR =
    [Field ''TxSyncFrD'' 1, Skip 1, Field ''TxPLClkEnb_TxSync_Is_Low'' 1,
     Field ''TxFr1544'' 1, Field ''TxICLKINV'' 1, Field ''TxMUXEN'' 1,
     Field ''TxIMODE'' 2]"

datatype Host_BitErrorInsertionRate =
    Host_BitErrorInsertionRate_Disable
  | Host_BitErrorInsertionRate_OneOfOneThousand
  | Host_BitErrorInsertionRate_OneOfOneMillion

primrec Host_BitErrorInsertionRate_bits :: "Host_BitErrorInsertionRate \<Rightarrow> u8" where
    "Host_BitErrorInsertionRate_bits Host_BitErrorInsertionRate_Disable = 0b00"
  | "Host_BitErrorInsertionRate_bits Host_BitErrorInsertionRate_OneOfOneThousand = 1"
  | "Host_BitErrorInsertionRate_bits Host_BitErrorInsertionRate_OneOfOneMillion = 2"

definition Host_BERTCSR0 :: layout where [host_layout_simps]:
  "Host_BERTCSR0 =
    [Skip 4, Field ''BERT_Switch'' 1, Field ''BER'' 2, Field ''UnFramedBERT'' 1]"

definition Host_RICR :: layout where [host_layout_simps]:
  "Host_RICR =
    [Field ''RxSyncFrD'' 1, Skip 1, Field ''RxPLClkEnb_RxSync_Is_Low'' 1,
     Field ''RxFr1544'' 1, Field ''RxICLKINV'' 1, Field ''RxMUXEN'' 1,
     Field ''RxIMODE'' 2]"

definition Host_BERTCSR1 :: layout where [host_layout_simps]:
  "Host_BERTCSR1 =
    [Field ''PRBSTyp'' 1, Field ''ERRORIns'' 1, Field ''DATAInv'' 1,
     Field ''RxBERTLock'' 1, Field ''RxBERTEnb'' 1, Field ''TxBERTEnb'' 1,
     Field ''RxBypass'' 1, Field ''TxBypass'' 1]"

definition Host_LCCR0 :: layout where [host_layout_simps]:
  "Host_LCCR0 =
    [Field ''RXLBCALEN'' 2, Field ''RXLBCDLEN'' 2, Field ''TXLBCLEN'' 2,
     Field ''FRAMED'' 1, Field ''AUTOENB'' 1]"

definition Host_LCCR :: layout where [host_layout_simps]:
  "Host_LCCR =
    [Field ''RXLBCALEN'' 2, Field ''RXLBCDLEN'' 2, Skip 2, Field ''FRAMED'' 1, Skip 1]"

definition Host_TLCR :: layout where [host_layout_simps]:
  "Host_TLCR =
    [Field ''TXLBC'' 7, Field ''TXLBCENB'' 1]"

definition Host_RLACR :: layout where [host_layout_simps]:
  "Host_RLACR =
    [Field ''RXLBAC'' 7, Field ''RXLBACENB'' 1]"

definition Host_RLDCR :: layout where [host_layout_simps]:
  "Host_RLDCR =
    [Field ''RXLBDC'' 7, Field ''RXLBDCENB'' 1]"

definition Host_RLCDS :: layout where [host_layout_simps]:
  "Host_RLCDS =
    [Field ''RxLCDetSwitch'' 8]"

definition Host_DDER :: layout where [host_layout_simps]:
  "Host_DDER =
    [Field ''DEFDET'' 1, Skip 7]"

definition Host_TLCGS :: layout where [host_layout_simps]:
  "Host_TLCGS =
    [Skip 7, Field ''TxLCGenSwitch'' 1]"

definition Host_LCTS :: layout where [host_layout_simps]:
  "Host_LCTS =
    [Skip 5, Field ''LCTimer'' 3]"

definition Host_TSPRMCR :: layout where [host_layout_simps]:
  "Host_TSPRMCR =
    [Field ''FC_Bit'' 1, Field ''PA_Bit'' 1, Field ''U1_Bit'' 1, Field ''U2_Bit'' 1,
     Field ''R_Bit'' 4]"

datatype Host_BERTPattern =
    Host_BERTPattern_PRBS_X20_X3_1
  | Host_BERTPattern_QRSS_X20_X17_1
  | Host_BERTPattern_AllOnes
  | Host_BERTPattern_AllZeros
  | Host_BERTPattern_ThreeIn24
  | Host_BERTPattern_OneIn8
  | Host_BERTPattern_Fifty5Octet
  | Host_BERTPattern_Daly
  | Host_BERTPattern_PRBS_X20_X17_1

primrec Host_BERTPattern_bits :: "Host_BERTPattern \<Rightarrow> u8" where
    "Host_BERTPattern_bits Host_BERTPattern_PRBS_X20_X3_1 = 0b0010"
  | "Host_BERTPattern_bits Host_BERTPattern_QRSS_X20_X17_1 = 0b0011"
  | "Host_BERTPattern_bits Host_BERTPattern_AllOnes = 0b0100"
  | "Host_BERTPattern_bits Host_BERTPattern_AllZeros = 0b0101"
  | "Host_BERTPattern_bits Host_BERTPattern_ThreeIn24 = 0b0110"
  | "Host_BERTPattern_bits Host_BERTPattern_OneIn8 = 0b0111"
  | "Host_BERTPattern_bits Host_BERTPattern_Fifty5Octet = 0b1000"
  | "Host_BERTPattern_bits Host_BERTPattern_Daly = 0b1001"
  | "Host_BERTPattern_bits Host_BERTPattern_PRBS_X20_X17_1 = 0b1010"

definition Host_BCR :: layout where [host_layout_simps]:
  "Host_BCR =
    [Skip 4, Field ''BERT'' 4]"

definition Host_BOCCR :: layout where [host_layout_simps]:
  "Host_BOCCR =
    [Field ''TxABORT'' 1, Field ''RMF'' 2, Field ''RBOCE'' 1, Field ''BOCR'' 1,
     Field ''RBF'' 2, Field ''SBOC'' 1]"

definition Host_RFDLR :: layout where [host_layout_simps]:
  "Host_RFDLR =
    [Skip 2, Field ''RBOC'' 6]"

definition Host_RFDLMR :: layout where [host_layout_simps]:
  "Host_RFDLMR =
    [Skip 2, Field ''RFDLM'' 6]"

definition Host_TFDLR :: layout where [host_layout_simps]:
  "Host_TFDLR =
    [Skip 2, Field ''TBOC'' 6]"

definition Host_TBCR :: layout where [host_layout_simps]:
  "Host_TBCR =
    [Field ''TBCR'' 8]"

definition Host_RDS0MR :: layout where [host_layout_simps]:
  "Host_RDS0MR =
    [Field ''RxDS_0'' 8]"

definition Host_TDS0MR :: layout where [host_layout_simps]:
  "Host_TDS0MR =
    [Field ''TxDS_0'' 8]"

datatype Host_TransmitLAPDSource =
    Host_TransmitLAPDSource_LAPDController1
  | Host_TransmitLAPDSource_LAPDController2
  | Host_TransmitLAPDSource_TSDLSR_TxDE
  | Host_TransmitLAPDSource_LAPDController3

primrec Host_TransmitLAPDSource_bits :: "Host_TransmitLAPDSource \<Rightarrow> u8" where
    "Host_TransmitLAPDSource_bits Host_TransmitLAPDSource_LAPDController1 = 0b00"
  | "Host_TransmitLAPDSource_bits Host_TransmitLAPDSource_LAPDController2 = 0b01"
  | "Host_TransmitLAPDSource_bits Host_TransmitLAPDSource_TSDLSR_TxDE = 0b10"
  | "Host_TransmitLAPDSource_bits Host_TransmitLAPDSource_LAPDController3 = 0b11"

datatype Host_ZeroCodeSuppression =
    Host_ZeroCodeSuppression_None
  | Host_ZeroCodeSuppression_ATTBit7Stuffing
  | Host_ZeroCodeSuppression_GTE
  | Host_ZeroCodeSuppression_DDS

primrec Host_ZeroCodeSuppression_bits :: "Host_ZeroCodeSuppression \<Rightarrow> u8" where
    "Host_ZeroCodeSuppression_bits Host_ZeroCodeSuppression_None = 0b00"
  | "Host_ZeroCodeSuppression_bits Host_ZeroCodeSuppression_ATTBit7Stuffing = 0b01"
  | "Host_ZeroCodeSuppression_bits Host_ZeroCodeSuppression_GTE = 0b10"
  | "Host_ZeroCodeSuppression_bits Host_ZeroCodeSuppression_DDS = 0b11"

datatype Host_ChannelConditioning =
    Host_ChannelConditioning_Unchanged
  | Host_ChannelConditioning_InvertAll
  | Host_ChannelConditioning_InvertEven
  | Host_ChannelConditioning_InvertOdd
  | Host_ChannelConditioning_PUCR
  | Host_ChannelConditioning_BUSY
  | Host_ChannelConditioning_VACANT
  | Host_ChannelConditioning_BUSYWithSlotNumber
  | Host_ChannelConditioning_MOOF
  | Host_ChannelConditioning_ALawMilliwatt
  | Host_ChannelConditioning_ULawMilliwatt
  | Host_ChannelConditioning_InvertMSB
  | Host_ChannelConditioning_InvertAllButMSB
  | Host_ChannelConditioning_PRBSOrQRTS
  | Host_ChannelConditioning_DETimeSlot

primrec Host_ChannelConditioning_bits :: "Host_ChannelConditioning \<Rightarrow> u8" where
    "Host_ChannelConditioning_bits Host_ChannelConditioning_Unchanged = 0x0"
  | "Host_ChannelConditioning_bits Host_ChannelConditioning_InvertAll = 0x1"
  | "Host_ChannelConditioning_bits Host_ChannelConditioning_InvertEven = 0x2"
  | "Host_ChannelConditioning_bits Host_ChannelConditioning_InvertOdd = 0x3"
  | "Host_ChannelConditioning_bits Host_ChannelConditioning_PUCR = 0x4"
  | "Host_ChannelConditioning_bits Host_ChannelConditioning_BUSY = 0x5"
  | "Host_ChannelConditioning_bits Host_ChannelConditioning_VACANT = 0x6"
  | "Host_ChannelConditioning_bits Host_ChannelConditioning_BUSYWithSlotNumber = 0x7"
  | "Host_ChannelConditioning_bits Host_ChannelConditioning_MOOF = 0x8"
  | "Host_ChannelConditioning_bits Host_ChannelConditioning_ALawMilliwatt = 0x9"
  | "Host_ChannelConditioning_bits Host_ChannelConditioning_ULawMilliwatt = 0xa"
  | "Host_ChannelConditioning_bits Host_ChannelConditioning_InvertMSB = 0xb"
  | "Host_ChannelConditioning_bits Host_ChannelConditioning_InvertAllButMSB = 0xc"
  | "Host_ChannelConditioning_bits Host_ChannelConditioning_PRBSOrQRTS = 0xd"
  | "Host_ChannelConditioning_bits Host_ChannelConditioning_DETimeSlot = 0xf"

definition Host_TCCR :: layout where [host_layout_simps]:
  "Host_TCCR =
    [Field ''LAPDcntl'' 2, Field ''TxZERO'' 2, Field ''TxCOND'' 4]"

definition Host_TUCR :: layout where [host_layout_simps]:
  "Host_TUCR =
    [Field ''TUCR'' 8]"

datatype Host_ChannelSignalingSource =
    Host_ChannelSignalingSource_PCMData
  | Host_ChannelSignalingSource_TSCR
  | Host_ChannelSignalingSource_TxSIG

primrec Host_ChannelSignalingSource_bits :: "Host_ChannelSignalingSource \<Rightarrow> u8" where
    "Host_ChannelSignalingSource_bits Host_ChannelSignalingSource_PCMData = 0b00"
  | "Host_ChannelSignalingSource_bits Host_ChannelSignalingSource_TSCR = 0b01"
  | "Host_ChannelSignalingSource_bits Host_ChannelSignalingSource_TxSIG = 0b10"

definition Host_TSCR :: layout where [host_layout_simps]:
  "Host_TSCR =
    [Field ''A_x'' 1, Field ''B_y'' 1, Field ''C_x'' 1, Field ''D_x'' 1, Skip 1,
     Field ''Rob_Enb'' 1, Field ''TxSIGSRC'' 2]"

datatype Host_ReceiveLAPDSource =
    Host_ReceiveLAPDSource_LAPDController1
  | Host_ReceiveLAPDSource_LAPDController2
  | Host_ReceiveLAPDSource_RSDLSR_RxDE
  | Host_ReceiveLAPDSource_LAPDController3

primrec Host_ReceiveLAPDSource_bits :: "Host_ReceiveLAPDSource \<Rightarrow> u8" where
    "Host_ReceiveLAPDSource_bits Host_ReceiveLAPDSource_LAPDController1 = 0b00"
  | "Host_ReceiveLAPDSource_bits Host_ReceiveLAPDSource_LAPDController2 = 0b01"
  | "Host_ReceiveLAPDSource_bits Host_ReceiveLAPDSource_RSDLSR_RxDE = 0b10"
  | "Host_ReceiveLAPDSource_bits Host_ReceiveLAPDSource_LAPDController3 = 0b11"

definition Host_RCCR :: layout where [host_layout_simps]:
  "Host_RCCR =
    [Field ''LAPDcntl'' 2, Field ''RxZERO'' 2, Field ''RxCOND'' 4]"

definition Host_RUCR :: layout where [host_layout_simps]:
  "Host_RUCR =
    [Field ''RxUSER'' 8]"

datatype Host_ReceiveSignalingConditioning =
    Host_ReceiveSignalingConditioning_AllOnes
  | Host_ReceiveSignalingConditioning_SixteenCode_ABCD
  | Host_ReceiveSignalingConditioning_FourCode_AB
  | Host_ReceiveSignalingConditioning_TwoCode_A

primrec Host_ReceiveSignalingConditioning_bits :: "Host_ReceiveSignalingConditioning \<Rightarrow> u8" where
    "Host_ReceiveSignalingConditioning_bits Host_ReceiveSignalingConditioning_AllOnes = 0b00"
  | "Host_ReceiveSignalingConditioning_bits Host_ReceiveSignalingConditioning_SixteenCode_ABCD = 0b01"
  | "Host_ReceiveSignalingConditioning_bits Host_ReceiveSignalingConditioning_FourCode_AB = 0b10"
  | "Host_ReceiveSignalingConditioning_bits Host_ReceiveSignalingConditioning_TwoCode_A = 0b11"

datatype Host_ReceiveSignalingExtraction =
    Host_ReceiveSignalingExtraction_None
  | Host_ReceiveSignalingExtraction_SixteenCode_ABCD
  | Host_ReceiveSignalingExtraction_FourCode_AB
  | Host_ReceiveSignalingExtraction_TwoCode_A

primrec Host_ReceiveSignalingExtraction_bits :: "Host_ReceiveSignalingExtraction \<Rightarrow> u8" where
    "Host_ReceiveSignalingExtraction_bits Host_ReceiveSignalingExtraction_None = 0b00"
  | "Host_ReceiveSignalingExtraction_bits Host_ReceiveSignalingExtraction_SixteenCode_ABCD = 0b01"
  | "Host_ReceiveSignalingExtraction_bits Host_ReceiveSignalingExtraction_FourCode_AB = 0b10"
  | "Host_ReceiveSignalingExtraction_bits Host_ReceiveSignalingExtraction_TwoCode_A = 0b11"

definition Host_RSCtR :: layout where [host_layout_simps]:
  "Host_RSCtR =
    [Skip 1, Field ''SIGC_ENB'' 1, Field ''OH_ENB'' 1, Field ''DEB_ENB'' 1,
     Field ''RxSIGC'' 2, Field ''RxSIGE'' 2]"

definition Host_RSSR :: layout where [host_layout_simps]:
  "Host_RSSR =
    [Skip 4, Field ''SIG_16A_4A_2A'' 1, Field ''SIG_16B_4B_2A'' 1,
     Field ''SIG_16C_4A_2A'' 1, Field ''SIG_16D_4B_2A'' 1]"

definition Host_RSAR :: layout where [host_layout_simps]:
  "Host_RSAR =
    [Skip 4, Field ''A'' 1, Field ''B'' 1, Field ''C'' 1, Field ''D'' 1]"

definition Host_u8_register :: layout where [host_layout_simps]:
  "Host_u8_register = [Field ''u8'' 8]"

definition Host_BISR :: layout where [host_layout_simps]:
  "Host_BISR =
    [Skip 1, Field ''LBCODE'' 1, Field ''RxClkLOS'' 1, Field ''ONESEC'' 1,
     Field ''HDLC'' 1, Field ''SLIP'' 1, Field ''ALARM'' 1, Field ''T1FRAME'' 1]"

definition Host_BIER :: layout where [host_layout_simps]:
  "Host_BIER =
    [Skip 1, Field ''LBCODE_ENB'' 1, Field ''RXCLKLOSS'' 1, Field ''ONESEC_ENB'' 1,
     Field ''HDLC_ENB'' 1, Field ''SLIP_ENB'' 1, Field ''ALARM_ENB'' 1,
     Field ''T1FRAME_ENB'' 1]"

definition Host_AEISR :: layout where [host_layout_simps]:
  "Host_AEISR =
    [Field ''RxOOF_State'' 1, Field ''RxAIS_State'' 1, Field ''RxYEL_State'' 1,
     Field ''LOS_State'' 1, Field ''LCVInt_Status'' 1, Field ''RxOOF_State_Change'' 1,
     Field ''RxAIS_State_Change'' 1, Field ''RxYEL_State_Change'' 1]"

definition Host_AEIER :: layout where [host_layout_simps]:
  "Host_AEIER =
    [Skip 3, Field ''SetToZero'' 1, Field ''LCV_ENB'' 1, Field ''RxOOF_ENB'' 1,
     Field ''RxAIS_ENB'' 1, Field ''RxYEL_ENB'' 1]"

definition Host_FISR :: layout where [host_layout_simps]:
  "Host_FISR =
    [Field ''DS0_Change'' 1, Field ''DS0_Status'' 1, Field ''SIG'' 1, Field ''COFA'' 1,
     Field ''OOF_Status'' 1, Field ''FMD'' 1, Field ''SE'' 1, Field ''FE'' 1]"

definition Host_FIER :: layout where [host_layout_simps]:
  "Host_FIER =
    [Field ''DS0_ENB'' 1, Skip 1, Field ''SIG_ENB'' 1, Field ''COFA_ENB'' 1,
     Field ''OOF_ENB'' 1, Field ''FMD_ENB'' 1, Field ''SE_ENB'' 1, Field ''FE_ENB'' 1]"

definition Host_DLSRx :: layout where [host_layout_simps]:
  "Host_DLSRx =
    [Field ''MSG_TYPE'' 1, Field ''TxSOT'' 1, Field ''RxSOT'' 1, Field ''TxEOT'' 1,
     Field ''RxEOT'' 1, Field ''FCS_ERR'' 1, Field ''RxABORT'' 1, Field ''RxIDLE'' 1]"

definition Host_DLIERx :: layout where [host_layout_simps]:
  "Host_DLIERx =
    [Skip 1, Field ''TxSOT_ENB'' 1, Field ''RxSOT_ENB'' 1, Field ''TxEOT_ENB'' 1,
     Field ''RxEOT_ENB'' 1, Field ''FCS_ERR_ENB'' 1, Field ''RxABORT_ENB'' 1,
     Field ''RxIDLE_ENB'' 1]"

definition Host_SBISR :: layout where [host_layout_simps]:
  "Host_SBISR =
    [Field ''TxSB_FULL'' 1, Field ''TxSB_EMPT'' 1, Field ''TxSB_SLIP'' 1,
     Field ''SLC96_LOCK'' 1, Field ''Multiframe_LOCK'' 1, Field ''RxSB_FULL'' 1,
     Field ''RxSB_EMPT'' 1, Field ''RxSB_SLIP'' 1]"

definition Host_SBIER :: layout where [host_layout_simps]:
  "Host_SBIER =
    [Field ''TxFULL_ENB'' 1, Field ''TxEMPT_ENB'' 1, Field ''TxSLIP_ENB'' 1, Skip 2,
     Field ''RxFULL_ENB'' 1, Field ''RxEMPT_ENB'' 1, Field ''RxSLIP_ENB'' 1]"

definition Host_RLCISRx :: layout where [host_layout_simps]:
  "Host_RLCISRx =
    [Skip 4, Field ''RXASTAT'' 1, Field ''RXDSTAT'' 1, Field ''RXAINT'' 1,
     Field ''RXDINT'' 1]"

definition Host_RLCIERx :: layout where [host_layout_simps]:
  "Host_RLCIERx =
    [Skip 6, Field ''RXAENB'' 1, Field ''RXDENB'' 1]"

definition Host_EXZSR :: layout where [host_layout_simps]:
  "Host_EXZSR =
    [Skip 7, Field ''EXZ_STATUS'' 1]"

definition Host_EXZER :: layout where [host_layout_simps]:
  "Host_EXZER =
    [Skip 7, Field ''EXZ_ENB'' 1]"

definition Host_SS7SRx :: layout where [host_layout_simps]:
  "Host_SS7SRx =
    [Skip 7, Field ''SS7_STATUS'' 1]"

definition Host_SS7ERx :: layout where [host_layout_simps]:
  "Host_SS7ERx =
    [Skip 7, Field ''SS7_ENB'' 1]"

definition Host_RLCISR :: layout where [host_layout_simps]:
  "Host_RLCISR =
    [Skip 4, Field ''RxLOSINT'' 1, Skip 3]"

definition Host_RLCIER :: layout where [host_layout_simps]:
  "Host_RLCIER =
    [Skip 4, Field ''RxLOS_ENB'' 1, Skip 3]"

definition Host_CIASR :: layout where [host_layout_simps]:
  "Host_CIASR =
    [Skip 2, Field ''RxAIS_CI_state'' 1, Field ''RxRAI_CI_state'' 1, Skip 2,
     Field ''RxAIS_CI'' 1, Field ''RxRAI_CI'' 1]"

definition Host_CIAIER :: layout where [host_layout_simps]:
  "Host_CIAIER =
    [Skip 6, Field ''RxAIS_CI_ENB'' 1, Field ''RxRAI_CI_ENB'' 1]"

definition Host_BOCISR :: layout where [host_layout_simps]:
  "Host_BOCISR =
    [Field ''RMTCH3'' 1, Field ''RMTCH2'' 1, Field ''BOCC'' 1, Field ''RFDLAD'' 1,
     Field ''RFDLF'' 1, Field ''TFDLE'' 1, Field ''RMTCH1'' 1, Field ''RBOC'' 1]"

definition Host_BOCIER :: layout where [host_layout_simps]:
  "Host_BOCIER =
    [Field ''RMTCH3'' 1, Field ''RMTCH2'' 1, Field ''BOCC'' 1, Field ''RFDLAD'' 1,
     Field ''RFDLF'' 1, Field ''TFDLE'' 1, Field ''RMTCH1'' 1, Field ''RBOC'' 1]"

definition Host_BOCUISR :: layout where [host_layout_simps]:
  "Host_BOCUISR =
    [Skip 1, Field ''Unstable'' 1, Skip 6]"

definition Host_BOCUIER :: layout where [host_layout_simps]:
  "Host_BOCUIER =
    [Skip 1, Field ''Unstable'' 1, Skip 6]"

datatype Host_PRBSPattern =
    Host_PRBSPattern_PRBS
  | Host_PRBSPattern_QRSS

primrec Host_PRBSPattern_bits :: "Host_PRBSPattern \<Rightarrow> u8" where
    "Host_PRBSPattern_bits Host_PRBSPattern_PRBS = 0b0"
  | "Host_PRBSPattern_bits Host_PRBSPattern_QRSS = 0b1"

datatype Host_PRBSDestination =
    Host_PRBSDestination_TTIP_TRING
  | Host_PRBSDestination_RPOS_RCLK

primrec Host_PRBSDestination_bits :: "Host_PRBSDestination \<Rightarrow> u8" where
    "Host_PRBSDestination_bits Host_PRBSDestination_TTIP_TRING = 0b0"
  | "Host_PRBSDestination_bits Host_PRBSDestination_RPOS_RCLK = 0b1"

definition Host_LIUCCR0 :: layout where [host_layout_simps]:
  "Host_LIUCCR0 =
    [Field ''QRSS_n_PRBS_n'' 1, Field ''PRBS_Rx_n_PRBS_Tx_n'' 1, Field ''RXON_n'' 1,
     Field ''EQC'' 5]"

datatype Host_Termination =
    Host_Termination_HighImpedance
  | Host_Termination_Internal

primrec Host_Termination_bits :: "Host_Termination \<Rightarrow> u8" where
    "Host_Termination_bits Host_Termination_HighImpedance = 0b0"
  | "Host_Termination_bits Host_Termination_Internal = 0b1"

datatype Host_TerminationImpedance =
    Host_TerminationImpedance_Ohms100
  | Host_TerminationImpedance_Ohms110
  | Host_TerminationImpedance_Ohms75
  | Host_TerminationImpedance_Ohms120

primrec Host_TerminationImpedance_bits :: "Host_TerminationImpedance \<Rightarrow> u8" where
    "Host_TerminationImpedance_bits Host_TerminationImpedance_Ohms100 = 0b00"
  | "Host_TerminationImpedance_bits Host_TerminationImpedance_Ohms110 = 0b01"
  | "Host_TerminationImpedance_bits Host_TerminationImpedance_Ohms75 = 0b10"
  | "Host_TerminationImpedance_bits Host_TerminationImpedance_Ohms120 = 0b11"

definition Host_LIUCCR1 :: layout where [host_layout_simps]:
  "Host_LIUCCR1 =
    [Field ''RXTSEL_n'' 1, Field ''TXTSEL_n'' 1, Field ''TERSEL'' 2,
     Field ''RxJASEL_n'' 1, Field ''TxJASEL_n'' 1, Field ''JABW_n'' 1,
     Field ''FIFOS_n'' 1]"

datatype Host_TransmitTestPattern =
    Host_TransmitTestPattern_None
  | Host_TransmitTestPattern_TDQRSS
  | Host_TransmitTestPattern_TAOS
  | Host_TransmitTestPattern_TLUC
  | Host_TransmitTestPattern_TLDC

primrec Host_TransmitTestPattern_bits :: "Host_TransmitTestPattern \<Rightarrow> u8" where
    "Host_TransmitTestPattern_bits Host_TransmitTestPattern_None = 0b000"
  | "Host_TransmitTestPattern_bits Host_TransmitTestPattern_TDQRSS = 0b100"
  | "Host_TransmitTestPattern_bits Host_TransmitTestPattern_TAOS = 0b101"
  | "Host_TransmitTestPattern_bits Host_TransmitTestPattern_TLUC = 0b110"
  | "Host_TransmitTestPattern_bits Host_TransmitTestPattern_TLDC = 0b111"

datatype Host_LIULoopback =
    Host_LIULoopback_None
  | Host_LIULoopback_Dual
  | Host_LIULoopback_Analog
  | Host_LIULoopback_Remote
  | Host_LIULoopback_Digital

primrec Host_LIULoopback_bits :: "Host_LIULoopback \<Rightarrow> u8" where
    "Host_LIULoopback_bits Host_LIULoopback_None = 0b000"
  | "Host_LIULoopback_bits Host_LIULoopback_Dual = 0b100"
  | "Host_LIULoopback_bits Host_LIULoopback_Analog = 0b101"
  | "Host_LIULoopback_bits Host_LIULoopback_Remote = 0b110"
  | "Host_LIULoopback_bits Host_LIULoopback_Digital = 0b111"

definition Host_LIUCCR2 :: layout where [host_layout_simps]:
  "Host_LIUCCR2 =
    [Field ''INVQRSS_n'' 1, Field ''TXTEST'' 3, Field ''TXON_n'' 1, Field ''LOOP2_n'' 3]"

datatype Host_NetworkLoopCodeDetection =
    Host_NetworkLoopCodeDetection_Disabled
  | Host_NetworkLoopCodeDetection_LoopUpDetection
  | Host_NetworkLoopCodeDetection_LoopDownDetection
  | Host_NetworkLoopCodeDetection_AutomaticLoopUpDetectionAndRemoteActivation

primrec Host_NetworkLoopCodeDetection_bits :: "Host_NetworkLoopCodeDetection \<Rightarrow> u8" where
    "Host_NetworkLoopCodeDetection_bits Host_NetworkLoopCodeDetection_Disabled = 0b00"
  | "Host_NetworkLoopCodeDetection_bits Host_NetworkLoopCodeDetection_LoopUpDetection = 0b01"
  | "Host_NetworkLoopCodeDetection_bits Host_NetworkLoopCodeDetection_LoopDownDetection = 0b10"
  | "Host_NetworkLoopCodeDetection_bits Host_NetworkLoopCodeDetection_AutomaticLoopUpDetectionAndRemoteActivation = 0b11"

definition Host_LIUCCR3 :: layout where [host_layout_simps]:
  "Host_LIUCCR3 =
    [Field ''NLCDE'' 2, Field ''CODES_n'' 1, Skip 2, Field ''INSBPV_n'' 1,
     Field ''INSBER_n'' 1, Skip 1]"

definition Host_LIUCCIER :: layout where [host_layout_simps]:
  "Host_LIUCCIER =
    [Skip 1, Field ''DMOIE_n'' 1, Field ''FLSIE_n'' 1, Field ''LCVIE_n'' 1,
     Field ''NLCDIE_n'' 1, Field ''AISDIE_n'' 1, Field ''RLOSIE_n'' 1,
     Field ''QRPDIE_n'' 1]"

definition Host_LIUCCSR :: layout where [host_layout_simps]:
  "Host_LIUCCSR =
    [Skip 1, Field ''DMO_n'' 1, Field ''FLS_n'' 1, Field ''LCV_n'' 1, Field ''NLCD_n'' 1,
     Field ''AISD_n'' 1, Field ''RLOS_n'' 1, Field ''QRPD_n'' 1]"

definition Host_LIUCCISR :: layout where [host_layout_simps]:
  "Host_LIUCCISR =
    [Skip 1, Field ''DMOIS_n'' 1, Field ''FLSIS_n'' 1, Field ''LCVIS_n'' 1,
     Field ''NLCDIS_n'' 1, Field ''AISDIS_n'' 1, Field ''RLOSIS_n'' 1,
     Field ''QRPDIS_n'' 1]"

definition Host_LIUCCCCR :: layout where [host_layout_simps]:
  "Host_LIUCCCCR =
    [Skip 2, Field ''CLOS'' 6]"

definition Host_LIUCCAR :: layout where [host_layout_simps]:
  "Host_LIUCCAR =
    [Skip 1, Field ''Arb_Seg'' 7]"

definition Host_LIUGCR0 :: layout where [host_layout_simps]:
  "Host_LIUGCR0 =
    [Field ''SR'' 1, Field ''ATAOS'' 1, Field ''RCLKE'' 1, Field ''TCLKE'' 1,
     Field ''DATAP'' 1, Skip 1, Field ''GIE'' 1, Field ''SRESET'' 1]"

datatype Host_WireGauge =
    Host_WireGauge_Gauge22And24
  | Host_WireGauge_Gauge22
  | Host_WireGauge_Gauge24
  | Host_WireGauge_Gauge26

primrec Host_WireGauge_bits :: "Host_WireGauge \<Rightarrow> u8" where
    "Host_WireGauge_bits Host_WireGauge_Gauge22And24 = 0b00"
  | "Host_WireGauge_bits Host_WireGauge_Gauge22 = 0b01"
  | "Host_WireGauge_bits Host_WireGauge_Gauge24 = 0b10"
  | "Host_WireGauge_bits Host_WireGauge_Gauge26 = 0b11"

definition Host_LIUGCR1 :: layout where [host_layout_simps]:
  "Host_LIUGCR1 =
    [Field ''TxSYNC_Sect13'' 1, Field ''RxSYNC_Sect13'' 1, Field ''Gauge'' 2, Skip 1,
     Field ''RXMUTE'' 1, Field ''EXLOS'' 1, Field ''ICT'' 1]"

definition Host_LIUGCR2 :: layout where [host_layout_simps]:
  "Host_LIUGCR2 =
    [Field ''Force_to_0'' 1, Skip 7]"

definition Host_LIUGCR3 :: layout where [host_layout_simps]:
  "Host_LIUGCR3 =
    [Skip 8]"

datatype Host_ClockSelect =
    Host_ClockSelect_M2_048
  | Host_ClockSelect_M1_544
  | Host_ClockSelect_M4_096
  | Host_ClockSelect_M3_088
  | Host_ClockSelect_M8_192
  | Host_ClockSelect_M6_176
  | Host_ClockSelect_M16_384
  | Host_ClockSelect_M12_352

primrec Host_ClockSelect_bits :: "Host_ClockSelect \<Rightarrow> u8" where
    "Host_ClockSelect_bits Host_ClockSelect_M2_048 = 0b0000"
  | "Host_ClockSelect_bits Host_ClockSelect_M1_544 = 0b0001"
  | "Host_ClockSelect_bits Host_ClockSelect_M4_096 = 0b1000"
  | "Host_ClockSelect_bits Host_ClockSelect_M3_088 = 0b1001"
  | "Host_ClockSelect_bits Host_ClockSelect_M8_192 = 0b1010"
  | "Host_ClockSelect_bits Host_ClockSelect_M6_176 = 0b1011"
  | "Host_ClockSelect_bits Host_ClockSelect_M16_384 = 0b1100"
  | "Host_ClockSelect_bits Host_ClockSelect_M12_352 = 0b1101"

definition Host_LIUGCR4 :: layout where [host_layout_simps]:
  "Host_LIUGCR4 =
    [Skip 4, Field ''CLKSEL'' 4]"

definition Host_LIUGCR5 :: layout where [host_layout_simps]:
  "Host_LIUGCR5 =
    [Skip 7, Field ''GCHIS0'' 1]"

definition Host_DEVID :: layout where [host_layout_simps]:
  "Host_DEVID =
    [Field ''DEVID'' 8]"

definition Host_REVID :: layout where [host_layout_simps]:
  "Host_REVID =
    [Field ''REVID'' 8]"

section \<open>The two copies agree\<close>

definition host_register_layouts :: "layout list" where
  "host_register_layouts =
    [Host_CSR, Host_LICR, Host_FSR, Host_AGR, Host_SMR, Host_TSDLSR, Host_FCR,
     Host_RSDLSR, Host_RSChR, Host_RIFR, Host_DLCR, Host_TDLBCR, Host_RDLBCR, Host_SBCR,
     Host_FIFOLR, Host_ICR, Host_LAPDSR, Host_CIAGR, Host_PRCR, Host_GCCR, Host_TICR,
     Host_BERTCSR0, Host_RICR, Host_BERTCSR1, Host_LCCR0, Host_LCCR, Host_TLCR, Host_RLACR,
     Host_RLDCR, Host_RLCDS, Host_DDER, Host_TLCGS, Host_LCTS, Host_TSPRMCR, Host_BCR,
     Host_BOCCR, Host_RFDLR, Host_RFDLMR, Host_TFDLR, Host_TBCR, Host_RDS0MR, Host_TDS0MR,
     Host_TCCR, Host_TUCR, Host_TSCR, Host_RCCR, Host_RUCR, Host_RSCtR, Host_RSSR,
     Host_RSAR, Host_BISR, Host_BIER, Host_AEISR, Host_AEIER, Host_FISR, Host_FIER,
     Host_DLSRx, Host_DLIERx, Host_SBISR, Host_SBIER, Host_RLCISRx, Host_RLCIERx, Host_EXZSR,
     Host_EXZER, Host_SS7SRx, Host_SS7ERx, Host_RLCISR, Host_RLCIER, Host_CIASR, Host_CIAIER,
     Host_BOCISR, Host_BOCIER, Host_BOCUISR, Host_BOCUIER, Host_LIUCCR0, Host_LIUCCR1, Host_LIUCCR2,
     Host_LIUCCR3, Host_LIUCCIER, Host_LIUCCSR, Host_LIUCCISR, Host_LIUCCCCR, Host_LIUCCAR, Host_LIUGCR0,
     Host_LIUGCR1, Host_LIUGCR2, Host_LIUGCR3, Host_LIUGCR4, Host_LIUGCR5, Host_DEVID, Host_REVID,
     Host_u8_register]"

text \<open>The codes of the variants of every enum, in the order of the declarations.\<close>

definition enum_codes :: "u8 list list" where
  "enum_codes =
    [map ClockSource_bits [ClockSource_Loop, ClockSource_External, ClockSource_Internal],
     map FramerLoopback_bits [FramerLoopback_No, FramerLoopback_Local,
        FramerLoopback_FarEndRemoteLine, FramerLoopback_Payload],
     map T1Framing_bits [T1Framing_ExtendedSuperFrame, T1Framing_SuperFrame, T1Framing_N,
        T1Framing_T1DM, T1Framing_SLC96],
     map TransmitAISPattern_bits [TransmitAISPattern_Disable, TransmitAISPattern_Unframed,
        TransmitAISPattern_Framed],
     map AISDetection_bits [AISDetection_Disabled, AISDetection_UnframedAndFramed,
        AISDetection_Framed],
     map ReceiveSlipBuffer_bits [ReceiveSlipBuffer_Bypass, ReceiveSlipBuffer_SlipBuffer,
        ReceiveSlipBuffer_FIFO],
     map AutomaticPerformanceReport_bits [AutomaticPerformanceReport_No,
        AutomaticPerformanceReport_Once, AutomaticPerformanceReport_EverySecond],
     map BitErrorInsertionRate_bits [BitErrorInsertionRate_Disable,
        BitErrorInsertionRate_OneOfOneThousand, BitErrorInsertionRate_OneOfOneMillion],
     map BERTPattern_bits [BERTPattern_PRBS_X20_X3_1, BERTPattern_QRSS_X20_X17_1,
        BERTPattern_AllOnes, BERTPattern_AllZeros, BERTPattern_ThreeIn24, BERTPattern_OneIn8,
        BERTPattern_Fifty5Octet, BERTPattern_Daly, BERTPattern_PRBS_X20_X17_1],
     map TransmitLAPDSource_bits [TransmitLAPDSource_LAPDController1,
        TransmitLAPDSource_LAPDController2, TransmitLAPDSource_TSDLSR_TxDE,
        TransmitLAPDSource_LAPDController3],
     map ZeroCodeSuppression_bits [ZeroCodeSuppression_None,
        ZeroCodeSuppression_ATTBit7Stuffing, ZeroCodeSuppression_GTE, ZeroCodeSuppression_DDS],
     map ChannelConditioning_bits [ChannelConditioning_Unchanged,
        ChannelConditioning_InvertAll, ChannelConditioning_InvertEven,
        ChannelConditioning_InvertOdd, ChannelConditioning_PUCR, ChannelConditioning_BUSY,
        ChannelConditioning_VACANT, ChannelConditioning_BUSYWithSlotNumber,
        ChannelConditioning_MOOF, ChannelConditioning_ALawMilliwatt,
        ChannelConditioning_ULawMilliwatt, ChannelConditioning_InvertMSB,
        ChannelConditioning_InvertAllButMSB, ChannelConditioning_PRBSOrQRTS,
        ChannelConditioning_DETimeSlot],
     map ChannelSignalingSource_bits [ChannelSignalingSource_PCMData,
        ChannelSignalingSource_TSCR, ChannelSignalingSource_TxSIG],
     map ReceiveLAPDSource_bits [ReceiveLAPDSource_LAPDController1,
        ReceiveLAPDSource_LAPDController2, ReceiveLAPDSource_RSDLSR_RxDE,
        ReceiveLAPDSource_LAPDController3],
     map ReceiveSignalingConditioning_bits [ReceiveSignalingConditioning_AllOnes,
        ReceiveSignalingConditioning_SixteenCode_ABCD,
        ReceiveSignalingConditioning_FourCode_AB, ReceiveSignalingConditioning_TwoCode_A],
     map ReceiveSignalingExtraction_bits [ReceiveSignalingExtraction_None,
        ReceiveSignalingExtraction_SixteenCode_ABCD, ReceiveSignalingExtraction_FourCode_AB,
        ReceiveSignalingExtraction_TwoCode_A],
     map PRBSPattern_bits [PRBSPattern_PRBS, PRBSPattern_QRSS],
     map PRBSDestination_bits [PRBSDestination_TTIP_TRING, PRBSDestination_RPOS_RCLK],
     map Termination_bits [Termination_HighImpedance, Termination_Internal],
     map TerminationImpedance_bits [TerminationImpedance_Ohms100, TerminationImpedance_Ohms110,
        TerminationImpedance_Ohms75, TerminationImpedance_Ohms120],
     map TransmitTestPattern_bits [TransmitTestPattern_None, TransmitTestPattern_TDQRSS,
        TransmitTestPattern_TAOS, TransmitTestPattern_TLUC, TransmitTestPattern_TLDC],
     map LIULoopback_bits [LIULoopback_None, LIULoopback_Dual, LIULoopback_Analog,
        LIULoopback_Remote, LIULoopback_Digital],
     map NetworkLoopCodeDetection_bits [NetworkLoopCodeDetection_Disabled,
        NetworkLoopCodeDetection_LoopUpDetection, NetworkLoopCodeDetection_LoopDownDetection,
        NetworkLoopCodeDetection_AutomaticLoopUpDetectionAndRemoteActivation],
     map WireGauge_bits [WireGauge_Gauge22And24, WireGauge_Gauge22, WireGauge_Gauge24,
        WireGauge_Gauge26],
     map ClockSelect_bits [ClockSelect_M2_048, ClockSelect_M1_544, ClockSelect_M4_096,
        ClockSelect_M3_088, ClockSelect_M8_192, ClockSelect_M6_176, ClockSelect_M16_384,
        ClockSelect_M12_352]]"

definition host_enum_codes :: "u8 list list" where
  "host_enum_codes =
    [map Host_ClockSource_bits [Host_ClockSource_Loop, Host_ClockSource_External,
        Host_ClockSource_Internal],
     map Host_FramerLoopback_bits [Host_FramerLoopback_No, Host_FramerLoopback_Local,
        Host_FramerLoopback_FarEndRemoteLine, Host_FramerLoopback_Payload],
     map Host_T1Framing_bits [Host_T1Framing_ExtendedSuperFrame, Host_T1Framing_SuperFrame,
        Host_T1Framing_N, Host_T1Framing_T1DM, Host_T1Framing_SLC96],
     map Host_TransmitAISPattern_bits [Host_TransmitAISPattern_Disable,
        Host_TransmitAISPattern_Unframed, Host_TransmitAISPattern_Framed],
     map Host_AISDetection_bits [Host_AISDetection_Disabled,
        Host_AISDetection_UnframedAndFramed, Host_AISDetection_Framed],
     map Host_ReceiveSlipBuffer_bits [Host_ReceiveSlipBuffer_Bypass,
        Host_ReceiveSlipBuffer_SlipBuffer, Host_ReceiveSlipBuffer_FIFO],
     map Host_AutomaticPerformanceReport_bits [Host_AutomaticPerformanceReport_No,
        Host_AutomaticPerformanceReport_Once, Host_AutomaticPerformanceReport_EverySecond],
     map Host_BitErrorInsertionRate_bits [Host_BitErrorInsertionRate_Disable,
        Host_BitErrorInsertionRate_OneOfOneThousand,
        Host_BitErrorInsertionRate_OneOfOneMillion],
     map Host_BERTPattern_bits [Host_BERTPattern_PRBS_X20_X3_1,
        Host_BERTPattern_QRSS_X20_X17_1, Host_BERTPattern_AllOnes, Host_BERTPattern_AllZeros,
        Host_BERTPattern_ThreeIn24, Host_BERTPattern_OneIn8, Host_BERTPattern_Fifty5Octet,
        Host_BERTPattern_Daly, Host_BERTPattern_PRBS_X20_X17_1],
     map Host_TransmitLAPDSource_bits [Host_TransmitLAPDSource_LAPDController1,
        Host_TransmitLAPDSource_LAPDController2, Host_TransmitLAPDSource_TSDLSR_TxDE,
        Host_TransmitLAPDSource_LAPDController3],
     map Host_ZeroCodeSuppression_bits [Host_ZeroCodeSuppression_None,
        Host_ZeroCodeSuppression_ATTBit7Stuffing, Host_ZeroCodeSuppression_GTE,
        Host_ZeroCodeSuppression_DDS],
     map Host_ChannelConditioning_bits [Host_ChannelConditioning_Unchanged,
        Host_ChannelConditioning_InvertAll, Host_ChannelConditioning_InvertEven,
        Host_ChannelConditioning_InvertOdd, Host_ChannelConditioning_PUCR,
        Host_ChannelConditioning_BUSY, Host_ChannelConditioning_VACANT,
        Host_ChannelConditioning_BUSYWithSlotNumber, Host_ChannelConditioning_MOOF,
        Host_ChannelConditioning_ALawMilliwatt, Host_ChannelConditioning_ULawMilliwatt,
        Host_ChannelConditioning_InvertMSB, Host_ChannelConditioning_InvertAllButMSB,
        Host_ChannelConditioning_PRBSOrQRTS, Host_ChannelConditioning_DETimeSlot],
     map Host_ChannelSignalingSource_bits [Host_ChannelSignalingSource_PCMData,
        Host_ChannelSignalingSource_TSCR, Host_ChannelSignalingSource_TxSIG],
     map Host_ReceiveLAPDSource_bits [Host_ReceiveLAPDSource_LAPDController1,
        Host_ReceiveLAPDSource_LAPDController2, Host_ReceiveLAPDSource_RSDLSR_RxDE,
        Host_ReceiveLAPDSource_LAPDController3],
     map Host_ReceiveSignalingConditioning_bits [Host_ReceiveSignalingConditioning_AllOnes,
        Host_ReceiveSignalingConditioning_SixteenCode_ABCD,
        Host_ReceiveSignalingConditioning_FourCode_AB,
        Host_ReceiveSignalingConditioning_TwoCode_A],
     map Host_ReceiveSignalingExtraction_bits [Host_ReceiveSignalingExtraction_None,
        Host_ReceiveSignalingExtraction_SixteenCode_ABCD,
        Host_ReceiveSignalingExtraction_FourCode_AB, Host_ReceiveSignalingExtraction_TwoCode_A],
     map Host_PRBSPattern_bits [Host_PRBSPattern_PRBS, Host_PRBSPattern_QRSS],
     map Host_PRBSDestination_bits [Host_PRBSDestination_TTIP_TRING,
        Host_PRBSDestination_RPOS_RCLK],
     map Host_Termination_bits [Host_Termination_HighImpedance, Host_Termination_Internal],
     map Host_TerminationImpedance_bits [Host_TerminationImpedance_Ohms100,
        Host_TerminationImpedance_Ohms110, Host_TerminationImpedance_Ohms75,
        Host_TerminationImpedance_Ohms120],
     map Host_TransmitTestPattern_bits [Host_TransmitTestPattern_None,
        Host_TransmitTestPattern_TDQRSS, Host_TransmitTestPattern_TAOS,
        Host_TransmitTestPattern_TLUC, Host_TransmitTestPattern_TLDC],
     map Host_LIULoopback_bits [Host_LIULoopback_None, Host_LIULoopback_Dual,
        Host_LIULoopback_Analog, Host_LIULoopback_Remote, Host_LIULoopback_Digital],
     map Host_NetworkLoopCodeDetection_bits [Host_NetworkLoopCodeDetection_Disabled,
        Host_NetworkLoopCodeDetection_LoopUpDetection,
        Host_NetworkLoopCodeDetection_LoopDownDetection,
        Host_NetworkLoopCodeDetection_AutomaticLoopUpDetectionAndRemoteActivation],
     map Host_WireGauge_bits [Host_WireGauge_Gauge22And24, Host_WireGauge_Gauge22,
        Host_WireGauge_Gauge24, Host_WireGauge_Gauge26],
     map Host_ClockSelect_bits [Host_ClockSelect_M2_048, Host_ClockSelect_M1_544,
        Host_ClockSelect_M4_096, Host_ClockSelect_M3_088, Host_ClockSelect_M8_192,
        Host_ClockSelect_M6_176, Host_ClockSelect_M16_384, Host_ClockSelect_M12_352]]"

lemma host_layout_eqs [simp]:
  "Host_CSR = CSR"
  "Host_LICR = LICR"
  "Host_FSR = FSR"
  "Host_AGR = AGR"
  "Host_SMR = SMR"
  "Host_TSDLSR = TSDLSR"
  "Host_FCR = FCR"
  "Host_RSDLSR = RSDLSR"
  "Host_RSChR = RSChR"
  "Host_RIFR = RIFR"
  "Host_DLCR = DLCR"
  "Host_TDLBCR = TDLBCR"
  "Host_RDLBCR = RDLBCR"
  "Host_SBCR = SBCR"
  "Host_FIFOLR = FIFOLR"
  "Host_ICR = ICR"
  "Host_LAPDSR = LAPDSR"
  "Host_CIAGR = CIAGR"
  "Host_PRCR = PRCR"
  "Host_GCCR = GCCR"
  "Host_TICR = TICR"
  "Host_BERTCSR0 = BERTCSR0"
  "Host_RICR = RICR"
  "Host_BERTCSR1 = BERTCSR1"
  "Host_LCCR0 = LCCR0"
  "Host_LCCR = LCCR"
  "Host_TLCR = TLCR"
  "Host_RLACR = RLACR"
  "Host_RLDCR = RLDCR"
  "Host_RLCDS = RLCDS"
  "Host_DDER = DDER"
  "Host_TLCGS = TLCGS"
  "Host_LCTS = LCTS"
  "Host_TSPRMCR = TSPRMCR"
  "Host_BCR = BCR"
  "Host_BOCCR = BOCCR"
  "Host_RFDLR = RFDLR"
  "Host_RFDLMR = RFDLMR"
  "Host_TFDLR = TFDLR"
  "Host_TBCR = TBCR"
  "Host_RDS0MR = RDS0MR"
  "Host_TDS0MR = TDS0MR"
  "Host_TCCR = TCCR"
  "Host_TUCR = TUCR"
  "Host_TSCR = TSCR"
  "Host_RCCR = RCCR"
  "Host_RUCR = RUCR"
  "Host_RSCtR = RSCtR"
  "Host_RSSR = RSSR"
  "Host_RSAR = RSAR"
  "Host_BISR = BISR"
  "Host_BIER = BIER"
  "Host_AEISR = AEISR"
  "Host_AEIER = AEIER"
  "Host_FISR = FISR"
  "Host_FIER = FIER"
  "Host_DLSRx = DLSRx"
  "Host_DLIERx = DLIERx"
  "Host_SBISR = SBISR"
  "Host_SBIER = SBIER"
  "Host_RLCISRx = RLCISRx"
  "Host_RLCIERx = RLCIERx"
  "Host_EXZSR = EXZSR"
  "Host_EXZER = EXZER"
  "Host_SS7SRx = SS7SRx"
  "Host_SS7ERx = SS7ERx"
  "Host_RLCISR = RLCISR"
  "Host_RLCIER = RLCIER"
  "Host_CIASR = CIASR"
  "Host_CIAIER = CIAIER"
  "Host_BOCISR = BOCISR"
  "Host_BOCIER = BOCIER"
  "Host_BOCUISR = BOCUISR"
  "Host_BOCUIER = BOCUIER"
  "Host_LIUCCR0 = LIUCCR0"
  "Host_LIUCCR1 = LIUCCR1"
  "Host_LIUCCR2 = LIUCCR2"
  "Host_LIUCCR3 = LIUCCR3"
  "Host_LIUCCIER = LIUCCIER"
  "Host_LIUCCSR = LIUCCSR"
  "Host_LIUCCISR = LIUCCISR"
  "Host_LIUCCCCR = LIUCCCCR"
  "Host_LIUCCAR = LIUCCAR"
  "Host_LIUGCR0 = LIUGCR0"
  "Host_LIUGCR1 = LIUGCR1"
  "Host_LIUGCR2 = LIUGCR2"
  "Host_LIUGCR3 = LIUGCR3"
  "Host_LIUGCR4 = LIUGCR4"
  "Host_LIUGCR5 = LIUGCR5"
  "Host_DEVID = DEVID"
  "Host_REVID = REVID"
  "Host_u8_register = u8_register"
  by (simp_all only: host_layout_simps layout_simps)

lemma host_register_layouts_eq: "host_register_layouts = register_layouts"
  by (simp only: host_register_layouts_def register_layouts_def host_layout_eqs)

lemma host_enum_codes_eq: "host_enum_codes = enum_codes"
  by (simp add: host_enum_codes_def enum_codes_def)

end
