(* ===== verification/Host_Monitor.thy ===== *)
theory Host_Monitor
  imports Signaling Host_Interrupt Host_Registers
begin

text \<open>
  The monitor of \<^verbatim>\<open>tedium-tool\<close>: the interrupt transfer callback of \<^verbatim>\<open>framer/interrupt.rs\<close> that turns a
  completed transfer into an event, and \<open>monitor\<close> of \<^verbatim>\<open>main.rs\<close> with its two kinds of line state, which
  turns events into reports of changes of the lines' signaling codes. Instants are nanoseconds (\<open>nat\<close>; the difference of two
  \<open>Instant\<close>s saturates at zero), what \<open>monitor\<close> prints is its result, a panic is \<open>None\<close>.
\<close>

section \<open>The interrupt callback\<close>

text \<open>
  A transfer completed or not, and the bytes it carries; \<open>data[0..length]\<close> panics on more bytes than
  the event holds.
\<close>

definition interrupt_callback :: "bool \<Rightarrow> u8 list \<Rightarrow> nat \<Rightarrow> nat framer_event list option" where
  "interrupt_callback completed buffer now =
     (if completed \<and> 0 < length buffer then
        if length buffer \<le> INTERRUPT_BYTES_MAX
        then Some [Interrupt now (buffer @ replicate (INTERRUPT_BYTES_MAX - length buffer) 0) (length buffer)]
        else None
      else Some [])"

section \<open>Line states\<close>

record line_state_interrupt =
  li_timestamp :: nat
  li_abcd :: u8

definition line_state_interrupt_default :: "nat \<Rightarrow> line_state_interrupt" where
  "line_state_interrupt_default now = \<lparr>li_timestamp = now, li_abcd = 0b0101\<rparr>"

definition li_off_hook :: "line_state_interrupt \<Rightarrow> bool" where
  "li_off_hook self \<longleftrightarrow> li_abcd self AND 0x0c = 0b1100"

definition li_set_state ::
  "nat \<Rightarrow> u8 \<Rightarrow> line_state_interrupt \<Rightarrow> (nat \<times> bool) option \<times> line_state_interrupt" where
  "li_set_state timestamp rsar self =
     (let new_abcd = push_bit 3 (reg_field Host_RSAR ''A'' rsar) OR push_bit 2 (reg_field Host_RSAR ''B'' rsar) OR
            push_bit 1 (reg_field Host_RSAR ''C'' rsar) OR push_bit 0 (reg_field Host_RSAR ''D'' rsar)
      in if new_abcd \<noteq> li_abcd self
         then let duration = timestamp - li_timestamp self;
                  self = self\<lparr>li_timestamp := timestamp, li_abcd := new_abcd\<rparr>
              in (Some (duration, li_off_hook self), self)
         else (None, self))"

record line_state_robbed_bit_state =
  lr_frame_count :: u32
  lr_abcd :: u8

definition line_state_robbed_bit_state_default :: line_state_robbed_bit_state where
  "line_state_robbed_bit_state_default = \<lparr>lr_frame_count = 0, lr_abcd = 0b0101\<rparr>"

definition lr_off_hook :: "line_state_robbed_bit_state \<Rightarrow> bool" where
  "lr_off_hook self \<longleftrightarrow> lr_abcd self AND 0x0c = 0b1100"

text \<open>The duration is in milliseconds, eight frames each.\<close>

definition lr_set_state ::
  "u32 \<Rightarrow> u8 \<Rightarrow> line_state_robbed_bit_state \<Rightarrow> (nat \<times> bool) option \<times> line_state_robbed_bit_state" where
  "lr_set_state frame_count rbs_state self =
     (let new_abcd = rbs_state AND 0x0f
      in if new_abcd \<noteq> lr_abcd self
         then let frame_count_diff = frame_count - lr_frame_count self;
                  duration = unat (frame_count_diff div 8);
                  self = self\<lparr>lr_frame_count := frame_count, lr_abcd := new_abcd\<rparr>
              in (Some (duration, lr_off_hook self), self)
         else (None, self))"

section \<open>The monitor\<close>

datatype monitor_line =
    StatusLine framer_interrupt_status
  | InterruptLine nat nat nat bool
  | DigitLine timeslot_address detection_event
  | RobbedBitLine nat nat nat bool

record host_monitor_state =
  ms_interrupt :: "line_state_interrupt list list"
  ms_robbed_bit :: "line_state_robbed_bit_state list list"

definition host_monitor_new :: "nat \<Rightarrow> host_monitor_state" where
  "host_monitor_new now =
     \<lparr>ms_interrupt = replicate 8 (replicate 24 (line_state_interrupt_default now)),
      ms_robbed_bit = replicate 8 (replicate 24 line_state_robbed_bit_state_default)\<rparr>"

text \<open>The loop over the timeslots of a signaling report.\<close>

fun monitor_timeslots ::
  "nat \<Rightarrow> nat \<Rightarrow> u8 list \<Rightarrow> nat list \<Rightarrow> line_state_interrupt list list \<Rightarrow>
    (monitor_line list \<times> line_state_interrupt list list) option" where
  "monitor_timeslots timestamp channel_index sig_rsars [] states = Some ([], states)"
| "monitor_timeslots timestamp channel_index sig_rsars (timeslot_index # rest) states =
     Option.bind (slice_index sig_rsars timeslot_index) (\<lambda>rsar.
     Option.bind (slice_index states channel_index) (\<lambda>row.
     Option.bind (slice_index row timeslot_index) (\<lambda>state.
       let (change, state) = li_set_state timestamp rsar state
       in Option.bind
            (monitor_timeslots timestamp channel_index sig_rsars rest
              (states[channel_index := row[timeslot_index := state]])) (\<lambda>(ls, states).
            Some ((case change of
                     Some (duration, off_hook) \<Rightarrow> [InterruptLine channel_index timeslot_index duration off_hook]
                   | None \<Rightarrow> []) @ ls, states)))))"

text \<open>
  One event. \<open>from_slice\<close> never returns an error (see theory Host_Interrupt), so the branch that
  prints a bad struct is never taken and has no line here.
\<close>

fun monitor_event :: "nat framer_event \<Rightarrow> host_monitor_state \<Rightarrow> (monitor_line list \<times> host_monitor_state) option" where
  "monitor_event (Interrupt timestamp data len) self =
     (if len \<le> length data then
        Option.bind (from_slice (take len data)) (\<lambda>status.
          case Option.bind (fis_t1frame status) t1_sig of
            Some sig \<Rightarrow>
              Option.bind
                (monitor_timeslots timestamp (fis_channel_index status) (rsars sig) [0..<24] (ms_interrupt self))
                (\<lambda>(ls, states). Some (StatusLine status # ls, self\<lparr>ms_interrupt := states\<rparr>))
          | None \<Rightarrow> Some ([StatusLine status], self))
      else None)"
| "monitor_event (Digit address event) self = Some ([DigitLine address event], self)"
| "monitor_event (RobbedBitState frame_count address rbs_state) self =
     Option.bind (slice_index (ms_robbed_bit self) (ta_channel address)) (\<lambda>row.
     Option.bind (slice_index row (ta_timeslot address)) (\<lambda>state.
       let (change, state) = lr_set_state frame_count rbs_state state
       in Some
            (case change of
               Some (duration, off_hook) \<Rightarrow>
                 [RobbedBitLine (ta_channel address) (ta_timeslot address) duration off_hook]
             | None \<Rightarrow> [],
             self\<lparr>ms_robbed_bit :=
               (ms_robbed_bit self)[ta_channel address := row[ta_timeslot address := state]]\<rparr>)))"

fun monitor :: "nat framer_event list \<Rightarrow> host_monitor_state \<Rightarrow> (monitor_line list \<times> host_monitor_state) option" where
  "monitor [] self = Some ([], self)"
| "monitor (e # es) self =
     Option.bind (monitor_event e self) (\<lambda>(ls, self).
     Option.bind (monitor es self) (\<lambda>(ls', self). Some (ls @ ls', self)))"

section \<open>What the monitor reports\<close>

definition monitor_ok :: "host_monitor_state \<Rightarrow> bool" where
  "monitor_ok st \<longleftrightarrow>
     length (ms_interrupt st) = 8 \<and> (\<forall>row \<in> set (ms_interrupt st). length row = 24) \<and>
     length (ms_robbed_bit st) = 8 \<and> (\<forall>row \<in> set (ms_robbed_bit st). length row = 24)"

lemma rsar_code:
  assumes "v < 16"
  shows "push_bit 3 (reg_field Host_RSAR ''A'' v) OR push_bit 2 (reg_field Host_RSAR ''B'' v) OR
    push_bit 1 (reg_field Host_RSAR ''C'' v) OR push_bit 0 (reg_field Host_RSAR ''D'' v) = v" (is "?l = _")
proof (rule bit_word_eqI)
  fix n assume "n < LENGTH(8)"
  have "\<not> bit v k" if "4 \<le> k" for k
    using bit_zero_of_small [of v 4 k] assms that by (simp add: word_less_nat_alt)
  then have high: "\<not> bit v 4" "\<not> bit v 5" "\<not> bit v 6" "\<not> bit v 7"
    by simp_all
  have fields: "reg_field Host_RSAR ''A'' v = take_bit 1 (drop_bit 3 v)"
    "reg_field Host_RSAR ''B'' v = take_bit 1 (drop_bit 2 v)"
    "reg_field Host_RSAR ''C'' v = take_bit 1 (drop_bit 1 v)"
    "reg_field Host_RSAR ''D'' v = take_bit 1 (drop_bit 0 v)"
    by (simp_all add: reg_field_def reg_get_def bits_get_def layout_simps)
  have cell: "bit (push_bit k (take_bit 1 (drop_bit k v))) n \<longleftrightarrow> n = k \<and> bit v k" for k
    using \<open>n < LENGTH(8)\<close> by (auto simp: bit_simps bit_iff_odd_drop_bit [of v])
  from \<open>n < LENGTH(8)\<close> have "n \<in> {0, 1, 2, 3, 4, 5, 6, 7}"
    by auto
  then show "bit ?l n = bit v n"
    unfolding fields bit_or_iff cell using high by auto
qed

text \<open>A change of one timeslot's code: the line printed and the state left.\<close>

definition code_change :: "nat \<Rightarrow> nat \<Rightarrow> nat \<Rightarrow> u8 \<Rightarrow> line_state_interrupt \<Rightarrow> monitor_line list" where
  "code_change now c t v st =
     (if v = li_abcd st then [] else [InterruptLine c t (now - li_timestamp st) (v AND 0x0c = 0x0c)])"

definition code_state :: "nat \<Rightarrow> u8 \<Rightarrow> line_state_interrupt \<Rightarrow> line_state_interrupt" where
  "code_state now v st = (if v = li_abcd st then st else st\<lparr>li_timestamp := now, li_abcd := v\<rparr>)"

lemma li_set_state_eq:
  assumes "v < 16"
  shows "li_set_state now v st =
     ((if v = li_abcd st then None else Some (now - li_timestamp st, v AND 0x0c = 0x0c)), code_state now v st)"
  unfolding li_set_state_def rsar_code [OF assms] Let_def
  by (simp add: code_state_def li_off_hook_def)

lemma monitor_timeslots_eq:
  assumes "c < length states" and "length (states ! c) = 24" and "length vs = 24" and "\<forall>v \<in> set vs. v < 16"
    and "distinct ts" and "\<forall>t \<in> set ts. t < 24"
  shows "monitor_timeslots now c vs ts states =
    Some (concat (map (\<lambda>t. code_change now c t (vs ! t) (states ! c ! t)) ts),
      states[c := map (\<lambda>t. if t \<in> set ts then code_state now (vs ! t) (states ! c ! t) else states ! c ! t) [0..<24]])"
  using assms
proof (induction ts arbitrary: states)
  case Nil
  then have "map ((!) (states ! c)) [0..<24] = states ! c"
    by (metis map_nth)
  with Nil show ?case
    by simp
next
  case (Cons t ts)
  let ?row = "states ! c"
  let ?states = "states[c := ?row[t := code_state now (vs ! t) (?row ! t)]]"
  have t: "t < 24" "vs ! t < 16"
    using Cons.prems by simp_all
  have IH: "monitor_timeslots now c vs ts ?states =
    Some (concat (map (\<lambda>t. code_change now c t (vs ! t) (?states ! c ! t)) ts),
      ?states[c := map (\<lambda>t. if t \<in> set ts then code_state now (vs ! t) (?states ! c ! t) else ?states ! c ! t) [0..<24]])"
    using Cons.prems by (intro Cons.IH) simp_all
  have lines: "map (\<lambda>t. code_change now c t (vs ! t) (?states ! c ! t)) ts =
      map (\<lambda>t. code_change now c t (vs ! t) (?row ! t)) ts"
  proof (intro map_cong refl)
    fix i assume "i \<in> set ts"
    then have "i \<noteq> t"
      using Cons.prems(5) by auto
    then show "code_change now c i (vs ! i) (?states ! c ! i) = code_change now c i (vs ! i) (?row ! i)"
      by (simp add: Cons.prems(1))
  qed
  have row: "map (\<lambda>i. if i \<in> set ts then code_state now (vs ! i) (?states ! c ! i) else ?states ! c ! i) [0..<24] =
      map (\<lambda>i. if i \<in> set (t # ts) then code_state now (vs ! i) (?row ! i) else ?row ! i) [0..<24]"
  proof (intro map_cong refl)
    fix i assume "i \<in> set [0..<24]"
    have "i \<in> set ts \<Longrightarrow> i \<noteq> t"
      using Cons.prems(5) by auto
    then show "(if i \<in> set ts then code_state now (vs ! i) (?states ! c ! i) else ?states ! c ! i) =
        (if i \<in> set (t # ts) then code_state now (vs ! i) (?row ! i) else ?row ! i)"
      using Cons.prems(1,2) t(1) by (cases "i = t") auto
  qed
  have step: "monitor_timeslots now c vs (t # ts) states =
      Option.bind (monitor_timeslots now c vs ts ?states)
        (\<lambda>(ls, states). Some (code_change now c t (vs ! t) (?row ! t) @ ls, states))"
    using Cons.prems t by (simp add: li_set_state_eq code_change_def)
  show ?case
    unfolding step IH lines row by simp
qed

text \<open>
  C3: a signaling interrupt becomes line reports. When a transfer delivers the bytes of a well-formed
  status of one of the eight channels, the callback makes one event of it without panicking, and the
  monitor prints the status and, for exactly the timeslots whose signaling code changed and in their
  order, how long the old code lasted and whether the line is now off hook (bits A and B set). It
  remembers the new codes and their time, and nothing else changes.
\<close>

theorem monitor_reports_interrupt:
  assumes "status_ok s" and "fis_channel_index s < 8" and "length (encode_status s) \<le> INTERRUPT_BYTES_MAX"
    and "monitor_ok st" and "fis_t1frame s = Some t1" and "t1_sig t1 = Some sig"
  shows "\<exists>event. interrupt_callback True (encode_status s) now = Some [event] \<and>
    monitor [event] st =
      (let c = fis_channel_index s; row = ms_interrupt st ! c
       in Some (StatusLine s # concat (map (\<lambda>t. code_change now c t (rsars sig ! t) (row ! t)) [0..<24]),
            st\<lparr>ms_interrupt := (ms_interrupt st)
              [c := map (\<lambda>t. code_state now (rsars sig ! t) (row ! t)) [0..<24]]\<rparr>))"
proof -
  let ?c = "fis_channel_index s" and ?bs = "encode_status s"
  have "t1frame_ok t1"
    using assms(1,5) by (simp add: status_ok_def block_ok_def)
  then have sig: "length (rsars sig) = 24" "\<forall>v \<in> set (rsars sig). v < 16"
    using assms(6) by (simp_all add: t1frame_ok_def list_all_iff)
  have "?bs \<noteq> []"
    by (simp add: encode_status_def)
  then have callback: "interrupt_callback True ?bs now =
      Some [Interrupt now (?bs @ replicate (INTERRUPT_BYTES_MAX - length ?bs) 0) (length ?bs)]"
    using assms(3) by (simp add: interrupt_callback_def)
  have states: "?c < length (ms_interrupt st)" "length (ms_interrupt st ! ?c) = 24"
    using assms(2,4) by (simp_all add: monitor_ok_def)
  have all: "map (\<lambda>t. if t \<in> set [0..<24] then code_state now (rsars sig ! t) (ms_interrupt st ! ?c ! t)
        else ms_interrupt st ! ?c ! t) [0..<24] =
      map (\<lambda>t. code_state now (rsars sig ! t) (ms_interrupt st ! ?c ! t)) [0..<24]"
    by (intro map_cong) simp_all
  have "monitor_timeslots now ?c (rsars sig) [0..<24] (ms_interrupt st) =
      Some (concat (map (\<lambda>t. code_change now ?c t (rsars sig ! t) (ms_interrupt st ! ?c ! t)) [0..<24]),
        (ms_interrupt st)[?c := map (\<lambda>t. code_state now (rsars sig ! t) (ms_interrupt st ! ?c ! t)) [0..<24]])"
    using monitor_timeslots_eq [OF states sig, of "[0..<24]" now] unfolding all by (simp del: upt_Suc)
  then show ?thesis
    using assms(5,6) callback by (simp add: parse_encode_status [OF assms(1)] Let_def del: upt_Suc)
qed

theorem monitor_reports_interrupt_witness:
  "\<exists>event ls st. interrupt_callback True (encode_status example_status) 500 = Some [event] \<and>
     monitor [event] (host_monitor_new 100) = Some (StatusLine example_status # InterruptLine 5 0 400 False # ls, st)"
proof -
  have ok: "status_ok example_status" "length (encode_status example_status) \<le> INTERRUPT_BYTES_MAX"
    by code_simp+
  have "fis_channel_index example_status < 8" "monitor_ok (host_monitor_new 100)"
    "fis_t1frame example_status = Some \<lparr>t1_fisr = 0x20, t1_sig = Some \<lparr>rsars = replicate 24 0xa\<rparr>\<rparr>"
    "t1_sig \<lparr>t1_fisr = 0x20, t1_sig = Some \<lparr>rsars = replicate 24 0xa\<rparr>\<rparr> = Some \<lparr>rsars = replicate 24 0xa\<rparr>"
    by (simp_all add: example_status_def monitor_ok_def host_monitor_new_def)
  note report = monitor_reports_interrupt [OF ok(1) this(1) ok(2) this(2-4), of 500]
  have "fis_channel_index example_status = 5"
    by (simp add: example_status_def)
  moreover have "code_change 500 5 0 (replicate 24 0xa ! 0) (ms_interrupt (host_monitor_new 100) ! 5 ! 0) =
      [InterruptLine 5 0 400 False]"
    by (simp add: code_change_def host_monitor_new_def line_state_interrupt_default_def)
  moreover have "[0..<24] = 0 # [1..<24 :: nat]"
    by (simp add: upt_rec)
  ultimately show ?thesis
    using report by (auto simp: Let_def simp del: upt_Suc)
qed

text \<open>
  The abstract line: from the frame count and the code of the last change, the time since then and
  the hook state at every event that changes the code. Every change of the four bits counts, also one
  that leaves the hook state (bits A and B both set) as it is, such as 0101 to 0000.
\<close>

fun code_changes :: "u32 \<Rightarrow> u8 \<Rightarrow> (u32 \<times> u8) list \<Rightarrow> (nat \<times> bool) list" where
  "code_changes n0 code [] = []"
| "code_changes n0 code ((n, v) # xs) =
     (if v AND 0x0f = code then code_changes n0 code xs
      else (unat ((n - n0) div 8), v AND 0x0c = 0x0c) # code_changes n (v AND 0x0f) xs)"

fun line_reports :: "nat \<Rightarrow> nat \<Rightarrow> monitor_line list \<Rightarrow> (nat \<times> bool) list" where
  "line_reports c t [] = []"
| "line_reports c t (RobbedBitLine c' t' d h # ls) =
     (if c' = c \<and> t' = t then (d, h) # line_reports c t ls else line_reports c t ls)"
| "line_reports c t (l # ls) = line_reports c t ls"

fun line_codes :: "nat \<Rightarrow> nat \<Rightarrow> 't framer_event list \<Rightarrow> (u32 \<times> u8) list" where
  "line_codes c t [] = []"
| "line_codes c t (RobbedBitState n a v # es) =
     (if a = timeslot_address_new c t then (n, v) # line_codes c t es else line_codes c t es)"
| "line_codes c t (e # es) = line_codes c t es"

fun signaling_event_ok :: "'t framer_event \<Rightarrow> bool" where
  "signaling_event_ok (RobbedBitState n a v) \<longleftrightarrow> ta_channel a < 8 \<and> ta_timeslot a < 24"
| "signaling_event_ok (Digit a d) \<longleftrightarrow> True"
| "signaling_event_ok (Interrupt n data len) \<longleftrightarrow> False"

lemma line_reports_append [simp]: "line_reports c t (xs @ ys) = line_reports c t xs @ line_reports c t ys"
  by (induction c t xs rule: line_reports.induct) auto

definition line_state :: "host_monitor_state \<Rightarrow> nat \<Rightarrow> nat \<Rightarrow> line_state_robbed_bit_state" where
  "line_state st c t = ms_robbed_bit st ! c ! t"

lemma low_nibble_hook: "(v AND 0x0f) AND 0x0c = v AND (0x0c :: u8)"
  by (simp add: and.assoc)

lemma monitor_event_rbs:
  assumes "monitor_ok st" and "c < 8" and "t < 24"
  shows "\<exists>st'. monitor_event (RobbedBitState n (timeslot_address_new c t) v) st =
      Some (if v AND 0x0f = lr_abcd (line_state st c t) then []
        else [RobbedBitLine c t (unat ((n - lr_frame_count (line_state st c t)) div 8)) (v AND 0x0c = 0x0c)], st') \<and>
    monitor_ok st' \<and>
    (\<forall>c' t'. c' < 8 \<longrightarrow> t' < 24 \<longrightarrow> line_state st' c' t' =
       (if c' = c \<and> t' = t \<and> v AND 0x0f \<noteq> lr_abcd (line_state st c t)
        then (line_state st c t)\<lparr>lr_frame_count := n, lr_abcd := v AND 0x0f\<rparr> else line_state st c' t'))"
proof -
  have len: "length (ms_robbed_bit st) = 8" "length (ms_robbed_bit st ! c) = 24"
    "\<forall>row \<in> set (ms_robbed_bit st). length row = 24"
    using assms by (simp_all add: monitor_ok_def)
  let ?new = "snd (lr_set_state n v (line_state st c t))"
  let ?st = "st\<lparr>ms_robbed_bit := (ms_robbed_bit st)[c := (ms_robbed_bit st ! c)[t := ?new]]\<rparr>"
  have "\<forall>row \<in> set ((ms_robbed_bit st)[c := (ms_robbed_bit st ! c)[t := ?new]]). length row = 24"
    using len(2,3) set_update_subset_insert by fastforce
  then have "monitor_ok ?st"
    using assms(1) by (simp add: monitor_ok_def)
  moreover have "line_state ?st c' t' = (if c' = c \<and> t' = t then ?new else line_state st c' t')"
    if "c' < 8" "t' < 24" for c' t'
    using len that assms(2,3) by (cases "c' = c"; cases "t' = t") (simp_all add: line_state_def)
  ultimately show ?thesis
    using len assms(2,3)
    by (intro exI [of _ ?st])
      (auto simp: line_state_def lr_set_state_def lr_off_hook_def timeslot_address_new_def low_nibble_hook Let_def)
qed

lemma monitor_lines:
  assumes "monitor_ok st" and "\<forall>e \<in> set es. signaling_event_ok e"
  shows "\<exists>ls st'. monitor es st = Some (ls, st') \<and> monitor_ok st' \<and>
    (\<forall>c < 8. \<forall>t < 24. line_reports c t ls =
       code_changes (lr_frame_count (line_state st c t)) (lr_abcd (line_state st c t)) (line_codes c t es))"
  using assms
proof (induction es arbitrary: st)
  case (Cons e es)
  show ?case
  proof (cases e)
    case (RobbedBitState n a v)
    then obtain c t where a: "a = timeslot_address_new c t" "c < 8" "t < 24"
      using Cons.prems(2) by (cases a) (auto simp: timeslot_address_new_def)
    from monitor_event_rbs [OF Cons.prems(1) a(2,3), of n v] obtain st1 where
      step: "monitor_event e st = Some (if v AND 0x0f = lr_abcd (line_state st c t) then []
        else [RobbedBitLine c t (unat ((n - lr_frame_count (line_state st c t)) div 8)) (v AND 0x0c = 0x0c)], st1)"
      and st1: "monitor_ok st1" "\<forall>c' t'. c' < 8 \<longrightarrow> t' < 24 \<longrightarrow> line_state st1 c' t' =
       (if c' = c \<and> t' = t \<and> v AND 0x0f \<noteq> lr_abcd (line_state st c t)
        then (line_state st c t)\<lparr>lr_frame_count := n, lr_abcd := v AND 0x0f\<rparr> else line_state st c' t')"
      unfolding RobbedBitState a by blast
    from Cons.IH [OF st1(1)] Cons.prems(2) obtain ls st' where
      "monitor es st1 = Some (ls, st')" "monitor_ok st'"
      "\<forall>c < 8. \<forall>t < 24. line_reports c t ls =
        code_changes (lr_frame_count (line_state st1 c t)) (lr_abcd (line_state st1 c t)) (line_codes c t es)"
      by auto
    with step st1 show ?thesis
      by (auto simp: RobbedBitState a simp del: monitor_event.simps)
  next
    case (Digit a d)
    with Cons.IH [OF Cons.prems(1)] Cons.prems(2) show ?thesis
      by auto
  next
    case (Interrupt n data len)
    with Cons.prems(2) show ?thesis by simp
  qed
qed simp

text \<open>
  C13: the monitor reports every change of every line's signaling code. Over any events of the signaling
  thread it does not panic, and for each of the 192 lines, independently of the others, it reports
  exactly the events whose four signaling bits differ from the previous ones, with the time since the
  change before in milliseconds of eight frames (frame counts wrapping) and whether the line is off
  hook now. A change that leaves the hook state as it was is reported as well; the text that the
  source prints for it names the opposite hook state as the one before, which is then wrong.
\<close>

theorem monitor_reports_lines:
  assumes "monitor_ok st" and "\<forall>e \<in> set es. signaling_event_ok e"
  shows "\<exists>ls st'. monitor es st = Some (ls, st') \<and>
    (\<forall>c < 8. \<forall>t < 24. line_reports c t ls =
       code_changes (lr_frame_count (ms_robbed_bit st ! c ! t)) (lr_abcd (ms_robbed_bit st ! c ! t))
         (line_codes c t es))"
  using monitor_lines [OF assms] unfolding line_state_def by blast

text \<open>
  A line goes off hook, is seen so again, and goes on hook a second later; the change to 0000 after that
  is reported too, though the line stays on hook.
\<close>

theorem monitor_reports_lines_witness:
  "\<exists>ls st. monitor [RobbedBitState 800 (timeslot_address_new 2 3) 0x0f, Digit (timeslot_address_new 0 1) (DtmfDigit CHR ''5''),
       RobbedBitState 900 (timeslot_address_new 2 3) 0x0f, RobbedBitState 8800 (timeslot_address_new 2 3) 0x05,
       RobbedBitState 9600 (timeslot_address_new 2 3) 0x00] (host_monitor_new 0) = Some (ls, st) \<and>
     line_reports 2 3 ls = [(100, True), (1000, False), (100, False)] \<and> line_reports 2 4 ls = []"
proof -
  let ?es = "[RobbedBitState 800 (timeslot_address_new 2 3) 0x0f, Digit (timeslot_address_new 0 1) (DtmfDigit CHR ''5''),
       RobbedBitState 900 (timeslot_address_new 2 3) 0x0f, RobbedBitState 8800 (timeslot_address_new 2 3) 0x05,
       RobbedBitState 9600 (timeslot_address_new 2 3) 0x00] :: nat framer_event list"
  have "monitor_ok (host_monitor_new 0)" "\<forall>e \<in> set ?es. signaling_event_ok e"
    by (simp_all add: monitor_ok_def host_monitor_new_def)
  from monitor_reports_lines [OF this] obtain ls st where
    run: "monitor ?es (host_monitor_new 0) = Some (ls, st)" and
    lines: "\<forall>c < 8. \<forall>t < 24. line_reports c t ls =
       code_changes (lr_frame_count (ms_robbed_bit (host_monitor_new 0) ! c ! t))
         (lr_abcd (ms_robbed_bit (host_monitor_new 0) ! c ! t)) (line_codes c t ?es)"
    by blast
  have "lr_frame_count (ms_robbed_bit (host_monitor_new 0) ! 2 ! t) = 0"
    "lr_abcd (ms_robbed_bit (host_monitor_new 0) ! 2 ! t) = 5" if "t < 24" for t
    using that by (simp_all add: host_monitor_new_def line_state_robbed_bit_state_default_def)
  with lines have "line_reports 2 3 ls = [(100, True), (1000, False), (100, False)]" "line_reports 2 4 ls = []"
    by simp_all
  with run show ?thesis
    by blast
qed

end
