(* ===== verification/Soc_Report.thy ===== *)
theory Soc_Report
  imports Soc_Main Host_Monitor
begin

text \<open>
  The interrupt reports end to end: what the firmware puts into the interrupt endpoint's FIFO is
  a message of the format of theory Host_Interrupt, it says what the firmware read from the chip,
  and, if it fits the host's transfer, the host's callback makes an event of it from which the
  host's parser gives it back.
\<close>

section \<open>What a report shows\<close>

text \<open>The bytes written to the FIFO, and the chip registers read, in order.\<close>

definition report_bytes :: "bus_trace \<Rightarrow> u8 list" where
  "report_bytes d = map ucast (bus_writes (peripheral_address USB_IN_INT_BASE 0) d)"

definition chip_reads :: "bus_trace \<Rightarrow> (u32 \<times> u8) list" where
  "chip_reads d = concat (map (\<lambda>ev. case ev of
     BusRead a v \<Rightarrow> if FRAMER_BASE \<le> a then [(a, ucast v)] else []
   | BusWrite _ _ \<Rightarrow> []) d)"

definition chip_address :: "nat \<Rightarrow> nat \<Rightarrow> u32" where
  "chip_address c off = framer_address FRAMER_BASE (of_nat (0x1000 * c + off))"

lemma report_bytes_simps [simp]:
  "report_bytes [] = []"
  "report_bytes (d @ e) = report_bytes d @ report_bytes e"
  by (simp_all add: report_bytes_def)

lemma chip_reads_simps [simp]:
  "chip_reads [] = []"
  "chip_reads (d @ e) = chip_reads d @ chip_reads e"
  by (simp_all add: chip_reads_def)

lemma framer_address_window: "FRAMER_BASE \<le> framer_address FRAMER_BASE a"
proof -
  have "unat (4 * (ucast a :: u32)) = 4 * unat a"
    using unat_u16_lt [of a] by (simp add: unat_word_ariths unat_ucast_u16_u32 del: unat_u16_lt)
  then have "unat (framer_address FRAMER_BASE a) = 0x80100000 + 4 * unat a"
    using unat_u16_lt [of a]
    by (simp add: framer_address_def FRAMER_BASE_def unat_word_ariths del: unat_u16_lt)
  then show ?thesis by (simp add: word_le_nat_alt FRAMER_BASE_def)
qed

section \<open>Rules for reports\<close>

definition reports :: "(bus_trace, 'e, 'a) prog \<Rightarrow> ('a \<Rightarrow> u8 list \<Rightarrow> (u32 \<times> u8) list \<Rightarrow> bool) \<Rightarrow> bool" where
  "reports m Q \<longleftrightarrow> emits m (\<lambda>a d. Q a (report_bytes d) (chip_reads d))"

lemma reports_mono: "reports m Q \<Longrightarrow> (\<And>a b r. Q a b r \<Longrightarrow> R a b r) \<Longrightarrow> reports m R"
  unfolding reports_def by (erule emits_mono) blast

lemma reports_return: "Q a [] [] \<Longrightarrow> reports (prog_return a) Q"
  by (simp add: reports_def emits_return)

lemma reports_bind:
  "reports m (\<lambda>a b r. reports (f a) (\<lambda>a' b' r'. Q a' (b @ b') (r @ r'))) \<Longrightarrow> reports (prog_bind m f) Q"
  unfolding reports_def by (rule emits_bind) simp

lemma reports_then:
  "reports m (\<lambda>a b r. reports n (\<lambda>a' b' r'. Q a' (b @ b') (r @ r'))) \<Longrightarrow> reports (prog_then m n) Q"
  unfolding prog_then_def by (rule reports_bind)

lemma reports_ignore: "reports m (\<lambda>a. Q ()) \<Longrightarrow> reports (prog_ignore m) Q"
  unfolding prog_ignore_def prog_map_def
  by (rule reports_bind, erule reports_mono) (simp add: reports_return)

lemma reports_fifo: "Q () [v] [] \<Longrightarrow> reports (usb_in_write_fifo USB_IN_INT_BASE v) Q"
  unfolding reports_def usb_in_write_fifo_def
  by (rule emits_peripheral_write) (simp add: report_bytes_def chip_reads_def)

lemma reports_chip_read:
  assumes "acc = Some (access_new n L)" and "n < 0x10000"
    and "\<And>v. Q v [] [(framer_address FRAMER_BASE (of_nat n), v)]"
  shows "reports (prog_unwrap (access_read (main_device env) acc)) Q"
  unfolding reports_def assms(1) access_read_def main_device_def
  using assms(2,3)
  by (intro emits_unwrap emits_bind emits_of_option [OF refl])
    (auto simp: access_get_typed_def framer_access_read_def report_bytes_def chip_reads_def
      framer_address_window intro!: emits_map emits_read)

lemma reports_forward:
  assumes "acc = Some (access_new n L)" and "n < 0x10000"
    and "\<And>v. Q v [v] [(framer_address FRAMER_BASE (of_nat n), v)]"
  shows "reports (forward_register env acc) Q"
  unfolding forward_register_def
  by (intro reports_bind reports_chip_read [OF assms(1,2)] reports_fifo reports_return)
    (simp add: assms(3))

lemma reports_forward_list:
  assumes "\<And>x. x \<in> set xs \<Longrightarrow> acc x = Some (access_new (n x) L) \<and> n x < 0x10000"
  shows "reports (for_each xs (\<lambda>x. prog_ignore (forward_register env (acc x))))
    (\<lambda>_ b r. length b = length xs \<and> r = zip (map (\<lambda>x. framer_address FRAMER_BASE (of_nat (n x))) xs) b)"
  using assms
proof (induction xs)
  case Nil
  show ?case by (simp add: reports_return)
next
  case (Cons x xs)
  have "acc x = Some (access_new (n x) L)" "n x < 0x10000"
    using Cons.prems by simp_all
  then show ?case
    using Cons
    by (auto intro!: reports_then reports_ignore reports_forward elim!: reports_mono)
qed

lemma reports_for_each:
  assumes "\<And>x. x \<in> set xs \<Longrightarrow> reports (f x) (\<lambda>_ b r. \<exists>y. P x y \<and> b = enc y \<and> r = rd x y)"
  shows "reports (for_each xs f)
    (\<lambda>_ b r. \<exists>ys. list_all2 P xs ys \<and> b = concat (map enc ys) \<and> r = concat (map2 rd xs ys))"
  using assms
proof (induction xs)
  case Nil
  show ?case by (simp add: reports_return)
next
  case (Cons x xs)
  have "reports (f x) (\<lambda>_ b r. \<exists>y. P x y \<and> b = enc y \<and> r = rd x y)"
    using Cons.prems by simp
  moreover have "reports (for_each xs f)
      (\<lambda>_ b r. \<exists>ys. list_all2 P xs ys \<and> b = concat (map enc ys) \<and> r = concat (map2 rd xs ys))"
    using Cons by simp
  ultimately have "reports (f x) (\<lambda>_ b r. reports (for_each xs f) (\<lambda>_ b' r'.
      \<exists>ys. list_all2 P (x # xs) ys \<and> b @ b' = concat (map enc ys) \<and> r @ r' = concat (map2 rd (x # xs) ys)))"
    by (elim reports_mono) (clarsimp, rule_tac x = "y # ys" in exI, simp)
  then show ?case by (simp add: reports_then)
qed

section \<open>The blocks\<close>

definition lbcode_reads :: "nat \<Rightarrow> loopback_code_status \<Rightarrow> (u32 \<times> u8) list" where
  "lbcode_reads c x = zip (map (chip_address c) RLCISR_MAP) (rlcisrs x)"

definition controller_reads :: "nat \<Rightarrow> nat \<Rightarrow> hdlc_controller_status \<Rightarrow> (u32 \<times> u8) list" where
  "controller_reads c i h =
     [(chip_address c (DLSR_MAP ! i), hc_dlsr h), (chip_address c (RDLBCR_MAP ! i), hc_rdlbcr h)]
     @ map (Pair (chip_address c (if reg_field RDLBCR ''RBUFPTR'' (hc_rdlbcr h) = 0 then 0x600 else 0x700)))
         (hc_data h)
     @ [(chip_address c (SS7SR_MAP ! i), hc_ss7sr h)]"

definition hdlc_reads :: "nat \<Rightarrow> hdlc_status \<Rightarrow> (u32 \<times> u8) list" where
  "hdlc_reads c h = concat (map2 (controller_reads c) [0, 1, 2] (hdlc_controller h))"

definition alarm_reads :: "nat \<Rightarrow> alarm_status \<Rightarrow> (u32 \<times> u8) list" where
  "alarm_reads c x = [(chip_address c 0xb02, al_aeisr x), (chip_address c 0xb0e, al_exzsr x),
     (chip_address c 0xb40, al_ciasr x)]"

text \<open>
  A signaling register is read as a byte and reported as its low four bits; \<open>raw\<close> are the bytes.
\<close>

definition t1frame_reads :: "nat \<Rightarrow> u8 list \<Rightarrow> t1frame_status \<Rightarrow> (u32 \<times> u8) list" where
  "t1frame_reads c raw s = (chip_address c 0xb04, t1_fisr s) #
     (case t1_sig s of None \<Rightarrow> []
      | Some sig \<Rightarrow> zip (map (\<lambda>t. chip_address c (0x500 + t)) [0..<24]) raw)"

definition raw_signaling :: "u8 list \<Rightarrow> t1frame_status \<Rightarrow> bool" where
  "raw_signaling raw s \<longleftrightarrow> (\<forall>sig. t1_sig s = Some sig \<longrightarrow>
     length raw = 24 \<and> rsars sig = map (\<lambda>v. v AND 0xf) raw)"

lemma channel_accessors_at:
  assumes "c < 8"
  shows "i < 8 \<Longrightarrow> ch_rlcisr_x c i = Some (access_new (0x1000 * c + RLCISR_MAP ! i) RLCISRx)
      \<and> 0x1000 * c + RLCISR_MAP ! i < 0x10000"
    and "i < 3 \<Longrightarrow> ch_dlsr c i = Some (access_new (0x1000 * c + DLSR_MAP ! i) DLSRx)
      \<and> 0x1000 * c + DLSR_MAP ! i < 0x10000"
    and "i < 3 \<Longrightarrow> ch_rdlbcr c i = Some (access_new (0x1000 * c + RDLBCR_MAP ! i) RDLBCR)
      \<and> 0x1000 * c + RDLBCR_MAP ! i < 0x10000"
    and "i < 3 \<Longrightarrow> ch_ss7sr c i = Some (access_new (0x1000 * c + SS7SR_MAP ! i) SS7SRx)
      \<and> 0x1000 * c + SS7SR_MAP ! i < 0x10000"
proof -
  have "list_all (\<lambda>off. off < 0x1000) RLCISR_MAP" "list_all (\<lambda>off. off < 0x1000) DLSR_MAP"
      "list_all (\<lambda>off. off < 0x1000) RDLBCR_MAP" "list_all (\<lambda>off. off < 0x1000) SS7SR_MAP"
    by (simp_all add: RLCISR_MAP_def DLSR_MAP_def RDLBCR_MAP_def SS7SR_MAP_def)
  moreover have len: "length RLCISR_MAP = 8" "length DLSR_MAP = 3" "length RDLBCR_MAP = 3"
      "length SS7SR_MAP = 3"
    by (simp_all add: RLCISR_MAP_def DLSR_MAP_def RDLBCR_MAP_def SS7SR_MAP_def)
  ultimately have "i < 8 \<Longrightarrow> RLCISR_MAP ! i < 0x1000" "i < 3 \<Longrightarrow> DLSR_MAP ! i < 0x1000"
      "i < 3 \<Longrightarrow> RDLBCR_MAP ! i < 0x1000" "i < 3 \<Longrightarrow> SS7SR_MAP ! i < 0x1000"
    by (simp_all add: list_all_length)
  with assms len show "i < 8 \<Longrightarrow> ch_rlcisr_x c i = Some (access_new (0x1000 * c + RLCISR_MAP ! i) RLCISRx)
      \<and> 0x1000 * c + RLCISR_MAP ! i < 0x10000"
    and "i < 3 \<Longrightarrow> ch_dlsr c i = Some (access_new (0x1000 * c + DLSR_MAP ! i) DLSRx)
      \<and> 0x1000 * c + DLSR_MAP ! i < 0x10000"
    and "i < 3 \<Longrightarrow> ch_rdlbcr c i = Some (access_new (0x1000 * c + RDLBCR_MAP ! i) RDLBCR)
      \<and> 0x1000 * c + RDLBCR_MAP ! i < 0x10000"
    and "i < 3 \<Longrightarrow> ch_ss7sr c i = Some (access_new (0x1000 * c + SS7SR_MAP ! i) SS7SRx)
      \<and> 0x1000 * c + SS7SR_MAP ! i < 0x10000"
    by (simp_all add: ch_rlcisr_x_def ch_dlsr_def ch_rdlbcr_def ch_ss7sr_def access_framer_eq)
qed

lemma reports_lbcode:
  assumes "c < 8"
  shows "reports (report_lbcode env c)
    (\<lambda>_ b r. \<exists>x :: loopback_code_status. length (rlcisrs x) = 8 \<and> b = rlcisrs x \<and> r = lbcode_reads c x)"
proof -
  have maps: "map (\<lambda>i. framer_address FRAMER_BASE (of_nat (0x1000 * c + RLCISR_MAP ! i))) [0..<8]
      = map (chip_address c) RLCISR_MAP"
    by (simp add: RLCISR_MAP_def chip_address_def upt_rec)
  have "reports (report_lbcode env c) (\<lambda>_ b r. length b = length [0..<8]
      \<and> r = zip (map (\<lambda>i. framer_address FRAMER_BASE (of_nat (0x1000 * c + RLCISR_MAP ! i))) [0..<8]) b)"
    unfolding report_lbcode_def
    by (rule reports_forward_list [where n = "\<lambda>i. 0x1000 * c + RLCISR_MAP ! i" and L = RLCISRx])
      (use channel_accessors_at(1) [OF assms] in \<open>simp del: upt_Suc\<close>)
  then show ?thesis
    unfolding maps
    by (elim reports_mono) (auto simp: lbcode_reads_def intro!: exI [of _ "\<lparr>rlcisrs = b\<rparr>" for b])
qed

lemma reports_controller:
  assumes "c < 8" and "i < 3"
  shows "reports (report_hdlc_controller env c i)
    (\<lambda>_ b r. \<exists>h. controller_ok h \<and> b = encode_controller h \<and> r = controller_reads c i h)"
proof -
  note acc = channel_accessors_at(2-4) [OF assms]
  let ?buf = "\<lambda>b :: u8. if reg_field RDLBCR ''RBUFPTR'' b = 0 then 0x600 else 0x700 :: nat"
  have buf: "(if reg_field RDLBCR ''RBUFPTR'' v = 0 then prog_return (ch_lapdbcr0 c 0)
      else if reg_field RDLBCR ''RBUFPTR'' v = 1 then prog_return (ch_lapdbcr1 c 0) else prog_panic)
      = prog_return (Some (access_new (0x1000 * c + ?buf v) u8_register))" for v
  proof -
    have "reg_field RDLBCR ''RBUFPTR'' v = take_bit 1 (drop_bit 7 v)"
      by (simp add: reg_field_def reg_get_def RDLBCR_def bits_get_def)
    moreover have "take_bit 1 (drop_bit 7 v) = 0 \<or> take_bit 1 (drop_bit 7 v) = 1"
      by (simp add: mod_2_eq_odd)
    ultimately show ?thesis
      using assms(1) by (auto simp: ch_lapdbcr0_def ch_lapdbcr1_def access_framer_eq)
  qed
  have data: "reports (for_each [0..<unat (reg_field RDLBCR ''RDLBC'' v)]
      (\<lambda>_. prog_ignore (forward_register env (Some (access_new (0x1000 * c + ?buf v) u8_register)))))
    (\<lambda>_ b r. length b = unat (reg_field RDLBCR ''RDLBC'' v)
      \<and> r = map (Pair (chip_address c (?buf v))) b)" for v
  proof -
    have zip: "zip (map (\<lambda>x. a) [0..<n]) b = map (Pair a) b" if "length b = n" for a :: u32 and b :: "u8 list" and n
      using that by (simp add: map_replicate_const zip_replicate1)
    show ?thesis
      by (rule reports_mono [OF reports_forward_list [where n = "\<lambda>_. 0x1000 * c + ?buf v" and L = u8_register]])
        (use assms(1) in \<open>auto simp: zip chip_address_def simp del: upt_Suc\<close>)
  qed
  show ?thesis
    unfolding report_hdlc_controller_def buf prog_bind_return
    apply (rule reports_then, rule reports_ignore,
        rule reports_forward [OF conjunct1 [OF acc(1)] conjunct2 [OF acc(1)]])
    apply (rule reports_bind, rule reports_forward [OF conjunct1 [OF acc(2)] conjunct2 [OF acc(2)]])
    apply (rule reports_then, rule reports_mono [OF data], clarify)
    apply (rule reports_ignore, rule reports_forward [OF conjunct1 [OF acc(3)] conjunct2 [OF acc(3)]])
    subgoal for dlsr rdlbcr _ data _ ss7sr
      by (rule exI [of _ "\<lparr>hc_dlsr = dlsr, hc_rdlbcr = rdlbcr, hc_data = data, hc_ss7sr = ss7sr\<rparr>"])
        (simp add: controller_ok_def encode_controller_def controller_reads_def chip_address_def)
    done
qed

lemma reports_hdlc:
  assumes "c < 8"
  shows "reports (report_hdlc env c) (\<lambda>_ b r. \<exists>h. hdlc_ok h \<and> b = encode_hdlc h \<and> r = hdlc_reads c h)"
proof -
  have three: "[0..<3] = [0, 1, 2]" by (simp add: upt_rec)
  have "reports (for_each [0..<3] (report_hdlc_controller env c)) (\<lambda>_ b r. \<exists>hs.
      list_all2 (\<lambda>_ h. controller_ok h) [0..<3] hs \<and> b = concat (map encode_controller hs)
      \<and> r = concat (map2 (controller_reads c) [0..<3] hs))"
    by (rule reports_for_each) (auto intro!: reports_controller assms)
  then show ?thesis
    unfolding report_hdlc_def
  proof (rule reports_mono)
    fix u b r
    assume "\<exists>hs. list_all2 (\<lambda>_ h. controller_ok h) [0..<3] hs \<and> b = concat (map encode_controller hs)
      \<and> r = concat (map2 (controller_reads c) [0..<3] hs)"
    then obtain hs where hs: "list_all2 (\<lambda>_ h. controller_ok h) [0..<3] hs"
      "b = concat (map encode_controller hs)" "r = concat (map2 (controller_reads c) [0..<3] hs)"
      by blast
    have "length hs = 3" "list_all controller_ok hs"
      using hs(1) by (auto simp: three list_all2_Cons1)
    then show "\<exists>h. hdlc_ok h \<and> b = encode_hdlc h \<and> r = hdlc_reads c h"
      using hs(2,3) by (intro exI [of _ "\<lparr>hdlc_controller = hs\<rparr>"])
        (simp add: hdlc_ok_def encode_hdlc_def hdlc_reads_def three)
  qed
qed

lemma reports_slip:
  assumes "c < 8"
  shows "reports (report_slip env c) (\<lambda>_ b r. \<exists>x :: slip_status. True \<and> b = [st_sbisr x] \<and> r = [(chip_address c 0xb08, st_sbisr x)])"
proof -
  have acc: "ch_sbisr c = Some (access_new (0x1000 * c + 0xb08) SBISR)" "0x1000 * c + 0xb08 < 0x10000"
    using assms by (simp_all add: ch_sbisr_def access_framer_eq)
  show ?thesis
    unfolding report_slip_def
    apply (rule reports_ignore, rule reports_forward [OF acc])
    subgoal for v
      by (rule exI [of _ "\<lparr>st_sbisr = v\<rparr>"]) (simp add: chip_address_def)
    done
qed

lemma reports_alarm:
  assumes "c < 8"
  shows "reports (report_alarm env c) (\<lambda>_ b r. \<exists>x :: alarm_status. True \<and> b = [al_aeisr x, al_exzsr x, al_ciasr x] \<and> r = alarm_reads c x)"
proof -
  have acc: "ch_aeisr c = Some (access_new (0x1000 * c + 0xb02) AEISR)"
    "ch_exzsr c = Some (access_new (0x1000 * c + 0xb0e) EXZSR)"
    "ch_ciasr c = Some (access_new (0x1000 * c + 0xb40) CIASR)"
    using assms by (simp_all add: ch_aeisr_def ch_exzsr_def ch_ciasr_def access_framer_eq)
  have lt: "0x1000 * c + 0xb02 < 0x10000" "0x1000 * c + 0xb0e < 0x10000" "0x1000 * c + 0xb40 < 0x10000"
    using assms by simp_all
  show ?thesis
    unfolding report_alarm_def seq_all.simps
    apply (rule reports_then, rule reports_ignore, rule reports_forward [OF acc(1) lt(1)])
    apply (rule reports_then, rule reports_ignore, rule reports_forward [OF acc(2) lt(2)])
    apply (rule reports_then, rule reports_ignore, rule reports_forward [OF acc(3) lt(3)])
    apply (rule reports_return)
    subgoal for a e i
      by (rule exI [of _ "\<lparr>al_aeisr = a, al_exzsr = e, al_ciasr = i\<rparr>"])
        (simp add: alarm_reads_def chip_address_def)
    done
qed

lemma nibble_mask: "push_bit 4 (v :: u8) AND 240 = push_bit 4 v"
proof -
  have m: "(240 :: u8) = push_bit 4 (mask 4)" by (simp add: mask_eq_exp_minus_1)
  show ?thesis
    unfolding m by (rule bit_word_eqI) (auto simp: bit_simps)
qed

lemma pack_nibbles_masked: "pack_nibbles (map (\<lambda>v. v AND 0xf) vs) = pack_nibbles vs"
  by (induction vs rule: pack_nibbles.induct) (simp_all add: nibble_mask and.assoc)

definition pair_bytes :: "(u8 \<times> u8) list \<Rightarrow> u8 list" where
  "pair_bytes ys = concat (map (\<lambda>(e, d). [e, d]) ys)"

lemma pair_bytes_simps [simp]:
  "pair_bytes [] = []" "pair_bytes ((e, d) # ys) = e # d # pair_bytes ys"
  by (simp_all add: pair_bytes_def)

lemma length_pair_bytes: "length (pair_bytes ys) = 2 * length ys"
  by (induction ys) auto

lemma pack_pair_bytes:
  "concat (map (\<lambda>(e, d). [push_bit 4 e OR (d AND 0xf)]) ys) = pack_nibbles (pair_bytes ys)"
  by (induction ys) auto

lemma reads_pair_bytes:
  "concat (map2 (\<lambda>i (e, d). [(A (2 * i), e), (A (2 * i + 1), d)]) [k..<k + length ys] ys)
    = zip (map A [2 * k..<2 * (k + length ys)]) (pair_bytes ys)"
proof (induction ys arbitrary: k)
  case (Cons y ys)
  have "[2 * k..<2 * (k + length (y # ys))] = 2 * k # Suc (2 * k) # [2 * Suc k..<2 * (Suc k + length ys)]"
    by (simp add: upt_conv_Cons del: upt_Suc)
  moreover have "[k..<k + length (y # ys)] = k # [Suc k..<Suc k + length ys]"
    by (simp add: upt_conv_Cons del: upt_Suc)
  ultimately show ?case
    using Cons.IH [of "Suc k"] by (cases y) (simp only: list.map zip_Cons_Cons concat.simps
        append_Cons append_Nil pair_bytes_simps prod.case Suc_eq_plus1 [symmetric])
qed simp

lemma reports_signaling:
  assumes "c < 8"
  shows "reports (report_signaling env c) (\<lambda>_ b r. \<exists>raw. length raw = 24 \<and> b = pack_nibbles raw
    \<and> r = zip (map (\<lambda>t. chip_address c (0x500 + t)) [0..<24]) raw)"
proof -
  let ?A = "\<lambda>t. chip_address c (0x500 + t)"
  have acc: "ch_rsar c t = Some (access_new (0x1000 * c + (0x500 + t)) RSAR)"
      "0x1000 * c + (0x500 + t) < 0x10000" if "t < 24" for t
    using assms that by (simp_all add: ch_rsar_def access_framer_eq)
  have "reports (report_signaling env c) (\<lambda>_ b r. \<exists>ys. list_all2 (\<lambda>_ _. True) [0..<12] ys
      \<and> b = concat (map (\<lambda>(e, d). [push_bit 4 e OR (d AND 0xf)]) ys)
      \<and> r = concat (map2 (\<lambda>i (e, d). [(?A (2 * i), e), (?A (2 * i + 1), d)]) [0..<12] ys))"
    unfolding report_signaling_def
  proof (rule reports_for_each)
    fix i assume "i \<in> set [0..<12 :: nat]"
    then have i: "i < 12" by (simp only: set_upt atLeastLessThan_iff)
    then have t: "2 * i + 0 < 24" "2 * i + 1 < 24" by simp_all
    show "reports (prog_bind (prog_unwrap (access_read (main_device env) (ch_rsar c (2 * i + 0)))) (\<lambda>even.
        prog_bind (prog_unwrap (access_read (main_device env) (ch_rsar c (2 * i + 1)))) (\<lambda>odd.
        usb_in_write_fifo USB_IN_INT_BASE (push_bit 4 even OR (odd AND 0xf)))))
      (\<lambda>_ b r. \<exists>y. True \<and> b = (case y of (e, d) \<Rightarrow> [push_bit 4 e OR (d AND 0xf)])
        \<and> r = (case y of (e, d) \<Rightarrow> [(?A (2 * i), e), (?A (2 * i + 1), d)]))"
      apply (rule reports_bind, rule reports_chip_read [OF acc [OF t(1)]])
      apply (rule reports_bind, rule reports_chip_read [OF acc [OF t(2)]])
      apply (rule reports_fifo)
      subgoal for e d
        by (rule exI [of _ "(e, d)"]) (simp add: chip_address_def)
      done
  qed
  then show ?thesis
  proof (rule reports_mono)
    fix u :: unit and b :: "u8 list" and r
    assume "\<exists>ys. list_all2 (\<lambda>_ _. True) [0..<12 :: nat] ys
      \<and> b = concat (map (\<lambda>(e, d). [push_bit 4 e OR (d AND 0xf)]) ys)
      \<and> r = concat (map2 (\<lambda>i (e, d). [(?A (2 * i), e), (?A (2 * i + 1), d)]) [0..<12] ys)"
    then obtain ys where ys: "length ys = 12" "b = pack_nibbles (pair_bytes ys)"
        "r = concat (map2 (\<lambda>i (e, d). [(?A (2 * i), e), (?A (2 * i + 1), d)]) [0..<0 + length ys] ys)"
      by (auto simp: pack_pair_bytes dest: list_all2_lengthD simp del: upt_Suc)
    have "r = zip (map ?A [2 * 0..<2 * (0 + length ys)]) (pair_bytes ys)"
      unfolding ys(3) by (rule reads_pair_bytes)
    then have "r = zip (map ?A [0..<24]) (pair_bytes ys)"
      by (simp add: ys(1) del: upt_Suc)
    then show "\<exists>raw. length raw = 24 \<and> b = pack_nibbles raw \<and> r = zip (map ?A [0..<24]) raw"
      using ys(1,2) by (intro exI [of _ "pair_bytes ys"]) (simp add: length_pair_bytes)
  qed
qed

lemma reports_t1frame:
  assumes "c < 8"
  shows "reports (report_t1frame env c) (\<lambda>_ b r. \<exists>s raw. t1frame_ok s \<and> raw_signaling raw s
    \<and> b = encode_t1frame s \<and> r = t1frame_reads c raw s)"
proof -
  have acc: "ch_fisr c = Some (access_new (0x1000 * c + 0xb04) FISR)" "0x1000 * c + 0xb04 < 0x10000"
    using assms by (simp_all add: ch_fisr_def access_framer_eq)
  have lt: "v AND 0xf < (16 :: u8)" for v :: u8
    by (rule order.strict_trans1 [OF word_and_le1]) simp
  show ?thesis
    unfolding report_t1frame_def
    apply (rule reports_bind, rule reports_forward [OF acc])
    subgoal for fisr
    proof (cases "reg_field FISR ''SIG'' fisr = 0")
      case True
      then show ?thesis
        by (auto simp: t1frame_ok_def raw_signaling_def encode_t1frame_def encode_option_def
            t1frame_reads_def chip_address_def
            intro!: reports_return exI [of _ "\<lparr>t1_fisr = fisr, t1_sig = None\<rparr>"])
    next
      case False
      show ?thesis
        apply (simp only: False simp_thms if_True not_False_eq_True)
        apply (rule reports_mono [OF reports_signaling [OF assms]])
        apply clarify
        subgoal for _ _ _ raw
          using False lt
          by (intro exI [of _ "\<lparr>t1_fisr = fisr, t1_sig = Some \<lparr>rsars = map (\<lambda>v. v AND 0xf) raw\<rparr>\<rparr>"]
              exI [of _ raw])
            (simp add: t1frame_ok_def raw_signaling_def encode_t1frame_def encode_option_def
              t1frame_reads_def chip_address_def pack_nibbles_masked list_all_iff)
        done
    qed
    done
qed

section \<open>Whole reports\<close>

definition block_reads :: "('a \<Rightarrow> (u32 \<times> u8) list) \<Rightarrow> 'a option \<Rightarrow> (u32 \<times> u8) list" where
  "block_reads f x = (case x of None \<Rightarrow> [] | Some a \<Rightarrow> f a)"

text \<open>The reads a report stands for: register and value, block by block.\<close>

definition status_reads :: "nat \<Rightarrow> u8 list \<Rightarrow> framer_interrupt_status \<Rightarrow> (u32 \<times> u8) list" where
  "status_reads c raw s =
     block_reads (lbcode_reads c) (fis_lbcode s)
     @ block_reads (hdlc_reads c) (fis_hdlc s)
     @ block_reads (\<lambda>x. [(chip_address c 0xb08, st_sbisr x)]) (fis_slip s)
     @ block_reads (alarm_reads c) (fis_alarm s)
     @ block_reads (t1frame_reads c raw) (fis_t1frame s)"

lemma reports_when:
  assumes "reports m (\<lambda>_ b r. \<exists>x. ok x \<and> b = enc x \<and> r = rd x)"
  shows "reports (report_when p m)
    (\<lambda>_ b r. \<exists>x. block_ok p ok x \<and> b = encode_option enc x \<and> r = block_reads rd x)"
proof (cases p)
  case True
  show ?thesis
    unfolding report_when_def if_P [OF True]
    apply (rule reports_mono [OF assms], clarify)
    subgoal for _ _ _ x
      by (rule exI [of _ "Some x"]) (simp add: True block_ok_def encode_option_def block_reads_def)
    done
next
  case False
  then show ?thesis
    by (auto simp: report_when_def block_ok_def encode_option_def block_reads_def
        intro!: reports_return exI [of _ None])
qed

lemma reports_when_t1frame:
  assumes "c < 8"
  shows "reports (report_when p (report_t1frame env c)) (\<lambda>_ b r. \<exists>x raw. block_ok p t1frame_ok x
    \<and> (\<forall>s. x = Some s \<longrightarrow> raw_signaling raw s)
    \<and> b = encode_option encode_t1frame x \<and> r = block_reads (t1frame_reads c raw) x)"
proof (cases p)
  case True
  show ?thesis
    unfolding report_when_def if_P [OF True]
    apply (rule reports_mono [OF reports_t1frame [OF assms]], clarify)
    subgoal for _ _ _ s raw
      by (rule exI [of _ "Some s"], rule exI [of _ raw])
        (simp add: True block_ok_def encode_option_def block_reads_def)
    done
next
  case False
  then show ?thesis
    by (auto simp: report_when_def block_ok_def encode_option_def block_reads_def
        intro!: reports_return exI [of _ None])
qed

lemma reports_interrupt:
  assumes "c < 8"
  shows "reports (report_interrupt env c bisr) (\<lambda>_ b r. \<exists>s raw. status_ok s \<and> fis_channel_index s = c
    \<and> fis_bisr s = bisr \<and> (\<forall>t. fis_t1frame s = Some t \<longrightarrow> raw_signaling raw t)
    \<and> b = encode_status s \<and> r = status_reads c raw s)"
  unfolding report_interrupt_def seq_all.simps
  apply (rule reports_then, rule reports_fifo)
  apply (rule reports_then, rule reports_fifo)
  apply (rule reports_then, rule reports_mono [OF reports_when [OF reports_lbcode [OF assms]]], clarify)
  apply (rule reports_then, rule reports_mono [OF reports_when [OF reports_hdlc [OF assms]]], clarify)
  apply (rule reports_then, rule reports_mono [OF reports_when [where enc = "\<lambda>x. [st_sbisr x]"
        and rd = "\<lambda>x. [(chip_address c 0xb08, st_sbisr x)]", OF reports_slip [OF assms]]], clarify)
  apply (rule reports_then, rule reports_mono [OF reports_when [where enc = "\<lambda>x. [al_aeisr x, al_exzsr x, al_ciasr x]"
        and rd = "alarm_reads c", OF reports_alarm [OF assms]]], clarify)
  apply (rule reports_then, rule reports_mono [OF reports_when_t1frame [OF assms]], clarify)
  apply (rule reports_return)
  subgoal for _ _ _ lbcode _ _ _ hdlc _ _ _ slip _ _ _ alarm _ _ _ t1frame raw
    using assms
    by (intro exI [of _ "\<lparr>fis_channel_index = c, fis_bisr = bisr, fis_lbcode = lbcode, fis_hdlc = hdlc,
          fis_slip = slip, fis_alarm = alarm, fis_t1frame = t1frame\<rparr>"] exI [of _ raw])
      (simp add: status_ok_def encode_status_def status_reads_def)
  done

section \<open>Delivery\<close>

lemma resync_bisr: "reg_chain BISR RESYNC_FIELDS 0 = Some 0x4f"
  by code_simp

text \<open>\<open>service_interrupt\<close> up to the question whether the FIFO is empty.\<close>

definition fill_report :: "environment \<Rightarrow> bool \<Rightarrow> nat \<Rightarrow> (bus_trace, soc_error, u8) prog" where
  "fill_report env resync c =
     prog_bind (channel_bisr env resync c) (\<lambda>bisr.
       prog_then (report_when (bisr AND 0b01101111 \<noteq> 0) (report_interrupt env c bisr)) (prog_return bisr))"

definition bisr_reads :: "bool \<Rightarrow> nat \<Rightarrow> u8 \<Rightarrow> (u32 \<times> u8) list" where
  "bisr_reads resync c bisr = (if resync then [] else [(chip_address c 0xb00, bisr)])"

definition delivered :: "bool \<Rightarrow> nat \<Rightarrow> u8 \<Rightarrow> u8 list \<Rightarrow> (u32 \<times> u8) list \<Rightarrow> bool" where
  "delivered resync c bisr b r \<longleftrightarrow> (resync \<longrightarrow> bisr = 0x4f) \<and>
     (if bisr AND 0x6f = 0 then b = [] \<and> r = bisr_reads resync c bisr
      else \<exists>s raw. status_ok s \<and> b = encode_status s \<and> from_slice b = Some s \<and> fis_channel_index s = c \<and> fis_bisr s = bisr
        \<and> (\<forall>f. fis_t1frame s = Some f \<longrightarrow> raw_signaling raw f)
        \<and> r = bisr_reads resync c bisr @ status_reads c raw s)"

lemma reports_bisr:
  assumes "c < 8"
  shows "reports (channel_bisr env resync c)
    (\<lambda>bisr b r. (resync \<longrightarrow> bisr = 0x4f) \<and> b = [] \<and> r = bisr_reads resync c bisr)"
proof (cases resync)
  case True
  then show ?thesis
    by (simp add: channel_bisr_def resync_bisr bisr_reads_def reports_return)
next
  case False
  have "ch_bisr c = Some (access_new (0x1000 * c + 0xb00) BISR)" "0x1000 * c + 0xb00 < 0x10000"
    using assms by (simp_all add: ch_bisr_def access_framer_eq)
  then show ?thesis
    using False by (auto simp: channel_bisr_def bisr_reads_def chip_address_def intro!: reports_chip_read)
qed

lemma reports_fill:
  assumes "c < 8"
  shows "reports (fill_report env resync c) (delivered resync c)"
  unfolding fill_report_def
proof (rule reports_bind, rule reports_mono [OF reports_bisr [OF assms]], clarify)
  fix bisr :: u8
  assume resync: "resync \<longrightarrow> bisr = 0x4f"
  show "reports (prog_then (report_when (bisr AND 0b01101111 \<noteq> 0) (report_interrupt env c bisr))
      (prog_return bisr)) (\<lambda>a' b' r'. delivered resync c a' ([] @ b') (bisr_reads resync c bisr @ r'))"
  proof (cases "bisr AND 0x6f = 0")
    case True
    then show ?thesis
      using resync by (simp add: report_when_def delivered_def reports_return)
  next
    case False
    have "reports (report_interrupt env c bisr) (\<lambda>_ b r. delivered resync c bisr b (bisr_reads resync c bisr @ r))"
      using reports_interrupt [OF assms, of env bisr]
      by (rule reports_mono) (use False resync in \<open>auto simp: delivered_def parse_encode_status, blast+\<close>)
    then show ?thesis
      using False by (auto simp: report_when_def intro!: reports_then reports_return elim: reports_mono)
  qed
qed

lemma length_encode_status: "0 < length (encode_status s)"
  by (simp add: encode_status_def)

text \<open>
  What the host makes of a message of the firmware: the transfer of \<open>INTERRUPT_BYTES_MAX\<close> bytes
  completes with the message, the callback puts it into an event, and the tool parses the bytes
  of that event.
\<close>

definition host_reads :: "nat \<Rightarrow> u8 list \<Rightarrow> framer_interrupt_status \<Rightarrow> bool" where
  "host_reads now b s \<longleftrightarrow> (\<exists>data. interrupt_callback True b now = Some [Interrupt now data (length b)] \<and>
     length b \<le> length data \<and> from_slice (take (length b) data) = Some s)"

lemma host_reads_fitting:
  assumes "from_slice b = Some s" and "0 < length b" and "length b \<le> INTERRUPT_BYTES_MAX"
  shows "host_reads now b s"
  using assms by (simp add: host_reads_def interrupt_callback_def)

text \<open>
  C1: interrupt delivery, end to end. For every environment, channel and trace the service step
  neither panics nor fails. If an interrupt other than ONESEC is pending (always during a resync)
  the FIFO gets the encoding of a status of this channel: this BISR, and block by block the registers
  the firmware read from the chip, in that order. Otherwise nothing is written. The endpoint is told
  to transmit exactly if it then reports a non-empty FIFO. A message of at most 256 bytes, the size
  of the host's transfer, is turned into one event by the host's callback, and the tool parses
  that event to this very status. The message fits if the three HDLC controllers hold at most 220
  bytes together. Of longer messages (they have up to 417 bytes) nothing is said; they do
  not fit the transfer. If nothing is written the host makes no event of the empty message.
\<close>

theorem interrupt_delivery:
  assumes "c < 8"
  shows "\<exists>d v bisr. service_interrupt env resync c t = (Ok (), t @ d @
      BusRead (peripheral_address USB_IN_INT_BASE 5) v #
      (if v \<noteq> 0 then [BusWrite (peripheral_address USB_IN_INT_BASE 1) 2] else []))
    \<and> delivered resync c bisr (report_bytes d) (chip_reads d)
    \<and> (if bisr AND 0x6f = 0 then interrupt_callback True (report_bytes d) now = Some []
       else \<exists>s. from_slice (report_bytes d) = Some s
         \<and> (hdlc_data_length s \<le> 220 \<longrightarrow> length (report_bytes d) \<le> INTERRUPT_BYTES_MAX)
         \<and> (length (report_bytes d) \<le> INTERRUPT_BYTES_MAX \<longrightarrow> host_reads now (report_bytes d) s))"
proof -
  have split: "service_interrupt env resync c = prog_then (fill_report env resync c)
      (prog_when (prog_map Not (usb_in_is_fifo_empty env USB_IN_INT_BASE))
        (usb_in_transmit USB_IN_INT_BASE (EndpointNumber_u8 EndpointNumber_Interrupt)))"
    by (simp add: service_interrupt_def fill_report_def prog_then_def)
  obtain bisr d where fill: "fill_report env resync c t = (Ok bisr, t @ d)"
    and ok: "delivered resync c bisr (report_bytes d) (chip_reads d)"
    using reports_fill [OF assms, of env resync] unfolding reports_def by (rule emitsE)
  let ?a = "peripheral_address USB_IN_INT_BASE 5"
  let ?v = "env (t @ d) ?a"
  have "service_interrupt env resync c t = (Ok (), t @ d @ BusRead ?a ?v #
      (if ?v \<noteq> 0 then [BusWrite (peripheral_address USB_IN_INT_BASE 1) 2] else []))"
    by (simp add: split prog_then_eval [where m = "fill_report env resync c" and s = t, OF fill] prog_when_def
        prog_map_def usb_in_is_fifo_empty_def peripheral_read_def bus_read_def usb_in_transmit_def
        peripheral_write_def bus_write_def prog_return_def prog_bind_def)
  moreover have "if bisr AND 0x6f = 0 then interrupt_callback True (report_bytes d) now = Some []
       else \<exists>s. from_slice (report_bytes d) = Some s
         \<and> (hdlc_data_length s \<le> 220 \<longrightarrow> length (report_bytes d) \<le> INTERRUPT_BYTES_MAX)
         \<and> (length (report_bytes d) \<le> INTERRUPT_BYTES_MAX \<longrightarrow> host_reads now (report_bytes d) s)"
  proof (cases "bisr AND 0x6f = 0")
    case True
    with ok show ?thesis by (simp add: delivered_def interrupt_callback_def)
  next
    case False
    with ok obtain s where s: "status_ok s" "report_bytes d = encode_status s" "from_slice (report_bytes d) = Some s"
      by (auto simp: delivered_def)
    with False status_length [OF s(1)] host_reads_fitting [OF s(3)] length_encode_status [of s] show ?thesis
      by auto
  qed
  ultimately show ?thesis
    using ok by blast
qed

text \<open>A chip whose first register read gives 0x04, SLIP in a BISR, and all others 0.\<close>

definition slip_environment :: environment where
  "slip_environment t a = (if t = [] then 0x04 else 0)"

lemma chip_read_eval:
  "acc = Some (access_new n L) \<Longrightarrow> n < 0x10000 \<Longrightarrow>
    prog_unwrap (access_read (main_device env) acc) t =
      (Ok (ucast (env t (framer_address FRAMER_BASE (of_nat n)))),
       t @ [BusRead (framer_address FRAMER_BASE (of_nat n)) (env t (framer_address FRAMER_BASE (of_nat n)))])"
  by (simp add: prog_unwrap_def access_read_def main_device_def access_get_typed_def soc_device_def
      framer_access_read_def prog_map_def bus_read_def prog_bind_def prog_return_def prog_of_option_def)

lemma slip_report:
  "\<exists>t. service_interrupt slip_environment False 2 [] = (Ok (), t) \<and> report_bytes t = [2, 4, 0]"
proof -
  have acc: "ch_bisr 2 = Some (access_new 0x2b00 BISR)" "ch_sbisr 2 = Some (access_new 0x2b08 SBISR)"
    by (simp_all add: ch_bisr_def ch_sbisr_def access_framer_eq)
  have f: "reg_field BISR ''LBCODE'' 4 = 0" "reg_field BISR ''HDLC'' 4 = 0" "reg_field BISR ''SLIP'' 4 \<noteq> 0"
    "reg_field BISR ''ALARM'' 4 = 0" "reg_field BISR ''T1FRAME'' 4 = 0"
    by code_simp+
  show ?thesis
    by (simp add: service_interrupt_def channel_bisr_def prog_bind_def prog_then_def chip_read_eval [OF acc(1)] 
      slip_environment_def report_when_def report_interrupt_def f report_slip_def forward_register_def
      chip_read_eval [OF acc(2)] prog_ignore_def prog_map_def prog_return_def usb_in_write_fifo_def peripheral_write_def
      bus_write_def prog_when_def usb_in_is_fifo_empty_def peripheral_read_def bus_read_def report_bytes_def
      usb_in_transmit_def)
qed

text \<open>The SLIP interrupt of channel 2 on that chip: the host reads its report.\<close>

theorem interrupt_delivery_witness:
  "\<exists>t s. service_interrupt slip_environment False 2 [] = (Ok (), t) \<and> host_reads 7 (report_bytes t) s \<and>
    fis_channel_index s = 2 \<and> fis_bisr s = 0x04"
proof -
  obtain d v bisr where run: "service_interrupt slip_environment False 2 [] = (Ok (), [] @ d @
      BusRead (peripheral_address USB_IN_INT_BASE 5) v #
      (if v \<noteq> 0 then [BusWrite (peripheral_address USB_IN_INT_BASE 1) 2] else []))"
    and ok: "delivered False 2 bisr (report_bytes d) (chip_reads d)"
    and host: "if bisr AND 0x6f = 0 then interrupt_callback True (report_bytes d) 7 = Some []
       else \<exists>s. from_slice (report_bytes d) = Some s
         \<and> (hdlc_data_length s \<le> 220 \<longrightarrow> length (report_bytes d) \<le> INTERRUPT_BYTES_MAX)
         \<and> (length (report_bytes d) \<le> INTERRUPT_BYTES_MAX \<longrightarrow> host_reads 7 (report_bytes d) s)"
    using interrupt_delivery [of 2 slip_environment False "[]" 7] by auto
  obtain t where t: "service_interrupt slip_environment False 2 [] = (Ok (), t)" "report_bytes t = [2, 4, 0]"
    using slip_report by blast
  then have "report_bytes (d @ BusRead (peripheral_address USB_IN_INT_BASE 5) v #
      (if v \<noteq> 0 then [BusWrite (peripheral_address USB_IN_INT_BASE 1) 2] else [])) = [2, 4, 0]"
    using run by simp
  then have bytes: "report_bytes d = [2, 4, 0]"
    by (cases "v = 0") (simp_all add: report_bytes_def peripheral_address_def USB_IN_INT_BASE_def)
  with ok have "bisr AND 0x6f \<noteq> 0"
    by (auto simp: delivered_def split: if_splits)
  moreover from this ok obtain s where s: "from_slice (report_bytes d) = Some s" "fis_channel_index s = 2"
    "report_bytes d = encode_status s"
    by (auto simp: delivered_def split: if_splits)
  moreover have "length (report_bytes d) \<le> INTERRUPT_BYTES_MAX"
    by (simp add: bytes INTERRUPT_BYTES_MAX_def)
  ultimately have "host_reads 7 (report_bytes d) s"
    using host by auto
  moreover have "fis_bisr s = 0x04"
    using s(3) by (simp add: bytes encode_status_def)
  ultimately show ?thesis
    using t(1) s(2) by (intro exI [of _ t] exI [of _ s]) (simp add: t(2) bytes)
qed

end
