(* ===== verification/Tone.thy ===== *)
theory Tone
  imports Dtmf
begin

text \<open>
  The tone generator of \<^verbatim>\<open>tedium-tool/src/generator\<close>: two phase accumulators and the trait functions
  \<open>output\<close> and \<open>advance\<close>. The sine is a parameter (\<open>maths\<close> of theory \<open>Dtmf\<close>).
\<close>

record dual_tone_generator =
  dt_phase_0 :: f32
  dt_phase_advance_0 :: f32
  dt_phase_1 :: f32
  dt_phase_advance_1 :: f32
  dt_amplitude :: f32
  dt_output :: f32

definition dual_tone_new :: "f32 \<Rightarrow> f32 \<Rightarrow> dual_tone_generator" where
  "dual_tone_new freq_1_hz freq_2_hz =
     \<lparr>dt_phase_0 = f32_of_rat 0,
      dt_phase_advance_0 = f32_div (f32_mul TAU freq_1_hz) (f32_of_rat 8000),
      dt_phase_1 = f32_of_rat 0,
      dt_phase_advance_1 = f32_div (f32_mul TAU freq_2_hz) (f32_of_rat 8000),
      dt_amplitude = f32_of_rat (1 / 10), dt_output = f32_of_rat 0\<rparr>"

definition tone_output :: "dual_tone_generator \<Rightarrow> f32" where
  "tone_output self = dt_output self"

definition tone_advance :: "'c maths \<Rightarrow> dual_tone_generator \<Rightarrow> dual_tone_generator" where
  "tone_advance M self = self
     \<lparr>dt_output := f32_mul (f32_mul (f32_add (m_sin M (dt_phase_0 self)) (m_sin M (dt_phase_1 self)))
         (f32_of_rat (1 / 2))) (dt_amplitude self),
      dt_phase_0 := f32_rem (f32_add (dt_phase_0 self) (dt_phase_advance_0 self)) TAU,
      dt_phase_1 := f32_rem (f32_add (dt_phase_1 self) (dt_phase_advance_1 self)) TAU\<rparr>"

section \<open>The phases stay in one period\<close>

definition phase_ok :: "f32 \<Rightarrow> bool" where
  "phase_ok p \<longleftrightarrow> (\<exists>m e. p = F32_fin False m e \<and> f32_ok p \<and> f32_value p < f32_value TAU)"

lemma TAU_eq: "TAU = F32_fin False 13176795 (-21)"
  by code_simp

lemma phase_step:
  assumes "phase_ok p" and "a = F32_fin False m e" and "0 \<le> m" and "f32_value a \<le> 1000000"
  shows "phase_ok (f32_rem (f32_add p a) TAU)"
proof -
  obtain k g where p: "p = F32_fin False k g" "f32_ok p" "f32_value p < f32_value TAU"
    using assms(1) by (auto simp: phase_ok_def)
  have tau: "f32_value TAU < 7"
    by (simp add: TAU_eq power_int_def power_divide)
  let ?q = "f32_value p + f32_value a"
  have "0 \<le> f32_value p" and "0 \<le> f32_value a"
    using p(1,2) assms(2,3) by simp_all
  then have q: "0 \<le> ?q" "?q < 2 powi 127"
    using p(3) tau assms(4) by simp_all
  obtain k' g' where sum: "f32_add p a = F32_fin False k' g'" "f32_ok (F32_fin False k' g')"
  proof (cases "?q = 0")
    case True
    then show thesis
      using that [of 0 "-149"] p(1) assms(2) by (simp add: Let_def)
  next
    case False
    from f32_round_to_finite [OF q, of False] obtain k' g' where
      "f32_round_to False ?q = F32_fin False k' g'" "f32_ok (F32_fin False k' g')"
      by blast
    with False q(1) p(1) assms(2) that show thesis
      by (simp add: Let_def f32_of_rat_def)
  qed
  have "f32_ok (F32_fin False 13176795 (-21))" and "(0 :: int) < 13176795"
    by simp_all
  from f32_rem_bounds [OF sum(2) this] obtain k'' g'' where
    "f32_rem (F32_fin False k' g') TAU = F32_fin False k'' g''" "f32_ok (F32_fin False k'' g'')"
    "(of_int k'' * 2 powi g'' :: rat) < of_int 13176795 * 2 powi (-21)"
    unfolding TAU_eq by metis
  then show ?thesis
    unfolding sum(1) phase_ok_def by (simp add: TAU_eq del: of_int_numeral)
qed

definition tone_ok :: "dual_tone_generator \<Rightarrow> bool" where
  "tone_ok g \<longleftrightarrow> phase_ok (dt_phase_0 g) \<and> phase_ok (dt_phase_1 g) \<and>
     phase_ok (dt_phase_advance_0 g) \<and> phase_ok (dt_phase_advance_1 g)"

lemma tone_advance_ok:
  assumes "tone_ok g"
  shows "tone_ok (tone_advance M g)"
proof -
  have "phase_ok (f32_rem (f32_add p a) TAU)" if "phase_ok p" "phase_ok a" for p a
  proof -
    obtain m e where a: "a = F32_fin False m e" "f32_ok a" "f32_value a < f32_value TAU"
      using \<open>phase_ok a\<close> by (auto simp: phase_ok_def)
    then have "f32_value a \<le> 1000000"
      by (simp add: TAU_eq power_int_def power_divide)
    with a \<open>phase_ok p\<close> show ?thesis
      by (intro phase_step [OF _ a(1)]) auto
  qed
  with assms show ?thesis
    by (simp add: tone_ok_def tone_advance_def)
qed

lemma tone_new_ok:
  "tone_ok (dual_tone_new (f32_of_rat 350) (f32_of_rat 440))"
  "tone_ok (dual_tone_new (f32_of_rat 440) (f32_of_rat 480))"
proof -
  have adv: "f32_div (f32_mul TAU (f32_of_rat 350)) (f32_of_rat 8000) = F32_fin False 9223757 (-25)"
    "f32_div (f32_mul TAU (f32_of_rat 440)) (f32_of_rat 8000) = F32_fin False 11595579 (-25)"
    "f32_div (f32_mul TAU (f32_of_rat 480)) (f32_of_rat 8000) = F32_fin False 12649723 (-25)"
    by code_simp+
  have zero: "f32_of_rat 0 = F32_fin False 0 (-149)"
    by code_simp
  have "phase_ok (F32_fin False 0 (-149))" "phase_ok (F32_fin False 9223757 (-25))"
    "phase_ok (F32_fin False 11595579 (-25))" "phase_ok (F32_fin False 12649723 (-25))"
    by (simp_all add: phase_ok_def TAU_eq power_int_def power_divide)
  then show "tone_ok (dual_tone_new (f32_of_rat 350) (f32_of_rat 440))"
    "tone_ok (dual_tone_new (f32_of_rat 440) (f32_of_rat 480))"
    by (simp_all add: tone_ok_def dual_tone_new_def adv zero)
qed

text \<open>
  C27: the phases of the tone generators stay within one period. After any number of advances of the
  dial tone and of the ringback generator, whatever the sine computes, both phases are finite and in
  \<open>[0, TAU)\<close>: the floating-point remainder is exact, so no error builds up into an overflow.
\<close>

theorem tone_phase_bounded:
  "tone_ok ((tone_advance M ^^ k) (dual_tone_new (f32_of_rat 350) (f32_of_rat 440))) \<and>
   tone_ok ((tone_advance M ^^ k) (dual_tone_new (f32_of_rat 440) (f32_of_rat 480)))"
proof -
  have "tone_ok ((tone_advance M ^^ k) g)" if "tone_ok g" for g
    using that by (induction k) (simp_all add: tone_advance_ok)
  with tone_new_ok show ?thesis
    by blast
qed

end
