(* ===== verification/Audio.thy ===== *)
theory Audio
  imports Frames Tone Ulaw_Float
begin

text \<open>
  The audio path of \<^verbatim>\<open>tedium-tool/src/framer/audio.rs\<close>: patching, the audio processor, the packets of
  the isochronous transfers, their statistics, and the loopback handler that moves frames from the
  received to the transmitted packets.

  The ring buffers of the \<^verbatim>\<open>ringbuf\<close> crate are the parameter \<open>ring_ops\<close>. A producer and its consumer
  share one ring, so each ring is one component of the state. What the channels of the \<^verbatim>\<open>crossbeam\<close>
  crate deliver is an argument, what is sent over them a result; sending succeeds while the receiver
  exists. Casts of \<^verbatim>\<open>bytemuck\<close> read packed little-endian structs. Panics, arithmetic overflow of a
  counter included, are \<open>None\<close>.
\<close>

section \<open>Patching\<close>

datatype tone_source = DialTonePrecise | Ringback

datatype patch = Patch_Idle | Patch_Input timeslot_address | Patch_Tone tone_source

type_synonym patching = "patch list list"

definition patching_timeslot :: "patching \<Rightarrow> timeslot_address \<Rightarrow> patch option" where
  "patching_timeslot self address =
     Option.bind (slice_index self (ta_timeslot address)) (\<lambda>row. slice_index row (ta_channel address))"

text \<open>\<open>*patching.timeslot_mut(&address) = patch\<close>\<close>

definition patching_set_timeslot :: "patching \<Rightarrow> timeslot_address \<Rightarrow> patch \<Rightarrow> patching option" where
  "patching_set_timeslot self address patch =
     Option.bind (patching_timeslot self address) (\<lambda>_.
       Some (self[ta_timeslot address := (self ! ta_timeslot address)[ta_channel address := patch]]))"

definition patching_default :: patching where
  "patching_default = replicate TIMESLOTS_PER_CHANNEL (replicate CHANNELS Patch_Idle)"

section \<open>The audio processor\<close>

datatype processor_message = ProcessorMessage_Patch timeslot_address patch

record audio_processor =
  ap_patching :: patching
  ap_tone_plant :: "tone_source \<rightharpoonup> dual_tone_generator"

definition audio_processor_new :: audio_processor where
  "audio_processor_new =
     \<lparr>ap_patching = patching_default,
      ap_tone_plant =
        [DialTonePrecise \<mapsto> dual_tone_new (f32_of_rat 350) (f32_of_rat 440),
         Ringback \<mapsto> dual_tone_new (f32_of_rat 440) (f32_of_rat 480)]\<rparr>"

fun audio_process_message :: "processor_message \<Rightarrow> audio_processor \<Rightarrow> audio_processor option" where
  "audio_process_message (ProcessorMessage_Patch address patch) self =
     map_option (\<lambda>patching. self\<lparr>ap_patching := patching\<rparr>)
       (patching_set_timeslot (ap_patching self) address patch)"

text \<open>\<open>while let Ok(message) = self.processor_receiver.try_recv()\<close>, with the messages waiting.\<close>

fun audio_process_messages :: "processor_message list \<Rightarrow> audio_processor \<Rightarrow> audio_processor option" where
  "audio_process_messages [] self = Some self"
| "audio_process_messages (m # ms) self =
     Option.bind (audio_process_message m self) (audio_process_messages ms)"

text \<open>The sample a patch selects.\<close>

definition patch_sample :: "audio_processor \<Rightarrow> frame \<Rightarrow> patch \<Rightarrow> u8 option" where
  "patch_sample self frame_in patch =
     (case patch of
        Patch_Idle \<Rightarrow> Some 0xff
      | Patch_Input address \<Rightarrow> frame_timeslot frame_in address
      | Patch_Tone source \<Rightarrow>
          let out = (case ap_tone_plant self source of
                 Some generator \<Rightarrow> tone_output generator
               | None \<Rightarrow> f32_of_rat 0)
          in ulaw_encode out)"

text \<open>The order of the two nested loops over the output timeslots.\<close>

definition output_addresses :: "timeslot_address list" where
  "output_addresses =
     concat (map (\<lambda>c. map (\<lambda>t. timeslot_address_new c t) [0..<TIMESLOTS_PER_CHANNEL]) [0..<CHANNELS])"

fun fill_frame :: "audio_processor \<Rightarrow> frame \<Rightarrow> timeslot_address list \<Rightarrow> frame \<Rightarrow> frame option" where
  "fill_frame self frame_in [] frame_out = Some frame_out"
| "fill_frame self frame_in (a # addresses) frame_out =
     Option.bind (patching_timeslot (ap_patching self) a) (\<lambda>patch.
     Option.bind (patch_sample self frame_in patch) (\<lambda>sample.
     Option.bind (frame_set_timeslot frame_out a sample)
       (fill_frame self frame_in addresses)))"

definition audio_process_frame ::
  "'c maths \<Rightarrow> processor_message list \<Rightarrow> frame \<Rightarrow> audio_processor \<Rightarrow> (frame \<times> audio_processor) option" where
  "audio_process_frame M waiting frame_in self =
     Option.bind (audio_process_messages waiting self) (\<lambda>self.
       let self = self\<lparr>ap_tone_plant := (\<lambda>source. map_option (tone_advance M) (ap_tone_plant self source))\<rparr>
       in Option.bind (fill_frame self frame_in output_addresses frame_default)
            (\<lambda>frame_out. Some (frame_out, self)))"

section \<open>Received packets\<close>

definition u16_le :: "u8 list \<Rightarrow> nat \<Rightarrow> u16" where
  "u16_le b i = ucast (b ! i) OR push_bit 8 (ucast (b ! (i + 1)))"

definition u32_le :: "u8 list \<Rightarrow> nat \<Rightarrow> u32" where
  "u32_le b i = ucast (b ! i) OR push_bit 8 (ucast (b ! (i + 1))) OR
     push_bit 16 (ucast (b ! (i + 2))) OR push_bit 24 (ucast (b ! (i + 3)))"

record rx_usb_report =
  ru_sof_count :: u32
  ru_fifo_rx_level :: u8
  ru_fifo_tx_level :: u8
  ru_fifo_rx_underflow_count :: u16
  ru_fifo_tx_overflow_count :: u16
  ru_sequence_count :: u8

text \<open>The packed sizes of \<open>RxUSBReport\<close>, \<open>RxFrame\<close>, \<open>TxUSBReport\<close> and \<open>TxFrame\<close>.\<close>

definition RX_USB_REPORT_SIZE :: nat where "RX_USB_REPORT_SIZE = 11"
definition RX_FRAME_SIZE :: nat where "RX_FRAME_SIZE = 197"
definition TX_USB_REPORT_SIZE :: nat where "TX_USB_REPORT_SIZE = 4"
definition TX_FRAME_SIZE :: nat where "TX_FRAME_SIZE = 196"

definition rx_packet_usb_report :: "u8 list \<Rightarrow> rx_usb_report option" where
  "rx_packet_usb_report packet =
     (if length packet < RX_USB_REPORT_SIZE then None
      else
        let b = drop (length packet - RX_USB_REPORT_SIZE) packet
        in Some \<lparr>ru_sof_count = u32_le b 0, ru_fifo_rx_level = b ! 4, ru_fifo_tx_level = b ! 5,
             ru_fifo_rx_underflow_count = u16_le b 6, ru_fifo_tx_overflow_count = u16_le b 8,
             ru_sequence_count = b ! 10\<rparr>)"

text \<open>\<open>buffer.chunks_exact(n)\<close>: whole chunks, a shorter rest is dropped.\<close>

function chunks_exact :: "nat \<Rightarrow> 'a list \<Rightarrow> 'a list list" where
  "chunks_exact n xs =
     (if 0 < n \<and> n \<le> length xs then take n xs # chunks_exact n (drop n xs) else [])"
  by pat_completeness auto
termination
  by (relation "measure (\<lambda>(n, xs). length xs)") auto

declare chunks_exact.simps [simp del]

text \<open>A struct \<open>RxFrame\<close> read from its bytes.\<close>

definition rx_frame_from_bytes :: "u8 list \<Rightarrow> internal_frame" where
  "rx_frame_from_bytes b =
     \<lparr>if_frame = map (\<lambda>t. take CHANNELS (drop (CHANNELS * t) b)) [0..<TIMESLOTS_PER_CHANNEL],
      if_frame_count = u32_le b 192, if_mf_bits = b ! 196\<rparr>"

definition rx_packet_frames :: "u8 list \<Rightarrow> internal_frame list option" where
  "rx_packet_frames packet =
     (if length packet < RX_USB_REPORT_SIZE then None
      else Some (map rx_frame_from_bytes
        (chunks_exact RX_FRAME_SIZE (take (length packet - RX_USB_REPORT_SIZE) packet))))"

section \<open>Packet statistics\<close>

definition RX_FIFO_DEPTH :: nat where "RX_FIFO_DEPTH = 8"
definition TX_FIFO_DEPTH :: nat where "TX_FIFO_DEPTH = 32"

record periodic_statistics =
  ps_rx_fifo_level_histogram :: "u32 list"
  ps_tx_fifo_level_histogram :: "u32 list"
  ps_frame_count :: u32

definition periodic_statistics_default :: periodic_statistics where
  "periodic_statistics_default =
     \<lparr>ps_rx_fifo_level_histogram = replicate RX_FIFO_DEPTH 0,
      ps_tx_fifo_level_histogram = replicate TX_FIFO_DEPTH 0, ps_frame_count = 0\<rparr>"

record cumulative_statistics =
  cs_rx_fifo_underflow_count :: u16
  cs_tx_fifo_overflow_count :: u16
  cs_sof_discontinuity_count :: u32
  cs_frame_discontinuity_count :: u32
  cs_ringbuf_full_drop_count :: u32

definition cumulative_statistics_default :: cumulative_statistics where
  "cumulative_statistics_default =
     \<lparr>cs_rx_fifo_underflow_count = 0, cs_tx_fifo_overflow_count = 0, cs_sof_discontinuity_count = 0,
      cs_frame_discontinuity_count = 0, cs_ringbuf_full_drop_count = 0\<rparr>"

datatype debug_message =
    TxFIFORange u8 u8
  | FramerStatistics periodic_statistics cumulative_statistics

text \<open>The ring buffers: \<open>new\<close> takes the capacity, \<open>push\<close> fails on a full ring, \<open>pop\<close> on an empty one.\<close>

record ('q, 'a) ring_ops =
  ring_new :: "nat \<Rightarrow> 'q"
  ring_push :: "'a \<Rightarrow> 'q \<Rightarrow> 'q option"
  ring_pop :: "'q \<Rightarrow> ('a \<times> 'q) option"
  ring_len :: "'q \<Rightarrow> nat"

text \<open>The documented behaviour of a ring of capacity \<open>cap\<close> whose content is the list \<open>content q\<close>.\<close>

definition ring_buffer :: "('q, 'a) ring_ops \<Rightarrow> ('q \<Rightarrow> 'a list) \<Rightarrow> ('q \<Rightarrow> nat) \<Rightarrow> bool" where
  "ring_buffer R content cap \<longleftrightarrow>
     (\<forall>n. content (ring_new R n) = [] \<and> cap (ring_new R n) = n) \<and>
     (\<forall>a q. case ring_push R a q of
        None \<Rightarrow> cap q \<le> length (content q)
      | Some q' \<Rightarrow> length (content q) < cap q \<and> content q' = content q @ [a] \<and> cap q' = cap q) \<and>
     (\<forall>q. case ring_pop R q of
        None \<Rightarrow> content q = []
      | Some (a, q') \<Rightarrow> content q = a # content q' \<and> cap q' = cap q) \<and>
     (\<forall>q. ring_len R q = length (content q) \<and> length (content q) \<le> cap q)"

record 'q rx_packet_processor =
  rp_unprocessed_frames :: 'q
  rp_signaling_frames :: 'q
  rp_periodic :: periodic_statistics
  rp_cumulative :: cumulative_statistics
  rp_signaling_frames_drop_count :: u32
  rp_sof_count_next :: u32
  rp_frame_count_next :: u32
  rp_tx_fifo_level_min :: u8
  rp_tx_fifo_level_max :: u8

definition rx_packet_processor_new :: "'q \<Rightarrow> 'q \<Rightarrow> 'q rx_packet_processor" where
  "rx_packet_processor_new frames_in signaling_frames =
     \<lparr>rp_unprocessed_frames = frames_in, rp_signaling_frames = signaling_frames,
      rp_periodic = periodic_statistics_default, rp_cumulative = cumulative_statistics_default,
      rp_signaling_frames_drop_count = 0, rp_sof_count_next = 0, rp_frame_count_next = 0,
      rp_tx_fifo_level_min = 255, rp_tx_fifo_level_max = 0\<rparr>"

definition reset_tx_fifo_level_stats :: "'q rx_packet_processor \<Rightarrow> 'q rx_packet_processor" where
  "reset_tx_fifo_level_stats self = self\<lparr>rp_tx_fifo_level_max := 0, rp_tx_fifo_level_min := 255\<rparr>"

text \<open>\<open>x += 1\<close> and \<open>histogram[i] += 1\<close>\<close>

definition u32_increment :: "u32 \<Rightarrow> u32 option" where
  "u32_increment x = (if x = 0xffffffff then None else Some (x + 1))"

definition histogram_increment :: "u32 list \<Rightarrow> nat \<Rightarrow> u32 list option" where
  "histogram_increment h i = Option.bind (slice_index h i) (\<lambda>x. map_option (\<lambda>y. h[i := y]) (u32_increment x))"

text \<open>The blocks of the loop over the frames of a packet.\<close>

definition rx_count_frame :: "'q rx_packet_processor \<Rightarrow> (debug_message list \<times> 'q rx_packet_processor) option" where
  "rx_count_frame self =
     Option.bind (u32_increment (ps_frame_count (rp_periodic self))) (\<lambda>n.
       let self = self\<lparr>rp_periodic := (rp_periodic self)\<lparr>ps_frame_count := n\<rparr>\<rparr>
       in if n \<ge> 8000
          then Some ([FramerStatistics (rp_periodic self) (rp_cumulative self)],
            self\<lparr>rp_periodic := periodic_statistics_default\<rparr>)
          else Some ([], self))"

definition rx_check_frame_count :: "internal_frame \<Rightarrow> 'q rx_packet_processor \<Rightarrow> 'q rx_packet_processor option" where
  "rx_check_frame_count frame self =
     Option.bind
       (if if_frame_count frame \<noteq> rp_frame_count_next self
        then map_option (\<lambda>k. self\<lparr>rp_cumulative := (rp_cumulative self)\<lparr>cs_frame_discontinuity_count := k\<rparr>\<rparr>)
               (u32_increment (cs_frame_discontinuity_count (rp_cumulative self)))
        else Some self)
       (\<lambda>self. Some (self\<lparr>rp_frame_count_next := if_frame_count frame + 1\<rparr>))"

definition rx_push_unprocessed ::
  "('q, internal_frame) ring_ops \<Rightarrow> internal_frame \<Rightarrow> 'q rx_packet_processor \<Rightarrow> 'q rx_packet_processor option" where
  "rx_push_unprocessed R frame self =
     (case ring_push R frame (rp_unprocessed_frames self) of
        Some q \<Rightarrow> Some (self\<lparr>rp_unprocessed_frames := q\<rparr>)
      | None \<Rightarrow>
          map_option (\<lambda>k. self\<lparr>rp_cumulative := (rp_cumulative self)\<lparr>cs_ringbuf_full_drop_count := k\<rparr>\<rparr>)
            (u32_increment (cs_ringbuf_full_drop_count (rp_cumulative self))))"

definition rx_push_signaling ::
  "('q, internal_frame) ring_ops \<Rightarrow> internal_frame \<Rightarrow> 'q rx_packet_processor \<Rightarrow> 'q rx_packet_processor option" where
  "rx_push_signaling R frame self =
     (case ring_push R frame (rp_signaling_frames self) of
        Some q \<Rightarrow> Some (self\<lparr>rp_signaling_frames := q\<rparr>)
      | None \<Rightarrow>
          map_option (\<lambda>k. self\<lparr>rp_signaling_frames_drop_count := k\<rparr>)
            (u32_increment (rp_signaling_frames_drop_count self)))"

definition rx_process_frame ::
  "('q, internal_frame) ring_ops \<Rightarrow> internal_frame \<Rightarrow> 'q rx_packet_processor \<Rightarrow>
    (debug_message list \<times> 'q rx_packet_processor) option" where
  "rx_process_frame R frame self =
     Option.bind (rx_count_frame self) (\<lambda>(messages, self).
     Option.bind (rx_check_frame_count frame self) (\<lambda>self.
     Option.bind (rx_push_unprocessed R frame self) (\<lambda>self.
     Option.bind (rx_push_signaling R frame self) (\<lambda>self.
       Some (messages, self)))))"

fun rx_process_frames ::
  "('q, internal_frame) ring_ops \<Rightarrow> internal_frame list \<Rightarrow> 'q rx_packet_processor \<Rightarrow>
    (debug_message list \<times> 'q rx_packet_processor) option" where
  "rx_process_frames R [] self = Some ([], self)"
| "rx_process_frames R (f # fs) self =
     Option.bind (rx_process_frame R f self) (\<lambda>(ms, self).
     Option.bind (rx_process_frames R fs self) (\<lambda>(ms', self). Some (ms @ ms', self)))"

definition rx_check_sof_count :: "rx_usb_report \<Rightarrow> 'q rx_packet_processor \<Rightarrow> 'q rx_packet_processor option" where
  "rx_check_sof_count usb_report self =
     Option.bind
       (if ru_sof_count usb_report \<noteq> rp_sof_count_next self
        then map_option (\<lambda>k. self\<lparr>rp_cumulative := (rp_cumulative self)\<lparr>cs_sof_discontinuity_count := k\<rparr>\<rparr>)
               (u32_increment (cs_sof_discontinuity_count (rp_cumulative self)))
        else Some self)
       (\<lambda>self. Some (self\<lparr>rp_sof_count_next := ru_sof_count usb_report + 1\<rparr>))"

definition rx_update_statistics :: "rx_usb_report \<Rightarrow> 'q rx_packet_processor \<Rightarrow> 'q rx_packet_processor option" where
  "rx_update_statistics usb_report self =
     Option.bind (histogram_increment (ps_rx_fifo_level_histogram (rp_periodic self))
         (unat (ru_fifo_rx_level usb_report))) (\<lambda>rx_histogram.
     Option.bind (histogram_increment (ps_tx_fifo_level_histogram (rp_periodic self))
         (unat (ru_fifo_tx_level usb_report))) (\<lambda>tx_histogram.
       Some (self
         \<lparr>rp_periodic := (rp_periodic self)
            \<lparr>ps_rx_fifo_level_histogram := rx_histogram, ps_tx_fifo_level_histogram := tx_histogram\<rparr>,
          rp_cumulative := (rp_cumulative self)
            \<lparr>cs_rx_fifo_underflow_count := ru_fifo_rx_underflow_count usb_report,
             cs_tx_fifo_overflow_count := ru_fifo_tx_overflow_count usb_report\<rparr>\<rparr>)))"

definition rx_update_tx_levels :: "u8 \<Rightarrow> 'q rx_packet_processor \<Rightarrow> 'q rx_packet_processor" where
  "rx_update_tx_levels level self =
     (let self = (if level < rp_tx_fifo_level_min self then self\<lparr>rp_tx_fifo_level_min := level\<rparr> else self)
      in if level > rp_tx_fifo_level_max self then self\<lparr>rp_tx_fifo_level_max := level\<rparr> else self)"

definition rx_process ::
  "('q, internal_frame) ring_ops \<Rightarrow> u8 list \<Rightarrow> 'q rx_packet_processor \<Rightarrow>
    (debug_message list \<times> 'q rx_packet_processor) option" where
  "rx_process R packet self =
     Option.bind (rx_packet_usb_report packet) (\<lambda>usb_report.
     Option.bind (rx_check_sof_count usb_report self) (\<lambda>self.
     Option.bind (rx_update_statistics usb_report self) (\<lambda>self.
     Option.bind (rx_packet_frames packet) (\<lambda>frames.
       rx_process_frames R frames (rx_update_tx_levels (ru_fifo_tx_level usb_report) self)))))"

section \<open>The loopback handler\<close>

record 'q loopback_handler =
  lh_rx_packet_processor :: "'q rx_packet_processor"
  lh_processed_frames :: 'q
  lh_processor :: audio_processor

definition AUDIO_RINGBUFFER_FRAMES :: nat where "AUDIO_RINGBUFFER_FRAMES = 40"
definition SIGNALING_RINGBUFFER_FRAMES :: nat where "SIGNALING_RINGBUFFER_FRAMES = 200"
definition PACKETS_PER_TRANSFER :: nat where "PACKETS_PER_TRANSFER = 8"

definition loopback_handler_new :: "('q, internal_frame) ring_ops \<Rightarrow> 'q loopback_handler" where
  "loopback_handler_new R =
     \<lparr>lh_rx_packet_processor =
        rx_packet_processor_new (ring_new R AUDIO_RINGBUFFER_FRAMES) (ring_new R SIGNALING_RINGBUFFER_FRAMES),
      lh_processed_frames = ring_new R AUDIO_RINGBUFFER_FRAMES,
      lh_processor = audio_processor_new\<rparr>"

text \<open>An isochronous packet of an IN transfer: its status and the bytes received.\<close>

type_synonym iso_packet = "int \<times> u8 list"

fun process_packets ::
  "('q, internal_frame) ring_ops \<Rightarrow> iso_packet list \<Rightarrow> 'q rx_packet_processor \<Rightarrow>
    (debug_message list \<times> 'q rx_packet_processor) option" where
  "process_packets R [] rx = Some ([], rx)"
| "process_packets R ((status, buffer) # rest) rx =
     Option.bind (if status = 0 then rx_process R buffer rx else Some ([], rx)) (\<lambda>(ms, rx).
     Option.bind (process_packets R rest rx) (\<lambda>(ms', rx). Some (ms @ ms', rx)))"

text \<open>
  \<open>while let Some(unprocessed_frame) = self.unprocessed_frames_consumer.pop()\<close>, with fuel for its turns;
  \<open>waiting\<close> lists the messages that arrive before each frame.
\<close>

fun drain_frames ::
  "nat \<Rightarrow> ('q, internal_frame) ring_ops \<Rightarrow> 'c maths \<Rightarrow> (nat \<Rightarrow> processor_message list) \<Rightarrow>
    'q loopback_handler \<Rightarrow> 'q loopback_handler option" where
  "drain_frames 0 R M waiting self = None"
| "drain_frames (Suc fuel) R M waiting self =
     (case ring_pop R (rp_unprocessed_frames (lh_rx_packet_processor self)) of
        None \<Rightarrow> Some self
      | Some (unprocessed_frame, unprocessed_frames) \<Rightarrow>
          Option.bind (audio_process_frame M (waiting 0) (if_frame unprocessed_frame) (lh_processor self))
            (\<lambda>(processed_frame, processor).
               Option.bind (ring_push R (unprocessed_frame\<lparr>if_frame := processed_frame\<rparr>)
                   (lh_processed_frames self)) (\<lambda>processed_frames.
                 drain_frames fuel R M (\<lambda>n. waiting (Suc n))
                   (self\<lparr>lh_rx_packet_processor :=
                       (lh_rx_packet_processor self)\<lparr>rp_unprocessed_frames := unprocessed_frames\<rparr>,
                     lh_processor := processor, lh_processed_frames := processed_frames\<rparr>))))"

definition handle_in ::
  "('q, internal_frame) ring_ops \<Rightarrow> 'c maths \<Rightarrow> (nat \<Rightarrow> processor_message list) \<Rightarrow> iso_packet list \<Rightarrow>
    'q loopback_handler \<Rightarrow> (debug_message list \<times> 'q loopback_handler) option" where
  "handle_in R M waiting packets self =
     Option.bind (process_packets R packets (reset_tx_fifo_level_stats (lh_rx_packet_processor self)))
       (\<lambda>(messages, rx).
          let self = self\<lparr>lh_rx_packet_processor := rx\<rparr>
          in Option.bind
               (drain_frames (Suc (ring_len R (rp_unprocessed_frames rx))) R M waiting self)
               (\<lambda>self. Some (messages @ [TxFIFORange (rp_tx_fifo_level_min rx) (rp_tx_fifo_level_max rx)],
                 self)))"

text \<open>A packet of an OUT transfer: its length in bytes and the frames written, each with its count.\<close>

record tx_packet =
  tx_length :: nat
  tx_frames :: "(u32 \<times> frame) list"

text \<open>The loop over the \<open>k\<close> frames of a packet's buffer.\<close>

fun fill_packet ::
  "nat \<Rightarrow> ('q, internal_frame) ring_ops \<Rightarrow> 'q \<Rightarrow> (u32 \<times> frame) list \<times> 'q" where
  "fill_packet 0 R q = ([], q)"
| "fill_packet (Suc k) R q =
     (case ring_pop R q of
        Some (frame_out, q') \<Rightarrow>
          let (fs, q'') = fill_packet k R q'
          in ((if_frame_count frame_out, if_frame frame_out) # fs, q'')
      | None \<Rightarrow> fill_packet k R q)"

fun fill_packets :: "nat \<Rightarrow> ('q, internal_frame) ring_ops \<Rightarrow> 'q \<Rightarrow> tx_packet list \<times> 'q" where
  "fill_packets 0 R q = ([], q)"
| "fill_packets (Suc n) R q =
     (let available_frames = ring_len R q;
          frame_count = (if available_frames \<ge> 2 then 2 else available_frames);
          (fs, q') = fill_packet frame_count R q;
          (ps, q'') = fill_packets n R q'
      in (\<lparr>tx_length = TX_USB_REPORT_SIZE + frame_count * TX_FRAME_SIZE, tx_frames = fs\<rparr> # ps, q''))"

definition handle_out ::
  "('q, internal_frame) ring_ops \<Rightarrow> nat \<Rightarrow> 'q loopback_handler \<Rightarrow> tx_packet list \<times> 'q loopback_handler" where
  "handle_out R num_iso_packets self =
     (let rx = lh_rx_packet_processor self;
          q = lh_processed_frames self;
          q = (if rp_tx_fifo_level_min rx \<le> rp_tx_fifo_level_max rx \<and> rp_tx_fifo_level_min rx > 12
               then (case ring_pop R q of Some (_, q') \<Rightarrow> q' | None \<Rightarrow> q) else q);
          (packets, q) = fill_packets num_iso_packets R q
      in (packets, self\<lparr>lh_processed_frames := q\<rparr>))"

end
