(* ===== verification/Audio_Spec.thy ===== *)
theory Audio_Spec
  imports Audio Robbed_Bit_Spec
begin

text \<open>
  What the audio path of theory \<open>Audio\<close> promises: the output frame is the patched one, packets are
  read back as they were laid out, frames keep their order through the rings, and what is dropped is
  counted.
\<close>

section \<open>Patched frames\<close>

definition address_ok :: "timeslot_address \<Rightarrow> bool" where
  "address_ok a \<longleftrightarrow> ta_channel a < 8 \<and> ta_timeslot a < 24"

primrec patch_ok :: "patch \<Rightarrow> bool" where
  "patch_ok Patch_Idle \<longleftrightarrow> True"
| "patch_ok (Patch_Input a) \<longleftrightarrow> address_ok a"
| "patch_ok (Patch_Tone s) \<longleftrightarrow> True"

primrec message_ok :: "processor_message \<Rightarrow> bool" where
  "message_ok (ProcessorMessage_Patch a patch) \<longleftrightarrow> address_ok a \<and> patch_ok patch"

definition patching_ok :: "patching \<Rightarrow> bool" where
  "patching_ok p \<longleftrightarrow> length p = 24 \<and> (\<forall>row \<in> set p. length row = 8 \<and> (\<forall>x \<in> set row. patch_ok x))"

definition patch_at :: "patching \<Rightarrow> timeslot_address \<Rightarrow> patch" where
  "patch_at p a = p ! ta_timeslot a ! ta_channel a"

lemma patching_timeslot_eq:
  assumes "patching_ok p" and "address_ok a"
  shows "patching_timeslot p a = Some (patch_at p a)" and "patch_ok (patch_at p a)"
proof -
  have row: "p ! ta_timeslot a \<in> set p" and len: "length p = 24"
    using assms by (simp_all add: patching_ok_def address_ok_def)
  then have "length (p ! ta_timeslot a) = 8" and "\<forall>x \<in> set (p ! ta_timeslot a). patch_ok x"
    using assms(1) by (simp_all add: patching_ok_def)
  with assms(2) len show "patching_timeslot p a = Some (patch_at p a)" and "patch_ok (patch_at p a)"
    by (simp_all add: patching_timeslot_def patch_at_def address_ok_def)
qed

lemma patching_set_timeslot_eq:
  assumes "patching_ok p" and "address_ok a" and "patch_ok x"
  shows "\<exists>p'. patching_set_timeslot p a x = Some p' \<and> patching_ok p' \<and>
    (\<forall>b. address_ok b \<longrightarrow> patch_at p' b = (if b = a then x else patch_at p b))"
proof -
  let ?row = "p ! ta_timeslot a"
  let ?p = "p[ta_timeslot a := ?row[ta_channel a := x]]"
  have len: "length p = 24" and row: "length ?row = 8" "\<forall>y \<in> set ?row. patch_ok y"
    using assms by (auto simp: patching_ok_def address_ok_def)
  have "patching_ok ?p"
    using assms len row set_update_subset_insert [of p "ta_timeslot a" "?row[ta_channel a := x]"]
      set_update_subset_insert [of ?row "ta_channel a" x]
    by (auto simp: patching_ok_def)
  moreover have "patch_at ?p b = (if b = a then x else patch_at p b)" if "address_ok b" for b
    using that assms(2) len row
    by (cases a; cases b) (auto simp: patch_at_def address_ok_def nth_list_update)
  ultimately show ?thesis
    using patching_timeslot_eq [OF assms(1,2)] by (simp add: patching_set_timeslot_def)
qed

text \<open>The patching a list of messages leaves: the last message for a timeslot counts.\<close>

fun patched :: "processor_message list \<Rightarrow> (timeslot_address \<Rightarrow> patch) \<Rightarrow> timeslot_address \<Rightarrow> patch" where
  "patched [] f = f"
| "patched (ProcessorMessage_Patch a x # ms) f = patched ms (f(a := x))"

lemma patched_cong:
  "\<forall>b. address_ok b \<longrightarrow> f b = g b \<Longrightarrow> address_ok b \<Longrightarrow> patched ms f b = patched ms g b"
  by (induction ms f arbitrary: g rule: patched.induct) auto

lemma audio_process_messages_eq:
  assumes "patching_ok (ap_patching ap)" and "\<forall>m \<in> set ms. message_ok m"
  shows "\<exists>ap'. audio_process_messages ms ap = Some ap' \<and> patching_ok (ap_patching ap') \<and>
    ap_tone_plant ap' = ap_tone_plant ap \<and>
    (\<forall>b. address_ok b \<longrightarrow> patch_at (ap_patching ap') b = patched ms (patch_at (ap_patching ap)) b)"
  using assms
proof (induction ms arbitrary: ap)
  case (Cons m ms)
  obtain a x where m: "m = ProcessorMessage_Patch a x"
    by (cases m)
  have ax: "address_ok a" "patch_ok x" and ms: "\<forall>m \<in> set ms. message_ok m"
    using Cons.prems(2) by (simp_all add: m)
  from patching_set_timeslot_eq [OF Cons.prems(1) ax] obtain p where
    p: "patching_set_timeslot (ap_patching ap) a x = Some p" "patching_ok p"
    "\<forall>b. address_ok b \<longrightarrow> patch_at p b = (if b = a then x else patch_at (ap_patching ap) b)"
    by blast
  let ?ap = "ap\<lparr>ap_patching := p\<rparr>"
  have "patching_ok (ap_patching ?ap)"
    using p(2) by simp
  from Cons.IH [OF this ms] obtain ap' where
    ap': "audio_process_messages ms ?ap = Some ap'" "patching_ok (ap_patching ap')"
    "ap_tone_plant ap' = ap_tone_plant ap"
    "\<forall>b. address_ok b \<longrightarrow> patch_at (ap_patching ap') b = patched ms (patch_at p) b"
    by auto
  have "patched ms (patch_at p) b = patched ms ((patch_at (ap_patching ap))(a := x)) b"
    if "address_ok b" for b
    using p(3) that by (intro patched_cong) auto
  with ap' p(1) show ?case
    by (simp add: m)
qed simp

lemma patch_sample_total:
  assumes "frame_ok f" and "patch_ok x"
  shows "\<exists>v. patch_sample ap f x = Some v"
  using assms ulaw_encode_is_total
  by (cases x) (auto simp: patch_sample_def frame_timeslot_eq address_ok_def Let_def)

lemma fill_frame_eq:
  assumes "patching_ok (ap_patching ap)" and "frame_ok frame_in" and "frame_ok out0"
    and "\<forall>a \<in> set as. address_ok a"
  shows "\<exists>out. fill_frame ap frame_in as out0 = Some out \<and> frame_ok out \<and>
    (\<forall>a. address_ok a \<longrightarrow> frame_timeslot out a =
       (if a \<in> set as then patch_sample ap frame_in (patch_at (ap_patching ap) a)
        else frame_timeslot out0 a))"
  using assms(3,4)
proof (induction as arbitrary: out0)
  case (Cons a as)
  have a: "address_ok a"
    using Cons.prems(2) by simp
  note pt = patching_timeslot_eq [OF assms(1) a]
  from patch_sample_total [OF assms(2) pt(2)] obtain v where
    v: "patch_sample ap frame_in (patch_at (ap_patching ap) a) = Some v"
    by blast
  have set: "frame_set_timeslot out0 a v =
      Some (out0[ta_timeslot a := (out0 ! ta_timeslot a)[ta_channel a := v]])" (is "_ = Some ?out1")
    using a Cons.prems(1) by (intro frame_set_timeslot_eq) (simp_all add: address_ok_def)
  have ok: "frame_ok ?out1"
    using frame_set_timeslot_ok [OF Cons.prems(1) set] .
  have upd: "frame_timeslot ?out1 b = (if b = a then Some v else frame_timeslot out0 b)"
    if "address_ok b" for b
    using that a ok Cons.prems(1) frame_row_length [OF Cons.prems(1)]
    by (cases a; cases b) (auto simp: frame_timeslot_eq address_ok_def nth_list_update frame_ok_def)
  from Cons.IH [OF ok] Cons.prems(2) obtain out where
    "fill_frame ap frame_in as ?out1 = Some out" "frame_ok out"
    "\<forall>b. address_ok b \<longrightarrow> frame_timeslot out b =
       (if b \<in> set as then patch_sample ap frame_in (patch_at (ap_patching ap) b)
        else frame_timeslot ?out1 b)"
    by auto
  then show ?case
    using pt(1) v set upd by auto
qed simp

lemma output_addresses_set: "set output_addresses = {a. address_ok a}"
proof -
  have "a \<in> set output_addresses \<longleftrightarrow> address_ok a" for a
    by (cases a) (auto simp: output_addresses_def address_ok_def CHANNELS_def TIMESLOTS_PER_CHANNEL_def
        timeslot_address_new_def image_iff simp del: upt_Suc)
  then show ?thesis by blast
qed

lemma audio_process_frame_eq:
  assumes "frame_ok frame_in" and "patching_ok (ap_patching ap)" and "\<forall>m \<in> set waiting. message_ok m"
  shows "\<exists>out ap'. audio_process_frame M waiting frame_in ap = Some (out, ap') \<and> frame_ok out \<and>
    patching_ok (ap_patching ap') \<and>
    ap_tone_plant ap' = (\<lambda>source. map_option (tone_advance M) (ap_tone_plant ap source)) \<and>
    (\<forall>a. address_ok a \<longrightarrow>
       patch_at (ap_patching ap') a = patched waiting (patch_at (ap_patching ap)) a \<and>
       frame_timeslot out a = patch_sample ap' frame_in (patched waiting (patch_at (ap_patching ap)) a))"
proof -
  from audio_process_messages_eq [OF assms(2,3)] obtain ap1 where
    ap1: "audio_process_messages waiting ap = Some ap1" "patching_ok (ap_patching ap1)"
    "ap_tone_plant ap1 = ap_tone_plant ap"
    "\<forall>b. address_ok b \<longrightarrow> patch_at (ap_patching ap1) b = patched waiting (patch_at (ap_patching ap)) b"
    by blast
  let ?ap = "ap1\<lparr>ap_tone_plant := (\<lambda>source. map_option (tone_advance M) (ap_tone_plant ap1 source))\<rparr>"
  have "patching_ok (ap_patching ?ap)" and "\<forall>a \<in> set output_addresses. address_ok a"
    using ap1(2) by (simp_all add: output_addresses_set)
  from fill_frame_eq [OF this(1) assms(1) frame_default_ok this(2)] obtain out where
    "fill_frame ?ap frame_in output_addresses frame_default = Some out" "frame_ok out"
    "\<forall>a. address_ok a \<longrightarrow> frame_timeslot out a =
       (if a \<in> set output_addresses then patch_sample ?ap frame_in (patch_at (ap_patching ?ap) a)
        else frame_timeslot frame_default a)"
    by blast
  with ap1 show ?thesis
    by (auto simp: audio_process_frame_def Let_def output_addresses_set)
qed

text \<open>
  C14: every timeslot sends what it is patched to. If the patches waiting and those in force name
  timeslots that exist, the processor does not panic and its output frame carries in every timeslot
  the sample its patch selects, after all waiting messages are applied in order (the last one for a
  timeslot counts): silence when idle, the input sample of the patched timeslot, or the mu-law code
  of its tone generator, advanced once.
\<close>

theorem audio_frame_is_patched:
  assumes "frame_ok frame_in" and "patching_ok (ap_patching ap)" and "\<forall>m \<in> set waiting. message_ok m"
  shows "\<exists>out ap'. audio_process_frame M waiting frame_in ap = Some (out, ap') \<and> frame_ok out \<and>
    patching_ok (ap_patching ap') \<and>
    (\<forall>a. address_ok a \<longrightarrow> frame_timeslot out a =
       (case patched waiting (patch_at (ap_patching ap)) a of
          Patch_Idle \<Rightarrow> Some 0xff
        | Patch_Input b \<Rightarrow> frame_timeslot frame_in b
        | Patch_Tone s \<Rightarrow>
            (case ap_tone_plant ap s of
               Some g \<Rightarrow> ulaw_encode (tone_output (tone_advance M g))
             | None \<Rightarrow> ulaw_encode (f32_of_rat 0))))"
proof -
  from audio_process_frame_eq [OF assms] obtain out ap' where
    1: "audio_process_frame M waiting frame_in ap = Some (out, ap')" "frame_ok out"
    "patching_ok (ap_patching ap')" and
    plant: "ap_tone_plant ap' = (\<lambda>source. map_option (tone_advance M) (ap_tone_plant ap source))" and
    out: "\<forall>a. address_ok a \<longrightarrow> frame_timeslot out a =
       patch_sample ap' frame_in (patched waiting (patch_at (ap_patching ap)) a)"
    by blast
  have sample: "patch_sample ap' frame_in x =
      (case x of Patch_Idle \<Rightarrow> Some 0xff
       | Patch_Input b \<Rightarrow> frame_timeslot frame_in b
       | Patch_Tone s \<Rightarrow>
           (case ap_tone_plant ap s of
              Some g \<Rightarrow> ulaw_encode (tone_output (tone_advance M g))
            | None \<Rightarrow> ulaw_encode (f32_of_rat 0)))" for x
    by (cases x) (simp_all add: patch_sample_def plant Let_def split: option.splits)
  show ?thesis
    using 1 out unfolding sample by blast
qed

lemma patching_default_ok [simp]: "patching_ok patching_default"
  by (simp add: patching_ok_def patching_default_def TIMESLOTS_PER_CHANNEL_def CHANNELS_def)

text \<open>A fresh processor told to loop channel 0, timeslot 0 back to itself.\<close>

theorem audio_frame_is_patched_witness:
  "\<exists>out ap'. audio_process_frame example_maths [ProcessorMessage_Patch (timeslot_address_new 0 0)
       (Patch_Input (timeslot_address_new 0 0))] (replicate 24 (replicate 8 0x55)) audio_processor_new =
     Some (out, ap') \<and> frame_timeslot out (timeslot_address_new 0 0) = Some 0x55 \<and>
     frame_timeslot out (timeslot_address_new 1 0) = Some 0xff"
proof -
  have ok: "frame_ok (replicate 24 (replicate 8 0x55))" "patching_ok (ap_patching audio_processor_new)"
    "\<forall>m \<in> set [ProcessorMessage_Patch (timeslot_address_new 0 0) (Patch_Input (timeslot_address_new 0 0))].
       message_ok m"
    by (simp_all add: frame_ok_def audio_processor_new_def address_ok_def)
  have "patch_at patching_default (timeslot_address_new 1 0) = Patch_Idle"
    by (simp add: patch_at_def patching_default_def TIMESLOTS_PER_CHANNEL_def CHANNELS_def)
  with audio_frame_is_patched [OF ok, of example_maths] show ?thesis
    by (auto simp: address_ok_def frame_timeslot_eq [OF ok(1)] audio_processor_new_def)
qed

section \<open>Packets\<close>

definition u16_bytes :: "u16 \<Rightarrow> u8 list" where
  "u16_bytes w = [ucast w, ucast (drop_bit 8 w)]"

definition u32_bytes :: "u32 \<Rightarrow> u8 list" where
  "u32_bytes w = [ucast w, ucast (drop_bit 8 w), ucast (drop_bit 16 w), ucast (drop_bit 24 w)]"

lemma u32_bytes_join:
  "ucast (ucast w :: u8) OR push_bit 8 (ucast (ucast (drop_bit 8 w) :: u8)) OR
   push_bit 16 (ucast (ucast (drop_bit 16 w) :: u8)) OR
   push_bit 24 (ucast (ucast (drop_bit 24 w) :: u8)) = (w :: u32)" (is "?l = _")
proof (rule bit_word_eqI)
  fix n assume "n < LENGTH(32)"
  then have "n < 8 \<or> (8 \<le> n \<and> n < 16) \<or> (16 \<le> n \<and> n < 24) \<or> (24 \<le> n \<and> n < 32)"
    by auto
  then show "bit ?l n = bit w n"
    by (auto simp: bit_simps)
qed

lemma u16_bytes_join:
  "ucast (ucast w :: u8) OR push_bit 8 (ucast (ucast (drop_bit 8 w) :: u8)) = (w :: u16)" (is "?l = _")
proof (rule bit_word_eqI)
  fix n assume "n < LENGTH(16)"
  then have "n < 8 \<or> (8 \<le> n \<and> n < 16)"
    by auto
  then show "bit ?l n = bit w n"
    by (auto simp: bit_simps)
qed

text \<open>The gateware's layout of a frame and of the report that ends a packet.\<close>

definition rx_frame_bytes :: "internal_frame \<Rightarrow> u8 list" where
  "rx_frame_bytes f = concat (if_frame f) @ u32_bytes (if_frame_count f) @ [if_mf_bits f]"

definition rx_usb_report_bytes :: "rx_usb_report \<Rightarrow> u8 list" where
  "rx_usb_report_bytes r = u32_bytes (ru_sof_count r) @ [ru_fifo_rx_level r, ru_fifo_tx_level r] @
     u16_bytes (ru_fifo_rx_underflow_count r) @ u16_bytes (ru_fifo_tx_overflow_count r) @
     [ru_sequence_count r]"

lemma concat_rows:
  assumes "\<forall>row \<in> set rows. length row = n" and "t < length rows"
  shows "take n (drop (n * t) (concat rows @ rest)) = rows ! t"
  using assms
proof (induction rows arbitrary: t)
  case (Cons row rows)
  then show ?case
    by (cases t) simp_all
qed simp

lemma concat_rows_length:
  "\<forall>row \<in> set rows. length row = n \<Longrightarrow> length (concat rows) = n * length rows"
  by (induction rows) simp_all

lemma rx_frame_bytes_length: "frame_ok (if_frame f) \<Longrightarrow> length (rx_frame_bytes f) = 197"
  using concat_rows_length [of "if_frame f" 8]
  by (simp add: rx_frame_bytes_def frame_ok_def u32_bytes_def)

lemma rx_frame_roundtrip:
  assumes "frame_ok (if_frame f)"
  shows "rx_frame_from_bytes (rx_frame_bytes f) = f"
proof -
  have rows: "\<forall>row \<in> set (if_frame f). length row = 8" "length (if_frame f) = 24"
    using assms by (simp_all add: frame_ok_def)
  have len: "length (concat (if_frame f)) = 192"
    using concat_rows_length [OF rows(1)] rows(2) by simp
  have "map (\<lambda>t. take 8 (drop (8 * t) (rx_frame_bytes f))) [0..<24] = if_frame f"
    using rows concat_rows [OF rows(1)]
    by (auto simp: rx_frame_bytes_def intro!: nth_equalityI simp del: upt_Suc drop_append)
  moreover have "u32_le (rx_frame_bytes f) 192 = if_frame_count f"
    using len u32_bytes_join by (simp add: u32_le_def rx_frame_bytes_def u32_bytes_def nth_append)
  moreover have "rx_frame_bytes f ! 196 = if_mf_bits f"
    using len by (simp add: rx_frame_bytes_def u32_bytes_def nth_append)
  ultimately show ?thesis
    by (simp add: rx_frame_from_bytes_def CHANNELS_def TIMESLOTS_PER_CHANNEL_def)
qed

lemma chunks_exact_concat:
  assumes "\<forall>x \<in> set xs. length x = n" and "0 < n" and "length rest < n"
  shows "chunks_exact n (concat xs @ rest) = xs"
  using assms(1)
proof (induction xs)
  case Nil
  then show ?case
    using assms(3) by (simp add: chunks_exact.simps)
next
  case (Cons x xs)
  then show ?case
    using assms(2) by (subst chunks_exact.simps) simp
qed

lemma rx_usb_report_length: "length (rx_usb_report_bytes r) = 11"
  by (simp add: rx_usb_report_bytes_def u32_bytes_def u16_bytes_def)

lemma rx_packet_read_back:
  assumes "\<forall>f \<in> set fs. frame_ok (if_frame f)" and "length rest < 197"
  shows "rx_packet_frames (concat (map rx_frame_bytes fs) @ rest @ rx_usb_report_bytes r) = Some fs \<and>
    rx_packet_usb_report (concat (map rx_frame_bytes fs) @ rest @ rx_usb_report_bytes r) = Some r"
proof -
  let ?p = "concat (map rx_frame_bytes fs) @ rest @ rx_usb_report_bytes r"
  have "chunks_exact 197 (concat (map rx_frame_bytes fs) @ rest) = map rx_frame_bytes fs"
    using assms by (intro chunks_exact_concat) (simp_all add: rx_frame_bytes_length)
  moreover have "map (rx_frame_from_bytes \<circ> rx_frame_bytes) fs = fs"
    using assms(1) by (intro map_idI) (simp add: rx_frame_roundtrip)
  ultimately have "rx_packet_frames ?p = Some fs"
    by (simp add: rx_packet_frames_def rx_usb_report_length RX_USB_REPORT_SIZE_def RX_FRAME_SIZE_def)
  moreover have "drop (length ?p - 11) ?p = rx_usb_report_bytes r"
    by (simp add: rx_usb_report_length)
  then have "rx_packet_usb_report ?p = Some r"
    using u32_bytes_join [of "ru_sof_count r"] u16_bytes_join [of "ru_fifo_rx_underflow_count r"]
      u16_bytes_join [of "ru_fifo_tx_overflow_count r"]
    by (simp only: rx_packet_usb_report_def RX_USB_REPORT_SIZE_def Let_def)
      (simp add: rx_usb_report_length rx_usb_report_bytes_def u32_bytes_def u16_bytes_def u32_le_def u16_le_def)
  ultimately show ?thesis
    by simp
qed

text \<open>
  C25: received packets are read back. A packet laid out as the gateware does (whole frames, possibly
  an incomplete one, and the report in its last 11 bytes) yields exactly its frames, with the
  incomplete one dropped, and its report.
\<close>

theorem rx_packet_roundtrip:
  assumes "\<forall>f \<in> set fs. frame_ok (if_frame f)" and "length rest < 197"
  shows "rx_packet_frames (concat (map rx_frame_bytes fs) @ rest @ rx_usb_report_bytes r) = Some fs \<and>
    rx_packet_usb_report (concat (map rx_frame_bytes fs) @ rest @ rx_usb_report_bytes r) = Some r"
  using rx_packet_read_back [OF assms] .

theorem rx_packet_roundtrip_witness:
  "rx_packet_frames (rx_frame_bytes (example_frame 3 7 True) @ [1, 2, 3] @
     rx_usb_report_bytes \<lparr>ru_sof_count = 0x01020304, ru_fifo_rx_level = 5, ru_fifo_tx_level = 9,
       ru_fifo_rx_underflow_count = 0x102, ru_fifo_tx_overflow_count = 3, ru_sequence_count = 4\<rparr>) =
   Some [example_frame 3 7 True]"
  using rx_packet_roundtrip [of "[example_frame 3 7 True]" "[1, 2, 3]"] by simp

end
