(* ===== verification/Loopback_Spec.thy ===== *)
theory Loopback_Spec
  imports Audio_Spec "HOL-Library.Sublist"
begin

text \<open>
  The flow of frames through the loopback handler of \<^verbatim>\<open>tedium-tool/src/framer/audio.rs\<close>: received
  packets fill two rings, the audio processor moves frames from one ring to the next, and transmitted
  packets empty it. The rings of the \<^verbatim>\<open>ringbuf\<close> crate are any operations with the documented
  behaviour \<open>ring_buffer\<close>.
\<close>

section \<open>Rings\<close>

text \<open>Pushing \<open>fs\<close> one by one, each frame that does not fit dropped.\<close>

definition enqueued :: "('q \<Rightarrow> 'a list) \<Rightarrow> ('q \<Rightarrow> nat) \<Rightarrow> 'q \<Rightarrow> 'a list \<Rightarrow> 'q \<Rightarrow> bool" where
  "enqueued content cap q fs q' \<longleftrightarrow>
     content q' = content q @ take (cap q - length (content q)) fs \<and> cap q' = cap q"

definition dropped :: "('q \<Rightarrow> 'a list) \<Rightarrow> ('q \<Rightarrow> nat) \<Rightarrow> 'q \<Rightarrow> 'a list \<Rightarrow> nat" where
  "dropped content cap q fs = length fs - (cap q - length (content q))"

lemma ring_push_None:
  "ring_buffer R content cap \<Longrightarrow> ring_push R a q = None \<Longrightarrow> cap q \<le> length (content q)"
  unfolding ring_buffer_def by (elim conjE allE [where x = a]) (force split: option.splits)

lemma ring_push_Some:
  "ring_buffer R content cap \<Longrightarrow> ring_push R a q = Some q' \<Longrightarrow>
    length (content q) < cap q \<and> content q' = content q @ [a] \<and> cap q' = cap q"
  unfolding ring_buffer_def by (elim conjE allE [where x = a]) (force split: option.splits)

lemma ring_pop_None: "ring_buffer R content cap \<Longrightarrow> ring_pop R q = None \<Longrightarrow> content q = []"
  unfolding ring_buffer_def by (force split: option.splits)

lemma ring_pop_Some:
  "ring_buffer R content cap \<Longrightarrow> ring_pop R q = Some (a, q') \<Longrightarrow>
    content q = a # content q' \<and> cap q' = cap q"
  unfolding ring_buffer_def by (force split: option.splits)

lemma ring_len_content: "ring_buffer R content cap \<Longrightarrow> ring_len R q = length (content q)"
  by (simp add: ring_buffer_def)

lemma ring_content_bounded: "ring_buffer R content cap \<Longrightarrow> length (content q) \<le> cap q"
  by (simp add: ring_buffer_def)

lemma enqueued_Nil [simp]: "enqueued content cap q [] q" "dropped content cap q [] = 0"
  by (simp_all add: enqueued_def dropped_def)

lemma enqueued_append:
  assumes "enqueued content cap q fs q1" and "enqueued content cap q1 gs q2"
    and "length (content q) \<le> cap q"
  shows "enqueued content cap q (fs @ gs) q2"
    and "dropped content cap q (fs @ gs) = dropped content cap q fs + dropped content cap q1 gs"
  using assms by (auto simp: enqueued_def dropped_def min_def)

section \<open>One packet\<close>

lemma u32_increment_eq:
  assumes "unat x + Suc n < 2 ^ 32"
  shows "u32_increment x = Some (x + 1)" and "unat (x + 1) = Suc (unat x)"
proof -
  from assms have "x \<noteq> 0xffffffff"
    by auto
  then show "u32_increment x = Some (x + 1)"
    by (simp add: u32_increment_def)
  from assms show "unat (x + 1) = Suc (unat x)"
    by (simp add: unat_word_ariths)
qed

definition counters :: "'q rx_packet_processor \<Rightarrow> u32 list" where
  "counters rx =
     [cs_sof_discontinuity_count (rp_cumulative rx), cs_frame_discontinuity_count (rp_cumulative rx),
      cs_ringbuf_full_drop_count (rp_cumulative rx), rp_signaling_frames_drop_count rx]"

definition histograms :: "'q rx_packet_processor \<Rightarrow> u32 list" where
  "histograms rx =
     ps_rx_fifo_level_histogram (rp_periodic rx) @ ps_tx_fifo_level_histogram (rp_periodic rx)"

text \<open>Every counter can be incremented \<open>n\<close> times.\<close>

definition counters_room :: "nat \<Rightarrow> 'q rx_packet_processor \<Rightarrow> bool" where
  "counters_room n rx \<longleftrightarrow> n < 2 ^ 32 \<and> (\<forall>x \<in> set (counters rx @ histograms rx). unat x + n < 2 ^ 32)"

definition rx_ok :: "'q rx_packet_processor \<Rightarrow> bool" where
  "rx_ok rx \<longleftrightarrow> ps_frame_count (rp_periodic rx) < 8000 \<and>
     length (ps_rx_fifo_level_histogram (rp_periodic rx)) = 8 \<and>
     length (ps_tx_fifo_level_histogram (rp_periodic rx)) = 32"

lemma frame_count_increment:
  assumes "(x :: u32) < 8000"
  shows "u32_increment x = Some (x + 1)" and "\<not> 8000 \<le> x + 1 \<Longrightarrow> x + 1 < 8000"
proof -
  have "x \<noteq> 0xffffffff"
    using assms by auto
  then show "u32_increment x = Some (x + 1)"
    by (simp add: u32_increment_def)
qed (simp add: not_le)

text \<open>What a stretch of received frames does to the processor's rings and drop counts.\<close>

definition rx_received ::
  "('q \<Rightarrow> internal_frame list) \<Rightarrow> ('q \<Rightarrow> nat) \<Rightarrow> 'q rx_packet_processor \<Rightarrow> internal_frame list \<Rightarrow>
    'q rx_packet_processor \<Rightarrow> bool" where
  "rx_received content cap rx fs rx' \<longleftrightarrow>
     enqueued content cap (rp_unprocessed_frames rx) fs (rp_unprocessed_frames rx') \<and>
     enqueued content cap (rp_signaling_frames rx) fs (rp_signaling_frames rx') \<and>
     unat (cs_ringbuf_full_drop_count (rp_cumulative rx')) =
       unat (cs_ringbuf_full_drop_count (rp_cumulative rx)) +
       dropped content cap (rp_unprocessed_frames rx) fs \<and>
     unat (rp_signaling_frames_drop_count rx') =
       unat (rp_signaling_frames_drop_count rx) + dropped content cap (rp_signaling_frames rx) fs"

lemma rx_received_refl: "rx_received content cap rx [] rx"
  by (simp add: rx_received_def)

lemma rx_received_trans:
  assumes R: "ring_buffer R content cap"
    and 1: "rx_received content cap rx fs rx1" and 2: "rx_received content cap rx1 gs rx2"
  shows "rx_received content cap rx (fs @ gs) rx2"
proof -
  note fits = ring_content_bounded [OF R]
  from 1 2 have "enqueued content cap (rp_unprocessed_frames rx) fs (rp_unprocessed_frames rx1)"
    "enqueued content cap (rp_unprocessed_frames rx1) gs (rp_unprocessed_frames rx2)"
    "enqueued content cap (rp_signaling_frames rx) fs (rp_signaling_frames rx1)"
    "enqueued content cap (rp_signaling_frames rx1) gs (rp_signaling_frames rx2)"
    by (simp_all add: rx_received_def)
  note this enqueued_append [OF this(1,2) fits] enqueued_append [OF this(3,4) fits]
  with 1 2 show ?thesis
    by (simp add: rx_received_def)
qed

lemma counters_room_mono: "counters_room n rx \<Longrightarrow> m \<le> n \<Longrightarrow> counters_room m rx"
  by (force simp: counters_room_def)

lemma queue_push:
  assumes "ring_buffer R content cap"
  shows "enqueued content cap q [f] (case ring_push R f q of Some q' \<Rightarrow> q' | None \<Rightarrow> q) \<and>
    dropped content cap q [f] = (case ring_push R f q of Some q' \<Rightarrow> 0 | None \<Rightarrow> 1)"
proof (cases "ring_push R f q")
  case None
  with ring_push_None [OF assms None] show ?thesis
    by (simp add: enqueued_def dropped_def)
next
  case (Some q')
  with ring_push_Some [OF assms Some] show ?thesis
    by (auto simp: enqueued_def dropped_def take_Cons')
qed

text \<open>The state a frame leaves, when no counter is at its maximum.\<close>

definition rx_after_frame ::
  "('q, internal_frame) ring_ops \<Rightarrow> internal_frame \<Rightarrow> 'q rx_packet_processor \<Rightarrow> 'q rx_packet_processor" where
  "rx_after_frame R f rx =
     (let full = ring_push R f (rp_unprocessed_frames rx) = None;
          signaling_full = ring_push R f (rp_signaling_frames rx) = None;
          n = ps_frame_count (rp_periodic rx) + 1;
          c = rp_cumulative rx
      in rx
        \<lparr>rp_periodic := (if 8000 \<le> n then periodic_statistics_default
           else (rp_periodic rx)\<lparr>ps_frame_count := n\<rparr>),
         rp_cumulative := c
           \<lparr>cs_frame_discontinuity_count := cs_frame_discontinuity_count c +
              of_bool (if_frame_count f \<noteq> rp_frame_count_next rx),
            cs_ringbuf_full_drop_count := cs_ringbuf_full_drop_count c + of_bool full\<rparr>,
         rp_frame_count_next := if_frame_count f + 1,
         rp_unprocessed_frames :=
           (case ring_push R f (rp_unprocessed_frames rx) of Some q \<Rightarrow> q | None \<Rightarrow> rp_unprocessed_frames rx),
         rp_signaling_frames :=
           (case ring_push R f (rp_signaling_frames rx) of Some q \<Rightarrow> q | None \<Rightarrow> rp_signaling_frames rx),
         rp_signaling_frames_drop_count := rp_signaling_frames_drop_count rx + of_bool signaling_full\<rparr>)"

lemma increment_bounds:
  assumes "unat (x :: u32) + Suc n < 2 ^ 32"
  shows "unat (x + of_bool b) + n < 2 ^ 32" and "unat (x + of_bool b) = unat x + of_bool b"
  using u32_increment_eq(2) [OF assms] assms by simp_all

lemma rx_process_frame_eq:
  assumes "rx_ok rx" and "counters_room (Suc n) rx"
  shows "\<exists>ms. rx_process_frame R f rx = Some (ms, rx_after_frame R f rx)"
proof -
  have "u32_increment x = Some (x + 1)" if "x \<in> set (counters rx)" for x
    using that assms(2) u32_increment_eq(1) [of x n] by (auto simp: counters_room_def)
  then have inc: "u32_increment (cs_frame_discontinuity_count (rp_cumulative rx)) =
      Some (cs_frame_discontinuity_count (rp_cumulative rx) + 1)"
    "u32_increment (cs_ringbuf_full_drop_count (rp_cumulative rx)) =
      Some (cs_ringbuf_full_drop_count (rp_cumulative rx) + 1)"
    "u32_increment (rp_signaling_frames_drop_count rx) = Some (rp_signaling_frames_drop_count rx + 1)"
    by (simp_all add: counters_def)
  have "u32_increment (ps_frame_count (rp_periodic rx)) = Some (ps_frame_count (rp_periodic rx) + 1)"
    using assms(1) by (intro frame_count_increment) (simp add: rx_ok_def)
  with inc show ?thesis
    by (cases "ring_push R f (rp_unprocessed_frames rx)"; cases "ring_push R f (rp_signaling_frames rx)")
      (simp_all add: rx_process_frame_def rx_count_frame_def rx_check_frame_count_def
        rx_push_unprocessed_def rx_push_signaling_def rx_after_frame_def Let_def)
qed

lemma rx_after_frame_ok:
  assumes "rx_ok rx" and "counters_room (Suc n) rx"
  shows "rx_ok (rx_after_frame R f rx) \<and> counters_room n (rx_after_frame R f rx)"
proof
  show "rx_ok (rx_after_frame R f rx)"
    using assms(1) frame_count_increment(2) [of "ps_frame_count (rp_periodic rx)"]
    by (simp add: rx_ok_def rx_after_frame_def Let_def periodic_statistics_default_def RX_FIFO_DEPTH_def
        TX_FIFO_DEPTH_def)
  have "unat x + n < 2 ^ 32" if "x \<in> set (histograms (rx_after_frame R f rx))" for x
  proof -
    have "x \<in> set (histograms rx) \<or> x = 0"
      using that
      by (auto simp: rx_after_frame_def Let_def histograms_def periodic_statistics_default_def
          split: if_splits)
    then show ?thesis
      using counters_room_mono [OF assms(2), of n] by (auto simp: counters_room_def)
  qed
  moreover have "unat x + n < 2 ^ 32" if "x \<in> set (counters (rx_after_frame R f rx))" for x
    using that assms(2) increment_bounds(1) [of _ n]
    by (auto simp: counters_room_def rx_after_frame_def Let_def counters_def simp del: of_bool_eq_iff)
  ultimately show "counters_room n (rx_after_frame R f rx)"
    using assms(2) by (auto simp: counters_room_def)
qed

lemma rx_after_frame_received:
  assumes "ring_buffer R content cap" and "counters_room (Suc n) rx"
  shows "rx_received content cap rx [f] (rx_after_frame R f rx)"
proof -
  have "unat (x + of_bool b) = unat x + of_bool b" if "x \<in> set (counters rx)" for x and b
    using that assms(2) increment_bounds(2) [of x n b] by (simp add: counters_room_def)
  then have "unat (cs_ringbuf_full_drop_count (rp_cumulative rx) + of_bool b) =
      unat (cs_ringbuf_full_drop_count (rp_cumulative rx)) + of_bool b"
    "unat (rp_signaling_frames_drop_count rx + of_bool b) = unat (rp_signaling_frames_drop_count rx) + of_bool b"
    for b
    by (simp_all add: counters_def)
  then show ?thesis
    using queue_push [OF assms(1), of "rp_unprocessed_frames rx" f]
      queue_push [OF assms(1), of "rp_signaling_frames rx" f]
    by (simp add: rx_received_def rx_after_frame_def Let_def split: option.splits)
qed

lemma rx_process_frames_eq:
  assumes "ring_buffer R content cap" and "rx_ok rx" and "counters_room (n + length fs) rx"
  shows "\<exists>ms rx'. rx_process_frames R fs rx = Some (ms, rx') \<and> rx_ok rx' \<and> counters_room n rx' \<and>
    rx_received content cap rx fs rx' \<and>
    rp_tx_fifo_level_min rx' = rp_tx_fifo_level_min rx \<and> rp_tx_fifo_level_max rx' = rp_tx_fifo_level_max rx"
  using assms(2,3)
proof (induction fs arbitrary: rx)
  case (Cons f fs)
  let ?rx = "rx_after_frame R f rx"
  have room: "counters_room (Suc (n + length fs)) rx"
    using Cons.prems(2) by simp
  obtain ms where step: "rx_process_frame R f rx = Some (ms, ?rx)"
    using rx_process_frame_eq [OF Cons.prems(1) room] by blast
  note ok = rx_after_frame_ok [OF Cons.prems(1) room, of R f]
  from Cons.IH ok obtain ms' rx' where
    rest: "rx_process_frames R fs ?rx = Some (ms', rx')" "rx_ok rx'" "counters_room n rx'"
    "rx_received content cap ?rx fs rx'" "rp_tx_fifo_level_min rx' = rp_tx_fifo_level_min ?rx"
    "rp_tx_fifo_level_max rx' = rp_tx_fifo_level_max ?rx"
    by blast
  moreover have "rx_received content cap rx (f # fs) rx'"
    using rx_received_trans [OF assms(1) rx_after_frame_received [OF assms(1) room] rest(4)] by simp
  moreover have "rp_tx_fifo_level_min ?rx = rp_tx_fifo_level_min rx"
    "rp_tx_fifo_level_max ?rx = rp_tx_fifo_level_max rx"
    by (simp_all add: rx_after_frame_def Let_def)
  ultimately show ?case
    using step by simp
qed (simp add: rx_received_refl)

section \<open>Transfers in\<close>

text \<open>A packet the handler can process: a whole report with FIFO levels within the depths.\<close>

definition packet_ok :: "u8 list \<Rightarrow> bool" where
  "packet_ok packet \<longleftrightarrow>
     (case rx_packet_usb_report packet of None \<Rightarrow> False
      | Some r \<Rightarrow> unat (ru_fifo_rx_level r) < RX_FIFO_DEPTH \<and> unat (ru_fifo_tx_level r) < TX_FIFO_DEPTH)"

definition packet_frames :: "u8 list \<Rightarrow> internal_frame list" where
  "packet_frames packet = (case rx_packet_frames packet of None \<Rightarrow> [] | Some fs \<Rightarrow> fs)"

lemma histogram_increment_eq:
  assumes "i < length h" and "\<forall>x \<in> set h. unat x + Suc n < 2 ^ 32"
  shows "histogram_increment h i = Some (h[i := h ! i + 1])"
    and "\<forall>x \<in> set (h[i := h ! i + 1]). unat x + n < 2 ^ 32"
proof -
  have "unat (h ! i) + Suc n < 2 ^ 32"
    using assms by simp
  note inc = u32_increment_eq [OF this]
  then show "histogram_increment h i = Some (h[i := h ! i + 1])"
    using assms(1) by (simp add: histogram_increment_def)
  show "\<forall>x \<in> set (h[i := h ! i + 1]). unat x + n < 2 ^ 32"
    using assms inc(2) set_update_subset_insert [of h i "h ! i + 1"] by fastforce
qed

text \<open>The state when the report of a packet has been taken in, before its frames.\<close>

definition rx_after_report :: "rx_usb_report \<Rightarrow> 'q rx_packet_processor \<Rightarrow> 'q rx_packet_processor" where
  "rx_after_report r rx =
     (let p = rp_periodic rx; c = rp_cumulative rx;
          i = unat (ru_fifo_rx_level r); j = unat (ru_fifo_tx_level r)
      in rx
        \<lparr>rp_sof_count_next := ru_sof_count r + 1,
         rp_periodic := p
           \<lparr>ps_rx_fifo_level_histogram :=
              (ps_rx_fifo_level_histogram p)[i := ps_rx_fifo_level_histogram p ! i + 1],
            ps_tx_fifo_level_histogram :=
              (ps_tx_fifo_level_histogram p)[j := ps_tx_fifo_level_histogram p ! j + 1]\<rparr>,
         rp_cumulative := c
           \<lparr>cs_sof_discontinuity_count :=
              cs_sof_discontinuity_count c + of_bool (ru_sof_count r \<noteq> rp_sof_count_next rx),
            cs_rx_fifo_underflow_count := ru_fifo_rx_underflow_count r,
            cs_tx_fifo_overflow_count := ru_fifo_tx_overflow_count r\<rparr>,
         rp_tx_fifo_level_min := min (rp_tx_fifo_level_min rx) (ru_fifo_tx_level r),
         rp_tx_fifo_level_max := max (rp_tx_fifo_level_max rx) (ru_fifo_tx_level r)\<rparr>)"

lemma rx_after_report_ok:
  assumes "rx_ok rx" and "counters_room (Suc n) rx"
    and "unat (ru_fifo_rx_level r) < 8" and "unat (ru_fifo_tx_level r) < 32"
  shows "rx_ok (rx_after_report r rx) \<and> counters_room n (rx_after_report r rx)"
proof
  show "rx_ok (rx_after_report r rx)"
    using assms(1) by (simp add: rx_ok_def rx_after_report_def Let_def)
  let ?h = "ps_rx_fifo_level_histogram (rp_periodic rx)" and ?k = "ps_tx_fifo_level_histogram (rp_periodic rx)"
  have "\<forall>x \<in> set ?h. unat x + Suc n < 2 ^ 32" "\<forall>x \<in> set ?k. unat x + Suc n < 2 ^ 32"
    using assms(2) by (simp_all add: counters_room_def histograms_def)
  note inc = histogram_increment_eq(2) [OF _ this(1)] histogram_increment_eq(2) [OF _ this(2)]
  have "unat x + n < 2 ^ 32" if "x \<in> set (histograms (rx_after_report r rx))" for x
    using that assms inc [of "unat (ru_fifo_rx_level r)"] inc(2) [of "unat (ru_fifo_tx_level r)"]
    by (auto simp: rx_ok_def rx_after_report_def Let_def histograms_def)
  moreover have "unat x + n < 2 ^ 32" if "x \<in> set (counters (rx_after_report r rx))" for x
    using that assms(2) counters_room_mono [OF assms(2), of n] increment_bounds(1) [of _ n]
    by (auto simp: counters_room_def rx_after_report_def Let_def counters_def simp del: of_bool_eq_iff)
  ultimately show "counters_room n (rx_after_report r rx)"
    using assms(2) by (auto simp: counters_room_def)
qed

lemma rx_update_tx_levels_eq:
  "rx_update_tx_levels l x =
     x\<lparr>rp_tx_fifo_level_min := min (rp_tx_fifo_level_min x) l,
       rp_tx_fifo_level_max := max (rp_tx_fifo_level_max x) l\<rparr>"
proof -
  have min: "(if l < rp_tx_fifo_level_min x then x\<lparr>rp_tx_fifo_level_min := l\<rparr> else x) =
      x\<lparr>rp_tx_fifo_level_min := min (rp_tx_fifo_level_min x) l\<rparr>" for x :: "'a rx_packet_processor"
    by (cases "l < rp_tx_fifo_level_min x") (simp_all add: min_absorb1 min_absorb2)
  have max: "(if rp_tx_fifo_level_max x < l then x\<lparr>rp_tx_fifo_level_max := l\<rparr> else x) =
      x\<lparr>rp_tx_fifo_level_max := max (rp_tx_fifo_level_max x) l\<rparr>" for x :: "'a rx_packet_processor"
    by (cases "rp_tx_fifo_level_max x < l") (simp_all add: max_absorb1 max_absorb2)
  show ?thesis
    by (simp add: rx_update_tx_levels_def Let_def min max)
qed

lemma rx_process_eq:
  assumes "rx_ok rx" and "counters_room (Suc n) rx"
  shows "rx_process R packet rx =
    (case rx_packet_usb_report packet of None \<Rightarrow> None
     | Some r \<Rightarrow>
         if unat (ru_fifo_rx_level r) < 8 \<and> unat (ru_fifo_tx_level r) < 32
         then rx_process_frames R (packet_frames packet) (rx_after_report r rx) else None)"
proof (cases "rx_packet_usb_report packet")
  case (Some r)
  let ?h = "ps_rx_fifo_level_histogram (rp_periodic rx)" and ?k = "ps_tx_fifo_level_histogram (rp_periodic rx)"
  let ?i = "unat (ru_fifo_rx_level r)" and ?j = "unat (ru_fifo_tx_level r)"
  have len: "length ?h = 8" "length ?k = 32"
    using assms(1) by (simp_all add: rx_ok_def)
  have room: "\<forall>x \<in> set ?h. unat x + Suc n < 2 ^ 32" "\<forall>x \<in> set ?k. unat x + Suc n < 2 ^ 32"
    "unat (cs_sof_discontinuity_count (rp_cumulative rx)) + Suc n < 2 ^ 32"
    using assms(2) by (simp_all add: counters_room_def histograms_def counters_def)
  have hi: "histogram_increment ?h ?i = (if ?i < 8 then Some (?h[?i := ?h ! ?i + 1]) else None)"
    "histogram_increment ?k ?j = (if ?j < 32 then Some (?k[?j := ?k ! ?j + 1]) else None)"
    using histogram_increment_eq(1) [OF _ room(1)] histogram_increment_eq(1) [OF _ room(2)] len
    by (auto simp: histogram_increment_def slice_index_def)
  obtain fs where fs: "rx_packet_frames packet = Some fs"
    using Some by (auto simp: rx_packet_usb_report_def rx_packet_frames_def split: if_splits)
  show ?thesis
    using fs
    by (simp add: rx_process_def rx_check_sof_count_def rx_update_statistics_def rx_update_tx_levels_eq Some hi
        u32_increment_eq(1) [OF room(3)] packet_frames_def rx_after_report_def Let_def)
qed (simp add: rx_process_def)

lemma packet_ok_iff:
  assumes "rx_ok rx" and "counters_room (Suc n) rx"
  shows "packet_ok packet \<longleftrightarrow> (\<exists>r. rx_packet_usb_report packet = Some r \<and>
    rx_process R packet rx = rx_process_frames R (packet_frames packet) (rx_after_report r rx) \<and>
    unat (ru_fifo_rx_level r) < 8 \<and> unat (ru_fifo_tx_level r) < 32)"
  using rx_process_eq [OF assms, of R packet]
  by (auto simp: packet_ok_def RX_FIFO_DEPTH_def TX_FIFO_DEPTH_def split: option.splits)

lemma rx_process_ok:
  assumes R: "ring_buffer R content cap" and "rx_ok rx"
    and room: "counters_room (n + Suc (length (packet_frames packet))) rx" and "packet_ok packet"
  shows "\<exists>ms rx'. rx_process R packet rx = Some (ms, rx') \<and> rx_ok rx' \<and> counters_room n rx' \<and>
    rx_received content cap rx (packet_frames packet) rx'"
proof -
  let ?fs = "packet_frames packet"
  have room: "counters_room (Suc (n + length ?fs)) rx"
    using room by simp
  from assms(4) obtain r where r: "rx_packet_usb_report packet = Some r"
    "rx_process R packet rx = rx_process_frames R ?fs (rx_after_report r rx)"
    "unat (ru_fifo_rx_level r) < 8" "unat (ru_fifo_tx_level r) < 32"
    unfolding packet_ok_iff [OF assms(2) room, of packet R] by blast
  from rx_process_frames_eq [OF R, of "rx_after_report r rx" n ?fs]
    rx_after_report_ok [OF assms(2) room r(3,4)] obtain ms rx' where
    "rx_process_frames R ?fs (rx_after_report r rx) = Some (ms, rx')" "rx_ok rx'" "counters_room n rx'"
    "rx_received content cap (rx_after_report r rx) ?fs rx'"
    by blast
  then show ?thesis
    using r(2) by (simp add: rx_received_def rx_after_report_def Let_def)
qed

text \<open>
  C15: a received packet is accounted for. While no counter is at its maximum, processing a packet
  panics exactly when the packet is shorter than its report or the report names a FIFO level outside
  the histograms; otherwise each ring receives the packet's frames in order up to its capacity, and
  the drop counters grow by the number of frames that did not fit.
\<close>

theorem rx_packet_accounted:
  assumes "ring_buffer R content cap" and "rx_ok rx"
    and "counters_room (Suc (length (packet_frames packet))) rx"
  shows "(rx_process R packet rx = None \<longleftrightarrow> \<not> packet_ok packet) \<and>
    (\<forall>ms rx'. rx_process R packet rx = Some (ms, rx') \<longrightarrow>
       rx_ok rx' \<and> rx_received content cap rx (packet_frames packet) rx')"
proof (cases "packet_ok packet")
  case True
  then show ?thesis
    using rx_process_ok [OF assms(1,2), of 0 packet] assms(3) by auto
next
  case False
  have "rx_process R packet rx = None"
    unfolding rx_process_eq [OF assms(2,3)]
    using False by (auto simp: packet_ok_def RX_FIFO_DEPTH_def TX_FIFO_DEPTH_def split: option.splits)
  with False show ?thesis
    by simp
qed

text \<open>A ring of bounded size, as a pair of its capacity and its content.\<close>

definition list_ring :: "(nat \<times> 'a list, 'a) ring_ops" where
  "list_ring =
     \<lparr>ring_new = (\<lambda>n. (n, [])),
      ring_push = (\<lambda>a (n, xs). if length xs < n then Some (n, xs @ [a]) else None),
      ring_pop = (\<lambda>(n, xs). case take n xs of [] \<Rightarrow> None | a # ys \<Rightarrow> Some (a, (n, ys))),
      ring_len = (\<lambda>(n, xs). length (take n xs))\<rparr>"

definition list_ring_content :: "nat \<times> 'a list \<Rightarrow> 'a list" where
  "list_ring_content q = take (fst q) (snd q)"

lemma list_ring_is_ring: "ring_buffer list_ring list_ring_content fst"
  unfolding ring_buffer_def
proof (intro conjI allI)
  fix a and q :: "nat \<times> 'a list"
  show "case ring_push list_ring a q of None \<Rightarrow> fst q \<le> length (list_ring_content q)
    | Some q' \<Rightarrow> length (list_ring_content q) < fst q \<and>
        list_ring_content q' = list_ring_content q @ [a] \<and> fst q' = fst q"
    by (cases q) (simp add: list_ring_def list_ring_content_def)
next
  fix q :: "nat \<times> 'a list"
  obtain n xs where q: "q = (n, xs)"
    by (cases q)
  show "case ring_pop list_ring q of None \<Rightarrow> list_ring_content q = []
    | Some (a, q') \<Rightarrow> list_ring_content q = a # list_ring_content q' \<and> fst q' = fst q"
  proof (cases "take n xs")
    case (Cons a ys)
    then have "length ys < n"
      by (metis Suc_le_eq length_Cons length_take min.cobounded2 min.commute)
    with Cons show ?thesis
      by (simp add: q list_ring_def list_ring_content_def)
  next
    case Nil
    then show ?thesis
      by (simp add: q list_ring_def list_ring_content_def del: take_eq_Nil take_eq_Nil2)
  qed
qed (simp_all add: list_ring_def list_ring_content_def split: prod.splits)

text \<open>A packet with two frames for rings that have room for one.\<close>

definition example_report :: rx_usb_report where
  "example_report = \<lparr>ru_sof_count = 5, ru_fifo_rx_level = 3, ru_fifo_tx_level = 9,
     ru_fifo_rx_underflow_count = 0, ru_fifo_tx_overflow_count = 0, ru_sequence_count = 0\<rparr>"

definition example_packet :: "u8 list" where
  "example_packet = concat (map rx_frame_bytes [example_frame 3 7 True, example_frame 4 7 True]) @
     [] @ rx_usb_report_bytes example_report"

definition example_rx :: "nat \<Rightarrow> (nat \<times> internal_frame list) rx_packet_processor" where
  "example_rx n = rx_packet_processor_new (n, []) (n, [])"

lemma example_packet_simps [simp]:
  "packet_frames example_packet = [example_frame 3 7 True, example_frame 4 7 True]"
  "rx_packet_usb_report example_packet = Some example_report"
  "packet_ok example_packet"
  using rx_packet_read_back [of "[example_frame 3 7 True, example_frame 4 7 True]" "[]" example_report]
  by (simp_all add: example_packet_def packet_frames_def packet_ok_def example_report_def RX_FIFO_DEPTH_def
      TX_FIFO_DEPTH_def)

lemma example_rx_ok: "n < 2 ^ 31 \<Longrightarrow> counters_room n (example_rx m)" "rx_ok (example_rx m)"
  by (auto simp: counters_room_def example_rx_def rx_packet_processor_new_def counters_def histograms_def
      rx_ok_def periodic_statistics_default_def cumulative_statistics_default_def RX_FIFO_DEPTH_def
      TX_FIFO_DEPTH_def)

theorem rx_packet_accounted_witness:
  "\<exists>ms rx'. rx_process list_ring example_packet (example_rx 1) = Some (ms, rx') \<and>
      list_ring_content (rp_unprocessed_frames rx') = [example_frame 3 7 True] \<and>
      unat (cs_ringbuf_full_drop_count (rp_cumulative rx')) = 1"
proof -
  have room: "counters_room (Suc (length (packet_frames example_packet))) (example_rx 1)"
    by (intro example_rx_ok) simp
  show ?thesis
    using rx_packet_accounted [OF list_ring_is_ring example_rx_ok(2) room]
    by (auto simp: rx_received_def enqueued_def dropped_def example_rx_def rx_packet_processor_new_def
        list_ring_content_def cumulative_statistics_default_def)
qed

text \<open>The packets of a transfer that arrived, and the frames in them.\<close>

definition good_packets :: "iso_packet list \<Rightarrow> u8 list list" where
  "good_packets packets = map snd (filter (\<lambda>(status, buffer). status = 0) packets)"

definition received_frames :: "iso_packet list \<Rightarrow> internal_frame list" where
  "received_frames packets = concat (map packet_frames (good_packets packets))"

lemma good_packets_Cons [simp]:
  "good_packets ((status, buffer) # packets) =
     (if status = 0 then buffer # good_packets packets else good_packets packets)"
  by (simp add: good_packets_def)

lemma received_frames_simps [simp]:
  "received_frames [] = []"
  "received_frames ((status, buffer) # packets) =
     (if status = 0 then packet_frames buffer @ received_frames packets else received_frames packets)"
  by (simp_all add: received_frames_def good_packets_def)

lemma process_packets_eq:
  assumes R: "ring_buffer R content cap" and "rx_ok rx"
    and "counters_room (n + length (good_packets packets) + length (received_frames packets)) rx"
    and "\<forall>b \<in> set (good_packets packets). packet_ok b"
  shows "\<exists>ms rx'. process_packets R packets rx = Some (ms, rx') \<and> rx_ok rx' \<and> counters_room n rx' \<and>
    rx_received content cap rx (received_frames packets) rx'"
  using assms(2-4)
proof (induction packets arbitrary: rx)
  case (Cons packet packets)
  obtain status buffer where packet: "packet = (status, buffer)"
    by (cases packet)
  show ?case
  proof (cases "status = 0")
    case True
    let ?n = "n + length (good_packets packets) + length (received_frames packets)"
    have "counters_room (?n + Suc (length (packet_frames buffer))) rx"
      using Cons.prems(2) by (simp add: packet True algebra_simps)
    from rx_process_ok [OF R Cons.prems(1) this] Cons.prems(3) obtain ms rx1 where
      1: "rx_process R buffer rx = Some (ms, rx1)" "rx_ok rx1" "counters_room ?n rx1"
      "rx_received content cap rx (packet_frames buffer) rx1"
      by (auto simp: packet True)
    from Cons.IH [OF 1(2,3)] Cons.prems(3) obtain ms' rx' where
      "process_packets R packets rx1 = Some (ms', rx')" "rx_ok rx'" "counters_room n rx'"
      "rx_received content cap rx1 (received_frames packets) rx'"
      by (auto simp: packet True)
    with 1 show ?thesis
      using rx_received_trans [OF R 1(4)] by (simp add: packet True)
  next
    case False
    with Cons show ?thesis
      by (simp add: packet)
  qed
qed (simp add: rx_received_refl good_packets_def)

section \<open>Draining the received frames\<close>

text \<open>The audio processor over a list of frames, each kept with its count and multiframe bits.\<close>

fun audio_run ::
  "'c maths \<Rightarrow> (nat \<Rightarrow> processor_message list) \<Rightarrow> internal_frame list \<Rightarrow> audio_processor \<Rightarrow>
    (internal_frame list \<times> audio_processor) option" where
  "audio_run M waiting [] ap = Some ([], ap)"
| "audio_run M waiting (f # fs) ap =
     Option.bind (audio_process_frame M (waiting 0) (if_frame f) ap) (\<lambda>(frame, ap).
     Option.bind (audio_run M (\<lambda>n. waiting (Suc n)) fs ap) (\<lambda>(gs, ap).
       Some (f\<lparr>if_frame := frame\<rparr> # gs, ap)))"

lemma audio_run_counts:
  "audio_run M waiting fs ap = Some (gs, ap') \<Longrightarrow>
    map if_frame_count gs = map if_frame_count fs \<and> map if_mf_bits gs = map if_mf_bits fs"
proof (induction fs arbitrary: waiting ap gs)
  case (Cons f fs)
  from Cons.prems obtain frame ap1 hs where
    "audio_run M (\<lambda>n. waiting (Suc n)) fs ap1 = Some (hs, ap')" "gs = f\<lparr>if_frame := frame\<rparr> # hs"
    by (auto simp: bind_eq_Some_conv)
  with Cons.IH show ?case
    by auto
qed simp

lemma audio_run_ok:
  assumes "\<forall>f \<in> set fs. frame_ok (if_frame f)" and "\<And>n. \<forall>m \<in> set (waiting n). message_ok m"
    and "patching_ok (ap_patching ap)"
  shows "\<exists>gs ap'. audio_run M waiting fs ap = Some (gs, ap') \<and> patching_ok (ap_patching ap') \<and>
    (\<forall>g \<in> set gs. frame_ok (if_frame g))"
  using assms
proof (induction fs arbitrary: waiting ap)
  case (Cons f fs)
  from audio_process_frame_eq [OF _ Cons.prems(3,2), of "if_frame f" M 0] Cons.prems(1)
  obtain frame ap1 where 1: "audio_process_frame M (waiting 0) (if_frame f) ap = Some (frame, ap1)"
    "frame_ok frame" "patching_ok (ap_patching ap1)"
    by auto
  from Cons.IH [of "\<lambda>n. waiting (Suc n)", OF _ Cons.prems(2) 1(3)] Cons.prems(1) obtain gs ap' where
    "audio_run M (\<lambda>n. waiting (Suc n)) fs ap1 = Some (gs, ap')" "patching_ok (ap_patching ap')"
    "\<forall>g \<in> set gs. frame_ok (if_frame g)"
    by auto
  with 1 show ?case
    by simp
qed simp

text \<open>What draining does to a handler, and when it panics.\<close>

definition drained ::
  "('q \<Rightarrow> internal_frame list) \<Rightarrow> ('q \<Rightarrow> nat) \<Rightarrow> 'q loopback_handler \<Rightarrow> internal_frame list \<Rightarrow>
    audio_processor \<Rightarrow> 'q loopback_handler \<Rightarrow> bool" where
  "drained content cap h gs ap h' \<longleftrightarrow>
     (\<exists>u. content u = [] \<and> cap u = cap (rp_unprocessed_frames (lh_rx_packet_processor h)) \<and>
        lh_rx_packet_processor h' = (lh_rx_packet_processor h)\<lparr>rp_unprocessed_frames := u\<rparr>) \<and>
     content (lh_processed_frames h') = content (lh_processed_frames h) @ gs \<and>
     cap (lh_processed_frames h') = cap (lh_processed_frames h) \<and> lh_processor h' = ap"

abbreviation unprocessed :: "'q loopback_handler \<Rightarrow> 'q" where
  "unprocessed h \<equiv> rp_unprocessed_frames (lh_rx_packet_processor h)"

lemma drain_frames_eq:
  assumes R: "ring_buffer R content cap"
    and "audio_run M waiting (content (unprocessed h)) (lh_processor h) = Some (gs, ap)"
    and "length (content (unprocessed h)) < fuel"
  shows "if length (content (lh_processed_frames h)) + length (content (unprocessed h)) \<le> cap (lh_processed_frames h)
    then \<exists>h'. drain_frames fuel R M waiting h = Some h' \<and> drained content cap h gs ap h'
    else drain_frames fuel R M waiting h = None"
  using assms(2,3)
proof (induction fuel arbitrary: waiting h gs)
  case (Suc fuel)
  let ?u = "unprocessed h" and ?p = "lh_processed_frames h"
  show ?case
  proof (cases "ring_pop R ?u")
    case None
    with ring_pop_None [OF R None] Suc.prems ring_content_bounded [OF R, of ?p] show ?thesis
      by (auto simp: drained_def intro: exI [of _ ?u])
  next
    case (Some fu)
    then obtain f u where pop: "ring_pop R ?u = Some (f, u)"
      by (cases fu) auto
    have u: "content ?u = f # content u" "cap u = cap ?u"
      using ring_pop_Some [OF R pop] by simp_all
    from Suc.prems(1) obtain frame ap1 hs where
      run: "audio_process_frame M (waiting 0) (if_frame f) (lh_processor h) = Some (frame, ap1)"
      "audio_run M (\<lambda>n. waiting (Suc n)) (content u) ap1 = Some (hs, ap)"
      and gs: "gs = f\<lparr>if_frame := frame\<rparr> # hs"
      by (auto simp: u bind_eq_Some_conv)
    show ?thesis
    proof (cases "ring_push R (f\<lparr>if_frame := frame\<rparr>) ?p")
      case None
      with ring_push_None [OF R None] show ?thesis
        by (simp add: pop run u)
    next
      case (Some p)
      let ?h = "h\<lparr>lh_rx_packet_processor := (lh_rx_packet_processor h)\<lparr>rp_unprocessed_frames := u\<rparr>,
        lh_processor := ap1, lh_processed_frames := p\<rparr>"
      have p: "content p = content ?p @ [f\<lparr>if_frame := frame\<rparr>]" "cap p = cap ?p"
        using ring_push_Some [OF R Some] by simp_all
      from Suc.IH [of "\<lambda>n. waiting (Suc n)" ?h hs] Suc.prems(2) run(2) u have
        "if length (content p) + length (content u) \<le> cap p
         then \<exists>h'. drain_frames fuel R M (\<lambda>n. waiting (Suc n)) ?h = Some h' \<and> drained content cap ?h hs ap h'
         else drain_frames fuel R M (\<lambda>n. waiting (Suc n)) ?h = None"
        by simp
      then show ?thesis
        by (auto simp: pop run u p gs Some drained_def split: if_splits)
    qed
  qed
qed simp

section \<open>The callbacks\<close>

lemma rx_frame_from_bytes_ok:
  assumes "length b = 197"
  shows "frame_ok (if_frame (rx_frame_from_bytes b))"
proof -
  have "length (take 8 (drop (8 * t) b)) = 8" if "t < 24" for t
    using assms that by simp
  then show ?thesis
    by (auto simp: rx_frame_from_bytes_def frame_ok_def CHANNELS_def TIMESLOTS_PER_CHANNEL_def simp del: upt_Suc)
qed

lemma chunks_exact_length: "x \<in> set (chunks_exact n xs) \<Longrightarrow> length x = n"
proof (induction n xs rule: chunks_exact.induct)
  case (1 n xs)
  then show ?case
    by (subst (asm) (2) chunks_exact.simps) (auto split: if_splits)
qed

lemma received_frames_ok: "\<forall>f \<in> set (received_frames packets). frame_ok (if_frame f)"
  by (auto simp: received_frames_def packet_frames_def rx_packet_frames_def RX_FRAME_SIZE_def
      dest!: chunks_exact_length intro!: rx_frame_from_bytes_ok split: option.splits if_splits)

text \<open>The frames the audio processor gets in a callback: those left over, then those received that fit.\<close>

definition frames_in ::
  "('q \<Rightarrow> internal_frame list) \<Rightarrow> ('q \<Rightarrow> nat) \<Rightarrow> 'q loopback_handler \<Rightarrow> iso_packet list \<Rightarrow>
    internal_frame list" where
  "frames_in content cap h packets =
     content (unprocessed h) @
       take (cap (unprocessed h) - length (content (unprocessed h))) (received_frames packets)"

definition handler_ok :: "('q \<Rightarrow> internal_frame list) \<Rightarrow> 'q loopback_handler \<Rightarrow> bool" where
  "handler_ok content h \<longleftrightarrow>
     rx_ok (lh_rx_packet_processor h) \<and> patching_ok (ap_patching (lh_processor h)) \<and>
     (\<forall>f \<in> set (content (unprocessed h)). frame_ok (if_frame f))"

lemma reset_levels_simps [simp]:
  "rx_ok (reset_tx_fifo_level_stats rx) = rx_ok rx"
  "counters_room n (reset_tx_fifo_level_stats rx) = counters_room n rx"
  "rp_unprocessed_frames (reset_tx_fifo_level_stats rx) = rp_unprocessed_frames rx"
  by (simp_all add: reset_tx_fifo_level_stats_def rx_ok_def counters_room_def counters_def histograms_def)

lemma handle_in_eq:
  assumes R: "ring_buffer R content cap" and ok: "handler_ok content h"
    and room: "counters_room (length (good_packets packets) + length (received_frames packets))
      (lh_rx_packet_processor h)"
    and packets: "\<forall>b \<in> set (good_packets packets). packet_ok b"
    and messages: "\<forall>n. \<forall>m \<in> set (waiting n). message_ok m"
  shows "\<exists>gs ap. audio_run M waiting (frames_in content cap h packets) (lh_processor h) = Some (gs, ap) \<and>
    (if length (content (lh_processed_frames h)) + length (frames_in content cap h packets)
        \<le> cap (lh_processed_frames h)
     then \<exists>ms h'. handle_in R M waiting packets h = Some (ms, h') \<and> content (unprocessed h') = [] \<and>
       content (lh_processed_frames h') = content (lh_processed_frames h) @ gs \<and>
       lh_processor h' = ap \<and> handler_ok content h'
     else handle_in R M waiting packets h = None)"
proof -
  let ?rx = "reset_tx_fifo_level_stats (lh_rx_packet_processor h)"
  from process_packets_eq [OF R, of ?rx 0 packets] ok room packets obtain ms rx where
    rx: "process_packets R packets ?rx = Some (ms, rx)" "rx_ok rx"
    "rx_received content cap ?rx (received_frames packets) rx"
    by (auto simp: handler_ok_def)
  let ?h = "h\<lparr>lh_rx_packet_processor := rx\<rparr>" and ?ins = "frames_in content cap h packets"
  have ins: "content (unprocessed ?h) = ?ins"
    using rx(3) by (simp add: rx_received_def enqueued_def frames_in_def)
  have "\<forall>f \<in> set ?ins. frame_ok (if_frame f)"
    using ok received_frames_ok [of packets] set_take_subset
    by (fastforce simp: frames_in_def handler_ok_def)
  from audio_run_ok [OF this, of waiting "lh_processor h" M] messages ok obtain gs ap where
    run: "audio_run M waiting ?ins (lh_processor h) = Some (gs, ap)" "patching_ok (ap_patching ap)"
    by (auto simp: handler_ok_def)
  have "ring_len R (rp_unprocessed_frames rx) = length ?ins"
    using ring_len_content [OF R] ins by simp
  then have handle_in: "handle_in R M waiting packets h =
      Option.bind (drain_frames (Suc (length ?ins)) R M waiting ?h)
        (\<lambda>self. Some (ms @ [TxFIFORange (rp_tx_fifo_level_min rx) (rp_tx_fifo_level_max rx)], self))"
    by (simp add: handle_in_def rx(1) Let_def del: drain_frames.simps)
  have "if length (content (lh_processed_frames h)) + length ?ins \<le> cap (lh_processed_frames h)
    then \<exists>h'. drain_frames (Suc (length ?ins)) R M waiting ?h = Some h' \<and> drained content cap ?h gs ap h'
    else drain_frames (Suc (length ?ins)) R M waiting ?h = None"
    using drain_frames_eq [OF R, of M waiting ?h gs ap "Suc (length ?ins)"] run(1) ins by simp
  moreover have "handler_ok content h'" if drained: "drained content cap ?h gs ap h'" for h'
  proof -
    obtain u where "lh_rx_packet_processor h' = rx\<lparr>rp_unprocessed_frames := u\<rparr>"
      using drained by (auto simp: drained_def)
    then have "rx_ok (lh_rx_packet_processor h')"
      using rx(2) by (simp add: rx_ok_def)
    moreover have "content (unprocessed h') = []" "lh_processor h' = ap"
      using drained by (auto simp: drained_def)
    ultimately show ?thesis
      using run(2) by (simp add: handler_ok_def)
  qed
  moreover have "content (unprocessed h') = [] \<and> lh_processor h' = ap \<and>
      content (lh_processed_frames h') = content (lh_processed_frames h) @ gs"
    if "drained content cap ?h gs ap h'" for h'
    using that by (auto simp: drained_def)
  ultimately show ?thesis
    unfolding handle_in using run(1) by (auto split: if_splits simp del: drain_frames.simps)
qed

text \<open>
  C10: received frames go through the audio processor in order. When the packets of a transfer are
  well-formed and no counter is at its maximum, the frames left over and those received that fit are
  processed one by one, each exactly once and with its count and multiframe bits kept, and appended
  to the frames to send, and the received ring is left empty. Under these conditions, and if every
  message waiting patches an address that exists, the callback panics exactly when the frames to send
  do not fit in their ring. (A malformed packet, a counter at its maximum or a patch of an address that
  does not exist can panic it as well.)
\<close>

theorem handle_in_processes:
  assumes "ring_buffer R content cap" and "handler_ok content h"
    and "counters_room (length (good_packets packets) + length (received_frames packets))
      (lh_rx_packet_processor h)"
    and "\<forall>b \<in> set (good_packets packets). packet_ok b"
    and "\<forall>n. \<forall>m \<in> set (waiting n). message_ok m"
  shows "\<exists>gs ap. audio_run M waiting (frames_in content cap h packets) (lh_processor h) = Some (gs, ap) \<and>
    map if_frame_count gs = map if_frame_count (frames_in content cap h packets) \<and>
    map if_mf_bits gs = map if_mf_bits (frames_in content cap h packets) \<and>
    (if length (content (lh_processed_frames h)) + length (frames_in content cap h packets)
        \<le> cap (lh_processed_frames h)
     then \<exists>ms h'. handle_in R M waiting packets h = Some (ms, h') \<and> content (unprocessed h') = [] \<and>
       content (lh_processed_frames h') = content (lh_processed_frames h) @ gs \<and>
       lh_processor h' = ap \<and> handler_ok content h'
     else handle_in R M waiting packets h = None)"
  using handle_in_eq [OF assms, of M] audio_run_counts by blast

lemma loopback_handler_new_ok:
  assumes "ring_buffer R content cap"
  shows "handler_ok content (loopback_handler_new R)"
    "n < 2 ^ 32 \<Longrightarrow> counters_room n (lh_rx_packet_processor (loopback_handler_new R))"
    "content (unprocessed (loopback_handler_new R)) = []"
    "content (lh_processed_frames (loopback_handler_new R)) = []"
    "cap (unprocessed (loopback_handler_new R)) = 40"
    "cap (lh_processed_frames (loopback_handler_new R)) = 40"
  using assms
  by (auto simp: handler_ok_def loopback_handler_new_def rx_packet_processor_new_def counters_room_def
      counters_def histograms_def rx_ok_def periodic_statistics_default_def cumulative_statistics_default_def
      RX_FIFO_DEPTH_def TX_FIFO_DEPTH_def ring_buffer_def audio_processor_new_def AUDIO_RINGBUFFER_FRAMES_def)

text \<open>A fresh handler receives one packet of two frames and one that failed.\<close>

theorem handle_in_processes_witness:
  "\<exists>ms h'. handle_in list_ring example_maths (\<lambda>n. []) [(0, example_packet), (1, [])] (loopback_handler_new list_ring) = Some (ms, h') \<and>
     map if_frame_count (list_ring_content (lh_processed_frames h')) = [3, 4]"
proof -
  let ?h = "loopback_handler_new list_ring :: (nat \<times> internal_frame list) loopback_handler"
  let ?ps = "[(0, example_packet), (1, [])] :: iso_packet list"
  note new = loopback_handler_new_ok [OF list_ring_is_ring]
  have "counters_room (length (good_packets ?ps) + length (received_frames ?ps)) (lh_rx_packet_processor ?h)"
    and "\<forall>b \<in> set (good_packets ?ps). packet_ok b" and "\<forall>n. \<forall>m \<in> set ((\<lambda>n. []) n). message_ok m"
    by (simp_all add: good_packets_def new)
  note flow = handle_in_processes [OF list_ring_is_ring new(1) this, of example_maths]
  have "frames_in list_ring_content fst ?h ?ps = [example_frame 3 7 True, example_frame 4 7 True]"
    by (simp add: frames_in_def new)
  with flow show ?thesis
    by (auto simp: new)
qed

text \<open>The transmitted packets take the frames off the ring in order.\<close>

lemma fill_packet_eq:
  assumes R: "ring_buffer R content cap" and "k \<le> length (content q)"
  shows "fst (fill_packet k R q) = map (\<lambda>f. (if_frame_count f, if_frame f)) (take k (content q)) \<and>
    content (snd (fill_packet k R q)) = drop k (content q)"
  using assms(2)
proof (induction k arbitrary: q)
  case (Suc k)
  show ?case
  proof (cases "ring_pop R q")
    case None
    with ring_pop_None [OF R None] Suc.prems show ?thesis by simp
  next
    case (Some fq)
    then obtain f q' where pop: "ring_pop R q = Some (f, q')"
      by (cases fq) auto
    then show ?thesis
      using ring_pop_Some [OF R pop] Suc.IH [of q'] Suc.prems by (simp add: split_beta)
  qed
qed simp

lemma fill_packets_eq:
  assumes R: "ring_buffer R content cap"
  shows "concat (map tx_frames (fst (fill_packets n R q))) =
      map (\<lambda>f. (if_frame_count f, if_frame f)) (take (2 * n) (content q)) \<and>
    content (snd (fill_packets n R q)) = drop (2 * n) (content q) \<and>
    length (fst (fill_packets n R q)) = n \<and>
    (\<forall>p \<in> set (fst (fill_packets n R q)).
       tx_length p = 4 + 196 * length (tx_frames p) \<and> length (tx_frames p) \<le> 2)"
proof (induction n arbitrary: q)
  case (Suc n)
  define k where "k = (if length (content q) \<ge> 2 then 2 else length (content q))"
  have k: "k \<le> length (content q)" "take k (content q) = take 2 (content q)"
    "drop k (content q) = drop 2 (content q)" "k \<le> 2"
    by (auto simp: k_def)
  have two_more: "take (Suc (Suc (2 * n))) (content q) = take 2 (content q) @ take (2 * n) (drop 2 (content q))"
    using take_add [of 2 "2 * n" "content q"] by simp
  obtain fs q1 where 1: "fill_packet k R q = (fs, q1)"
    by fastforce
  obtain ps q2 where 2: "fill_packets n R q1 = (ps, q2)"
    by fastforce
  have "fill_packets (Suc n) R q = (\<lparr>tx_length = 4 + k * 196, tx_frames = fs\<rparr> # ps, q2)"
    using 1 2
    by (simp add: Let_def ring_len_content [OF R] k_def TX_USB_REPORT_SIZE_def TX_FRAME_SIZE_def)
  moreover have fs: "fs = map (\<lambda>f. (if_frame_count f, if_frame f)) (take k (content q))"
    "content q1 = drop k (content q)"
    using fill_packet_eq [OF R k(1)] 1 by simp_all
  moreover have "length fs = k"
    using fs k(1) by simp
  ultimately show ?case
    using Suc.IH [of q1] 2 k by (simp add: two_more del: fill_packets.simps)
qed simp

definition draw_down :: "'q loopback_handler \<Rightarrow> nat" where
  "draw_down h =
     (let rx = lh_rx_packet_processor h
      in of_bool (rp_tx_fifo_level_min rx \<le> rp_tx_fifo_level_max rx \<and> 12 < rp_tx_fifo_level_min rx))"

lemma handle_out_eq:
  assumes R: "ring_buffer R content cap" and out: "handle_out R n h = (ps, h')"
  shows "concat (map tx_frames ps) =
      map (\<lambda>f. (if_frame_count f, if_frame f))
        (take (2 * n) (drop (draw_down h) (content (lh_processed_frames h)))) \<and>
    content (lh_processed_frames h') = drop (draw_down h + 2 * n) (content (lh_processed_frames h)) \<and>
    lh_rx_packet_processor h' = lh_rx_packet_processor h \<and> lh_processor h' = lh_processor h \<and>
    length ps = n \<and>
    (\<forall>p \<in> set ps. tx_length p = 4 + 196 * length (tx_frames p) \<and> length (tx_frames p) \<le> 2)"
proof -
  let ?q = "lh_processed_frames h"
  define q where "q = (if draw_down h = 1
    then (case ring_pop R ?q of Some (_, q') \<Rightarrow> q' | None \<Rightarrow> ?q) else ?q)"
  have q: "content q = drop (draw_down h) (content ?q)"
    using ring_pop_None [OF R, of ?q] ring_pop_Some [OF R, of ?q]
    by (auto simp: q_def draw_down_def Let_def split: option.splits)
  have "handle_out R n h =
      (let (packets, q) = fill_packets n R q in (packets, h\<lparr>lh_processed_frames := q\<rparr>))"
    by (simp add: handle_out_def q_def draw_down_def Let_def)
  with out have "ps = fst (fill_packets n R q)" "h' = h\<lparr>lh_processed_frames := snd (fill_packets n R q)\<rparr>"
    by (simp_all add: split_beta)
  with fill_packets_eq [OF R, of n q] q show ?thesis
    by (simp add: add.commute)
qed

text \<open>
  C16: transmitted packets carry the frames to send in order. A transfer of \<open>n\<close> packets carries the
  oldest frames of the ring, at most two per packet, after one frame is skipped when the lowest
  transmit FIFO level seen exceeds 12; every packet is exactly as long as its report and its frames
  and fits the 512 bytes of its buffer.
\<close>

theorem handle_out_sends:
  assumes "ring_buffer R content cap"
  shows "case handle_out R n h of (ps, h') \<Rightarrow>
    concat (map tx_frames ps) =
      map (\<lambda>f. (if_frame_count f, if_frame f))
        (take (2 * n) (drop (draw_down h) (content (lh_processed_frames h)))) \<and>
    content (lh_processed_frames h') = drop (draw_down h + 2 * n) (content (lh_processed_frames h)) \<and>
    length ps = n \<and>
    (\<forall>p \<in> set ps. tx_length p = 4 + 196 * length (tx_frames p) \<and> tx_length p \<le> 512)"
  using handle_out_eq [OF assms, of n h] by (cases "handle_out R n h") fastforce

theorem handle_out_sends_witness:
  "case handle_out list_ring 2
     ((loopback_handler_new list_ring)\<lparr>lh_processed_frames :=
        (40, [example_frame 3 7 True, example_frame 4 7 True, example_frame 5 7 True])\<rparr>) of (ps, h') \<Rightarrow>
     length ps = 2 \<and> map fst (concat (map tx_frames ps)) = [3, 4, 5] \<and>
     list_ring_content (lh_processed_frames h') = []"
  using handle_out_sends [OF list_ring_is_ring, of 2 "(loopback_handler_new list_ring)\<lparr>lh_processed_frames :=
      (40, [example_frame 3 7 True, example_frame 4 7 True, example_frame 5 7 True])\<rparr>"]
  by (auto simp: list_ring_content_def draw_down_def loopback_handler_new_def rx_packet_processor_new_def split_beta)

section \<open>Frames stay in order over any sequence of callbacks\<close>

text \<open>
  The runs of a handler: transfers complete in any order and number. A run carries the frames
  received and those sent so far.
\<close>

inductive loopback_run ::
  "('q, internal_frame) ring_ops \<Rightarrow> 'c maths \<Rightarrow> internal_frame list \<Rightarrow> (u32 \<times> frame) list \<Rightarrow>
    'q loopback_handler \<Rightarrow> bool"
  for R :: "('q, internal_frame) ring_ops" and M :: "'c maths" where
  start: "loopback_run R M [] [] (loopback_handler_new R)"
| callback_in: "loopback_run R M (fs @ received_frames packets) sent h'"
    if "loopback_run R M fs sent h" and "length packets = PACKETS_PER_TRANSFER"
      and "handle_in R M waiting packets h = Some (ms, h')"
| callback_out: "loopback_run R M fs (sent @ concat (map tx_frames ps)) h'"
    if "loopback_run R M fs sent h" and "handle_out R PACKETS_PER_TRANSFER h = (ps, h')"

lemma rx_frame_blocks:
  "rx_count_frame rx = Some (ms, rx') \<Longrightarrow> rp_unprocessed_frames rx' = rp_unprocessed_frames rx"
  "rx_check_frame_count f rx = Some rx' \<Longrightarrow> rp_unprocessed_frames rx' = rp_unprocessed_frames rx"
  "rx_push_signaling R f rx = Some rx' \<Longrightarrow> rp_unprocessed_frames rx' = rp_unprocessed_frames rx"
  "rx_push_unprocessed R f rx = Some rx' \<Longrightarrow> rp_unprocessed_frames rx' =
     (case ring_push R f (rp_unprocessed_frames rx) of Some q \<Rightarrow> q | None \<Rightarrow> rp_unprocessed_frames rx)"
  by (auto simp: rx_count_frame_def rx_check_frame_count_def rx_push_signaling_def rx_push_unprocessed_def
      bind_eq_Some_conv Let_def split: if_splits option.splits)

lemma rx_process_frame_queue:
  assumes R: "ring_buffer R content cap" and "rx_process_frame R f rx = Some (ms, rx')"
  shows "enqueued content cap (rp_unprocessed_frames rx) [f] (rp_unprocessed_frames rx')"
  using assms(2) queue_push [OF R, of "rp_unprocessed_frames rx" f]
  by (auto simp: rx_process_frame_def bind_eq_Some_conv dest!: rx_frame_blocks split: option.splits)

lemma rx_process_frames_queue:
  assumes R: "ring_buffer R content cap" and "rx_process_frames R fs rx = Some (ms, rx')"
  shows "enqueued content cap (rp_unprocessed_frames rx) fs (rp_unprocessed_frames rx')"
  using assms(2)
proof (induction fs arbitrary: rx ms)
  case (Cons f fs)
  from Cons.prems obtain ms1 rx1 ms2 where
    1: "rx_process_frame R f rx = Some (ms1, rx1)" and 2: "rx_process_frames R fs rx1 = Some (ms2, rx')"
    by (auto simp: bind_eq_Some_conv)
  from enqueued_append(1) [OF rx_process_frame_queue [OF R 1] Cons.IH [OF 2] ring_content_bounded [OF R]]
  show ?case by simp
qed simp

lemma rx_process_queue:
  assumes R: "ring_buffer R content cap" and "rx_process R packet rx = Some (ms, rx')"
  shows "enqueued content cap (rp_unprocessed_frames rx) (packet_frames packet) (rp_unprocessed_frames rx')"
proof -
  from assms(2) obtain rx1 where
    "rx_process_frames R (packet_frames packet) rx1 = Some (ms, rx')"
    "rp_unprocessed_frames rx1 = rp_unprocessed_frames rx"
    by (auto simp: rx_process_def rx_check_sof_count_def rx_update_statistics_def rx_update_tx_levels_eq
        packet_frames_def bind_eq_Some_conv split: if_splits)
  with rx_process_frames_queue [OF R] show ?thesis
    by metis
qed

lemma process_packets_queue:
  assumes R: "ring_buffer R content cap" and "process_packets R packets rx = Some (ms, rx')"
  shows "enqueued content cap (rp_unprocessed_frames rx) (received_frames packets) (rp_unprocessed_frames rx')"
  using assms(2)
proof (induction packets arbitrary: rx ms)
  case (Cons packet packets)
  obtain status buffer where packet: "packet = (status, buffer)"
    by (cases packet)
  from Cons.prems obtain ms1 rx1 ms2 where
    1: "(if status = 0 then rx_process R buffer rx else Some ([], rx)) = Some (ms1, rx1)" and
    2: "process_packets R packets rx1 = Some (ms2, rx')"
    by (auto simp: packet bind_eq_Some_conv)
  show ?case
  proof (cases "status = 0")
    case True
    with 1 have "rx_process R buffer rx = Some (ms1, rx1)"
      by simp
    from enqueued_append(1) [OF rx_process_queue [OF R this] Cons.IH [OF 2] ring_content_bounded [OF R]] True
    show ?thesis by (simp add: packet)
  next
    case False
    with 1 Cons.IH [OF 2] show ?thesis
      by (simp add: packet)
  qed
qed simp

lemma drain_frames_counts:
  assumes R: "ring_buffer R content cap" and "drain_frames fuel R M waiting h = Some h'"
  shows "\<exists>gs. content (unprocessed h') = [] \<and>
    content (lh_processed_frames h') = content (lh_processed_frames h) @ gs \<and>
    map if_frame_count gs = map if_frame_count (content (unprocessed h))"
  using assms(2)
proof (induction fuel arbitrary: waiting h)
  case (Suc fuel)
  show ?case
  proof (cases "ring_pop R (unprocessed h)")
    case None
    with Suc.prems ring_pop_None [OF R None] show ?thesis
      by simp
  next
    case (Some fu)
    then obtain f u where pop: "ring_pop R (unprocessed h) = Some (f, u)"
      by (cases fu) auto
    with Suc.prems obtain frame ap p where
      push: "ring_push R (f\<lparr>if_frame := frame\<rparr>) (lh_processed_frames h) = Some p" and
      rest: "drain_frames fuel R M (\<lambda>n. waiting (Suc n))
        (h\<lparr>lh_rx_packet_processor := (lh_rx_packet_processor h)\<lparr>rp_unprocessed_frames := u\<rparr>,
          lh_processor := ap, lh_processed_frames := p\<rparr>) = Some h'"
      by (auto simp: bind_eq_Some_conv)
    from Suc.IH [OF rest] obtain gs where
      "content (unprocessed h') = []" "content (lh_processed_frames h') = content p @ gs"
      "map if_frame_count gs = map if_frame_count (content u)"
      by auto
    then show ?thesis
      using ring_pop_Some [OF R pop] ring_push_Some [OF R push]
      by (intro exI [of _ "f\<lparr>if_frame := frame\<rparr> # gs"]) simp
  qed
qed simp

lemma subseq_take: "subseq (take n xs) xs" and subseq_drop: "subseq (drop n xs) xs"
  by (simp_all add: prefix_imp_subseq take_is_prefix suffix_imp_subseq suffix_drop)

lemma loopback_run_order:
  assumes R: "ring_buffer R content cap" and "loopback_run R M fs sent h"
  shows "content (unprocessed h) = [] \<and>
    subseq (map fst sent @ map if_frame_count (content (lh_processed_frames h))) (map if_frame_count fs)"
  using assms(2)
proof induction
  case start
  show ?case
    by (simp add: loopback_handler_new_ok [OF R])
next
  case (callback_in fs sent h packets waiting ms h')
  from callback_in(3) obtain ms1 rx where
    rx: "process_packets R packets (reset_tx_fifo_level_stats (lh_rx_packet_processor h)) = Some (ms1, rx)" and
    drain: "drain_frames (Suc (ring_len R (rp_unprocessed_frames rx))) R M waiting
      (h\<lparr>lh_rx_packet_processor := rx\<rparr>) = Some h'"
    by (auto simp: handle_in_def bind_eq_Some_conv Let_def simp del: drain_frames.simps)
  from process_packets_queue [OF R rx] callback_in.IH have
    u: "content (rp_unprocessed_frames rx) = take (cap (unprocessed h)) (received_frames packets)"
    by (simp add: enqueued_def)
  from drain_frames_counts [OF R drain] u obtain gs where
    "content (unprocessed h') = []" "content (lh_processed_frames h') = content (lh_processed_frames h) @ gs"
    "map if_frame_count gs = take (cap (unprocessed h)) (map if_frame_count (received_frames packets))"
    by (auto simp: take_map)
  note h' = this
  have "subseq ((map fst sent @ map if_frame_count (content (lh_processed_frames h))) @ map if_frame_count gs)
      (map if_frame_count fs @ map if_frame_count (received_frames packets))"
    unfolding h'(3) using callback_in.IH by (intro list_emb_append_mono subseq_take) simp
  with h'(1,2) show ?case
    by simp
next
  case (callback_out fs sent h ps h')
  let ?q = "content (lh_processed_frames h)" and ?d = "draw_down h"
  note out = handle_out_eq [OF R callback_out(2)]
  define r where "r = drop ?d ?q"
  have "subseq (map if_frame_count r) (map if_frame_count ?q)"
    by (simp add: r_def subseq_drop subseq_map)
  moreover have "drop (?d + 2 * PACKETS_PER_TRANSFER) ?q = drop (2 * PACKETS_PER_TRANSFER) r"
    by (simp add: r_def add.commute)
  with out have "map fst (concat (map tx_frames ps)) @ map if_frame_count (content (lh_processed_frames h')) =
      map if_frame_count r"
    by (simp add: r_def [symmetric] comp_def flip: map_append)
  ultimately have "subseq ((map fst sent @ map fst (concat (map tx_frames ps))) @
      map if_frame_count (content (lh_processed_frames h'))) (map fst sent @ map if_frame_count ?q)"
    by (simp add: list_emb_append_mono)
  from subseq_order.trans [OF this] callback_out.IH out show ?case
    by simp
qed

text \<open>
  C9: the loopback never reorders, repeats or invents frames. Over any sequence of completed IN and
  OUT transfers of a fresh handler, with any packets, any patch messages and any number of drops, the
  frame counts sent are a subsequence of the frame counts received, and the received ring is empty
  between callbacks.
\<close>

theorem loopback_in_order:
  assumes "ring_buffer R content cap" and "loopback_run R M fs sent h"
  shows "subseq (map fst sent) (map if_frame_count fs) \<and> content (unprocessed h) = []"
proof -
  have "subseq (map fst sent) (map fst sent @ map if_frame_count (content (lh_processed_frames h)))"
    by (simp add: list_emb_prefix)
  from subseq_order.trans [OF this] loopback_run_order [OF assms] show ?thesis
    by simp
qed

text \<open>A fresh handler receives a transfer with two frames and sends them in the next transfer.\<close>

definition example_transfer :: "iso_packet list" where
  "example_transfer = (0, example_packet) # replicate 7 (1, [])"

lemma example_transfer_simps [simp]:
  "good_packets example_transfer = [example_packet]"
  "received_frames example_transfer = [example_frame 3 7 True, example_frame 4 7 True]"
  "length example_transfer = PACKETS_PER_TRANSFER"
  by (simp_all add: example_transfer_def received_frames_def good_packets_def PACKETS_PER_TRANSFER_def)

lemma example_handle_in:
  "\<exists>ms h'. handle_in list_ring M (\<lambda>n. []) example_transfer (loopback_handler_new list_ring) = Some (ms, h') \<and>
     map if_frame_count (list_ring_content (lh_processed_frames h')) = [3, 4]"
proof -
  let ?h = "loopback_handler_new list_ring :: (nat \<times> internal_frame list) loopback_handler"
  note new = loopback_handler_new_ok [OF list_ring_is_ring]
  have "counters_room (length (good_packets example_transfer) + length (received_frames example_transfer))
      (lh_rx_packet_processor ?h)"
    and "\<forall>b \<in> set (good_packets example_transfer). packet_ok b"
    and "\<forall>n. \<forall>m \<in> set ((\<lambda>n. []) n). message_ok m"
    by (simp_all add: new)
  note callback = handle_in_eq [OF list_ring_is_ring new(1) this, of M]
  have "frames_in list_ring_content fst ?h example_transfer = [example_frame 3 7 True, example_frame 4 7 True]"
    by (simp add: frames_in_def new)
  with callback show ?thesis
    by (auto simp: new simp del: audio_run.simps dest!: audio_run_counts)
qed

theorem loopback_in_order_witness:
  "\<exists>sent h. loopback_run list_ring example_maths [example_frame 3 7 True, example_frame 4 7 True] sent h \<and>
     sent \<noteq> [] \<and> subseq (map fst sent) [3, 4]"
proof -
  obtain ms h where in1: "handle_in list_ring example_maths (\<lambda>n. []) example_transfer (loopback_handler_new list_ring) = Some (ms, h)"
    and h: "map if_frame_count (list_ring_content (lh_processed_frames h)) = [3, 4]"
    using example_handle_in [of example_maths] by metis
  obtain ps h' where out: "handle_out list_ring PACKETS_PER_TRANSFER h = (ps, h')"
    by fastforce
  have "loopback_run list_ring example_maths ([] @ received_frames example_transfer) [] h"
    by (rule loopback_run.callback_in [OF loopback_run.start _ in1]) simp
  from loopback_run.callback_out [OF this out] have
    run: "loopback_run list_ring example_maths [example_frame 3 7 True, example_frame 4 7 True] (concat (map tx_frames ps)) h'"
    by simp
  have "length (list_ring_content (lh_processed_frames h)) = 2"
    using arg_cong [OF h, of length] by simp
  then have "concat (map tx_frames ps) \<noteq> []"
    using handle_out_eq [OF list_ring_is_ring out]
    by (auto simp: PACKETS_PER_TRANSFER_def draw_down_def Let_def)
  with run loopback_in_order [OF list_ring_is_ring run] show ?thesis
    by auto
qed

end
