(* ===== verification/Defaults.thy ===== *)
theory Defaults
  imports Register_Settings Memory_Map Soc_Bus
begin

text \<open>
  \<^verbatim>\<open>xrt86vx38-pac/src/default.rs\<close>: the table of register defaults and the routine that applies it, with
  the registers it leaves behind. A \<open>Row\<close> is its base address and sixteen entries; an entry is a value
  to write or one of three markers (no register, read it, leave it alone).
\<close>

section \<open>The table\<close>

type_synonym default_row = "u16 \<times> u8 list"

definition NOOP :: u8 where "NOOP = 0x69"
definition READ :: u8 where "READ = 0x42"
definition IGNR :: u8 where "IGNR = 0x23"

definition DEFAULTS_XXXX :: "default_row list" where
  "DEFAULTS_XXXX =
    [(0xfe0, [0x00, 0x00, 0x00, NOOP, 0x00, NOOP, NOOP, NOOP, NOOP, 0x01, READ, NOOP, NOOP, NOOP, NOOP, NOOP])]"

definition DEFAULTS_NXXX :: "default_row list" where
  "DEFAULTS_NXXX =
    [(0x100, [0x11, 0x00, NOOP, NOOP, NOOP, NOOP, NOOP, 0x00, 0x00, 0x00, 0x00, 0x43, 0x00, READ, READ, READ]),
     (0x110, [READ, IGNR, 0x04, 0x00, READ, READ, 0x05, 0x04, 0x00, 0x00, 0x00, 0x1c, 0x00, 0x40, 0x00, NOOP]),
     (0x120, [0x00, 0x00, 0x00, 0x00, 0x00, 0xaa, 0xaa, 0xaa, 0x00, 0x80, 0x00, 0xaa, 0xaa, 0x00, 0xaa, 0xaa]),
     (0x130, [0x00, 0x00, 0x00, 0xff, 0xff, 0xff, 0xff, 0xff, NOOP, NOOP, NOOP, IGNR, IGNR, IGNR, IGNR, IGNR]),
     (0x140, [0x00, 0x06, 0x00, 0x00, 0x00, 0x00, 0x00, 0xaa, 0xaa, 0x00, 0xaa, 0xaa, 0x00, 0xaa, 0xaa, 0x00]),
     (0x150, [0xaa, 0xaa, NOOP, 0x00, 0x00, 0x00, 0x00, 0xaa, 0xaa, NOOP, NOOP, NOOP, NOOP, NOOP, NOOP, IGNR]),
     (0x160, [IGNR, IGNR, IGNR, 0x00, IGNR, IGNR, IGNR, IGNR, IGNR, IGNR, IGNR, IGNR, IGNR, IGNR, IGNR, IGNR]),
     (0x170, [0x00, IGNR, 0x00, 0x00, 0x00, 0x00, 0x01, NOOP, NOOP, NOOP, NOOP, NOOP, NOOP, NOOP, NOOP, NOOP]),
     (0x300, [0x80, 0x80, 0x80, 0x80, 0x80, 0x80, 0x80, 0x80, 0x80, 0x80, 0x80, 0x80, 0x80, 0x80, 0x80, 0x80]),
     (0x310, [0x80, 0x80, 0x80, 0x80, 0x80, 0x80, 0x80, 0x80, 0x80, 0x80, 0x80, 0x80, 0x80, 0x80, 0x80, 0x80]),
     (0x320, [0x17, 0x17, 0x17, 0x17, 0x17, 0x17, 0x17, 0x17, 0x17, 0x17, 0x17, 0x17, 0x17, 0x17, 0x17, 0x17]),
     (0x330, [0x17, 0x17, 0x17, 0x17, 0x17, 0x17, 0x17, 0x17, 0x17, 0x17, 0x17, 0x17, 0x17, 0x17, 0x17, 0x17]),
     (0x340, [0x01, 0xd0, 0xd0, 0xd0, 0xd0, 0xd0, 0xd0, 0xd0, 0xd0, 0xd0, 0xd0, 0xd0, 0xd0, 0xd0, 0xd0, 0xd0]),
     (0x350, [0xb3, 0xd0, 0xd0, 0xd0, 0xd0, 0xd0, 0xd0, 0xd0, 0xd0, 0xd0, 0xd0, 0xd0, 0xd0, 0xd0, 0xd0, 0xd0]),
     (0x360, [0x80, 0x80, 0x80, 0x80, 0x80, 0x80, 0x80, 0x80, 0x80, 0x80, 0x80, 0x80, 0x80, 0x80, 0x80, 0x80]),
     (0x370, [0x80, 0x80, 0x80, 0x80, 0x80, 0x80, 0x80, 0x80, 0x80, 0x80, 0x80, 0x80, 0x80, 0x80, 0x80, 0x80]),
     (0x380, [0xff, 0xff, 0xff, 0xff, 0xff, 0xff, 0xff, 0xff, 0xff, 0xff, 0xff, 0xff, 0xff, 0xff, 0xff, 0xff]),
     (0x390, [0xff, 0xff, 0xff, 0xff, 0xff, 0xff, 0xff, 0xff, 0xff, 0xff, 0xff, 0xff, 0xff, 0xff, 0xff, 0xff]),
     (0x3a0, [0x00, 0x00, 0x00, 0x00, 0x00, 0x00, 0x00, 0x00, 0x00, 0x00, 0x00, 0x00, 0x00, 0x00, 0x00, 0x00]),
     (0x3b0, [0x00, 0x00, 0x00, 0x00, 0x00, 0x00, 0x00, 0x00, 0x00, 0x00, 0x00, 0x00, 0x00, 0x00, 0x00, 0x00]),
     (0x3c0, [0x00, 0x00, 0x00, 0x00, 0x00, 0x00, 0x00, 0x00, 0x00, 0x00, 0x00, 0x00, 0x00, 0x00, 0x00, 0x00]),
     (0x3d0, [0x00, 0x00, 0x00, 0x00, 0x00, 0x00, 0x00, 0x00, 0x00, 0x00, 0x00, 0x00, 0x00, 0x00, 0x00, 0x00]),
     (0x900, [READ, READ, READ, READ, READ, READ, READ, NOOP, NOOP, READ, READ, READ, READ, READ, READ, READ]),
     (0x910, [READ, READ, NOOP, NOOP, NOOP, NOOP, NOOP, NOOP, NOOP, NOOP, NOOP, NOOP, READ, NOOP, NOOP, NOOP]),
     (0x920, [NOOP, NOOP, NOOP, NOOP, NOOP, NOOP, NOOP, NOOP, NOOP, NOOP, NOOP, NOOP, READ, NOOP, NOOP, NOOP]),
     (0xb00, [IGNR, 0x00, READ, 0x00, READ, 0x00, READ, 0x00, READ, 0x00, READ, 0x00, NOOP, NOOP, READ, 0x00]),
     (0xb10, [READ, 0x00, READ, 0x00, READ, 0x00, READ, 0x00, READ, 0x00, READ, 0x00, READ, 0x00, READ, 0x00]),
     (0xb20, [READ, 0x00, READ, 0x00, READ, 0x00, READ, 0x00, READ, 0x00, NOOP, NOOP, NOOP, NOOP, NOOP, NOOP]),
     (0xb40, [READ, 0x00, NOOP, NOOP, NOOP, NOOP, NOOP, NOOP, NOOP, NOOP, NOOP, NOOP, NOOP, NOOP, NOOP, NOOP]),
     (0xb70, [READ, 0x00, NOOP, NOOP, READ, 0x00, NOOP, NOOP, NOOP, NOOP, NOOP, NOOP, NOOP, NOOP, NOOP, NOOP])]"

definition DEFAULTS_XXNX :: "default_row list" where
  "DEFAULTS_XXNX =
    [(0xf00, [0x00, 0x00, 0x00, 0x00, 0x00, IGNR, READ, IGNR, 0x00, 0x00, 0x00, 0x00, 0x00, 0x00, 0x00, 0x00])]"

section \<open>The routine\<close>

definition row_write_entry :: "('s, 'e) xyz \<Rightarrow> u16 \<Rightarrow> u8 \<Rightarrow> ('s, 'e, unit) prog" where
  "row_write_entry D address value =
     (if value = NOOP \<or> value = IGNR then prog_return ()
      else if value = READ then prog_ignore (xyz_register_read D address)
      else xyz_register_write D address value)"

definition row_write :: "('s, 'e) xyz \<Rightarrow> default_row \<Rightarrow> u16 \<Rightarrow> ('s, 'e, unit) prog" where
  "row_write D row base_address =
     for_each (enumerate 0 (snd row)) (\<lambda>(n, value). row_write_entry D (base_address + of_nat n) value)"

definition framer_defaults :: "('s, 'e) xyz \<Rightarrow> ('s, 'e, unit) prog" where
  "framer_defaults D = seq_all
     [for_each DEFAULTS_XXXX (\<lambda>row. row_write D row (fst row)),
      for_each DEFAULTS_NXXX (\<lambda>row. for_each [0..<8] (\<lambda>c. row_write D row (push_bit 12 (of_nat c) OR fst row))),
      for_each DEFAULTS_XXNX (\<lambda>row. for_each [0..<8] (\<lambda>c. row_write D row (push_bit 4 (of_nat c) OR fst row)))]"

section \<open>What the tables say\<close>

text \<open>
  Every table row stands for a block of registers at its absolute addresses: an \<open>XXXX\<close> row once, an
  \<open>NXXX\<close> row in the 4 KB page of every channel, an \<open>XXNX\<close> row at every 16th byte. \<open>default_values\<close>
  lists the registers that have a default, with it.
\<close>

definition default_blocks :: "(nat \<times> u8 list) list" where
  "default_blocks =
     map (\<lambda>row. (unat (fst row), snd row)) DEFAULTS_XXXX
     @ concat (map (\<lambda>row. map (\<lambda>c. (0x1000 * c + unat (fst row), snd row)) [0..<8]) DEFAULTS_NXXX)
     @ concat (map (\<lambda>row. map (\<lambda>c. (16 * c + unat (fst row), snd row)) [0..<8]) DEFAULTS_XXNX)"

definition is_marker :: "u8 \<Rightarrow> bool" where
  "is_marker v \<longleftrightarrow> v = NOOP \<or> v = IGNR \<or> v = READ"

definition block_values :: "nat \<times> u8 list \<Rightarrow> (nat \<times> u8) list" where
  "block_values block =
     map (\<lambda>(n, v). (fst block + n, v)) (filter (\<lambda>(n, v). \<not> is_marker v) (enumerate 0 (snd block)))"

definition default_values :: "(nat \<times> u8) list" where
  "default_values = concat (map block_values default_blocks)"

definition default_setting :: "nat \<times> u8 \<Rightarrow> setting" where
  "default_setting av = (of_nat (fst av), 0, snd av)"

lemma of_nat_unat_u16 [simp]: "of_nat (unat (b :: u16)) = b"
  by simp

lemma page_address:
  assumes "unat (b :: u16) < 2 ^ k"
  shows "push_bit k (of_nat c) OR b = of_nat (2 ^ k * c + unat b)"
proof -
  have "of_nat (push_bit k c OR unat b) = push_bit k (of_nat c) OR b"
    by (simp only: of_nat_or_eq push_bit_of_nat of_nat_unat_u16)
  then show ?thesis
    using push_bit_or_add [OF assms, of c] by simp
qed

lemma liu_address:
  assumes "row \<in> set DEFAULTS_XXNX" and "c < 8"
  shows "push_bit 4 (of_nat c) OR fst row = of_nat (16 * c + unat (fst row))"
proof -
  from assms(2) have "c \<in> {0, 1, 2, 3, 4, 5, 6, 7}" by auto
  with assms(1) show ?thesis by (auto simp: DEFAULTS_XXNX_def)
qed

lemma concat_concat_map: "concat (concat (map f xs)) = concat (map (\<lambda>x. concat (f x)) xs)"
  by (induction xs) simp_all

lemma row_bases:
  "list_all (\<lambda>row. 0x100 \<le> unat (fst row) \<and> unat (fst row) < 0xb80 \<and> unat (fst row) mod 16 = 0 \<and> length (snd row) = 16)
     DEFAULTS_NXXX"
  "distinct (map (\<lambda>row. unat (fst row)) DEFAULTS_NXXX)"
  by (simp_all add: DEFAULTS_NXXX_def)

section \<open>The routine sets them\<close>

lemma default_settings_row:
  "map default_setting (block_values (base, vs)) =
     concat (map (\<lambda>(n, v). if is_marker v then [] else [(of_nat base + of_nat n, 0, v)]) (enumerate 0 vs))"
proof -
  have "concat (map (\<lambda>(n, v). if is_marker v then [] else [(of_nat base + of_nat n :: u16, 0 :: u8, v)]) xs) =
      map default_setting (map (\<lambda>(n, v). (base + n, v)) (filter (\<lambda>(n, v). \<not> is_marker v) xs))" for xs
    by (induction xs) (auto simp: default_setting_def)
  then show ?thesis by (simp add: block_values_def)
qed

lemma concat_map_map: "map f (concat (map g xs)) = concat (map (\<lambda>x. map f (g x)) xs)"
  by (simp add: map_concat comp_def)

context register_file
begin

lemma configures_row_write:
  assumes "fst ` set (map default_setting (block_values (base, vs))) \<subseteq> plain"
  shows "configures (row_write D (b, vs) (of_nat base)) (map default_setting (block_values (base, vs)))"
  unfolding row_write_def snd_conv default_settings_row
proof (rule configures_for_each)
  fix nv assume mem: "nv \<in> set (enumerate 0 vs)"
  obtain n v where nv: "nv = (n, v)" by (cases nv)
  have "of_nat base + of_nat n \<in> plain" if "\<not> is_marker v"
    using assms mem that unfolding nv default_settings_row by fastforce
  then show "configures (case nv of (n, v) \<Rightarrow> row_write_entry D (of_nat base + of_nat n) v)
      (case nv of (n, v) \<Rightarrow> if is_marker v then [] else [(of_nat base + of_nat n, 0, v)])"
    by (auto simp: nv row_write_entry_def is_marker_def configures_return configures_raw_read
        configures_raw_write)
qed

lemma configures_rows:
  assumes "fst ` set (map default_setting default_values) \<subseteq> plain"
    and "set (map (\<lambda>x. (base x, snd (row x))) xs) \<subseteq> set default_blocks"
  shows "configures (for_each xs (\<lambda>x. row_write D (row x) (of_nat (base x))))
    (map default_setting (concat (map block_values (map (\<lambda>x. (base x, snd (row x))) xs))))"
  unfolding concat_map_map map_map comp_def
proof (rule configures_for_each)
  fix x assume "x \<in> set xs"
  then have "(base x, snd (row x)) \<in> set default_blocks" using assms(2) by auto
  then have "fst ` set (map default_setting (block_values (base x, snd (row x)))) \<subseteq> plain"
    using assms(1) by (auto simp: default_values_def)
  then show "configures (row_write D (row x) (of_nat (base x)))
      (map default_setting (block_values (base x, snd (row x))))"
    using configures_row_write [of "base x" "snd (row x)" "fst (row x)"] by simp
qed

lemma configures_pages:
  assumes "fst ` set (map default_setting default_values) \<subseteq> plain"
    and "set (concat (map (\<lambda>row. map (\<lambda>c. (off c + unat (fst row), snd row)) [0..<8]) rows)) \<subseteq> set default_blocks"
    and "\<And>row c. row \<in> set rows \<Longrightarrow> c < 8 \<Longrightarrow> addr row c = of_nat (off c + unat (fst row))"
  shows "configures (for_each rows (\<lambda>row. for_each [0..<8] (\<lambda>c. row_write D row (addr row c))))
    (map default_setting (concat (map block_values
      (concat (map (\<lambda>row. map (\<lambda>c. (off c + unat (fst row), snd row)) [0..<8]) rows)))))"
proof -
  have page: "configures (for_each [0..<8] (\<lambda>c. row_write D row (addr row c)))
      (map default_setting (concat (map block_values (map (\<lambda>c. (off c + unat (fst row), snd row)) [0..<8]))))"
    if row: "row \<in> set rows" for row
  proof -
    have "set (map (\<lambda>c. (off c + unat (fst row), snd row)) [0..<8]) \<subseteq> set default_blocks"
      using assms(2) row by fastforce
    note rows = configures_rows [OF assms(1), of "\<lambda>c. off c + unat (fst row)" "\<lambda>_. row", OF this]
    have "for_each [0..<8] (\<lambda>c. row_write D row (addr row c)) =
        for_each [0..<8] (\<lambda>c. row_write D row (of_nat (off c + unat (fst row))))"
      unfolding for_each_def by (rule arg_cong [where f = seq_all], rule map_cong) (use assms(3) [OF row] in auto)
    with rows show ?thesis by simp
  qed
  have "configures (for_each rows (\<lambda>row. for_each [0..<8] (\<lambda>c. row_write D row (addr row c))))
      (concat (map (\<lambda>row. map default_setting (concat (map block_values
        (map (\<lambda>c. (off c + unat (fst row), snd row)) [0..<8])))) rows))"
    by (rule configures_for_each) (rule page)
  then show ?thesis
    by (simp add: map_concat comp_def concat_concat_map)
qed

lemma configures_framer_defaults:
  assumes "fst ` set (map default_setting default_values) \<subseteq> plain"
  shows "configures (framer_defaults D) (map default_setting default_values)"
proof -
  let ?rows = "map (\<lambda>row. (unat (fst row), snd row)) DEFAULTS_XXXX"
  have 1: "configures (for_each DEFAULTS_XXXX (\<lambda>row. row_write D row (fst row)))
      (map default_setting (concat (map block_values ?rows)))"
    using configures_rows [OF assms, of "\<lambda>row. unat (fst row)" "\<lambda>row. row" DEFAULTS_XXXX]
    by (simp add: default_blocks_def)
  have 2: "configures (for_each DEFAULTS_NXXX
      (\<lambda>row. for_each [0..<8] (\<lambda>c. row_write D row (push_bit 12 (of_nat c) OR fst row))))
    (map default_setting (concat (map block_values (concat (map (\<lambda>row. map (\<lambda>c. (0x1000 * c + unat (fst row), snd row))
      [0..<8]) DEFAULTS_NXXX)))))"
    using row_bases(1) page_address [of "fst (_ :: default_row)" 12]
    by (intro configures_pages [OF assms]) (auto simp: default_blocks_def list_all_iff)
  have 3: "configures (for_each DEFAULTS_XXNX
      (\<lambda>row. for_each [0..<8] (\<lambda>c. row_write D row (push_bit 4 (of_nat c) OR fst row))))
    (map default_setting (concat (map block_values (concat (map (\<lambda>row. map (\<lambda>c. (16 * c + unat (fst row), snd row))
      [0..<8]) DEFAULTS_XXNX)))))"
    using liu_address by (intro configures_pages [OF assms]) (auto simp: default_blocks_def)
  from configures_then [OF 1 configures_then [OF 2 configures_then [OF 3 configures_return]]]
  show ?thesis
    unfolding framer_defaults_def default_values_def default_blocks_def map_append concat_append
    by simp
qed

end

section \<open>The addresses are distinct\<close>

text \<open>Blocks start at distinct multiples of 16 and are 16 registers long.\<close>

definition block_bases :: "nat list" where
  "block_bases = map fst default_blocks"

lemma block_bases_eq:
  "block_bases = [0xfe0] @ concat (map (\<lambda>b. map (\<lambda>c. 0x1000 * c + b) [0..<8]) (map (\<lambda>row. unat (fst row)) DEFAULTS_NXXX))
     @ map (\<lambda>c. 16 * c + 0xf00) [0..<8]"
  unfolding block_bases_def default_blocks_def map_append
  by (simp only: map_concat map_map comp_def fst_conv) (simp add: DEFAULTS_XXXX_def DEFAULTS_XXNX_def comp_def)

lemma in_concat_map: "a \<in> set (concat (map f xs)) \<Longrightarrow> \<exists>x\<in>set xs. a \<in> set (f x)"
  by auto

lemma nxxx_base:
  assumes "row \<in> set DEFAULTS_NXXX" and "c < 8"
  shows "(0x1000 * c + unat (fst row)) mod 0x1000 = unat (fst row)"
    and "0x100 \<le> unat (fst row)" and "unat (fst row) < 0xb80"
    and "(0x1000 * c + unat (fst row)) mod 16 = 0" and "0x1000 * c + unat (fst row) < 65520"
proof -
  have range: "0x100 \<le> unat (fst row)" "unat (fst row) < 0xb80" "unat (fst row) mod 16 = 0"
    using assms(1) row_bases(1) by (auto simp: list_all_iff)
  then show "0x100 \<le> unat (fst row)" "unat (fst row) < 0xb80"
    by blast+
  from range have "(0x1000 * c + b) mod 0x1000 = b" if "b = unat (fst row)" for b
    using that by simp
  then show "(0x1000 * c + unat (fst row)) mod 0x1000 = unat (fst row)"
    by blast
  have "(16 * (0x100 * c) + unat (fst row)) mod 16 = unat (fst row) mod 16"
    by (rule mod_mult_self4)
  then show "(0x1000 * c + unat (fst row)) mod 16 = 0"
    using range(3) by simp
  have "0x1000 * c \<le> 0x7000"
    using assms(2) by simp
  with range(2) show "0x1000 * c + unat (fst row) < 65520"
    by linarith
qed

lemma distinct_block_bases: "distinct block_bases"
proof -
  let ?nxxx = "map (\<lambda>row. unat (fst row)) DEFAULTS_NXXX"
  let ?pages = "concat (map (\<lambda>b. map (\<lambda>c. 0x1000 * c + b) [0..<8 :: nat]) ?nxxx)"
  have mod: "a mod 0x1000 = b \<and> b < 0xb80"
    if b: "b \<in> set ?nxxx" and a: "a \<in> set (map (\<lambda>c. 0x1000 * c + b) [0..<8])" for a b
  proof -
    obtain row where row: "row \<in> set DEFAULTS_NXXX" "b = unat (fst row)" using b by auto
    obtain c where c: "c < 8" "a = 0x1000 * c + b" using a by (auto simp del: upt_Suc)
    show ?thesis using nxxx_base(1,3) [OF row(1) c(1)] row(2) c(2) by simp
  qed
  have "distinct ?pages"
  proof (rule distinct_concat_key [where key = "\<lambda>a. a mod 0x1000"])
    show "a mod 0x1000 = b" if "b \<in> set ?nxxx" and "a \<in> set (map (\<lambda>c. 0x1000 * c + b) [0..<8])" for a b
      using mod [OF that] by blast
  qed (rule row_bases(2), simp add: distinct_map inj_on_def del: upt_Suc)
  moreover have "a mod 0x1000 < 0xb80" if a: "a \<in> set ?pages" for a
  proof -
    obtain b where "b \<in> set ?nxxx" "a \<in> set (map (\<lambda>c. 0x1000 * c + b) [0..<8])"
      using in_concat_map [OF a] by blast
    then show ?thesis using mod by blast
  qed
  then have "a \<notin> set ?pages" if "0xb80 \<le> a mod 0x1000" for a
    using that by (meson not_le)
  then have "set ([0xfe0] @ map (\<lambda>c. 16 * c + 0xf00) [0..<8]) \<inter> set ?pages = {}"
    by (auto simp del: upt_Suc set_concat)
  moreover have "distinct ([0xfe0] @ map (\<lambda>c. 16 * c + 0xf00) [0..<8 :: nat])"
    by (auto simp: distinct_map inj_on_def simp del: upt_Suc)
  ultimately show ?thesis
    unfolding block_bases_eq distinct_append set_append by blast
qed

lemma block_bases_facts: "list_all (\<lambda>b. b mod 16 = 0 \<and> b < 65520) block_bases"
proof -
  have "(0x1000 * c + b) mod 16 = 0 \<and> 0x1000 * c + b < 65520"
    if "b \<in> set (map (\<lambda>row. unat (fst row)) DEFAULTS_NXXX)" "c < 8" for b c
    using that nxxx_base(4,5) by auto
  moreover have "(16 * c + 0xf00) mod 16 = 0 \<and> 16 * c + 0xf00 < 65520" if "c < 8" for c :: nat
    using that by (simp add: mod_add_eq [symmetric])
  ultimately show ?thesis
    unfolding block_bases_eq list_all_append list_all_iff set_concat set_map set_upt by fastforce
qed

lemma block_lengths: "list_all (\<lambda>block. length (snd block) = 16) default_blocks"
  using row_bases(1) by (auto simp: default_blocks_def list_all_iff DEFAULTS_XXXX_def DEFAULTS_XXNX_def)

lemma block_value_addresses:
  assumes "(a, v) \<in> set (block_values (b, vs))" and "length vs = 16"
  shows "b \<le> a" and "a < b + 16"
  using assms by (auto simp: block_values_def in_set_enumerate_eq)

lemma block_of_address:
  assumes "(b, vs) \<in> set default_blocks" and "a \<in> set (map fst (block_values (b, vs)))"
  shows "b = 16 * (a div 16)" and "a < 65536"
proof -
  have b: "b mod 16 = 0" "b < 65520" "length vs = 16"
    using assms(1) block_bases_facts block_lengths by (auto simp: block_bases_def list_all_iff)
  from b(1) obtain k where k: "b = 16 * k" by auto
  from assms(2) obtain v where "(a, v) \<in> set (block_values (b, vs))" by auto
  then have range: "16 * k \<le> a" "a < 16 * k + 16"
    using block_value_addresses [OF _ b(3)] k by blast+
  then have "a div 16 = k"
    by (simp add: div_nat_eqI)
  with k show "b = 16 * (a div 16)" by simp
  from range b(2) k show "a < 65536" by simp
qed

lemma distinct_block_values: "distinct (map fst (block_values block))"
proof -
  have "distinct (map fst (filter P (enumerate 0 (vs :: u8 list))))" for P vs
    by (rule distinct_map_filter) simp
  then show ?thesis
    by (simp add: block_values_def comp_def split_def distinct_map inj_on_def)
qed

lemma distinct_default_values: "distinct (map fst default_values)"
proof -
  let ?base = "\<lambda>a :: nat. 16 * (a div 16)"
  have blocks: "distinct (map fst default_blocks)"
    using distinct_block_bases by (simp only: block_bases_def)
  have "distinct (concat (map (\<lambda>block. map fst (block_values block)) default_blocks))"
  proof (rule distinct_concat_key [where key = "\<lambda>a. (?base a, the (map_of default_blocks (?base a)))"])
    show "distinct default_blocks" using blocks by (simp only: distinct_map)
    show "(?base a, the (map_of default_blocks (?base a))) = block"
      if "block \<in> set default_blocks" and "a \<in> set (map fst (block_values block))" for block a
    proof -
      obtain b vs where block: "block = (b, vs)" by (cases block)
      with that have "b = ?base a" using block_of_address(1) by blast
      then show ?thesis using that(1) blocks by (simp add: block map_of_is_SomeI)
    qed
  qed (rule distinct_block_values)
  then show ?thesis
    by (simp only: default_values_def concat_map_map)
qed

lemma distinct_default_settings: "distinct (map fst (map default_setting default_values))"
proof -
  have "set (map fst default_values) \<subseteq> {..<65536}"
    using block_of_address(2) unfolding default_values_def by fastforce
  moreover have "map fst (map default_setting default_values) = map of_nat (map fst default_values)"
    by (simp add: default_setting_def)
  ultimately show ?thesis
    using distinct_default_values inj_on_subset [OF of_nat_u16_inj] by (simp only: distinct_map)
qed

section \<open>The defaults\<close>

text \<open>
  C36: register defaults. On a chip whose registers with a default are plain storage (everything else
  may answer in any way), \<open>framer_defaults\<close> returns; afterwards every register the tables give a
  value has it, at its absolute address in every channel, and no other control register has changed:
  the entries marked as absent, read-only or to be left alone are not written.
\<close>

theorem framer_defaults_registers:
  assumes "(\<lambda>(a, v). of_nat a) ` set default_values \<subseteq> plain"
  shows "\<exists>t'. framer_defaults (soc_device (chip_environment (framer_address p ` plain) mem other) p) t = (Ok (), t')
    \<and> (\<forall>(a, v) \<in> set default_values. chip_reg mem p t' (of_nat a) = v)
    \<and> (\<forall>a \<in> plain - (\<lambda>(a, v). of_nat a) ` set default_values. chip_reg mem p t' a = chip_reg mem p t a)"
  (is "\<exists>t'. ?run t' \<and> _")
proof -
  have addresses: "fst ` set (map default_setting default_values) = (\<lambda>(a, v). of_nat a) ` set default_values"
    by (force simp: default_setting_def)
  then have "soc_chip.configures mem p plain
      (framer_defaults (soc_device (chip_environment (framer_address p ` plain) mem other) p))
      (map default_setting default_values)"
    using assms by (intro soc_chip.configures_framer_defaults) simp
  note result = soc_chip.configures_result [OF this distinct_default_settings, of t]
  then obtain t' where run: "?run t'"
    and set: "\<And>st. st \<in> set (map default_setting default_values) \<Longrightarrow> fst st \<in> plain \<Longrightarrow>
      chip_reg mem p t' (fst st) = masked (snd st) (chip_reg mem p t (fst st))"
    and other: "\<forall>a\<in>plain. a \<notin> fst ` set (map default_setting default_values) \<longrightarrow>
      chip_reg mem p t' a = chip_reg mem p t a"
    by (auto simp del: set_map simp: split_beta)
  have "chip_reg mem p t' (of_nat a) = v" if "(a, v) \<in> set default_values" for a v
    using set [of "default_setting (a, v)"] that assms by (force simp: default_setting_def masked_def)
  then have "\<forall>(a, v)\<in>set default_values. chip_reg mem p t' (of_nat a) = v"
    by blast
  moreover have "\<forall>a \<in> plain - (\<lambda>(a, v). of_nat a) ` set default_values. chip_reg mem p t' a = chip_reg mem p t a"
    using other unfolding addresses by simp
  ultimately show ?thesis
    using run by (intro exI conjI)
qed

text \<open>Register \<open>TUCR\<close> of timeslot 3 of channel 5.\<close>

lemma default_value_mem:
  assumes "row \<in> set DEFAULTS_NXXX" and "c < 8" and "n < length (snd row)" and "\<not> is_marker (snd row ! n)"
  shows "(0x1000 * c + unat (fst row) + n, snd row ! n) \<in> set default_values"
proof -
  have "(0x1000 * c + unat (fst row), snd row) \<in> set default_blocks"
    using assms(1,2) by (fastforce simp: default_blocks_def)
  moreover have "(0x1000 * c + unat (fst row) + n, snd row ! n)
      \<in> set (block_values (0x1000 * c + unat (fst row), snd row))"
    using assms(3,4) by (force simp: block_values_def in_set_enumerate_eq)
  ultimately show ?thesis
    unfolding default_values_def by fastforce
qed

theorem framer_defaults_registers_witness:
  "\<exists>t'. framer_defaults (soc_device (chip_environment (framer_address 0x80100000 ` UNIV) (\<lambda>_. 0xff) (\<lambda>_ _. 0))
      0x80100000) [] = (Ok () :: (soc_error, unit) outcome, t')
    \<and> chip_reg (\<lambda>_. 0xff) 0x80100000 t' 0x5323 = 0x17"
proof -
  let ?row = "(0x320, replicate 16 0x17) :: default_row"
  have "?row \<in> set DEFAULTS_NXXX"
    by (simp add: DEFAULTS_NXXX_def eval_nat_numeral)
  from default_value_mem [OF this, of 5 3] have mem: "(0x5323, 0x17) \<in> set default_values"
    by (simp add: is_marker_def NOOP_def READ_def IGNR_def)
  obtain t' where run: "framer_defaults (soc_device (chip_environment (framer_address 0x80100000 ` UNIV)
      (\<lambda>_. 0xff) (\<lambda>_ _. 0)) 0x80100000) [] = (Ok () :: (soc_error, unit) outcome, t')"
    and regs: "\<forall>(a, v) \<in> set default_values. chip_reg (\<lambda>_. 0xff) 0x80100000 t' (of_nat a) = v"
    using framer_defaults_registers [of UNIV "0x80100000" "\<lambda>_. 0xff" "\<lambda>_ _. 0" "[]"] by auto
  from regs mem have "chip_reg (\<lambda>_. 0xff) 0x80100000 t' 0x5323 = 0x17"
    by (auto dest!: bspec)
  with run show ?thesis by blast
qed

end
