(* ===== verification/Host_Accessors.thy ===== *)
theory Host_Accessors
  imports Host_Registers Accessors
begin

text \<open>
  \<^verbatim>\<open>tedium-tool/src/framer/device.rs\<close>: the tool's own copy of the memory map and the register accessors,
  names prefixed \<open>host_\<close>. The lemmas at the end show that every accessor is the firmware crate's, so
  that both sides address the same registers with the same layouts.
\<close>

named_theorems host_access_simps \<open>unfolding of the tool's register accessors\<close>

section \<open>Addressing\<close>

definition HOST_CHANNELS_COUNT :: nat where
  "HOST_CHANNELS_COUNT = 8"

definition HOST_TIMESLOTS_COUNT :: nat where
  "HOST_TIMESLOTS_COUNT = 24"

definition host_global :: "nat \<Rightarrow> nat option" where
  "host_global offset = (if offset < 0x10000 then Some offset else None)"

definition host_channel_nxxx :: "nat \<Rightarrow> nat \<Rightarrow> nat option" where
  "host_channel_nxxx channel offset =
     (if channel < HOST_CHANNELS_COUNT then
        if offset < 0x1000 then host_global (push_bit 12 channel OR offset) else None
      else None)"

definition host_channel_nxxx_timeslot :: "nat \<Rightarrow> nat \<Rightarrow> nat \<Rightarrow> nat option" where
  "host_channel_nxxx_timeslot channel block_offset timeslot =
     (if block_offset AND 0xf = 0 then
        if timeslot < HOST_TIMESLOTS_COUNT then host_channel_nxxx channel (block_offset + timeslot)
        else None
      else None)"

definition host_channel_0fnx :: "nat \<Rightarrow> nat \<Rightarrow> nat option" where
  "host_channel_0fnx channel offset =
     (if channel < HOST_CHANNELS_COUNT then
        if offset < 16 then host_global (0x0f00 OR push_bit 4 channel OR offset) else None
      else None)"

definition host_global_0fex :: "nat \<Rightarrow> nat option" where
  "host_global_0fex offset = (if offset < 16 then host_global (0x0fe0 OR offset) else None)"

definition host_RDS0MR_OFFSET_MAP :: "nat list" where
  "host_RDS0MR_OFFSET_MAP =
    [0x15f, 0x160, 0x161, 0x162, 0x164, 0x165, 0x166, 0x167,
     0x168, 0x169, 0x16a, 0x16b, 0x16c, 0x16d, 0x16e, 0x16f,
     0x1c0, 0x1c1, 0x1c2, 0x1c3, 0x1c4, 0x1c5, 0x1c6, 0x1c7]"

definition host_rds0mr :: "nat \<Rightarrow> nat \<Rightarrow> nat option" where
  "host_rds0mr channel timeslot =
     (if timeslot < length host_RDS0MR_OFFSET_MAP
      then host_channel_nxxx channel (host_RDS0MR_OFFSET_MAP ! timeslot) else None)"

section \<open>Channels, timeslots and their accesses\<close>

definition host_Channel_new :: "nat \<Rightarrow> nat option" where
  "host_Channel_new index = (if index < HOST_CHANNELS_COUNT then Some index else None)"

definition host_channels_next :: "nat \<Rightarrow> (nat \<times> nat) option" where
  "host_channels_next n = (if n < HOST_CHANNELS_COUNT then Some (n, n + 1) else None)"

definition host_timeslots_next :: "nat \<Rightarrow> (nat \<times> nat) option" where
  "host_timeslots_next n = (if n < HOST_TIMESLOTS_COUNT then Some (n, n + 1) else None)"

definition host_access_framer :: "nat \<Rightarrow> nat \<Rightarrow> layout \<Rightarrow> access option" where
  "host_access_framer c offset L = map_option (\<lambda>a. access_new a L) (host_channel_nxxx c offset)"

definition host_access_liu :: "nat \<Rightarrow> nat \<Rightarrow> layout \<Rightarrow> access option" where
  "host_access_liu c offset L = map_option (\<lambda>a. access_new a L) (host_channel_0fnx c offset)"

definition host_timeslot_access :: "nat \<Rightarrow> nat \<Rightarrow> nat \<Rightarrow> layout \<Rightarrow> access option" where
  "host_timeslot_access c t block_offset L =
     map_option (\<lambda>a. access_new a L) (host_channel_nxxx_timeslot c block_offset t)"

definition host_timeslot_access_rds0mr :: "nat \<Rightarrow> nat \<Rightarrow> layout \<Rightarrow> access option" where
  "host_timeslot_access_rds0mr c t L = map_option (\<lambda>a. access_new a L) (host_rds0mr c t)"

definition host_access_liu_global :: "nat \<Rightarrow> layout \<Rightarrow> access option" where
  "host_access_liu_global offset L = map_option (\<lambda>a. access_new a L) (host_global_0fex offset)"

definition host_access_global :: "nat \<Rightarrow> layout \<Rightarrow> access option" where
  "host_access_global offset L = map_option (\<lambda>a. access_new a L) (host_global offset)"

section \<open>The accessors\<close>

definition host_ts_rds0mr :: "nat \<Rightarrow> nat \<Rightarrow> access option" where [host_access_simps]:
  "host_ts_rds0mr c t = host_timeslot_access_rds0mr c t Host_RDS0MR"
definition host_ts_tds0mr :: "nat \<Rightarrow> nat \<Rightarrow> access option" where [host_access_simps]:
  "host_ts_tds0mr c t = host_timeslot_access c t 0x1d0 Host_TDS0MR"
definition host_ts_tccr :: "nat \<Rightarrow> nat \<Rightarrow> access option" where [host_access_simps]:
  "host_ts_tccr c t = host_timeslot_access c t 0x300 Host_TCCR"
definition host_ts_tucr :: "nat \<Rightarrow> nat \<Rightarrow> access option" where [host_access_simps]:
  "host_ts_tucr c t = host_timeslot_access c t 0x320 Host_TUCR"
definition host_ts_tscr :: "nat \<Rightarrow> nat \<Rightarrow> access option" where [host_access_simps]:
  "host_ts_tscr c t = host_timeslot_access c t 0x340 Host_TSCR"
definition host_ts_rccr :: "nat \<Rightarrow> nat \<Rightarrow> access option" where [host_access_simps]:
  "host_ts_rccr c t = host_timeslot_access c t 0x360 Host_RCCR"
definition host_ts_rucr :: "nat \<Rightarrow> nat \<Rightarrow> access option" where [host_access_simps]:
  "host_ts_rucr c t = host_timeslot_access c t 0x380 Host_RUCR"
definition host_ts_rscr :: "nat \<Rightarrow> nat \<Rightarrow> access option" where [host_access_simps]:
  "host_ts_rscr c t = host_timeslot_access c t 0x3a0 Host_RSCtR"
definition host_ts_rssr :: "nat \<Rightarrow> nat \<Rightarrow> access option" where [host_access_simps]:
  "host_ts_rssr c t = host_timeslot_access c t 0x3c0 Host_RSSR"
definition host_ts_rsar :: "nat \<Rightarrow> nat \<Rightarrow> access option" where [host_access_simps]:
  "host_ts_rsar c t = host_timeslot_access c t 0x500 Host_RSAR"

definition host_RSCR_MAP :: "nat list" where
  "host_RSCR_MAP = [0x10d, 0x10e, 0x10f]"

definition host_ch_rscr :: "nat \<Rightarrow> nat \<Rightarrow> access option" where [host_access_simps]:
  "host_ch_rscr c index =
     (if index < length host_RSCR_MAP then host_access_framer c (host_RSCR_MAP ! index) Host_RSChR else None)"

definition host_RDLBCR_MAP :: "nat list" where
  "host_RDLBCR_MAP = [0x115, 0x145, 0x155]"

definition host_ch_rdlbcr :: "nat \<Rightarrow> nat \<Rightarrow> access option" where [host_access_simps]:
  "host_ch_rdlbcr c index =
     (if index < length host_RDLBCR_MAP then host_access_framer c (host_RDLBCR_MAP ! index) Host_RDLBCR else None)"

definition host_ch_rsar :: "nat \<Rightarrow> nat \<Rightarrow> access option" where [host_access_simps]:
  "host_ch_rsar c index = (if index < 24 then host_access_framer c (0x500 + index) Host_RSAR else None)"

definition host_ch_lapdbcr0 :: "nat \<Rightarrow> nat \<Rightarrow> access option" where [host_access_simps]:
  "host_ch_lapdbcr0 c index = (if index < 96 then host_access_framer c (0x600 + index) Host_u8_register else None)"

definition host_ch_lapdbcr1 :: "nat \<Rightarrow> nat \<Rightarrow> access option" where [host_access_simps]:
  "host_ch_lapdbcr1 c index = (if index < 96 then host_access_framer c (0x700 + index) Host_u8_register else None)"

definition host_DLSR_MAP :: "nat list" where
  "host_DLSR_MAP = [0xb06, 0xb16, 0xb26]"

definition host_ch_dlsr :: "nat \<Rightarrow> nat \<Rightarrow> access option" where [host_access_simps]:
  "host_ch_dlsr c index =
     (if index < length host_DLSR_MAP then host_access_framer c (host_DLSR_MAP ! index) Host_DLSRx else None)"

definition host_SS7SR_MAP :: "nat list" where
  "host_SS7SR_MAP = [0xb10, 0xb18, 0xb28]"

definition host_ch_ss7sr :: "nat \<Rightarrow> nat \<Rightarrow> access option" where [host_access_simps]:
  "host_ch_ss7sr c index =
     (if index < length host_SS7SR_MAP then host_access_framer c (host_SS7SR_MAP ! index) Host_SS7SRx else None)"

definition host_ch_csr :: "nat \<Rightarrow> access option" where [host_access_simps]:
  "host_ch_csr c = host_access_framer c 0x100 Host_CSR"
definition host_ch_licr :: "nat \<Rightarrow> access option" where [host_access_simps]:
  "host_ch_licr c = host_access_framer c 0x101 Host_LICR"
definition host_ch_fsr :: "nat \<Rightarrow> access option" where [host_access_simps]:
  "host_ch_fsr c = host_access_framer c 0x107 Host_FSR"
definition host_ch_agr :: "nat \<Rightarrow> access option" where [host_access_simps]:
  "host_ch_agr c = host_access_framer c 0x108 Host_AGR"
definition host_ch_smr :: "nat \<Rightarrow> access option" where [host_access_simps]:
  "host_ch_smr c = host_access_framer c 0x109 Host_SMR"
definition host_ch_tsdlsr :: "nat \<Rightarrow> access option" where [host_access_simps]:
  "host_ch_tsdlsr c = host_access_framer c 0x10a Host_TSDLSR"
definition host_ch_fcr :: "nat \<Rightarrow> access option" where [host_access_simps]:
  "host_ch_fcr c = host_access_framer c 0x10b Host_FCR"
definition host_ch_rsdlsr :: "nat \<Rightarrow> access option" where [host_access_simps]:
  "host_ch_rsdlsr c = host_access_framer c 0x10c Host_RSDLSR"
definition host_ch_rifr :: "nat \<Rightarrow> access option" where [host_access_simps]:
  "host_ch_rifr c = host_access_framer c 0x112 Host_RIFR"
definition host_ch_dlcr1 :: "nat \<Rightarrow> access option" where [host_access_simps]:
  "host_ch_dlcr1 c = host_access_framer c 0x113 Host_DLCR"
definition host_ch_tdlbcr1 :: "nat \<Rightarrow> access option" where [host_access_simps]:
  "host_ch_tdlbcr1 c = host_access_framer c 0x114 Host_TDLBCR"
definition host_ch_sbcr :: "nat \<Rightarrow> access option" where [host_access_simps]:
  "host_ch_sbcr c = host_access_framer c 0x116 Host_SBCR"
definition host_ch_fifolr :: "nat \<Rightarrow> access option" where [host_access_simps]:
  "host_ch_fifolr c = host_access_framer c 0x117 Host_FIFOLR"
definition host_ch_icr :: "nat \<Rightarrow> access option" where [host_access_simps]:
  "host_ch_icr c = host_access_framer c 0x11a Host_ICR"
definition host_ch_lapdsr :: "nat \<Rightarrow> access option" where [host_access_simps]:
  "host_ch_lapdsr c = host_access_framer c 0x11b Host_LAPDSR"
definition host_ch_ciagr :: "nat \<Rightarrow> access option" where [host_access_simps]:
  "host_ch_ciagr c = host_access_framer c 0x11c Host_CIAGR"
definition host_ch_prcr :: "nat \<Rightarrow> access option" where [host_access_simps]:
  "host_ch_prcr c = host_access_framer c 0x11d Host_PRCR"
definition host_ch_gccr :: "nat \<Rightarrow> access option" where [host_access_simps]:
  "host_ch_gccr c = host_access_framer c 0x11e Host_GCCR"
definition host_ch_ticr :: "nat \<Rightarrow> access option" where [host_access_simps]:
  "host_ch_ticr c = host_access_framer c 0x120 Host_TICR"
definition host_ch_bertcsr0 :: "nat \<Rightarrow> access option" where [host_access_simps]:
  "host_ch_bertcsr0 c = host_access_framer c 0x121 Host_BERTCSR0"
definition host_ch_ricr :: "nat \<Rightarrow> access option" where [host_access_simps]:
  "host_ch_ricr c = host_access_framer c 0x122 Host_RICR"
definition host_ch_bertcsr1 :: "nat \<Rightarrow> access option" where [host_access_simps]:
  "host_ch_bertcsr1 c = host_access_framer c 0x123 Host_BERTCSR1"
definition host_ch_lccr0 :: "nat \<Rightarrow> access option" where [host_access_simps]:
  "host_ch_lccr0 c = host_access_framer c 0x124 Host_LCCR0"
definition host_ch_tlcr :: "nat \<Rightarrow> access option" where [host_access_simps]:
  "host_ch_tlcr c = host_access_framer c 0x125 Host_TLCR"
definition host_ch_rlacr0 :: "nat \<Rightarrow> access option" where [host_access_simps]:
  "host_ch_rlacr0 c = host_access_framer c 0x126 Host_RLACR"
definition host_ch_rldcr0 :: "nat \<Rightarrow> access option" where [host_access_simps]:
  "host_ch_rldcr0 c = host_access_framer c 0x127 Host_RLDCR"
definition host_ch_rlcds :: "nat \<Rightarrow> access option" where [host_access_simps]:
  "host_ch_rlcds c = host_access_framer c 0x128 Host_RLCDS"
definition host_ch_dder :: "nat \<Rightarrow> access option" where [host_access_simps]:
  "host_ch_dder c = host_access_framer c 0x129 Host_DDER"
definition host_ch_lccr1 :: "nat \<Rightarrow> access option" where [host_access_simps]:
  "host_ch_lccr1 c = host_access_framer c 0x12a Host_LCCR"
definition host_ch_rlacr1 :: "nat \<Rightarrow> access option" where [host_access_simps]:
  "host_ch_rlacr1 c = host_access_framer c 0x12b Host_RLACR"
definition host_ch_rldcr1 :: "nat \<Rightarrow> access option" where [host_access_simps]:
  "host_ch_rldcr1 c = host_access_framer c 0x12c Host_RLDCR"
definition host_ch_lccr2 :: "nat \<Rightarrow> access option" where [host_access_simps]:
  "host_ch_lccr2 c = host_access_framer c 0x12d Host_LCCR"
definition host_ch_rlacr2 :: "nat \<Rightarrow> access option" where [host_access_simps]:
  "host_ch_rlacr2 c = host_access_framer c 0x12e Host_RLACR"
definition host_ch_rldcr2 :: "nat \<Rightarrow> access option" where [host_access_simps]:
  "host_ch_rldcr2 c = host_access_framer c 0x12f Host_RLDCR"
definition host_ch_tlcgs :: "nat \<Rightarrow> access option" where [host_access_simps]:
  "host_ch_tlcgs c = host_access_framer c 0x140 Host_TLCGS"
definition host_ch_lcts :: "nat \<Rightarrow> access option" where [host_access_simps]:
  "host_ch_lcts c = host_access_framer c 0x141 Host_LCTS"
definition host_ch_tsprmcr :: "nat \<Rightarrow> access option" where [host_access_simps]:
  "host_ch_tsprmcr c = host_access_framer c 0x142 Host_TSPRMCR"
definition host_ch_dlcr2 :: "nat \<Rightarrow> access option" where [host_access_simps]:
  "host_ch_dlcr2 c = host_access_framer c 0x143 Host_DLCR"
definition host_ch_tdlbcr2 :: "nat \<Rightarrow> access option" where [host_access_simps]:
  "host_ch_tdlbcr2 c = host_access_framer c 0x144 Host_TDLBCR"
definition host_ch_lccr3 :: "nat \<Rightarrow> access option" where [host_access_simps]:
  "host_ch_lccr3 c = host_access_framer c 0x146 Host_LCCR"
definition host_ch_rlacr3 :: "nat \<Rightarrow> access option" where [host_access_simps]:
  "host_ch_rlacr3 c = host_access_framer c 0x147 Host_RLACR"
definition host_ch_rldcr3 :: "nat \<Rightarrow> access option" where [host_access_simps]:
  "host_ch_rldcr3 c = host_access_framer c 0x148 Host_RLDCR"
definition host_ch_lccr4 :: "nat \<Rightarrow> access option" where [host_access_simps]:
  "host_ch_lccr4 c = host_access_framer c 0x149 Host_LCCR"
definition host_ch_rlacr4 :: "nat \<Rightarrow> access option" where [host_access_simps]:
  "host_ch_rlacr4 c = host_access_framer c 0x14a Host_RLACR"
definition host_ch_rldcr4 :: "nat \<Rightarrow> access option" where [host_access_simps]:
  "host_ch_rldcr4 c = host_access_framer c 0x14b Host_RLDCR"
definition host_ch_lccr5 :: "nat \<Rightarrow> access option" where [host_access_simps]:
  "host_ch_lccr5 c = host_access_framer c 0x14c Host_LCCR"
definition host_ch_rlacr5 :: "nat \<Rightarrow> access option" where [host_access_simps]:
  "host_ch_rlacr5 c = host_access_framer c 0x14d Host_RLACR"
definition host_ch_rldcr5 :: "nat \<Rightarrow> access option" where [host_access_simps]:
  "host_ch_rldcr5 c = host_access_framer c 0x14e Host_RLDCR"
definition host_ch_lccr6 :: "nat \<Rightarrow> access option" where [host_access_simps]:
  "host_ch_lccr6 c = host_access_framer c 0x14f Host_LCCR"
definition host_ch_rlacr6 :: "nat \<Rightarrow> access option" where [host_access_simps]:
  "host_ch_rlacr6 c = host_access_framer c 0x150 Host_RLACR"
definition host_ch_rldcr6 :: "nat \<Rightarrow> access option" where [host_access_simps]:
  "host_ch_rldcr6 c = host_access_framer c 0x151 Host_RLDCR"
definition host_ch_dlcr3 :: "nat \<Rightarrow> access option" where [host_access_simps]:
  "host_ch_dlcr3 c = host_access_framer c 0x153 Host_DLCR"
definition host_ch_tdlbcr3 :: "nat \<Rightarrow> access option" where [host_access_simps]:
  "host_ch_tdlbcr3 c = host_access_framer c 0x154 Host_TDLBCR"
definition host_ch_lccr7 :: "nat \<Rightarrow> access option" where [host_access_simps]:
  "host_ch_lccr7 c = host_access_framer c 0x156 Host_LCCR"
definition host_ch_rlacr7 :: "nat \<Rightarrow> access option" where [host_access_simps]:
  "host_ch_rlacr7 c = host_access_framer c 0x157 Host_RLACR"
definition host_ch_rldcr7 :: "nat \<Rightarrow> access option" where [host_access_simps]:
  "host_ch_rldcr7 c = host_access_framer c 0x158 Host_RLDCR"
definition host_ch_bcr :: "nat \<Rightarrow> access option" where [host_access_simps]:
  "host_ch_bcr c = host_access_framer c 0x163 Host_BCR"
definition host_ch_boccr :: "nat \<Rightarrow> access option" where [host_access_simps]:
  "host_ch_boccr c = host_access_framer c 0x170 Host_BOCCR"
definition host_ch_rfdlr :: "nat \<Rightarrow> access option" where [host_access_simps]:
  "host_ch_rfdlr c = host_access_framer c 0x171 Host_RFDLR"
definition host_ch_rfdlmr1 :: "nat \<Rightarrow> access option" where [host_access_simps]:
  "host_ch_rfdlmr1 c = host_access_framer c 0x172 Host_RFDLMR"
definition host_ch_rfdlmr2 :: "nat \<Rightarrow> access option" where [host_access_simps]:
  "host_ch_rfdlmr2 c = host_access_framer c 0x173 Host_RFDLMR"
definition host_ch_rfdlmr3 :: "nat \<Rightarrow> access option" where [host_access_simps]:
  "host_ch_rfdlmr3 c = host_access_framer c 0x174 Host_RFDLMR"
definition host_ch_tfdlr :: "nat \<Rightarrow> access option" where [host_access_simps]:
  "host_ch_tfdlr c = host_access_framer c 0x175 Host_TFDLR"
definition host_ch_tbcr :: "nat \<Rightarrow> access option" where [host_access_simps]:
  "host_ch_tbcr c = host_access_framer c 0x176 Host_TBCR"
definition host_ch_rlcvcu :: "nat \<Rightarrow> access option" where [host_access_simps]:
  "host_ch_rlcvcu c = host_access_framer c 0x900 Host_u8_register"
definition host_ch_rlcvcl :: "nat \<Rightarrow> access option" where [host_access_simps]:
  "host_ch_rlcvcl c = host_access_framer c 0x901 Host_u8_register"
definition host_ch_rfaecu :: "nat \<Rightarrow> access option" where [host_access_simps]:
  "host_ch_rfaecu c = host_access_framer c 0x902 Host_u8_register"
definition host_ch_rfaecl :: "nat \<Rightarrow> access option" where [host_access_simps]:
  "host_ch_rfaecl c = host_access_framer c 0x903 Host_u8_register"
definition host_ch_rsefc :: "nat \<Rightarrow> access option" where [host_access_simps]:
  "host_ch_rsefc c = host_access_framer c 0x904 Host_u8_register"
definition host_ch_rsbbecu :: "nat \<Rightarrow> access option" where [host_access_simps]:
  "host_ch_rsbbecu c = host_access_framer c 0x905 Host_u8_register"
definition host_ch_rsbbecl :: "nat \<Rightarrow> access option" where [host_access_simps]:
  "host_ch_rsbbecl c = host_access_framer c 0x906 Host_u8_register"
definition host_ch_rsc :: "nat \<Rightarrow> access option" where [host_access_simps]:
  "host_ch_rsc c = host_access_framer c 0x909 Host_u8_register"
definition host_ch_rlfc :: "nat \<Rightarrow> access option" where [host_access_simps]:
  "host_ch_rlfc c = host_access_framer c 0x90a Host_u8_register"
definition host_ch_rcfac :: "nat \<Rightarrow> access option" where [host_access_simps]:
  "host_ch_rcfac c = host_access_framer c 0x90b Host_u8_register"
definition host_ch_lfcsec1 :: "nat \<Rightarrow> access option" where [host_access_simps]:
  "host_ch_lfcsec1 c = host_access_framer c 0x90c Host_u8_register"
definition host_ch_pbecu :: "nat \<Rightarrow> access option" where [host_access_simps]:
  "host_ch_pbecu c = host_access_framer c 0x90d Host_u8_register"
definition host_ch_pbecl :: "nat \<Rightarrow> access option" where [host_access_simps]:
  "host_ch_pbecl c = host_access_framer c 0x90e Host_u8_register"
definition host_ch_tsc :: "nat \<Rightarrow> access option" where [host_access_simps]:
  "host_ch_tsc c = host_access_framer c 0x90f Host_u8_register"
definition host_ch_ezvcu :: "nat \<Rightarrow> access option" where [host_access_simps]:
  "host_ch_ezvcu c = host_access_framer c 0x910 Host_u8_register"
definition host_ch_ezvcl :: "nat \<Rightarrow> access option" where [host_access_simps]:
  "host_ch_ezvcl c = host_access_framer c 0x911 Host_u8_register"
definition host_ch_lfcsec2 :: "nat \<Rightarrow> access option" where [host_access_simps]:
  "host_ch_lfcsec2 c = host_access_framer c 0x91c Host_u8_register"
definition host_ch_lfcsec3 :: "nat \<Rightarrow> access option" where [host_access_simps]:
  "host_ch_lfcsec3 c = host_access_framer c 0x92c Host_u8_register"
definition host_ch_bisr :: "nat \<Rightarrow> access option" where [host_access_simps]:
  "host_ch_bisr c = host_access_framer c 0xb00 Host_BISR"
definition host_ch_bier :: "nat \<Rightarrow> access option" where [host_access_simps]:
  "host_ch_bier c = host_access_framer c 0xb01 Host_BIER"
definition host_ch_aeisr :: "nat \<Rightarrow> access option" where [host_access_simps]:
  "host_ch_aeisr c = host_access_framer c 0xb02 Host_AEISR"
definition host_ch_aeier :: "nat \<Rightarrow> access option" where [host_access_simps]:
  "host_ch_aeier c = host_access_framer c 0xb03 Host_AEIER"
definition host_ch_fisr :: "nat \<Rightarrow> access option" where [host_access_simps]:
  "host_ch_fisr c = host_access_framer c 0xb04 Host_FISR"
definition host_ch_fier :: "nat \<Rightarrow> access option" where [host_access_simps]:
  "host_ch_fier c = host_access_framer c 0xb05 Host_FIER"
definition host_ch_dlier1 :: "nat \<Rightarrow> access option" where [host_access_simps]:
  "host_ch_dlier1 c = host_access_framer c 0xb07 Host_DLIERx"
definition host_ch_sbisr :: "nat \<Rightarrow> access option" where [host_access_simps]:
  "host_ch_sbisr c = host_access_framer c 0xb08 Host_SBISR"
definition host_ch_sbier :: "nat \<Rightarrow> access option" where [host_access_simps]:
  "host_ch_sbier c = host_access_framer c 0xb09 Host_SBIER"
definition host_ch_rlcisr0 :: "nat \<Rightarrow> access option" where [host_access_simps]:
  "host_ch_rlcisr0 c = host_access_framer c 0xb0a Host_RLCISRx"
definition host_ch_rlcier0 :: "nat \<Rightarrow> access option" where [host_access_simps]:
  "host_ch_rlcier0 c = host_access_framer c 0xb0b Host_RLCIERx"
definition host_ch_exzsr :: "nat \<Rightarrow> access option" where [host_access_simps]:
  "host_ch_exzsr c = host_access_framer c 0xb0e Host_EXZSR"
definition host_ch_exzer :: "nat \<Rightarrow> access option" where [host_access_simps]:
  "host_ch_exzer c = host_access_framer c 0xb0f Host_EXZER"
definition host_ch_ss7er1 :: "nat \<Rightarrow> access option" where [host_access_simps]:
  "host_ch_ss7er1 c = host_access_framer c 0xb11 Host_SS7ERx"
definition host_ch_rlcisr :: "nat \<Rightarrow> access option" where [host_access_simps]:
  "host_ch_rlcisr c = host_access_framer c 0xb12 Host_RLCISR"
definition host_ch_rlcier :: "nat \<Rightarrow> access option" where [host_access_simps]:
  "host_ch_rlcier c = host_access_framer c 0xb13 Host_RLCIER"
definition host_ch_rlcisr1 :: "nat \<Rightarrow> access option" where [host_access_simps]:
  "host_ch_rlcisr1 c = host_access_framer c 0xb14 Host_RLCISRx"
definition host_ch_rlcier1 :: "nat \<Rightarrow> access option" where [host_access_simps]:
  "host_ch_rlcier1 c = host_access_framer c 0xb15 Host_RLCIERx"
definition host_ch_dlier2 :: "nat \<Rightarrow> access option" where [host_access_simps]:
  "host_ch_dlier2 c = host_access_framer c 0xb17 Host_DLIERx"
definition host_ch_ss7er2 :: "nat \<Rightarrow> access option" where [host_access_simps]:
  "host_ch_ss7er2 c = host_access_framer c 0xb19 Host_SS7ERx"
definition host_ch_rlcisr2 :: "nat \<Rightarrow> access option" where [host_access_simps]:
  "host_ch_rlcisr2 c = host_access_framer c 0xb1a Host_RLCISRx"
definition host_ch_rlcier2 :: "nat \<Rightarrow> access option" where [host_access_simps]:
  "host_ch_rlcier2 c = host_access_framer c 0xb1b Host_RLCIERx"
definition host_ch_rlcisr3 :: "nat \<Rightarrow> access option" where [host_access_simps]:
  "host_ch_rlcisr3 c = host_access_framer c 0xb1c Host_RLCISRx"
definition host_ch_rlcier3 :: "nat \<Rightarrow> access option" where [host_access_simps]:
  "host_ch_rlcier3 c = host_access_framer c 0xb1d Host_RLCIERx"
definition host_ch_rlcisr4 :: "nat \<Rightarrow> access option" where [host_access_simps]:
  "host_ch_rlcisr4 c = host_access_framer c 0xb1e Host_RLCISRx"
definition host_ch_rlcier4 :: "nat \<Rightarrow> access option" where [host_access_simps]:
  "host_ch_rlcier4 c = host_access_framer c 0xb1f Host_RLCIERx"
definition host_ch_rlcisr5 :: "nat \<Rightarrow> access option" where [host_access_simps]:
  "host_ch_rlcisr5 c = host_access_framer c 0xb20 Host_RLCISRx"
definition host_ch_rlcier5 :: "nat \<Rightarrow> access option" where [host_access_simps]:
  "host_ch_rlcier5 c = host_access_framer c 0xb21 Host_RLCIERx"
definition host_ch_rlcisr6 :: "nat \<Rightarrow> access option" where [host_access_simps]:
  "host_ch_rlcisr6 c = host_access_framer c 0xb22 Host_RLCISRx"
definition host_ch_rlcier6 :: "nat \<Rightarrow> access option" where [host_access_simps]:
  "host_ch_rlcier6 c = host_access_framer c 0xb23 Host_RLCIERx"
definition host_ch_rlcisr7 :: "nat \<Rightarrow> access option" where [host_access_simps]:
  "host_ch_rlcisr7 c = host_access_framer c 0xb24 Host_RLCISRx"
definition host_ch_rlcier7 :: "nat \<Rightarrow> access option" where [host_access_simps]:
  "host_ch_rlcier7 c = host_access_framer c 0xb25 Host_RLCIERx"
definition host_ch_dlier3 :: "nat \<Rightarrow> access option" where [host_access_simps]:
  "host_ch_dlier3 c = host_access_framer c 0xb27 Host_DLIERx"
definition host_ch_ss7er3 :: "nat \<Rightarrow> access option" where [host_access_simps]:
  "host_ch_ss7er3 c = host_access_framer c 0xb29 Host_SS7ERx"
definition host_ch_ciasr :: "nat \<Rightarrow> access option" where [host_access_simps]:
  "host_ch_ciasr c = host_access_framer c 0xb40 Host_CIASR"
definition host_ch_ciaier :: "nat \<Rightarrow> access option" where [host_access_simps]:
  "host_ch_ciaier c = host_access_framer c 0xb41 Host_CIAIER"
definition host_ch_bocisr :: "nat \<Rightarrow> access option" where [host_access_simps]:
  "host_ch_bocisr c = host_access_framer c 0xb70 Host_BOCISR"
definition host_ch_bocier :: "nat \<Rightarrow> access option" where [host_access_simps]:
  "host_ch_bocier c = host_access_framer c 0xb71 Host_BOCIER"
definition host_ch_bocuisr :: "nat \<Rightarrow> access option" where [host_access_simps]:
  "host_ch_bocuisr c = host_access_framer c 0xb74 Host_BOCUISR"
definition host_ch_bocuier :: "nat \<Rightarrow> access option" where [host_access_simps]:
  "host_ch_bocuier c = host_access_framer c 0xb75 Host_BOCUIER"
definition host_ch_rscr0 :: "nat \<Rightarrow> access option" where [host_access_simps]:
  "host_ch_rscr0 c = host_ch_rscr c 0"
definition host_ch_rscr1 :: "nat \<Rightarrow> access option" where [host_access_simps]:
  "host_ch_rscr1 c = host_ch_rscr c 1"
definition host_ch_rscr2 :: "nat \<Rightarrow> access option" where [host_access_simps]:
  "host_ch_rscr2 c = host_ch_rscr c 2"
definition host_ch_rdlbcr1 :: "nat \<Rightarrow> access option" where [host_access_simps]:
  "host_ch_rdlbcr1 c = host_ch_rdlbcr c 0"
definition host_ch_rdlbcr2 :: "nat \<Rightarrow> access option" where [host_access_simps]:
  "host_ch_rdlbcr2 c = host_ch_rdlbcr c 1"
definition host_ch_rdlbcr3 :: "nat \<Rightarrow> access option" where [host_access_simps]:
  "host_ch_rdlbcr3 c = host_ch_rdlbcr c 2"
definition host_ch_dlsr1 :: "nat \<Rightarrow> access option" where [host_access_simps]:
  "host_ch_dlsr1 c = host_ch_dlsr c 0"
definition host_ch_ss7sr1 :: "nat \<Rightarrow> access option" where [host_access_simps]:
  "host_ch_ss7sr1 c = host_ch_ss7sr c 0"
definition host_ch_dlsr2 :: "nat \<Rightarrow> access option" where [host_access_simps]:
  "host_ch_dlsr2 c = host_ch_dlsr c 1"
definition host_ch_ss7sr2 :: "nat \<Rightarrow> access option" where [host_access_simps]:
  "host_ch_ss7sr2 c = host_ch_ss7sr c 1"
definition host_ch_dlsr3 :: "nat \<Rightarrow> access option" where [host_access_simps]:
  "host_ch_dlsr3 c = host_ch_dlsr c 2"
definition host_ch_ss7sr3 :: "nat \<Rightarrow> access option" where [host_access_simps]:
  "host_ch_ss7sr3 c = host_ch_ss7sr c 2"

definition host_ch_liuccr0 :: "nat \<Rightarrow> access option" where [host_access_simps]:
  "host_ch_liuccr0 c = host_access_liu c 0x0 Host_LIUCCR0"
definition host_ch_liuccr1 :: "nat \<Rightarrow> access option" where [host_access_simps]:
  "host_ch_liuccr1 c = host_access_liu c 0x1 Host_LIUCCR1"
definition host_ch_liuccr2 :: "nat \<Rightarrow> access option" where [host_access_simps]:
  "host_ch_liuccr2 c = host_access_liu c 0x2 Host_LIUCCR2"
definition host_ch_liuccr3 :: "nat \<Rightarrow> access option" where [host_access_simps]:
  "host_ch_liuccr3 c = host_access_liu c 0x3 Host_LIUCCR3"
definition host_ch_liuccier :: "nat \<Rightarrow> access option" where [host_access_simps]:
  "host_ch_liuccier c = host_access_liu c 0x4 Host_LIUCCIER"
definition host_ch_liuccsr :: "nat \<Rightarrow> access option" where [host_access_simps]:
  "host_ch_liuccsr c = host_access_liu c 0x5 Host_LIUCCSR"
definition host_ch_liuccisr :: "nat \<Rightarrow> access option" where [host_access_simps]:
  "host_ch_liuccisr c = host_access_liu c 0x6 Host_LIUCCISR"
definition host_ch_liuccccr :: "nat \<Rightarrow> access option" where [host_access_simps]:
  "host_ch_liuccccr c = host_access_liu c 0x7 Host_LIUCCCCR"
definition host_ch_liuccar1 :: "nat \<Rightarrow> access option" where [host_access_simps]:
  "host_ch_liuccar1 c = host_access_liu c 0x8 Host_LIUCCAR"
definition host_ch_liuccar2 :: "nat \<Rightarrow> access option" where [host_access_simps]:
  "host_ch_liuccar2 c = host_access_liu c 0x9 Host_LIUCCAR"
definition host_ch_liuccar3 :: "nat \<Rightarrow> access option" where [host_access_simps]:
  "host_ch_liuccar3 c = host_access_liu c 0xa Host_LIUCCAR"
definition host_ch_liuccar4 :: "nat \<Rightarrow> access option" where [host_access_simps]:
  "host_ch_liuccar4 c = host_access_liu c 0xb Host_LIUCCAR"
definition host_ch_liuccar5 :: "nat \<Rightarrow> access option" where [host_access_simps]:
  "host_ch_liuccar5 c = host_access_liu c 0xc Host_LIUCCAR"
definition host_ch_liuccar6 :: "nat \<Rightarrow> access option" where [host_access_simps]:
  "host_ch_liuccar6 c = host_access_liu c 0xd Host_LIUCCAR"
definition host_ch_liuccar7 :: "nat \<Rightarrow> access option" where [host_access_simps]:
  "host_ch_liuccar7 c = host_access_liu c 0xe Host_LIUCCAR"
definition host_ch_liuccar8 :: "nat \<Rightarrow> access option" where [host_access_simps]:
  "host_ch_liuccar8 c = host_access_liu c 0xf Host_LIUCCAR"

definition host_dev_liugcr0 :: "access option" where [host_access_simps]:
  "host_dev_liugcr0 = host_access_liu_global 0x0 Host_LIUGCR0"
definition host_dev_liugcr1 :: "access option" where [host_access_simps]:
  "host_dev_liugcr1 = host_access_liu_global 0x1 Host_LIUGCR1"
definition host_dev_liugcr2 :: "access option" where [host_access_simps]:
  "host_dev_liugcr2 = host_access_liu_global 0x2 Host_LIUGCR2"
definition host_dev_liugcr3 :: "access option" where [host_access_simps]:
  "host_dev_liugcr3 = host_access_liu_global 0x4 Host_LIUGCR3"
definition host_dev_liugcr4 :: "access option" where [host_access_simps]:
  "host_dev_liugcr4 = host_access_liu_global 0x9 Host_LIUGCR4"
definition host_dev_liugcr5 :: "access option" where [host_access_simps]:
  "host_dev_liugcr5 = host_access_liu_global 0xa Host_LIUGCR5"
definition host_dev_devid :: "access option" where [host_access_simps]:
  "host_dev_devid = host_access_global 0x01fe Host_DEVID"
definition host_dev_revid :: "access option" where [host_access_simps]:
  "host_dev_revid = host_access_global 0x01ff Host_REVID"

section \<open>The two copies agree\<close>

definition host_channel_accessors :: "nat \<Rightarrow> access option list" where
  "host_channel_accessors c =
    [host_ch_csr c, host_ch_licr c, host_ch_fsr c, host_ch_agr c, host_ch_smr c,
     host_ch_tsdlsr c, host_ch_fcr c, host_ch_rsdlsr c, host_ch_rscr0 c, host_ch_rscr1 c,
     host_ch_rscr2 c, host_ch_rifr c, host_ch_dlcr1 c, host_ch_tdlbcr1 c, host_ch_rdlbcr1 c,
     host_ch_sbcr c, host_ch_fifolr c, host_ch_icr c, host_ch_lapdsr c, host_ch_ciagr c,
     host_ch_prcr c, host_ch_gccr c, host_ch_ticr c, host_ch_bertcsr0 c, host_ch_ricr c,
     host_ch_bertcsr1 c, host_ch_lccr0 c, host_ch_tlcr c, host_ch_rlacr0 c, host_ch_rldcr0 c,
     host_ch_rlcds c, host_ch_dder c, host_ch_lccr1 c, host_ch_rlacr1 c, host_ch_rldcr1 c,
     host_ch_lccr2 c, host_ch_rlacr2 c, host_ch_rldcr2 c, host_ch_tlcgs c, host_ch_lcts c,
     host_ch_tsprmcr c, host_ch_dlcr2 c, host_ch_tdlbcr2 c, host_ch_rdlbcr2 c, host_ch_lccr3 c,
     host_ch_rlacr3 c, host_ch_rldcr3 c, host_ch_lccr4 c, host_ch_rlacr4 c, host_ch_rldcr4 c,
     host_ch_lccr5 c, host_ch_rlacr5 c, host_ch_rldcr5 c, host_ch_lccr6 c, host_ch_rlacr6 c,
     host_ch_rldcr6 c, host_ch_dlcr3 c, host_ch_tdlbcr3 c, host_ch_rdlbcr3 c, host_ch_lccr7 c,
     host_ch_rlacr7 c, host_ch_rldcr7 c, host_ch_bcr c, host_ch_boccr c, host_ch_rfdlr c,
     host_ch_rfdlmr1 c, host_ch_rfdlmr2 c, host_ch_rfdlmr3 c, host_ch_tfdlr c, host_ch_tbcr c,
     host_ch_rlcvcu c, host_ch_rlcvcl c, host_ch_rfaecu c, host_ch_rfaecl c, host_ch_rsefc c,
     host_ch_rsbbecu c, host_ch_rsbbecl c, host_ch_rsc c, host_ch_rlfc c, host_ch_rcfac c,
     host_ch_lfcsec1 c, host_ch_pbecu c, host_ch_pbecl c, host_ch_tsc c, host_ch_ezvcu c,
     host_ch_ezvcl c, host_ch_lfcsec2 c, host_ch_lfcsec3 c, host_ch_bisr c, host_ch_bier c,
     host_ch_aeisr c, host_ch_aeier c, host_ch_fisr c, host_ch_fier c, host_ch_dlsr1 c,
     host_ch_dlier1 c, host_ch_sbisr c, host_ch_sbier c, host_ch_rlcisr0 c, host_ch_rlcier0 c,
     host_ch_exzsr c, host_ch_exzer c, host_ch_ss7sr1 c, host_ch_ss7er1 c, host_ch_rlcisr c,
     host_ch_rlcier c, host_ch_rlcisr1 c, host_ch_rlcier1 c, host_ch_dlsr2 c, host_ch_dlier2 c,
     host_ch_ss7sr2 c, host_ch_ss7er2 c, host_ch_rlcisr2 c, host_ch_rlcier2 c, host_ch_rlcisr3 c,
     host_ch_rlcier3 c, host_ch_rlcisr4 c, host_ch_rlcier4 c, host_ch_rlcisr5 c, host_ch_rlcier5 c,
     host_ch_rlcisr6 c, host_ch_rlcier6 c, host_ch_rlcisr7 c, host_ch_rlcier7 c, host_ch_dlsr3 c,
     host_ch_dlier3 c, host_ch_ss7sr3 c, host_ch_ss7er3 c, host_ch_ciasr c, host_ch_ciaier c,
     host_ch_bocisr c, host_ch_bocier c, host_ch_bocuisr c, host_ch_bocuier c]"

definition host_liu_accessors :: "nat \<Rightarrow> access option list" where
  "host_liu_accessors c =
    [host_ch_liuccr0 c, host_ch_liuccr1 c, host_ch_liuccr2 c, host_ch_liuccr3 c, host_ch_liuccier c,
     host_ch_liuccsr c, host_ch_liuccisr c, host_ch_liuccccr c, host_ch_liuccar1 c, host_ch_liuccar2 c,
     host_ch_liuccar3 c, host_ch_liuccar4 c, host_ch_liuccar5 c, host_ch_liuccar6 c, host_ch_liuccar7 c,
     host_ch_liuccar8 c]"

definition host_timeslot_accessors :: "nat \<Rightarrow> nat \<Rightarrow> access option list" where
  "host_timeslot_accessors c t =
    [host_ts_rds0mr c t, host_ts_tds0mr c t, host_ts_tccr c t, host_ts_tucr c t, host_ts_tscr c t,
     host_ts_rccr c t, host_ts_rucr c t, host_ts_rscr c t, host_ts_rssr c t, host_ts_rsar c t]"

definition host_device_accessors :: "access option list" where
  "host_device_accessors =
    [host_dev_liugcr0, host_dev_liugcr1, host_dev_liugcr2, host_dev_liugcr3, host_dev_liugcr4,
     host_dev_liugcr5, host_dev_devid, host_dev_revid]"

lemma host_addressing_eq:
  "host_global = global" "host_channel_nxxx = channel_nxxx" "host_channel_0fnx = channel_0fnx"
  "host_channel_nxxx_timeslot = channel_nxxx_timeslot" "host_global_0fex = global_0fex"
  "host_rds0mr = rds0mr"
proof -
  show g: "host_global = global"
    by (simp add: fun_eq_iff host_global_def global_def)
  show n: "host_channel_nxxx = channel_nxxx"
    by (simp add: fun_eq_iff host_channel_nxxx_def channel_nxxx_def g HOST_CHANNELS_COUNT_def CHANNELS_COUNT_def)
  show "host_channel_0fnx = channel_0fnx"
    by (simp add: fun_eq_iff host_channel_0fnx_def channel_0fnx_def g HOST_CHANNELS_COUNT_def CHANNELS_COUNT_def)
  show "host_channel_nxxx_timeslot = channel_nxxx_timeslot"
    by (simp add: fun_eq_iff host_channel_nxxx_timeslot_def channel_nxxx_timeslot_def n
        HOST_TIMESLOTS_COUNT_def TIMESLOTS_COUNT_def)
  show "host_global_0fex = global_0fex"
    by (simp add: fun_eq_iff host_global_0fex_def global_0fex_def g)
  have "host_RDS0MR_OFFSET_MAP = RDS0MR_OFFSET_MAP"
    by (simp add: host_RDS0MR_OFFSET_MAP_def RDS0MR_OFFSET_MAP_def)
  then show "host_rds0mr = rds0mr"
    by (simp add: fun_eq_iff host_rds0mr_def rds0mr_def n)
qed

lemma host_access_eq:
  "host_access_framer = access_framer" "host_access_liu = access_liu"
  "host_timeslot_access = timeslot_access" "host_timeslot_access_rds0mr = timeslot_access_rds0mr"
  "host_access_liu_global = access_liu_global" "host_access_global = access_global"
  by (simp_all add: fun_eq_iff host_addressing_eq host_access_framer_def access_framer_def host_access_liu_def
      access_liu_def host_timeslot_access_def timeslot_access_def host_timeslot_access_rds0mr_def
      timeslot_access_rds0mr_def host_access_liu_global_def access_liu_global_def host_access_global_def
      access_global_def)

lemma host_map_eq:
  "host_RSCR_MAP = RSCR_MAP" "host_RDLBCR_MAP = RDLBCR_MAP" "host_DLSR_MAP = DLSR_MAP" "host_SS7SR_MAP = SS7SR_MAP"
  by (simp_all add: host_RSCR_MAP_def RSCR_MAP_def host_RDLBCR_MAP_def RDLBCR_MAP_def host_DLSR_MAP_def
      DLSR_MAP_def host_SS7SR_MAP_def SS7SR_MAP_def)

lemma host_iterators_eq:
  "host_Channel_new = Channel_new" "host_channels_next = channels_next" "host_timeslots_next = timeslots_next"
  by (simp_all add: fun_eq_iff host_Channel_new_def Channel_new_def host_channels_next_def channels_next_def
      host_timeslots_next_def timeslots_next_def HOST_CHANNELS_COUNT_def CHANNELS_COUNT_def
      HOST_TIMESLOTS_COUNT_def TIMESLOTS_COUNT_def)

lemmas host_accessor_eqs = host_access_simps host_access_eq host_map_eq host_layout_eqs

lemma host_tables_eq:
  "host_channel_accessors c = channel_accessors c" "host_liu_accessors c = liu_accessors c"
  "host_timeslot_accessors c t = timeslot_accessors c t" "host_device_accessors = device_accessors"
  by (simp_all only: host_channel_accessors_def channel_accessors_def host_liu_accessors_def liu_accessors_def
      host_timeslot_accessors_def timeslot_accessors_def host_device_accessors_def device_accessors_def
      host_accessor_eqs access_simps)

lemma host_indexed_eq:
  "host_ch_rscr = ch_rscr" "host_ch_rdlbcr = ch_rdlbcr" "host_ch_rsar = ch_rsar"
  "host_ch_lapdbcr0 = ch_lapdbcr0" "host_ch_lapdbcr1 = ch_lapdbcr1"
  "host_ch_dlsr = ch_dlsr" "host_ch_ss7sr = ch_ss7sr"
  by (simp_all add: fun_eq_iff host_accessor_eqs access_simps)

text \<open>
  C30: the two copies of the register definitions agree. The tool's copy of the register file declares
  the same fields at the same bits and the same codes for every enum as the firmware's crate, and its
  copy of the memory map gives every accessor the same address and layout and panics for the same
  arguments: the named accessors of a channel, of its LIU, of a timeslot and of the device, and the
  accessors of a channel that take an index, the two message buffers included. (\<open>rlcisr_x\<close> and
  \<open>rlcier_x\<close> exist in the crate only.) So what one side writes through a named field the other reads
  through it. The iterators over the channels and timeslots agree as well.
\<close>

theorem host_copy_agrees:
  "host_register_layouts = register_layouts \<and> host_enum_codes = enum_codes \<and>
   host_channel_accessors c = channel_accessors c \<and> host_liu_accessors c = liu_accessors c \<and>
   host_timeslot_accessors c t = timeslot_accessors c t \<and> host_device_accessors = device_accessors \<and>
   host_ch_rscr = ch_rscr \<and> host_ch_rdlbcr = ch_rdlbcr \<and> host_ch_rsar = ch_rsar \<and>
   host_ch_lapdbcr0 = ch_lapdbcr0 \<and> host_ch_lapdbcr1 = ch_lapdbcr1 \<and>
   host_ch_dlsr = ch_dlsr \<and> host_ch_ss7sr = ch_ss7sr \<and>
   host_Channel_new = Channel_new \<and> host_channels_next = channels_next \<and>
   host_timeslots_next = timeslots_next"
  by (intro conjI host_register_layouts_eq host_enum_codes_eq host_tables_eq host_indexed_eq
      host_iterators_eq)

end
