(* ===== verification/Host_Device.thy ===== *)
theory Host_Device
  imports Host_Accessors Register_Settings
begin

text \<open>
  The tool's device of \<^verbatim>\<open>tedium-tool/src/framer/device.rs\<close>: finding and opening it, reading and writing
  registers by vendor control transfers, and the typed accesses on top. The \<^verbatim>\<open>rusb\<close> crate is the
  parameter \<open>usb_handle\<close> (and the list of devices it enumerates); its errors are the type \<open>'e\<close>.
\<close>

section \<open>Control transfers\<close>

datatype Request = RegisterRead | RegisterWrite | FramerIfControl

primrec Request_u8 :: "Request \<Rightarrow> u8" where
  "Request_u8 RegisterRead = 0"
| "Request_u8 RegisterWrite = 1"
| "Request_u8 FramerIfControl = 2"

text \<open>
  A handle of \<^verbatim>\<open>rusb\<close>: its request types for vendor requests to the device in the two directions, and
  the control transfers (request type, request, value, index, buffer, timeout in seconds), which
  return the number of bytes transferred; a read also returns its buffer as it is after the transfer.
\<close>

record ('s, 'e) usb_handle =
  usb_vendor_in :: u8
  usb_vendor_out :: u8
  usb_read_control :: "u8 \<Rightarrow> u8 \<Rightarrow> u16 \<Rightarrow> u16 \<Rightarrow> u8 list \<Rightarrow> nat \<Rightarrow> ('s, 'e, nat \<times> u8 list) prog"
  usb_write_control :: "u8 \<Rightarrow> u8 \<Rightarrow> u16 \<Rightarrow> u16 \<Rightarrow> u8 list \<Rightarrow> nat \<Rightarrow> ('s, 'e, nat) prog"

record ('s, 'e) host_device =
  hd_handle :: "('s, 'e) usb_handle"
  hd_timeout :: nat

definition host_register_read :: "('s, 'e) host_device \<Rightarrow> u16 \<Rightarrow> ('s, 'e, u8) prog" where
  "host_register_read self address =
     (let h = hd_handle self
      in prog_bind
           (usb_read_control h (usb_vendor_in h) (Request_u8 RegisterRead) 0 address [0] (hd_timeout self))
           (\<lambda>(n, buf). prog_of_option (slice_index buf 0)))"

definition host_register_write :: "('s, 'e) host_device \<Rightarrow> u16 \<Rightarrow> u8 \<Rightarrow> ('s, 'e, unit) prog" where
  "host_register_write self address value =
     (let h = hd_handle self
      in prog_ignore
           (usb_write_control h (usb_vendor_out h) (Request_u8 RegisterWrite) (ucast value) address []
             (hd_timeout self)))"

definition host_framer_interface_control :: "('s, 'e) host_device \<Rightarrow> bool \<Rightarrow> ('s, 'e, unit) prog" where
  "host_framer_interface_control self enable =
     (let h = hd_handle self
      in prog_ignore
           (usb_write_control h (usb_vendor_out h) (Request_u8 FramerIfControl) (of_bool enable) 0 []
             (hd_timeout self)))"

section \<open>Opening the device\<close>

definition VENDOR_ID :: u16 where "VENDOR_ID = 0x16d0"
definition PRODUCT_ID :: u16 where "PRODUCT_ID = 0x0f3b"

text \<open>A device \<^verbatim>\<open>rusb\<close> enumerates: its vendor and product id, when readable, and the result of opening it.\<close>

record ('s, 'e) usb_device =
  ud_descriptor :: "'e + u16 \<times> u16"
  ud_open :: "'e + ('s, 'e) usb_handle"

fun open_first :: "'e \<Rightarrow> ('s, 'e) usb_device list \<Rightarrow> 'e + ('s, 'e) usb_handle" where
  "open_first no_device [] = Inl no_device"
| "open_first no_device (d # ds) =
     (case ud_descriptor d of
        Inr (vendor, product) \<Rightarrow>
          if vendor = VENDOR_ID \<and> product = PRODUCT_ID then ud_open d else open_first no_device ds
      | Inl _ \<Rightarrow> open_first no_device ds)"

definition open_device :: "'e \<Rightarrow> 'e + ('s, 'e) usb_device list \<Rightarrow> 'e + ('s, 'e) usb_handle" where
  "open_device no_device devices = (case devices of Inl e \<Rightarrow> Inl e | Inr ds \<Rightarrow> open_first no_device ds)"

definition host_device_open :: "'e \<Rightarrow> 'e + ('s, 'e) usb_device list \<Rightarrow> 'e + ('s, 'e) host_device" where
  "host_device_open no_device devices =
     map_sum id (\<lambda>handle. \<lparr>hd_handle = handle, hd_timeout = 1\<rparr>) (open_device no_device devices)"

section \<open>Typed accesses\<close>

definition host_get_typed :: "('s, 'e) host_device \<Rightarrow> nat \<Rightarrow> ('s, 'e, u8) prog" where
  "host_get_typed D address =
     (if address < 0x10000 then host_register_read D (of_nat address) else prog_panic)"

definition host_set_typed :: "('s, 'e) host_device \<Rightarrow> nat \<Rightarrow> u8 \<Rightarrow> ('s, 'e, unit) prog" where
  "host_set_typed D address value =
     (if address < 0x10000 then host_register_write D (of_nat address) value else prog_panic)"

definition host_read :: "('s, 'e) host_device \<Rightarrow> access option \<Rightarrow> ('s, 'e, u8) prog" where
  "host_read D acc = prog_bind (prog_of_option acc) (\<lambda>a. host_get_typed D (acc_address a))"

definition host_write ::
  "('s, 'e) host_device \<Rightarrow> access option \<Rightarrow> (string \<times> u8) list \<Rightarrow> ('s, 'e, unit) prog" where
  "host_write D acc fs =
     prog_bind (prog_of_option acc) (\<lambda>a.
     prog_bind (prog_of_option (reg_chain (acc_layout a) fs 0)) (\<lambda>new_value.
     host_set_typed D (acc_address a) new_value))"

definition host_modify ::
  "('s, 'e) host_device \<Rightarrow> access option \<Rightarrow> (string \<times> u8) list \<Rightarrow> ('s, 'e, unit) prog" where
  "host_modify D acc fs =
     prog_bind (prog_of_option acc) (\<lambda>a.
     prog_bind (host_get_typed D (acc_address a)) (\<lambda>value.
     prog_bind (prog_of_option (reg_chain (acc_layout a) fs value)) (\<lambda>new_value.
     host_set_typed D (acc_address a) new_value)))"

text \<open>They are the accesses of the firmware's crate on this device.\<close>

definition host_xyz :: "('s, 'e) host_device \<Rightarrow> ('s, 'e) xyz" where
  "host_xyz D = \<lparr>xyz_register_read = host_register_read D, xyz_register_write = host_register_write D\<rparr>"

lemma host_access_is_access:
  "host_read D = access_read (host_xyz D)" "host_write D = access_write (host_xyz D)"
  "host_modify D = access_modify (host_xyz D)"
  by (simp_all add: fun_eq_iff host_read_def access_read_def host_write_def access_write_def host_modify_def
      access_modify_def host_get_typed_def access_get_typed_def host_set_typed_def access_set_typed_def host_xyz_def
      cong: if_cong)

section \<open>Registers behind control transfers\<close>

text \<open>
  What the gateware answers: on the addresses \<open>plain\<close> a register-read request returns the register, a
  register-write request stores its value, and every other read returns some byte and leaves the
  plain registers alone.
\<close>

definition serves_registers ::
  "('s, 'e) usb_handle \<Rightarrow> nat \<Rightarrow> ('s \<Rightarrow> u16 \<Rightarrow> u8) \<Rightarrow> u16 set \<Rightarrow> bool" where
  "serves_registers h timeout regs plain \<longleftrightarrow>
     (\<forall>a s. \<exists>v s'. usb_read_control h (usb_vendor_in h) 0 0 a [0] timeout s = (Ok (1, [v]), s') \<and>
        (a \<in> plain \<longrightarrow> v = regs s a) \<and> (\<forall>b \<in> plain. regs s' b = regs s b)) \<and>
     (\<forall>a v s. a \<in> plain \<longrightarrow>
        (\<exists>s'. usb_write_control h (usb_vendor_out h) 1 (ucast v) a [] timeout s = (Ok 0, s') \<and>
          (\<forall>b \<in> plain. regs s' b = ((regs s)(a := v)) b)))"

lemma host_register_file:
  assumes "serves_registers (hd_handle D) (hd_timeout D) regs plain"
  shows "register_file (host_xyz D) regs plain"
proof
  note served = assms [unfolded serves_registers_def]
  fix a v s
  obtain w s' where "usb_read_control (hd_handle D) (usb_vendor_in (hd_handle D)) 0 0 a [0] (hd_timeout D) s =
      (Ok (1, [w]), s')" "a \<in> plain \<longrightarrow> w = regs s a" "\<forall>b \<in> plain. regs s' b = regs s b"
    using served by metis
  then have read: "xyz_register_read (host_xyz D) a s = (Ok w, s')"
    and w: "a \<in> plain \<longrightarrow> w = regs s a" and s': "\<forall>b \<in> plain. regs s' b = regs s b"
    by (simp_all add: host_xyz_def host_register_read_def Let_def prog_bind_eval prog_return_def)
  from read s' show "\<exists>v s'. xyz_register_read (host_xyz D) a s = (Ok v, s') \<and> (\<forall>b\<in>plain. regs s' b = regs s b)"
    by blast
  {
    assume a: "a \<in> plain"
    with read w s' show "\<exists>s'. xyz_register_read (host_xyz D) a s = (Ok (regs s a), s') \<and> (\<forall>b\<in>plain. regs s' b = regs s b)"
      by auto
    from served a obtain s'' where
      "usb_write_control (hd_handle D) (usb_vendor_out (hd_handle D)) 1 (ucast v) a [] (hd_timeout D) s = (Ok 0, s'')"
      "\<forall>b \<in> plain. regs s'' b = ((regs s)(a := v)) b"
      by blast
    then show "\<exists>s'. xyz_register_write (host_xyz D) a v s = (Ok (), s') \<and> (\<forall>b\<in>plain. regs s' b = ((regs s)(a := v)) b)"
      by (auto simp: host_xyz_def host_register_write_def Let_def prog_ignore_def prog_map_def prog_bind_eval
          prog_return_def)
  }
qed

text \<open>A handle that serves every request, for the examples: its state is the register file.\<close>

definition example_handle :: "(u16 \<Rightarrow> u8, unit) usb_handle" where
  "example_handle =
     \<lparr>usb_vendor_in = 0xc0, usb_vendor_out = 0x40,
      usb_read_control = (\<lambda>rt req v a buf timeout R. (Ok (1, [R a]), R)),
      usb_write_control = (\<lambda>rt req v a buf timeout R. (Ok 0, R(a := ucast v)))\<rparr>"

lemma example_handle_serves:
  "serves_registers (hd_handle \<lparr>hd_handle = example_handle, hd_timeout = 1\<rparr>)
    (hd_timeout \<lparr>hd_handle = example_handle, hd_timeout = 1\<rparr>) (\<lambda>R. R) UNIV"
  by (simp add: serves_registers_def example_handle_def)

end
