(* ===== verification/Host_Dump.thy ===== *)
theory Host_Dump
  imports Host_Device Memory_Map "HOL-Library.Multiset"
begin

text \<open>
  The register dumps of \<^verbatim>\<open>tedium-tool/src/framer/dump.rs\<close> and the command of \<^verbatim>\<open>main.rs\<close> that runs
  them. What is printed is a list of items beside the state of the device: the label of a line and the
  value of the register it shows (the text \<open>Debug\<close> makes of the value, and white space, are left
  out). A read that fails leaves what was printed before it.
\<close>

section \<open>Printing and reading\<close>

datatype dump_label = Label string | TimeslotLabel nat

datatype dump_item =
    DumpText string
  | DumpChannel nat
  | DumpIds u8 u8
  | DumpRegister dump_label u8
  | DumpAddress nat
  | DumpByte u8
  | DumpNewline

type_synonym ('s, 'e, 'a) dump = "('s \<times> dump_item list, 'e, 'a) prog"

definition on_device :: "('s, 'e, 'a) prog \<Rightarrow> ('s, 'e, 'a) dump" where
  "on_device m = (\<lambda>(s, out). case m s of (r, s') \<Rightarrow> (r, (s', out)))"

definition print_item :: "dump_item \<Rightarrow> ('s, 'e, unit) dump" where
  "print_item x = (\<lambda>(s, out). (Ok (), (s, out @ [x])))"

text \<open>A statement that prints a text, or reads a register and prints it.\<close>

datatype dump_step = Say dump_item | Show dump_label "access option"

fun run_dump_step :: "('s, 'e) host_device \<Rightarrow> dump_step \<Rightarrow> ('s, 'e, unit) dump" where
  "run_dump_step D (Say x) = print_item x"
| "run_dump_step D (Show label acc) =
     prog_bind (on_device (host_read D acc)) (\<lambda>v. print_item (DumpRegister label v))"

section \<open>The dumps\<close>

definition raw_address :: "('s, 'e) host_device \<Rightarrow> nat \<Rightarrow> ('s, 'e, unit) dump" where
  "raw_address D address =
     prog_bind (prog_unwrap (on_device (host_register_read D (of_nat address)))) (\<lambda>value. seq_all
       [if address mod 16 = 0 then print_item (DumpAddress address) else prog_return (),
        print_item (DumpByte value),
        if address mod 16 = 15 then print_item DumpNewline else prog_return ()])"

definition registers_dump_raw :: "('s, 'e) host_device \<Rightarrow> ('s, 'e, unit) dump" where
  "registers_dump_raw D = for_each [0..<0x10000] (raw_address D)"

definition global_dump_steps :: "dump_step list" where
  "global_dump_steps =
     [Show (Label ''Global'') host_dev_liugcr0, Show (Label '''') host_dev_liugcr1,
      Show (Label '''') host_dev_liugcr2, Show (Label '''') host_dev_liugcr3,
      Show (Label '''') host_dev_liugcr4, Show (Label '''') host_dev_liugcr5]"

definition registers_dump_global :: "('s, 'e) host_device \<Rightarrow> ('s, 'e, unit) dump" where
  "registers_dump_global D =
     prog_bind (on_device (host_read D host_dev_devid)) (\<lambda>devid.
     prog_bind (on_device (host_read D host_dev_revid)) (\<lambda>revid.
     prog_then (print_item (DumpIds (reg_field Host_DEVID ''DEVID'' devid) (reg_field Host_REVID ''REVID'' revid)))
       (seq_all (map (run_dump_step D) global_dump_steps))))"

definition timeslot_dump_steps :: "nat \<Rightarrow> nat \<Rightarrow> dump_step list" where
  "timeslot_dump_steps c t =
     [Show (TimeslotLabel t) (host_ts_rds0mr c t),
      Show (Label '''') (host_ts_tds0mr c t), Show (Label '''') (host_ts_tccr c t),
      Show (Label '''') (host_ts_tucr c t), Show (Label '''') (host_ts_tscr c t),
      Show (Label '''') (host_ts_rccr c t), Show (Label '''') (host_ts_rucr c t),
      Show (Label '''') (host_ts_rscr c t), Show (Label '''') (host_ts_rssr c t),
      Show (Label '''') (host_ts_rsar c t)]"

definition registers_dump_timeslot :: "('s, 'e) host_device \<Rightarrow> nat \<Rightarrow> nat \<Rightarrow> ('s, 'e, unit) dump" where
  "registers_dump_timeslot D c t = seq_all (map (run_dump_step D) (timeslot_dump_steps c t))"

definition liu_dump_steps :: "nat \<Rightarrow> dump_step list" where
  "liu_dump_steps c =
     [Say (DumpText ''LIU''), Show (Label '''') (host_ch_liuccr0 c),
      Show (Label '''') (host_ch_liuccr1 c), Show (Label '''') (host_ch_liuccr2 c),
      Show (Label '''') (host_ch_liuccr3 c), Show (Label '''') (host_ch_liuccier c),
      Show (Label '''') (host_ch_liuccsr c), Show (Label '''') (host_ch_liuccisr c),
      Show (Label '''') (host_ch_liuccccr c), Show (Label '''') (host_ch_liuccar1 c),
      Show (Label '''') (host_ch_liuccar2 c), Show (Label '''') (host_ch_liuccar3 c),
      Show (Label '''') (host_ch_liuccar4 c), Show (Label '''') (host_ch_liuccar5 c),
      Show (Label '''') (host_ch_liuccar6 c), Show (Label '''') (host_ch_liuccar7 c),
      Show (Label '''') (host_ch_liuccar8 c)]"

definition channel_dump_steps :: "nat \<Rightarrow> dump_step list" where
  "channel_dump_steps c =
     [Say (DumpChannel c),
      Show (Label '''') (host_ch_csr c), Show (Label '''') (host_ch_licr c),
      Show (Label '''') (host_ch_fsr c), Show (Label '''') (host_ch_agr c),
      Show (Label '''') (host_ch_smr c), Show (Label '''') (host_ch_tsdlsr c),
      Show (Label '''') (host_ch_fcr c), Show (Label '''') (host_ch_rsdlsr c),
      Show (Label '''') (host_ch_rscr0 c), Show (Label '''') (host_ch_rscr1 c),
      Show (Label '''') (host_ch_rscr2 c), Show (Label '''') (host_ch_rifr c),
      Show (Label '''') (host_ch_sbcr c), Show (Label '''') (host_ch_fifolr c),
      Show (Label '''') (host_ch_icr c), Show (Label '''') (host_ch_lapdsr c),
      Show (Label '''') (host_ch_ciagr c), Show (Label '''') (host_ch_prcr c),
      Show (Label '''') (host_ch_gccr c), Show (Label '''') (host_ch_ticr c),
      Show (Label '''') (host_ch_ricr c), Show (Label '''') (host_ch_tlcr c),
      Show (Label '''') (host_ch_rlcds c), Show (Label '''') (host_ch_dder c),
      Show (Label '''') (host_ch_tlcgs c), Show (Label '''') (host_ch_lcts c),
      Show (Label '''') (host_ch_tsprmcr c), Show (Label ''HDLC1'') (host_ch_dlcr1 c),
      Show (Label '''') (host_ch_tdlbcr1 c), Show (Label '''') (host_ch_rdlbcr1 c),
      Show (Label ''HDLC2'') (host_ch_dlcr2 c), Show (Label '''') (host_ch_tdlbcr2 c),
      Show (Label '''') (host_ch_rdlbcr2 c), Show (Label ''HDLC3'') (host_ch_dlcr3 c),
      Show (Label '''') (host_ch_tdlbcr3 c), Show (Label '''') (host_ch_rdlbcr3 c),
      Show (Label ''LPC0'') (host_ch_lccr0 c), Show (Label '''') (host_ch_rlacr0 c),
      Show (Label '''') (host_ch_rldcr0 c), Show (Label ''LPC1'') (host_ch_lccr1 c),
      Show (Label '''') (host_ch_rlacr1 c), Show (Label '''') (host_ch_rldcr1 c),
      Show (Label ''LPC2'') (host_ch_lccr2 c), Show (Label '''') (host_ch_rlacr2 c),
      Show (Label '''') (host_ch_rldcr2 c), Show (Label ''LPC3'') (host_ch_lccr3 c),
      Show (Label '''') (host_ch_rlacr3 c), Show (Label '''') (host_ch_rldcr3 c),
      Show (Label ''LPC4'') (host_ch_lccr4 c), Show (Label '''') (host_ch_rlacr4 c),
      Show (Label '''') (host_ch_rldcr4 c), Show (Label ''LPC5'') (host_ch_lccr5 c),
      Show (Label '''') (host_ch_rlacr5 c), Show (Label '''') (host_ch_rldcr5 c),
      Show (Label ''LPC6'') (host_ch_lccr6 c), Show (Label '''') (host_ch_rlacr6 c),
      Show (Label '''') (host_ch_rldcr6 c), Show (Label ''LPC7'') (host_ch_lccr7 c),
      Show (Label '''') (host_ch_rlacr7 c), Show (Label '''') (host_ch_rldcr7 c),
      Show (Label '''') (host_ch_bcr c), Show (Label '''') (host_ch_bertcsr0 c),
      Show (Label '''') (host_ch_bertcsr1 c), Show (Label '''') (host_ch_boccr c),
      Show (Label '''') (host_ch_rfdlr c), Show (Label '''') (host_ch_rfdlmr1 c),
      Show (Label '''') (host_ch_rfdlmr2 c), Show (Label '''') (host_ch_rfdlmr3 c),
      Show (Label '''') (host_ch_tfdlr c), Show (Label '''') (host_ch_tbcr c), Say (DumpText ''PM''),
      Show (Label '''') (host_ch_rlcvcu c), Show (Label '''') (host_ch_rlcvcl c),
      Show (Label '''') (host_ch_rfaecu c), Show (Label '''') (host_ch_rfaecl c),
      Show (Label '''') (host_ch_rsefc c), Show (Label '''') (host_ch_rsbbecu c),
      Show (Label '''') (host_ch_rsbbecl c), Show (Label '''') (host_ch_rsc c),
      Show (Label '''') (host_ch_rlfc c), Show (Label '''') (host_ch_rcfac c),
      Show (Label '''') (host_ch_lfcsec1 c), Show (Label '''') (host_ch_pbecu c),
      Show (Label '''') (host_ch_pbecl c), Show (Label '''') (host_ch_tsc c),
      Show (Label '''') (host_ch_ezvcu c), Show (Label '''') (host_ch_ezvcl c),
      Show (Label '''') (host_ch_lfcsec2 c), Show (Label '''') (host_ch_lfcsec3 c),
      Say (DumpText ''IRQ''), Show (Label '''') (host_ch_bisr c), Show (Label '''') (host_ch_bier c),
      Show (Label '''') (host_ch_aeisr c), Show (Label '''') (host_ch_aeier c),
      Show (Label '''') (host_ch_fisr c), Show (Label '''') (host_ch_fier c),
      Show (Label '''') (host_ch_dlsr1 c), Show (Label '''') (host_ch_dlier1 c),
      Show (Label '''') (host_ch_sbisr c), Show (Label '''') (host_ch_sbier c),
      Show (Label '''') (host_ch_rlcisr0 c), Show (Label '''') (host_ch_rlcier0 c),
      Show (Label '''') (host_ch_exzsr c), Show (Label '''') (host_ch_exzer c),
      Show (Label '''') (host_ch_ss7sr1 c), Show (Label '''') (host_ch_ss7er1 c),
      Show (Label '''') (host_ch_rlcisr c), Show (Label '''') (host_ch_rlcier c),
      Show (Label '''') (host_ch_rlcisr1 c), Show (Label '''') (host_ch_rlcier1 c),
      Show (Label '''') (host_ch_dlsr2 c), Show (Label '''') (host_ch_dlier2 c),
      Show (Label '''') (host_ch_ss7sr2 c), Show (Label '''') (host_ch_ss7er2 c),
      Show (Label '''') (host_ch_rlcisr2 c), Show (Label '''') (host_ch_rlcier2 c),
      Show (Label '''') (host_ch_rlcisr3 c), Show (Label '''') (host_ch_rlcier3 c),
      Show (Label '''') (host_ch_rlcisr4 c), Show (Label '''') (host_ch_rlcier4 c),
      Show (Label '''') (host_ch_rlcisr5 c), Show (Label '''') (host_ch_rlcier5 c),
      Show (Label '''') (host_ch_rlcisr6 c), Show (Label '''') (host_ch_rlcier6 c),
      Show (Label '''') (host_ch_rlcisr7 c), Show (Label '''') (host_ch_rlcier7 c),
      Show (Label '''') (host_ch_dlsr3 c), Show (Label '''') (host_ch_dlier3 c),
      Show (Label '''') (host_ch_ss7sr3 c), Show (Label '''') (host_ch_ss7er3 c),
      Show (Label '''') (host_ch_ciasr c), Show (Label '''') (host_ch_ciaier c),
      Show (Label '''') (host_ch_bocisr c), Show (Label '''') (host_ch_bocier c),
      Show (Label '''') (host_ch_bocuisr c), Show (Label '''') (host_ch_bocuier c)] @ liu_dump_steps c"

definition registers_dump_channel :: "('s, 'e) host_device \<Rightarrow> nat \<Rightarrow> ('s, 'e, unit) dump" where
  "registers_dump_channel D c =
     prog_then (seq_all (map (run_dump_step D) (channel_dump_steps c)))
       (for_each [0..<24] (registers_dump_timeslot D c))"

definition registers_dump_debug :: "('s, 'e) host_device \<Rightarrow> ('s, 'e, unit) dump" where
  "registers_dump_debug D =
     prog_then (registers_dump_global D) (for_each channels (registers_dump_channel D))"

text \<open>\<open>DumpMode\<close> and \<open>Commands::Dump\<close>; \<open>device.channel\<close> panics on a bad index.\<close>

datatype DumpMode = DumpMode_Channel nat | DumpMode_Global | DumpMode_All

primrec run_dump_command :: "('s, 'e) host_device \<Rightarrow> DumpMode \<Rightarrow> ('s, 'e, unit) dump" where
  "run_dump_command D DumpMode_All = registers_dump_raw D"
| "run_dump_command D DumpMode_Global = registers_dump_global D"
| "run_dump_command D (DumpMode_Channel channel) =
     prog_bind (prog_of_option (host_Channel_new channel)) (registers_dump_channel D)"

section \<open>What a dump shows\<close>

text \<open>
  \<open>dumps m accs\<close>: the routine reads the accesses \<open>accs\<close> in order and prints their values (on plain
  registers, what the register holds), does nothing else to what was printed and leaves the plain
  registers alone.
\<close>

fun register_values :: "dump_item list \<Rightarrow> u8 list" where
  "register_values [] = []"
| "register_values (DumpRegister label v # xs) = v # register_values xs"
| "register_values (x # xs) = register_values xs"

lemma register_values_append [simp]: "register_values (xs @ ys) = register_values xs @ register_values ys"
  by (induction xs rule: register_values.induct) simp_all

definition shows_value :: "(u16 \<Rightarrow> u8) \<Rightarrow> u16 set \<Rightarrow> access option \<Rightarrow> u8 \<Rightarrow> bool" where
  "shows_value R plain acc v \<longleftrightarrow>
     (\<forall>a. acc = Some a \<longrightarrow> of_nat (acc_address a) \<in> plain \<longrightarrow> v = R (of_nat (acc_address a)))"

definition dumps ::
  "('s \<Rightarrow> u16 \<Rightarrow> u8) \<Rightarrow> u16 set \<Rightarrow> ('s, 'e, unit) dump \<Rightarrow> access option list \<Rightarrow> bool" where
  "dumps regs plain m accs \<longleftrightarrow> (\<forall>s out. \<exists>s' items. m (s, out) = (Ok (), (s', out @ items)) \<and>
     list_all2 (shows_value (regs s) plain) accs (register_values items) \<and>
     (\<forall>b \<in> plain. regs s' b = regs s b))"

lemma shows_value_cong:
  "\<forall>b \<in> plain. R' b = R b \<Longrightarrow> shows_value R' plain = shows_value R plain"
  by (auto simp: fun_eq_iff shows_value_def)

lemma dumps_return: "dumps regs plain (prog_return ()) []"
  by (auto simp: dumps_def prog_return_def)

lemma dumps_then:
  assumes "dumps regs plain m xs" and "dumps regs plain n ys"
  shows "dumps regs plain (prog_then m n) (xs @ ys)"
  unfolding dumps_def
proof (intro allI)
  fix s out
  obtain s1 items where m: "m (s, out) = (Ok (), (s1, out @ items))"
    "list_all2 (shows_value (regs s) plain) xs (register_values items)" "\<forall>b \<in> plain. regs s1 b = regs s b"
    using assms(1) unfolding dumps_def by blast
  obtain s2 items' where n: "n (s1, out @ items) = (Ok (), (s2, (out @ items) @ items'))"
    "list_all2 (shows_value (regs s1) plain) ys (register_values items')" "\<forall>b \<in> plain. regs s2 b = regs s1 b"
    using assms(2) unfolding dumps_def by blast
  have "list_all2 (shows_value (regs s) plain) (xs @ ys) (register_values (items @ items'))"
    using m(2) n(2) by (simp add: shows_value_cong [OF m(3)] list_all2_appendI)
  with m(1,3) n(1,3) show "\<exists>s' items. prog_then m n (s, out) = (Ok (), (s', out @ items)) \<and>
      list_all2 (shows_value (regs s) plain) (xs @ ys) (register_values items) \<and>
      (\<forall>b \<in> plain. regs s' b = regs s b)"
    by (intro exI [of _ s2] exI [of _ "items @ items'"]) (simp add: prog_then_eval)
qed

lemma dumps_print: "(\<And>label v. x \<noteq> DumpRegister label v) \<Longrightarrow> dumps regs plain (print_item x) []"
  by (cases x) (auto simp: dumps_def print_item_def)

lemma dumps_for_each:
  "(\<And>x. x \<in> set xs \<Longrightarrow> dumps regs plain (f x) (g x)) \<Longrightarrow> dumps regs plain (for_each xs f) (concat (map g xs))"
  by (induction xs) (auto intro: dumps_return dumps_then)

fun step_accesses :: "dump_step \<Rightarrow> access option list" where
  "step_accesses (Say x) = []"
| "step_accesses (Show label acc) = [acc]"

lemma host_read_shows:
  assumes "serves_registers (hd_handle D) (hd_timeout D) regs plain" and "valid_access acc"
  shows "\<exists>v s'. host_read D acc s = (Ok v, s') \<and> shows_value (regs s) plain acc v \<and>
    (\<forall>b \<in> plain. regs s' b = regs s b)"
proof -
  obtain a where a: "acc = Some a" "acc_address a < 0x10000"
    using assms(2) by (auto simp: valid_access_def split: option.splits)
  obtain v s' where "usb_read_control (hd_handle D) (usb_vendor_in (hd_handle D)) 0 0 (of_nat (acc_address a)) [0]
      (hd_timeout D) s = (Ok (1, [v]), s')"
    and "of_nat (acc_address a) \<in> plain \<longrightarrow> v = regs s (of_nat (acc_address a))"
    and "\<forall>b \<in> plain. regs s' b = regs s b"
    using assms(1) unfolding serves_registers_def by metis
  with a show ?thesis
    by (auto simp: host_read_def host_get_typed_def host_register_read_def Let_def prog_bind_eval prog_return_def
        shows_value_def)
qed

lemma dumps_step:
  assumes "serves_registers (hd_handle D) (hd_timeout D) regs plain" and "list_all valid_access (step_accesses step)"
    and "\<And>label v. step \<noteq> Say (DumpRegister label v)"
  shows "dumps regs plain (run_dump_step D step) (step_accesses step)"
proof (cases step)
  case (Say x)
  with assms(3) show ?thesis by (auto intro: dumps_print)
next
  case (Show label acc)
  have "\<exists>s' items. run_dump_step D step (s, out) = (Ok (), (s', out @ items)) \<and>
      list_all2 (shows_value (regs s) plain) [acc] (register_values items) \<and> (\<forall>b \<in> plain. regs s' b = regs s b)"
    for s out
  proof -
    obtain v s' where v: "host_read D acc s = (Ok v, s')" "shows_value (regs s) plain acc v"
        "\<forall>b \<in> plain. regs s' b = regs s b"
      using host_read_shows [OF assms(1), of acc s] assms(2) by (auto simp: Show)
    then show ?thesis
      by (intro exI [of _ s'] exI [of _ "[DumpRegister label v]"])
        (simp add: Show on_device_def print_item_def prog_bind_def)
  qed
  then show ?thesis by (simp add: dumps_def Show)
qed

lemma dumps_steps:
  assumes "serves_registers (hd_handle D) (hd_timeout D) regs plain"
    and "list_all valid_access (concat (map step_accesses steps))"
    and "\<And>label v. Say (DumpRegister label v) \<notin> set steps"
  shows "dumps regs plain (seq_all (map (run_dump_step D) steps)) (concat (map step_accesses steps))"
  unfolding for_each_def [symmetric]
proof (rule dumps_for_each)
  fix step assume "step \<in> set steps"
  with assms(2,3) show "dumps regs plain (run_dump_step D step) (step_accesses step)"
    by (intro dumps_step [OF assms(1)]) (auto simp: list_all_iff)
qed

section \<open>Every register is shown\<close>

lemma channel_steps_mset:
  "mset (concat (map step_accesses (channel_dump_steps c))) = mset (host_channel_accessors c @ host_liu_accessors c)"
  unfolding channel_dump_steps_def liu_dump_steps_def append_Cons append_Nil host_channel_accessors_def host_liu_accessors_def list.map concat.simps
    step_accesses.simps append_Nil append_Cons mset.simps
  by (simp only: add_mset_commute)

lemma timeslot_steps: "concat (map step_accesses (timeslot_dump_steps c t)) = host_timeslot_accessors c t"
  by (simp add: timeslot_dump_steps_def host_timeslot_accessors_def)

lemma steps_print_no_values:
  "Say (DumpRegister label v) \<notin> set (channel_dump_steps c)" "Say (DumpRegister label v) \<notin> set (timeslot_dump_steps c t)"
  by (simp_all add: channel_dump_steps_def liu_dump_steps_def timeslot_dump_steps_def)

lemma dumps_channel:
  assumes "serves_registers (hd_handle D) (hd_timeout D) regs plain" and "c < 8"
  shows "dumps regs plain (registers_dump_channel D c)
    (concat (map step_accesses (channel_dump_steps c)) @ concat (map (host_timeslot_accessors c) [0..<24]))"
proof -
  have "set (concat (map step_accesses (channel_dump_steps c))) = set (channel_accessors c) \<union> set (liu_accessors c)"
    using channel_steps_mset [of c, THEN mset_eq_setD] by (simp only: set_append host_tables_eq)
  then have valid: "list_all valid_access (concat (map step_accesses (channel_dump_steps c)))"
    using valid_accessors(1,2) [OF assms(2)] by (simp only: list_all_iff) blast
  have "dumps regs plain (registers_dump_timeslot D c t) (host_timeslot_accessors c t)" if "t \<in> set [0..<24]" for t
    using dumps_steps [OF assms(1), of "timeslot_dump_steps c t"] valid_accessors(4) [OF assms(2), of t] that
    by (simp add: registers_dump_timeslot_def timeslot_steps steps_print_no_values host_tables_eq del: upt_Suc)
  then have "dumps regs plain (for_each [0..<24] (registers_dump_timeslot D c))
      (concat (map (host_timeslot_accessors c) [0..<24]))"
    by (rule dumps_for_each)
  with dumps_steps [OF assms(1) valid steps_print_no_values(1)] show ?thesis
    unfolding registers_dump_channel_def by (rule dumps_then)
qed

text \<open>
  C37: the channel dump shows every named register. When the gateware serves register requests, dumping
  one of the eight channels returns; what it adds to the output are the values of every named register
  of the channel's framer, line interface and 24 timeslots, each shown exactly once. With the two 96
  byte HDLC message buffers, which the dump does not read, these are all the registers the memory map
  has for the channel. A plain register (one that a read does not change, the others being free to
  answer anything) is shown with the value it holds, and no plain register is changed.
\<close>

theorem channel_dump_complete:
  assumes "serves_registers (hd_handle D) (hd_timeout D) regs plain" and "c < 8"
  shows "\<exists>s' items shown. run_dump_command D (DumpMode_Channel c) (s, out) = (Ok (), (s', out @ items)) \<and>
    register_values items = map snd shown \<and>
    mset (map fst shown) = mset (host_channel_accessors c @ host_liu_accessors c
      @ concat (map (host_timeslot_accessors c) [0..<24])) \<and>
    mset (map fst shown) + mset (buffer_accessors c) = mset (channel_registers c) \<and>
    (\<forall>(acc, v) \<in> set shown. shows_value (regs s) plain acc v) \<and> (\<forall>b \<in> plain. regs s' b = regs s b)"
proof -
  let ?accs = "concat (map step_accesses (channel_dump_steps c)) @ concat (map (host_timeslot_accessors c) [0..<24])"
  obtain s' items where run: "registers_dump_channel D c (s, out) = (Ok (), (s', out @ items))"
    and vals: "list_all2 (shows_value (regs s) plain) ?accs (register_values items)"
    and plain: "\<forall>b \<in> plain. regs s' b = regs s b"
    using dumps_channel [OF assms] unfolding dumps_def by blast
  have len: "length ?accs = length (register_values items)"
    using vals by (rule list_all2_lengthD)
  have "run_dump_command D (DumpMode_Channel c) (s, out) = (Ok (), (s', out @ items))"
    using run assms(2) by (simp add: host_iterators_eq Channel_new_def CHANNELS_COUNT_def)
  moreover have "register_values items = map snd (zip ?accs (register_values items))"
    using len by (simp only: map_snd_zip)
  moreover have accs: "mset (map fst (zip ?accs (register_values items))) = mset (host_channel_accessors c
      @ host_liu_accessors c @ concat (map (host_timeslot_accessors c) [0..<24]))"
    using channel_steps_mset [of c] len by (simp only: map_fst_zip mset_append add.assoc)
  moreover have "\<forall>(acc, v) \<in> set (zip ?accs (register_values items)). shows_value (regs s) plain acc v"
    using vals unfolding list_all2_iff by blast
  moreover have "mset (map fst (zip ?accs (register_values items))) + mset (buffer_accessors c) =
      mset (channel_registers c)"
    unfolding accs host_tables_eq
    by (simp add: channel_registers_def timeslots_def TIMESLOTS_COUNT_def del: upt_Suc)
  ultimately show ?thesis
    using plain by blast
qed

text \<open>Channel 3 of a chip whose every register holds the low byte of its address.\<close>

theorem channel_dump_complete_witness:
  "\<exists>s' items. run_dump_command \<lparr>hd_handle = example_handle, hd_timeout = 1\<rparr> (DumpMode_Channel 3) (\<lambda>a. ucast a, []) =
     (Ok (), (s', items)) \<and> length (register_values items) = 390 \<and> 0x07 \<in> set (register_values items)"
proof -
  obtain s' items shown where
    run: "run_dump_command \<lparr>hd_handle = example_handle, hd_timeout = 1\<rparr> (DumpMode_Channel 3) (\<lambda>a. ucast a, []) =
      (Ok (), (s', [] @ items))"
    and vals: "register_values items = map snd shown"
    and accs: "mset (map fst shown) = mset (host_channel_accessors 3 @ host_liu_accessors 3
      @ concat (map (host_timeslot_accessors 3) [0..<24]))"
    and shown: "\<forall>(acc, v) \<in> set shown. shows_value (\<lambda>a. ucast a) UNIV acc v"
    using channel_dump_complete [OF example_handle_serves, of 3 "\<lambda>a. ucast a" "[]"] by auto
  have "length (map fst shown) = 134 + 16 + 24 * 10"
    unfolding mset_eq_length [OF accs] length_append host_tables_eq length_accessors
    by (simp add: length_concat_const [of _ 10] length_accessors host_tables_eq del: upt_Suc)
  moreover have "host_ch_fsr 3 \<in> set (map fst shown)"
    unfolding mset_eq_setD [OF accs] by (simp add: host_channel_accessors_def)
  then obtain v where v: "(host_ch_fsr 3, v) \<in> set shown"
    by auto
  with shown have "shows_value (\<lambda>a. ucast a) UNIV (host_ch_fsr 3) v"
    by blast
  then have "v = 0x07"
    by (simp add: shows_value_def host_accessor_eqs access_framer_eq)
  with v have "0x07 \<in> set (register_values items)"
    unfolding vals by force
  ultimately show ?thesis
    using run vals by (intro exI [of _ s'] exI [of _ items]) simp
qed

section \<open>The raw dump\<close>

text \<open>On a register file the raw dump is 4,096 rows of 16 registers, each row after its address.\<close>

definition raw_items :: "(u16 \<Rightarrow> u8) \<Rightarrow> nat \<Rightarrow> dump_item list" where
  "raw_items R a = (if a mod 16 = 0 then [DumpAddress a] else []) @ [DumpByte (R (of_nat a))]
     @ (if a mod 16 = 15 then [DumpNewline] else [])"

definition raw_row :: "(u16 \<Rightarrow> u8) \<Rightarrow> nat \<Rightarrow> dump_item list" where
  "raw_row R r = DumpAddress (16 * r) # map (\<lambda>k. DumpByte (R (of_nat (16 * r + k)))) [0..<16] @ [DumpNewline]"

lemma raw_address_prints:
  assumes "serves_registers (hd_handle D) (hd_timeout D) regs UNIV"
  shows "\<exists>s'. raw_address D a (s, out) = (Ok (), (s', out @ raw_items (regs s) a)) \<and> regs s' = regs s"
proof -
  obtain s' where "usb_read_control (hd_handle D) (usb_vendor_in (hd_handle D)) 0 0 (of_nat a) [0] (hd_timeout D) s
      = (Ok (1, [regs s (of_nat a)]), s')" and "regs s' = regs s"
    using assms unfolding serves_registers_def fun_eq_iff by (metis UNIV_I)
  then show ?thesis
    by (simp add: raw_address_def raw_items_def host_register_read_def Let_def prog_unwrap_def on_device_def
        prog_bind_def prog_then_def prog_return_def print_item_def)
qed

lemma raw_for_each_prints:
  assumes "serves_registers (hd_handle D) (hd_timeout D) regs UNIV"
  shows "\<exists>s'. for_each as (raw_address D) (s, out) = (Ok (), (s', out @ concat (map (raw_items (regs s)) as)))
    \<and> regs s' = regs s"
proof (induction as arbitrary: s out)
  case (Cons a as)
  obtain s1 where "raw_address D a (s, out) = (Ok (), (s1, out @ raw_items (regs s) a))" and s1: "regs s1 = regs s"
    using raw_address_prints [OF assms] by blast
  moreover obtain s2 where "for_each as (raw_address D) (s1, out @ raw_items (regs s) a) =
      (Ok (), (s2, (out @ raw_items (regs s) a) @ concat (map (raw_items (regs s)) as)))" and "regs s2 = regs s"
    using Cons.IH [of s1 "out @ raw_items (regs s) a"] s1 by auto
  ultimately show ?case
    by (simp add: prog_then_eval)
qed (simp add: prog_return_def)

lemma raw_rows: "concat (map (raw_items R) [0..<16 * n]) = concat (map (raw_row R) [0..<n])"
proof (induction n)
  case (Suc n)
  define f where "f k = DumpByte (R (of_nat (16 * n + k)))" for k
  have "raw_items R (16 * n + k) =
      (if k = 0 then [DumpAddress (16 * n)] else []) @ [f k] @ (if k = 15 then [DumpNewline] else [])" if "k < 16" for k
    using that by (simp add: raw_items_def f_def)
  then have "map (\<lambda>k. raw_items R (16 * n + k)) [0..<16] = map (\<lambda>k.
      (if k = 0 then [DumpAddress (16 * n)] else []) @ [f k] @ (if k = 15 then [DumpNewline] else [])) [0..<16]"
    by (intro map_cong refl) (simp del: upt_Suc)
  also have "concat \<dots> = DumpAddress (16 * n) # map f [0..<16] @ [DumpNewline]"
    by (simp add: upt_rec)
  finally have "concat (map (raw_items R) (map (\<lambda>k. 16 * n + k) [0..<16])) = raw_row R n"
    by (simp add: raw_row_def f_def comp_def del: upt_Suc)
  moreover have "[0..<16 * Suc n] = [0..<16 * n] @ map (\<lambda>k. 16 * n + k) [0..<16]"
    using upt_add_eq_append [of 0 "16 * n" 16] map_add_upt [of "16 * n" 16] by (simp add: add.commute)
  ultimately show ?case
    using Suc by simp
qed simp

lemma raw_dump_rows:
  assumes "serves_registers (hd_handle D) (hd_timeout D) regs UNIV"
  shows "\<exists>s'. run_dump_command D DumpMode_All (s, out) =
    (Ok (), (s', out @ concat (map (raw_row (regs s)) [0..<4096]))) \<and> regs s' = regs s"
  using raw_for_each_prints [OF assms, of "[0..<16 * 4096]" s out] raw_rows [of "regs s" 4096]
  by (simp add: registers_dump_raw_def del: upt_Suc)

end
