(* ===== verification/Test_Modes.thy ===== *)
theory Test_Modes
  imports Host_Device Memory_Map Register_Settings
begin

text \<open>
  The test modes of \<^verbatim>\<open>tedium-tool/src/framer/test.rs\<close> and the command of \<^verbatim>\<open>main.rs\<close> that sets one. The
  theorem says which register bits each mode changes on the chip behind the tool's USB device.
\<close>

section \<open>The routines\<close>

datatype FramerTestMode = FramerTestMode_LocalLoopback | FramerTestMode_RemoteLineLoopback
  | FramerTestMode_PayloadLoopback

datatype LIUTestMode = LIUTestMode_DualLoopback | LIUTestMode_AnalogLoopback | LIUTestMode_RemoteLoopback
  | LIUTestMode_DigitalLoopback

definition set_test_mode_framer_local_loopback :: "('s, 'e) host_device \<Rightarrow> nat \<Rightarrow> ('s, 'e, unit) prog" where
  "set_test_mode_framer_local_loopback D c = seq_all
     [host_modify D (host_ch_licr c) [(''LB'', Host_FramerLoopback_bits Host_FramerLoopback_Local)],
      host_modify D (host_ch_csr c) [(''CSS'', Host_ClockSource_bits Host_ClockSource_Loop)]]"

definition set_test_mode_framer_remote_line_loopback :: "('s, 'e) host_device \<Rightarrow> nat \<Rightarrow> ('s, 'e, unit) prog" where
  "set_test_mode_framer_remote_line_loopback D c =
     host_modify D (host_ch_licr c)
       [(''LB'', Host_FramerLoopback_bits Host_FramerLoopback_FarEndRemoteLine)]"

definition set_test_mode_framer_payload_loopback :: "('s, 'e) host_device \<Rightarrow> nat \<Rightarrow> ('s, 'e, unit) prog" where
  "set_test_mode_framer_payload_loopback D c = seq_all
     [host_modify D (host_ch_licr c) [(''LB'', Host_FramerLoopback_bits Host_FramerLoopback_Payload)],
      host_modify D (host_ch_csr c) [(''CSS'', Host_ClockSource_bits Host_ClockSource_Loop)],
      for_each timeslots (\<lambda>t. host_modify D (host_ts_tscr c t)
        [(''Rob_Enb'', 0),
         (''TxSIGSRC'', Host_ChannelSignalingSource_bits Host_ChannelSignalingSource_PCMData)])]"

primrec set_test_mode_framer :: "('s, 'e) host_device \<Rightarrow> nat \<Rightarrow> FramerTestMode \<Rightarrow> ('s, 'e, unit) prog" where
  "set_test_mode_framer D c FramerTestMode_LocalLoopback = set_test_mode_framer_local_loopback D c"
| "set_test_mode_framer D c FramerTestMode_RemoteLineLoopback = set_test_mode_framer_remote_line_loopback D c"
| "set_test_mode_framer D c FramerTestMode_PayloadLoopback = set_test_mode_framer_payload_loopback D c"

definition set_test_mode_liu_dual_loopback :: "('s, 'e) host_device \<Rightarrow> nat \<Rightarrow> ('s, 'e, unit) prog" where
  "set_test_mode_liu_dual_loopback D c =
     host_modify D (host_ch_liuccr2 c) [(''LOOP2_n'', Host_LIULoopback_bits Host_LIULoopback_Dual)]"

definition set_test_mode_liu_analog_loopback :: "('s, 'e) host_device \<Rightarrow> nat \<Rightarrow> ('s, 'e, unit) prog" where
  "set_test_mode_liu_analog_loopback D c =
     host_modify D (host_ch_liuccr2 c) [(''LOOP2_n'', Host_LIULoopback_bits Host_LIULoopback_Analog)]"

definition set_test_mode_liu_remote_loopback :: "('s, 'e) host_device \<Rightarrow> nat \<Rightarrow> ('s, 'e, unit) prog" where
  "set_test_mode_liu_remote_loopback D c =
     host_modify D (host_ch_liuccr2 c) [(''LOOP2_n'', Host_LIULoopback_bits Host_LIULoopback_Remote)]"

definition set_test_mode_liu_digital_loopback :: "('s, 'e) host_device \<Rightarrow> nat \<Rightarrow> ('s, 'e, unit) prog" where
  "set_test_mode_liu_digital_loopback D c =
     host_modify D (host_ch_liuccr2 c) [(''LOOP2_n'', Host_LIULoopback_bits Host_LIULoopback_Digital)]"

primrec set_test_mode_liu :: "('s, 'e) host_device \<Rightarrow> nat \<Rightarrow> LIUTestMode \<Rightarrow> ('s, 'e, unit) prog" where
  "set_test_mode_liu D c LIUTestMode_DualLoopback = set_test_mode_liu_dual_loopback D c"
| "set_test_mode_liu D c LIUTestMode_AnalogLoopback = set_test_mode_liu_analog_loopback D c"
| "set_test_mode_liu D c LIUTestMode_RemoteLoopback = set_test_mode_liu_remote_loopback D c"
| "set_test_mode_liu D c LIUTestMode_DigitalLoopback = set_test_mode_liu_digital_loopback D c"

text \<open>The command line's test modes and \<open>Commands::Test\<close>; \<open>device.channel\<close> panics on a bad index.\<close>

datatype TestMode = LIUDualLoopback | LIUAnalogLoopback | LIURemoteLoopback | LIUDigitalLoopback
  | FramerLocalLoopback | FramerRemoteLineLoopback | FramerPayloadLoopback

primrec test_mode_setter :: "('s, 'e) host_device \<Rightarrow> TestMode \<Rightarrow> nat \<Rightarrow> ('s, 'e, unit) prog" where
  "test_mode_setter D LIUDualLoopback = (\<lambda>c. set_test_mode_liu D c LIUTestMode_DualLoopback)"
| "test_mode_setter D LIUAnalogLoopback = (\<lambda>c. set_test_mode_liu D c LIUTestMode_AnalogLoopback)"
| "test_mode_setter D LIURemoteLoopback = (\<lambda>c. set_test_mode_liu D c LIUTestMode_RemoteLoopback)"
| "test_mode_setter D LIUDigitalLoopback = (\<lambda>c. set_test_mode_liu D c LIUTestMode_DigitalLoopback)"
| "test_mode_setter D FramerLocalLoopback = (\<lambda>c. set_test_mode_framer D c FramerTestMode_LocalLoopback)"
| "test_mode_setter D FramerRemoteLineLoopback = (\<lambda>c. set_test_mode_framer D c FramerTestMode_RemoteLineLoopback)"
| "test_mode_setter D FramerPayloadLoopback = (\<lambda>c. set_test_mode_framer D c FramerTestMode_PayloadLoopback)"

definition run_test_command :: "('s, 'e) host_device \<Rightarrow> TestMode \<Rightarrow> nat \<Rightarrow> ('s, 'e, unit) prog" where
  "run_test_command D mode channel_index =
     prog_bind (prog_of_option (host_Channel_new channel_index)) (test_mode_setter D mode)"

section \<open>What the modes change\<close>

text \<open>Address, bits kept, bits set.\<close>

primrec test_settings :: "TestMode \<Rightarrow> nat \<Rightarrow> setting list" where
  "test_settings LIUDualLoopback c = [(of_nat (0xf00 + 16 * c + 2), 0xf8, 0x04)]"
| "test_settings LIUAnalogLoopback c = [(of_nat (0xf00 + 16 * c + 2), 0xf8, 0x05)]"
| "test_settings LIURemoteLoopback c = [(of_nat (0xf00 + 16 * c + 2), 0xf8, 0x06)]"
| "test_settings LIUDigitalLoopback c = [(of_nat (0xf00 + 16 * c + 2), 0xf8, 0x07)]"
| "test_settings FramerLocalLoopback c =
     [(of_nat (0x1000 * c + 0x101), 0xcf, 0x10), (of_nat (0x1000 * c + 0x100), 0xfc, 0x00)]"
| "test_settings FramerRemoteLineLoopback c = [(of_nat (0x1000 * c + 0x101), 0xcf, 0x20)]"
| "test_settings FramerPayloadLoopback c =
     [(of_nat (0x1000 * c + 0x101), 0xcf, 0x30), (of_nat (0x1000 * c + 0x100), 0xfc, 0x00)] @
     map (\<lambda>t. (of_nat (0x1000 * c + (0x340 + t)), 0xf8, 0x00)) timeslots"

lemmas test_mode_defs = set_test_mode_framer_local_loopback_def
  set_test_mode_framer_remote_line_loopback_def set_test_mode_framer_payload_loopback_def
  set_test_mode_liu_dual_loopback_def set_test_mode_liu_analog_loopback_def
  set_test_mode_liu_remote_loopback_def set_test_mode_liu_digital_loopback_def

lemma mask_small: "mask 1 = (1 :: u8)" "mask (Suc 0) = (1 :: u8)" "mask 2 = (3 :: u8)" "mask 3 = (7 :: u8)"
  by (simp_all add: mask_eq_exp_minus_1)

lemma test_mode_setting:
  assumes "c < 8" and "t < 24"
  shows "setting_of (host_ch_licr c) [(''LB'', Host_FramerLoopback_bits Host_FramerLoopback_Local)] =
      Some (of_nat (0x1000 * c + 0x101), 0xcf, 0x10)"
    "setting_of (host_ch_licr c) [(''LB'', Host_FramerLoopback_bits Host_FramerLoopback_FarEndRemoteLine)] =
      Some (of_nat (0x1000 * c + 0x101), 0xcf, 0x20)"
    "setting_of (host_ch_licr c) [(''LB'', Host_FramerLoopback_bits Host_FramerLoopback_Payload)] =
      Some (of_nat (0x1000 * c + 0x101), 0xcf, 0x30)"
    "setting_of (host_ch_csr c) [(''CSS'', Host_ClockSource_bits Host_ClockSource_Loop)] =
      Some (of_nat (0x1000 * c + 0x100), 0xfc, 0x00)"
    "setting_of (host_ts_tscr c t) [(''Rob_Enb'', 0),
        (''TxSIGSRC'', Host_ChannelSignalingSource_bits Host_ChannelSignalingSource_PCMData)] =
      Some (of_nat (0x1000 * c + (0x340 + t)), 0xf8, 0x00)"
    "setting_of (host_ch_liuccr2 c) [(''LOOP2_n'', Host_LIULoopback_bits Host_LIULoopback_Dual)] =
      Some (of_nat (0xf00 + 16 * c + 2), 0xf8, 0x04)"
    "setting_of (host_ch_liuccr2 c) [(''LOOP2_n'', Host_LIULoopback_bits Host_LIULoopback_Analog)] =
      Some (of_nat (0xf00 + 16 * c + 2), 0xf8, 0x05)"
    "setting_of (host_ch_liuccr2 c) [(''LOOP2_n'', Host_LIULoopback_bits Host_LIULoopback_Remote)] =
      Some (of_nat (0xf00 + 16 * c + 2), 0xf8, 0x06)"
    "setting_of (host_ch_liuccr2 c) [(''LOOP2_n'', Host_LIULoopback_bits Host_LIULoopback_Digital)] =
      Some (of_nat (0xf00 + 16 * c + 2), 0xf8, 0x07)"
  using assms
  by (simp_all add: host_accessor_eqs access_framer_eq access_liu_eq timeslot_access_eq layout_simps
      mask_small Let_def)

lemma test_mode_configures:
  assumes rf: "register_file (host_xyz D) regs plain" and c: "c < 8"
    and plain: "fst ` set (test_settings mode c) \<subseteq> plain"
  shows "register_file.configures regs plain (test_mode_setter D mode c) (test_settings mode c)"
proof -
  note modify = register_file.configures_modify [OF rf] and seq = register_file.configures_seq_Cons [OF rf]
    and last_stmt = register_file.configures_seq_last [OF rf] and nil = register_file.configures_seq_Nil [OF rf]
  show ?thesis
  proof (cases mode)
    case FramerPayloadLoopback
    have tscr: "(\<lambda>t. of_nat (0x1000 * c + (0x340 + t))) ` set timeslots \<subseteq> plain"
      using plain by (simp add: FramerPayloadLoopback image_image del: of_nat_add of_nat_mult)
    have "register_file.configures regs plain
        (for_each timeslots (\<lambda>t. access_modify (host_xyz D) (host_ts_tscr c t)
          [(''Rob_Enb'', 0),
           (''TxSIGSRC'', Host_ChannelSignalingSource_bits Host_ChannelSignalingSource_PCMData)]))
        (concat (map (\<lambda>t. [(of_nat (0x1000 * c + (0x340 + t)), 0xf8, 0x00)]) timeslots))"
    proof (rule register_file.configures_for_each [OF rf])
      fix t assume t: "t \<in> set timeslots"
      have "of_nat (0x1000 * c + (0x340 + t)) \<in> plain"
        using subsetD [OF tscr imageI [OF t]] by simp
      with t show "register_file.configures regs plain (access_modify (host_xyz D) (host_ts_tscr c t)
          [(''Rob_Enb'', 0),
           (''TxSIGSRC'', Host_ChannelSignalingSource_bits Host_ChannelSignalingSource_PCMData)])
          [(of_nat (0x1000 * c + (0x340 + t)), 0xf8, 0x00)]"
        by (intro modify test_mode_setting(5) [OF c]) (simp_all only: in_timeslots fst_conv)
    qed
    then have "register_file.configures regs plain (for_each timeslots (\<lambda>t. host_modify D (host_ts_tscr c t)
          [(''Rob_Enb'', 0),
           (''TxSIGSRC'', Host_ChannelSignalingSource_bits Host_ChannelSignalingSource_PCMData)]))
        (map (\<lambda>t. (of_nat (0x1000 * c + (0x340 + t)), 0xf8, 0x00)) timeslots)"
      by (simp only: host_access_is_access concat_map_singleton)
    then show ?thesis
      using plain test_mode_setting(3,4) [OF c, of 0]
      unfolding FramerPayloadLoopback test_mode_setter.simps set_test_mode_framer.simps test_mode_defs
        test_settings.simps append_Cons append_Nil
      by (intro seq last_stmt) (simp_all add: host_access_is_access modify)
  next
    case FramerLocalLoopback
    then show ?thesis
      using plain test_mode_setting(1,4) [OF c, of 0]
      by (simp add: test_mode_defs host_access_is_access del: seq_all.simps)
        (intro seq nil; simp add: modify)
  qed (use plain test_mode_setting [OF c, of 0] in \<open>simp_all add: test_mode_defs host_access_is_access modify\<close>)
qed

lemma distinct_test_settings:
  assumes "c < 8"
  shows "distinct (map fst (test_settings mode c))"
proof (cases mode)
  case FramerPayloadLoopback
  let ?F = "[0x101, 0x100] @ map (\<lambda>t. 0x340 + t) timeslots"
  have "map fst (test_settings mode c) = map of_nat (map (\<lambda>off. 0x1000 * c + off) ?F)"
    by (simp add: FramerPayloadLoopback)
  moreover have "distinct ?F"
    by (auto simp: timeslots_def distinct_map inj_on_def)
  then have "distinct (map (\<lambda>off. 0x1000 * c + off) ?F)"
    unfolding distinct_map [of "\<lambda>off. 0x1000 * c + off"] by (auto intro: inj_onI)
  moreover have "set (map (\<lambda>off. 0x1000 * c + off) ?F) \<subseteq> {..<65536}"
    using assms by (auto simp: in_timeslots)
  ultimately show ?thesis
    using inj_on_subset [OF of_nat_u16_inj] by (simp only: distinct_map)
next
  case FramerLocalLoopback
  have "(of_nat (0x1000 * c + 0x101) :: u16) \<noteq> of_nat (0x1000 * c + 0x100)"
    using assms inj_onD [OF of_nat_u16_inj, of "0x1000 * c + 0x101" "0x1000 * c + 0x100"] by auto
  then show ?thesis
    by (simp add: FramerLocalLoopback)
qed simp_all

text \<open>
  C35: a test mode changes its own bits only. When the gateware serves register requests, the test
  command on an existing channel returns and leaves the loopback, clock and signaling fields of the
  mode set in exactly the registers of its table, every other bit of those and every other plain
  register unchanged; on a channel that does not exist it panics before any transfer.
\<close>

theorem test_mode_registers:
  assumes "serves_registers (hd_handle D) (hd_timeout D) regs plain"
    and "fst ` set (test_settings mode c) \<subseteq> plain"
  shows "if c < 8
    then \<exists>s'. run_test_command D mode c s = (Ok (), s') \<and>
      (\<forall>(a, kv) \<in> set (test_settings mode c). regs s' a = masked kv (regs s a)) \<and>
      (\<forall>a \<in> plain - fst ` set (test_settings mode c). regs s' a = regs s a)
    else run_test_command D mode c s = (Panic, s)"
proof (cases "c < 8")
  case True
  note rf = host_register_file [OF assms(1)]
  note result = register_file.configures_result [OF rf test_mode_configures [OF rf True assms(2)]
      distinct_test_settings [OF True], of s]
  have "\<forall>(a, kv) \<in> set (test_settings mode c). a \<in> plain"
    using assms(2) by auto
  with result have "\<exists>s'. test_mode_setter D mode c s = (Ok (), s') \<and>
      (\<forall>(a, kv) \<in> set (test_settings mode c). regs s' a = masked kv (regs s a)) \<and>
      (\<forall>a \<in> plain - fst ` set (test_settings mode c). regs s' a = regs s a)"
    by (simp add: split_beta Ball_def) blast
  then show ?thesis
    using True by (simp add: run_test_command_def host_iterators_eq Channel_new_def CHANNELS_COUNT_def)
next
  case False
  then show ?thesis
    by (simp add: run_test_command_def host_iterators_eq Channel_new_def CHANNELS_COUNT_def prog_panic_def
        prog_bind_def)
qed

text \<open>A chip whose registers are all ones, behind a handle that serves every request.\<close>

theorem test_mode_registers_witness:
  "\<exists>R. run_test_command \<lparr>hd_handle = example_handle, hd_timeout = 1\<rparr> LIURemoteLoopback 3 (\<lambda>_. 0xff) = (Ok (), R) \<and>
     R 0xf32 = 0xfe \<and> R 0xf33 = 0xff"
proof -
  show ?thesis
    using test_mode_registers [OF example_handle_serves, of LIURemoteLoopback 3 "\<lambda>_. 0xff"]
    by (auto simp: masked_def)
qed

end
