(* ===== verification/Host_Main.thy ===== *)
theory Host_Main
  imports Host_Dump Test_Modes Host_Monitor Audio
begin

text \<open>
  \<open>main\<close> of \<^verbatim>\<open>tedium-tool/src/main.rs\<close>: the commands, the messages of the thread that changes the
  patching for demonstration, and the debug thread. The command line comes parsed; what the monitor command does with its
  threads is the parameter \<open>run_monitor\<close> (its parts are in the theories Host_Monitor, Audio,
  Transfer_Pool and Pipeline).
\<close>

section \<open>Commands\<close>

datatype Commands = Commands_Test TestMode nat | Commands_Dump DumpMode | Commands_Monitor

primrec run_command ::
  "('s, 'e, unit) dump \<Rightarrow> ('s, 'e) host_device \<Rightarrow> Commands \<Rightarrow> ('s, 'e, unit) dump" where
  "run_command run_monitor device (Commands_Test mode channel) = on_device (run_test_command device mode channel)"
| "run_command run_monitor device (Commands_Dump mode) = run_dump_command device mode"
| "run_command run_monitor device Commands_Monitor = run_monitor"

text \<open>\<open>context\<close> is the error of creating the USB context, if any; failing to open the device panics.\<close>

definition host_main ::
  "('s, 'e, unit) dump \<Rightarrow> 'e \<Rightarrow> 'e option \<Rightarrow> 'e + ('s, 'e) usb_device list \<Rightarrow> Commands \<Rightarrow> ('s, 'e, unit) dump" where
  "host_main run_monitor no_device context_error devices command =
     (case context_error of
        Some e \<Rightarrow> prog_fail e
      | None \<Rightarrow>
          (case host_device_open no_device devices of
             Inl e \<Rightarrow> prog_panic
           | Inr device \<Rightarrow> run_command run_monitor device command))"

section \<open>The patching demonstration\<close>

text \<open>One turn of the thread's loop: each message sent, and the milliseconds it then sleeps.\<close>

definition repatch_cycle :: "(processor_message \<times> nat) list" where
  "repatch_cycle =
     (let address = timeslot_address_new 0 0
      in [(ProcessorMessage_Patch address Patch_Idle, 1000),
          (ProcessorMessage_Patch address (Patch_Tone DialTonePrecise), 1000)] @
         concat (replicate 3
           [(ProcessorMessage_Patch address Patch_Idle, 4000),
            (ProcessorMessage_Patch address (Patch_Tone Ringback), 2000)]) @
         [(ProcessorMessage_Patch address (Patch_Input address), 5000)])"

section \<open>The debug thread\<close>

definition DEBUG_PRINT :: bool where
  "DEBUG_PRINT = False"

text \<open>
  The bar that shows the range of the FIFO's levels, as code points: a rule, the two ends, and blanks
  between them. An index beyond its 32 characters panics.
\<close>

definition fifo_range_str :: "nat \<Rightarrow> nat \<Rightarrow> nat list option" where
  "fifo_range_str low high =
     (if low < 32 \<and> high < 32
      then Some (fold (\<lambda>i s. s[i := 0x20]) [low + 1..<high] ((replicate 32 0x2500)[low := 0x2524, high := 0x251c]))
      else None)"

text \<open>A line printed: seconds and microseconds since the start with the bar, or the statistics.\<close>

datatype debug_line =
    FIFORangeLine nat nat "nat list"
  | StatisticsLine periodic_statistics cumulative_statistics

fun debug_message_received ::
  "bool \<Rightarrow> nat \<Rightarrow> debug_message \<Rightarrow> u8 \<times> u8 \<Rightarrow> (debug_line list \<times> (u8 \<times> u8)) option" where
  "debug_message_received debug_print elapsed_us (TxFIFORange low high) tx_fifo_level_range =
     (if debug_print \<and> (low, high) \<noteq> tx_fifo_level_range
      then Option.bind (fifo_range_str (unat low) (unat high)) (\<lambda>range_str.
        Some ([FIFORangeLine (elapsed_us div 1000000) (elapsed_us mod 1000000) range_str], (low, high)))
      else Some ([], tx_fifo_level_range))"
| "debug_message_received debug_print elapsed_us (FramerStatistics p c) tx_fifo_level_range =
     Some (if debug_print then [StatisticsLine p c] else [], tx_fifo_level_range)"

fun debug_thread ::
  "bool \<Rightarrow> (nat \<times> debug_message) list \<Rightarrow> u8 \<times> u8 \<Rightarrow> debug_line list option" where
  "debug_thread debug_print [] tx_fifo_level_range = Some []"
| "debug_thread debug_print ((elapsed_us, message) # rest) tx_fifo_level_range =
     Option.bind (debug_message_received debug_print elapsed_us message tx_fifo_level_range)
       (\<lambda>(ls, tx_fifo_level_range).
          map_option (\<lambda>ls'. ls @ ls') (debug_thread debug_print rest tx_fifo_level_range))"

text \<open>As configured the thread takes every message and prints nothing; it never stops receiving.\<close>

lemma debug_thread_silent: "debug_thread DEBUG_PRINT messages r = Some []"
proof (induction messages arbitrary: r)
  case (Cons m messages)
  obtain t message where "m = (t, message)" by (cases m)
  with Cons show ?case by (cases message) (simp_all add: DEBUG_PRINT_def)
qed simp

text \<open>The bar marks the two levels and clears what lies between them.\<close>

lemma fold_blank:
  "i < length s \<Longrightarrow> fold (\<lambda>i s. s[i := b]) ks s ! i = (if i \<in> set ks then b else s ! i)"
  by (induction ks arbitrary: s) (auto simp: nth_list_update)

lemma fifo_range_str_eq:
  assumes "low < high" and "high < 32"
  shows "fifo_range_str low high = Some (map (\<lambda>i. if i = low then 0x2524 else if i = high then 0x251c
    else if low < i \<and> i < high then 0x20 else 0x2500) [0..<32])"
proof -
  have len: "length (fold (\<lambda>i s. s[i := 0x20]) ks s) = length s" for ks and s :: "nat list"
    by (induction ks arbitrary: s) simp_all
  show ?thesis
    using assms
    by (auto simp: fifo_range_str_def fold_blank len nth_list_update simp del: upt_Suc intro!: nth_equalityI)
qed

text \<open>
  With printing enabled, a transfer without a packet would stop the thread: the levels it reports are
  the initial 255 and 0.
\<close>

lemma process_packets_failed:
  "\<forall>p \<in> set packets. fst p \<noteq> 0 \<Longrightarrow> process_packets R packets rx = Some ([], rx)"
  by (induction packets) auto

lemma debug_print_panics:
  assumes "\<forall>p \<in> set packets. fst p \<noteq> 0" and "handle_in R M waiting packets h = Some (messages, h')"
    and "r \<noteq> (255, 0)"
  shows "debug_message_received True elapsed_us (last messages) r = None"
  using assms
  by (auto simp: handle_in_def process_packets_failed reset_tx_fifo_level_stats_def Let_def bind_eq_Some_conv
      fifo_range_str_def simp del: drain_frames.simps)

section \<open>Which device the tool opens\<close>

text \<open>
  The first device with the right ids; unreadable descriptors are skipped, an error of opening it is
  not: no later device is tried.
\<close>

definition is_tedium :: "('s, 'e) usb_device \<Rightarrow> bool" where
  "is_tedium d \<longleftrightarrow> ud_descriptor d = Inr (VENDOR_ID, PRODUCT_ID)"

lemma open_first_eq:
  "open_first no_device ds =
     (case filter is_tedium ds of [] \<Rightarrow> Inl no_device | d # _ \<Rightarrow> ud_open d)"
proof (induction ds)
  case (Cons d ds)
  show ?case
  proof (cases "ud_descriptor d")
    case (Inr ids)
    then obtain v p where "ud_descriptor d = Inr (v, p)" by (cases ids) auto
    with Cons show ?thesis by (auto simp: is_tedium_def)
  qed (use Cons in \<open>simp add: is_tedium_def\<close>)
qed simp

text \<open>Without such a device, or when it does not open, the tool panics before any command runs.\<close>

lemma host_main_no_device:
  "filter is_tedium ds = [] \<Longrightarrow> host_main run_monitor no_device None (Inr ds) command s = (Panic, s)"
  by (simp add: host_main_def host_device_open_def open_device_def open_first_eq prog_panic_def)

lemma host_main_device:
  assumes "filter is_tedium ds = d # ds'" and "ud_open d = Inr handle"
  shows "host_main run_monitor no_device None (Inr ds) command =
    run_command run_monitor \<lparr>hd_handle = handle, hd_timeout = 1\<rparr> command"
  using assms by (simp add: host_main_def host_device_open_def open_device_def open_first_eq)

end
