(* ===== verification/Host_Status.thy ===== *)
theory Host_Status
  imports Host_Interrupt Host_Registers
begin

text \<open>
  \<open>print_framer_interrupt_status\<close> of \<^verbatim>\<open>tedium-tool/src/framer/interrupt.rs\<close>: what the tool prints of an
  interrupt report, as a list of pieces with the stream each goes to. A flag is a name in red (the
  field is not zero) or green; brackets and other fixed text around the pieces are left out.
\<close>

section \<open>The flags\<close>

datatype print_stream = Stdout | Stderr

datatype status_piece =
    StatusLabel string
  | StatusNumber nat
  | StatusFlag string bool
  | StatusHex u8
  | StatusNewline

type_synonym status_output = "(print_stream \<times> status_piece) list"

text \<open>Style and field of every flag of a register, in the order printed.\<close>

definition BISR_STYLES :: "(string \<times> string) list" where
  "BISR_STYLES =
    [(''LBCODE'', ''LBCODE''), (''RXCLOS'', ''RxClkLOS''), (''ONESEC'', ''ONESEC''),
     (''HDLC'', ''HDLC''), (''SLIP'', ''SLIP''), (''ALRM'', ''ALARM''), (''T1FRM'', ''T1FRAME'')]"

definition DLSR_STYLES :: "(string \<times> string) list" where
  "DLSR_STYLES =
    [(''MOS'', ''MSG_TYPE''), (''TxSOT'', ''TxSOT''), (''RxSOT'', ''RxSOT''),
     (''TxEOT'', ''TxEOT''), (''RxEOT'', ''RxEOT''), (''FCS'', ''FCS_ERR''),
     (''RxABT'', ''RxABORT''), (''RxIDL'', ''RxIDLE'')]"

definition SBISR_STYLES :: "(string \<times> string) list" where
  "SBISR_STYLES =
    [(''TSBF'', ''TxSB_FULL''), (''TSBE'', ''TxSB_EMPT''), (''TSBS'', ''TxSB_SLIP''),
     (''RSBF'', ''RxSB_FULL''), (''RSBE'', ''RxSB_EMPT''), (''RSBS'', ''RxSB_SLIP''),
     (''SLC96LOCK'', ''SLC96_LOCK''), (''MFLOCK'', ''Multiframe_LOCK'')]"

definition AEISR_STYLES :: "(string \<times> string) list" where
  "AEISR_STYLES =
    [(''RXOOF'', ''RxOOF_State''), (''RXAIS'', ''RxAIS_State''), (''RXYEL'', ''RxYEL_State''),
     (''LOS'', ''LOS_State''), (''LCV'', ''LCVInt_Status''),
     (''RXOOFX'', ''RxOOF_State_Change''), (''RXAISX'', ''RxAIS_State_Change''),
     (''RXYELX'', ''RxYEL_State_Change'')]"

definition EXZSR_STYLES :: "(string \<times> string) list" where
  "EXZSR_STYLES =
    [(''EXZ'', ''EXZ_STATUS'')]"

definition CIASR_STYLES :: "(string \<times> string) list" where
  "CIASR_STYLES =
    [(''RAISCI'', ''RxAIS_CI_state''), (''RRAICI'', ''RxRAI_CI_state'')]"

definition FISR_STYLES :: "(string \<times> string) list" where
  "FISR_STYLES =
    [(''DS0X'', ''DS0_Change''), (''DS0S'', ''DS0_Status''), (''SIG'', ''SIG''),
     (''COFA'', ''COFA''), (''OOFX'', ''OOF_Status''), (''FMD'', ''FMD''), (''SE'', ''SE''),
     (''FE'', ''FE'')]"

definition styled_flags :: "print_stream \<Rightarrow> layout \<Rightarrow> (string \<times> string) list \<Rightarrow> u8 \<Rightarrow> status_output" where
  "styled_flags stream L styles v = map (\<lambda>(style, n). (stream, StatusFlag style (reg_field L n v \<noteq> 0))) styles"

section \<open>The blocks\<close>

definition print_lbcode :: "loopback_code_status \<Rightarrow> status_output" where
  "print_lbcode lbcode =
     (Stderr, StatusLabel ''RLCISR'') # map (\<lambda>rlcisr. (Stderr, StatusHex rlcisr)) (rlcisrs lbcode)"

definition print_hdlc_controller :: "nat \<Rightarrow> hdlc_controller_status \<Rightarrow> status_output" where
  "print_hdlc_controller hdlc_index controller =
     (let dlsr = hc_dlsr controller
      in if dlsr \<noteq> 0
         then [(Stdout, StatusLabel ''DLSR''), (Stdout, StatusNumber hdlc_index)] @
              styled_flags Stdout Host_DLSRx DLSR_STYLES dlsr @
              [(Stdout, StatusLabel ''LAPDBCR''),
               (Stdout, StatusNumber (unat (reg_field Host_RDLBCR ''RBUFPTR'' (hc_rdlbcr controller))))] @
              map (\<lambda>data. (Stdout, StatusHex data)) (hc_data controller) @
              (if reg_field Host_DLSRx ''FCS_ERR'' dlsr \<noteq> 0 then [(Stdout, StatusLabel ''FCS_ERR'')] else [])
         else [])"

definition print_hdlc :: "hdlc_status \<Rightarrow> status_output" where
  "print_hdlc hdlc = concat (map (\<lambda>(i, controller). print_hdlc_controller i controller)
     (enumerate 0 (hdlc_controller hdlc)))"

definition print_slip :: "slip_status \<Rightarrow> status_output" where
  "print_slip slip =
     (Stdout, StatusLabel ''SBISR'') # styled_flags Stdout Host_SBISR SBISR_STYLES (st_sbisr slip)"

definition print_alarm :: "alarm_status \<Rightarrow> status_output" where
  "print_alarm alarm =
     (Stdout, StatusLabel ''AEISR'') # styled_flags Stdout Host_AEISR AEISR_STYLES (al_aeisr alarm) @
     (Stdout, StatusLabel ''EXZSR'') # styled_flags Stdout Host_EXZSR EXZSR_STYLES (al_exzsr alarm) @
     (Stdout, StatusLabel ''CIASR'') # styled_flags Stdout Host_CIASR CIASR_STYLES (al_ciasr alarm)"

definition print_t1frame :: "t1frame_status \<Rightarrow> status_output" where
  "print_t1frame t1frame =
     (Stdout, StatusLabel ''FISR'') # styled_flags Stdout Host_FISR FISR_STYLES (t1_fisr t1frame) @
     (case t1_sig t1frame of
        Some sig \<Rightarrow> (Stdout, StatusLabel ''RSAR'') # map (\<lambda>rsar. (Stdout, StatusHex rsar)) (rsars sig)
      | None \<Rightarrow> [])"

text \<open>\<open>if let Some(x) = ... { ... }\<close>\<close>

definition print_if_some :: "('a \<Rightarrow> status_output) \<Rightarrow> 'a option \<Rightarrow> status_output" where
  "print_if_some f x = (case x of Some a \<Rightarrow> f a | None \<Rightarrow> [])"

definition print_framer_interrupt_status :: "framer_interrupt_status \<Rightarrow> status_output" where
  "print_framer_interrupt_status s =
     [(Stderr, StatusLabel ''CH''), (Stderr, StatusNumber (fis_channel_index s)), (Stderr, StatusLabel ''BISR'')] @
     styled_flags Stderr Host_BISR BISR_STYLES (fis_bisr s) @
     print_if_some print_lbcode (fis_lbcode s) @
     print_if_some print_hdlc (fis_hdlc s) @
     print_if_some print_slip (fis_slip s) @
     print_if_some print_alarm (fis_alarm s) @
     print_if_some print_t1frame (fis_t1frame s) @
     [(Stdout, StatusNewline)]"

section \<open>What is printed\<close>

text \<open>
  Every style names a field of its register, and is red exactly when that bit is set. The table of
  \<open>SBISR\<close> is not in the order of the bits.
\<close>

definition bit_flags :: "print_stream \<Rightarrow> string list \<Rightarrow> nat list \<Rightarrow> u8 \<Rightarrow> status_output" where
  "bit_flags stream names ks v = map (\<lambda>(n, k). (stream, StatusFlag n (bit v k))) (zip names ks)"

lemma field_bit: "bits_get (k, Suc 0) v = 0 \<longleftrightarrow> \<not> bit v k"
  by (simp add: bits_get_def take_bit_Suc bit_iff_odd_drop_bit mod_2_eq_odd)

lemmas flag_simps = styled_flags_def bit_flags_def reg_field_def reg_get_def field_bit layout_simps

lemma flags_are_bits:
  "styled_flags st Host_BISR BISR_STYLES v = bit_flags st (map fst BISR_STYLES) [6, 5, 4, 3, 2, 1, 0] v"
  "styled_flags st Host_DLSRx DLSR_STYLES v = bit_flags st (map fst DLSR_STYLES) [7, 6, 5, 4, 3, 2, 1, 0] v"
  "styled_flags st Host_SBISR SBISR_STYLES v = bit_flags st (map fst SBISR_STYLES) [7, 6, 5, 2, 1, 0, 4, 3] v"
  "styled_flags st Host_AEISR AEISR_STYLES v = bit_flags st (map fst AEISR_STYLES) [7, 6, 5, 4, 3, 2, 1, 0] v"
  "styled_flags st Host_EXZSR EXZSR_STYLES v = bit_flags st (map fst EXZSR_STYLES) [0] v"
  "styled_flags st Host_CIASR CIASR_STYLES v = bit_flags st (map fst CIASR_STYLES) [5, 4] v"
  "styled_flags st Host_FISR FISR_STYLES v = bit_flags st (map fst FISR_STYLES) [7, 6, 5, 4, 3, 2, 1, 0] v"
  by (simp_all add: flag_simps BISR_STYLES_def DLSR_STYLES_def SBISR_STYLES_def AEISR_STYLES_def EXZSR_STYLES_def
      CIASR_STYLES_def FISR_STYLES_def)

text \<open>A controller whose status is zero is not shown, whatever it carries.\<close>

lemma idle_controller_not_shown: "hc_dlsr controller = 0 \<Longrightarrow> print_hdlc_controller i controller = []"
  by (simp add: print_hdlc_controller_def)

text \<open>One status goes to both streams: its channel and block flags to one, its line end to the other.\<close>

lemma status_on_both_streams:
  "hd (print_framer_interrupt_status s) = (Stderr, StatusLabel ''CH'')"
  "last (print_framer_interrupt_status s) = (Stdout, StatusNewline)"
  by (simp_all add: print_framer_interrupt_status_def)

end
