(* ===== verification/Host_Transfer.thy ===== *)
theory Host_Transfer
  imports Loopback_Spec Host_Interrupt Soc_Main
begin

text \<open>
  The transfers of \<^verbatim>\<open>tedium-tool/src/framer/usb.rs\<close> and those the interrupt thread and the audio pump
  keep in flight. A transfer of libusb is the record of what \<open>libusb_fill_*_transfer\<close> and
  \<open>libusb_set_iso_packet_lengths\<close> put in it; its callback is in Transfer_Pool. Allocation may
  fail, and the directions of an endpoint address are constants of libusb: parameters.
\<close>

section \<open>Constants\<close>

datatype AlternateSetting = AlternateSetting_Idle | AlternateSetting_Active

primrec AlternateSetting_u8 :: "AlternateSetting \<Rightarrow> u8" where
  "AlternateSetting_u8 AlternateSetting_Idle = 0"
| "AlternateSetting_u8 AlternateSetting_Active = 1"

datatype InterfaceNumber = InterfaceNumber_FrameStream | InterfaceNumber_Interrupt | InterfaceNumber_FramerControl

primrec InterfaceNumber_u8 :: "InterfaceNumber \<Rightarrow> u8" where
  "InterfaceNumber_u8 InterfaceNumber_FrameStream = 0"
| "InterfaceNumber_u8 InterfaceNumber_Interrupt = 1"
| "InterfaceNumber_u8 InterfaceNumber_FramerControl = 2"

datatype HostEndpointNumber = HostEndpoint_FrameStream | HostEndpoint_Interrupt | HostEndpoint_FramerControl

primrec HostEndpointNumber_u8 :: "HostEndpointNumber \<Rightarrow> u8" where
  "HostEndpointNumber_u8 HostEndpoint_FrameStream = 1"
| "HostEndpointNumber_u8 HostEndpoint_Interrupt = 2"
| "HostEndpointNumber_u8 HostEndpoint_FramerControl = 3"

text \<open>The return codes of libusb by name, and the errors of rusb.\<close>

datatype libusb_code =
    LIBUSB_SUCCESS
  | LIBUSB_ERROR_IO | LIBUSB_ERROR_INVALID_PARAM | LIBUSB_ERROR_ACCESS | LIBUSB_ERROR_NO_DEVICE
  | LIBUSB_ERROR_NOT_FOUND | LIBUSB_ERROR_BUSY | LIBUSB_ERROR_TIMEOUT | LIBUSB_ERROR_OVERFLOW
  | LIBUSB_ERROR_PIPE | LIBUSB_ERROR_INTERRUPTED | LIBUSB_ERROR_NO_MEM | LIBUSB_ERROR_NOT_SUPPORTED
  | LIBUSB_ERROR_OTHER | LIBUSB_UNNAMED int

datatype rusb_error =
    Error_Io | Error_InvalidParam | Error_Access | Error_NoDevice | Error_NotFound | Error_Busy | Error_Timeout
  | Error_Overflow | Error_Pipe | Error_Interrupted | Error_NoMem | Error_NotSupported | Error_Other

fun from_libusb :: "libusb_code \<Rightarrow> rusb_error" where
  "from_libusb LIBUSB_ERROR_IO = Error_Io"
| "from_libusb LIBUSB_ERROR_INVALID_PARAM = Error_InvalidParam"
| "from_libusb LIBUSB_ERROR_ACCESS = Error_Access"
| "from_libusb LIBUSB_ERROR_NO_DEVICE = Error_NoDevice"
| "from_libusb LIBUSB_ERROR_NOT_FOUND = Error_NotFound"
| "from_libusb LIBUSB_ERROR_BUSY = Error_Busy"
| "from_libusb LIBUSB_ERROR_TIMEOUT = Error_Timeout"
| "from_libusb LIBUSB_ERROR_OVERFLOW = Error_Overflow"
| "from_libusb LIBUSB_ERROR_PIPE = Error_Pipe"
| "from_libusb LIBUSB_ERROR_INTERRUPTED = Error_Interrupted"
| "from_libusb LIBUSB_ERROR_NO_MEM = Error_NoMem"
| "from_libusb LIBUSB_ERROR_NOT_SUPPORTED = Error_NotSupported"
| "from_libusb _ = Error_Other"

section \<open>Transfers\<close>

datatype transfer_type = InterruptTransfer | IsoTransfer

record usb_transfer =
  ut_type :: transfer_type
  ut_endpoint :: u8
  ut_buffer :: "u8 list"
  ut_timeout :: nat
  ut_packet_lengths :: "nat list"

text \<open>\<open>x.try_into().unwrap()\<close> to a C \<open>int\<close>.\<close>

definition c_int :: "nat \<Rightarrow> nat option" where
  "c_int n = (if n < 0x80000000 then Some n else None)"

text \<open>\<open>alloc n\<close>: whether \<open>libusb_alloc_transfer\<close> for \<open>n\<close> packets returns a transfer.\<close>

definition new_interrupt_transfer :: "(nat \<Rightarrow> bool) \<Rightarrow> u8 \<Rightarrow> nat \<Rightarrow> nat \<Rightarrow> usb_transfer option" where
  "new_interrupt_transfer alloc endpoint packet_length timeout =
     (if alloc 0
      then Option.bind (c_int packet_length) (\<lambda>_.
        Some \<lparr>ut_type = InterruptTransfer, ut_endpoint = endpoint, ut_buffer = replicate packet_length 0,
          ut_timeout = timeout, ut_packet_lengths = []\<rparr>)
      else None)"

definition new_iso_transfer :: "(nat \<Rightarrow> bool) \<Rightarrow> u8 \<Rightarrow> nat \<Rightarrow> nat \<Rightarrow> nat \<Rightarrow> usb_transfer option" where
  "new_iso_transfer alloc endpoint num_iso_packets packet_length timeout =
     Option.bind (c_int num_iso_packets) (\<lambda>n.
     Option.bind (c_int packet_length) (\<lambda>len.
       if alloc n
       then Option.bind (c_int (num_iso_packets * packet_length)) (\<lambda>_.
         Some \<lparr>ut_type = IsoTransfer, ut_endpoint = endpoint,
           ut_buffer = replicate (num_iso_packets * packet_length) 0, ut_timeout = timeout,
           ut_packet_lengths = replicate n len\<rparr>)
       else None))"

text \<open>The transfers submitted, in order, by the interrupt thread and by the audio pump.\<close>

fun repeat_option :: "nat \<Rightarrow> 'a list option \<Rightarrow> 'a list option" where
  "repeat_option 0 x = Some []"
| "repeat_option (Suc n) x = Option.bind x (\<lambda>xs. Option.bind (repeat_option n x) (\<lambda>ys. Some (xs @ ys)))"

definition interrupt_transfers :: "(nat \<Rightarrow> bool) \<Rightarrow> u8 \<Rightarrow> usb_transfer list option" where
  "interrupt_transfers alloc endpoint_in = repeat_option 4
     (map_option (\<lambda>t. [t]) (new_interrupt_transfer alloc
        (endpoint_in OR HostEndpointNumber_u8 HostEndpoint_Interrupt) INTERRUPT_BYTES_MAX 0))"

definition loopback_transfers :: "(nat \<Rightarrow> bool) \<Rightarrow> u8 \<Rightarrow> u8 \<Rightarrow> usb_transfer list option" where
  "loopback_transfers alloc endpoint_in endpoint_out = repeat_option 8
     (Option.bind (new_iso_transfer alloc (endpoint_in OR HostEndpointNumber_u8 HostEndpoint_FrameStream)
        PACKETS_PER_TRANSFER 512 0) (\<lambda>transfer_in.
      Option.bind (new_iso_transfer alloc (endpoint_out OR HostEndpointNumber_u8 HostEndpoint_FrameStream)
        PACKETS_PER_TRANSFER 512 0) (\<lambda>transfer_out.
      Some [transfer_in, transfer_out])))"

text \<open>The event loop ends at the first code that is not zero; the list is what libusb returns.\<close>

fun event_loop :: "libusb_code list \<Rightarrow> rusb_error option" where
  "event_loop [] = None"
| "event_loop (r # rs) = (if r \<noteq> LIBUSB_SUCCESS then Some (from_libusb r) else event_loop rs)"

section \<open>Buffers\<close>

text \<open>The endpoint numbers of the two sides, kept synchronized by hand, are the same.\<close>

lemma endpoint_numbers_agree:
  "HostEndpointNumber_u8 HostEndpoint_FrameStream = EndpointNumber_u8 EndpointNumber_FrameStream"
  "HostEndpointNumber_u8 HostEndpoint_Interrupt = EndpointNumber_u8 EndpointNumber_Interrupt"
  "HostEndpointNumber_u8 HostEndpoint_FramerControl = EndpointNumber_u8 EndpointNumber_FramerControl"
  by simp_all

lemma sum_list_map_le: "(\<And>x. x \<in> set xs \<Longrightarrow> f x \<le> (k :: nat)) \<Longrightarrow> sum_list (map f xs) \<le> length xs * k"
  by (induction xs) (auto simp: add_mono)

lemma packets_end:
  assumes "i < length ps" and "\<forall>p \<in> set ps. tx_length p \<le> k"
  shows "sum_list (map tx_length (take i ps)) + tx_length (ps ! i) \<le> length ps * k"
proof -
  have "sum_list (map tx_length (take i ps)) + tx_length (ps ! i) = sum_list (map tx_length (take (Suc i) ps))"
    using assms(1) by (simp add: take_Suc_conv_app_nth)
  also have "\<dots> \<le> length (take (Suc i) ps) * k"
    using assms(2) by (intro sum_list_map_le) (auto dest: in_set_takeD)
  also have "\<dots> \<le> length ps * k"
    by (rule mult_le_mono1) simp
  finally show ?thesis .
qed

lemma repeat_option_Some: "repeat_option n (Some xs) = Some (concat (replicate n xs))"
  by (induction n) simp_all

lemma new_iso_transfer_eq:
  assumes "alloc PACKETS_PER_TRANSFER"
  shows "new_iso_transfer alloc endpoint PACKETS_PER_TRANSFER 512 0 =
    Some \<lparr>ut_type = IsoTransfer, ut_endpoint = endpoint, ut_buffer = replicate (PACKETS_PER_TRANSFER * 512) 0,
      ut_timeout = 0, ut_packet_lengths = replicate PACKETS_PER_TRANSFER 512\<rparr>"
  using assms by (simp add: new_iso_transfer_def c_int_def PACKETS_PER_TRANSFER_def)

lemma loopback_transfers_eq:
  assumes "alloc PACKETS_PER_TRANSFER" and "loopback_transfers alloc endpoint_in endpoint_out = Some ts"
  shows "length ts = 16" and "t \<in> set ts \<Longrightarrow> length (ut_buffer t) = PACKETS_PER_TRANSFER * 512"
    and "t \<in> set ts \<Longrightarrow> sum_list (ut_packet_lengths t) = length (ut_buffer t)"
  using assms(2)
  by (auto simp: loopback_transfers_def new_iso_transfer_eq [of alloc] assms(1) repeat_option_Some
      sum_list_replicate length_concat map_replicate)

text \<open>
  \<open>libusb_get_iso_packet_buffer\<close> puts a packet after the lengths of those before it: every slice
  \<open>handle_out\<close> writes ends inside the transfer's buffer.
\<close>

lemma out_packets_in_buffer:
  assumes "ring_buffer R content cap" and "alloc PACKETS_PER_TRANSFER"
    and "loopback_transfers alloc endpoint_in endpoint_out = Some ts" and "t \<in> set ts"
    and "handle_out R PACKETS_PER_TRANSFER h = (ps, h')" and "i < length ps"
  shows "sum_list (map tx_length (take i ps)) + tx_length (ps ! i) \<le> length (ut_buffer t)"
proof -
  have ps: "length ps = PACKETS_PER_TRANSFER" "\<forall>p \<in> set ps. tx_length p \<le> 512"
    using handle_out_eq [OF assms(1,5)] by auto
  from packets_end [OF assms(6) this(2)] this(1) show ?thesis
    using loopback_transfers_eq(2) [OF assms(2,3,4)] by simp
qed

end
