(* ===== verification/Transfer_Pool.thy ===== *)
theory Transfer_Pool
  imports Host_Transfer Host_Monitor "HOL-Library.Multiset"
begin

text \<open>
  The life of a transfer (\<^verbatim>\<open>usb.rs\<close>, with the callbacks of \<^verbatim>\<open>interrupt.rs\<close> and \<^verbatim>\<open>audio.rs\<close>). A thread
  submits its transfers once; from then on libusb completes one in flight after the other, in any order,
  and the callback submits it again. A transfer libusb does not accept is reported and not tried again.
  The trait \<open>TransferHandler\<close> is the locale \<open>transfer_handler\<close>.
\<close>

section \<open>Locks\<close>

text \<open>
  \<open>Arc<Mutex<T>>\<close>: \<open>lock().unwrap()\<close> panics when a holder panicked before; a panic below is \<open>None\<close>.
\<close>

record 's mutex =
  mx_value :: 's
  mx_poisoned :: bool

definition mutex_new :: "'s \<Rightarrow> 's mutex" where
  "mutex_new s = \<lparr>mx_value = s, mx_poisoned = False\<rparr>"

definition with_lock :: "('s \<Rightarrow> ('a \<times> 's) option) \<Rightarrow> 's mutex \<Rightarrow> ('a \<times> 's mutex) option" where
  "with_lock f m =
     (if mx_poisoned m then None
      else map_option (\<lambda>(x, s). (x, m\<lparr>mx_value := s\<rparr>)) (f (mx_value m)))"

section \<open>Callbacks\<close>

text \<open>
  A callback gets what has completed and the transfer, and gives the transfer as it submits it again
  and what it has sent or put in the transfer's buffer.
\<close>

type_synonym ('c, 'o, 's) transfer_callback =
  "'c \<Rightarrow> usb_transfer \<Rightarrow> 's \<Rightarrow> (usb_transfer \<times> 'o list \<times> 's) option"

text \<open>\<open>FramerInterruptHandler\<close>: the status, the bytes received and the time.\<close>

type_synonym interrupt_completion = "bool \<times> u8 list \<times> nat"

definition callback_wrapper ::
  "(interrupt_completion, nat framer_event, unit mutex) transfer_callback" where
  "callback_wrapper = (\<lambda>(completed, buffer, now) transfer m.
     map_option (\<lambda>(events, m). (transfer, events, m))
       (with_lock (\<lambda>s. map_option (\<lambda>events. (events, s)) (interrupt_callback completed buffer now)) m))"

text \<open>
  \<open>LoopbackFrameHandler\<close>: the packets of an IN transfer, and the messages that wait while frames are
  processed. All packets of the IN transfer are open again for 512 bytes; those of the OUT transfer have
  the lengths of what was put in them.
\<close>

datatype audio_output = Audio_Debug debug_message | Audio_Packet tx_packet

type_synonym audio_completion = "iso_packet list \<times> (nat \<Rightarrow> processor_message list)"

definition callback_in_wrapper ::
  "('q, internal_frame) ring_ops \<Rightarrow> 'c maths \<Rightarrow>
    (audio_completion, audio_output, 'q loopback_handler mutex) transfer_callback" where
  "callback_in_wrapper R M = (\<lambda>(packets, waiting) transfer m.
     map_option
       (\<lambda>(messages, m). (transfer\<lparr>ut_packet_lengths := map (\<lambda>_. 512) (ut_packet_lengths transfer)\<rparr>,
          map Audio_Debug messages, m))
       (with_lock (handle_in R M waiting packets) m))"

definition callback_out_wrapper ::
  "('q, internal_frame) ring_ops \<Rightarrow> ('c, audio_output, 'q loopback_handler mutex) transfer_callback" where
  "callback_out_wrapper R = (\<lambda>_ transfer m.
     map_option
       (\<lambda>(packets, m). (transfer\<lparr>ut_packet_lengths := map tx_length packets\<rparr>, map Audio_Packet packets, m))
       (with_lock (\<lambda>h. Some (handle_out R (length (ut_packet_lengths transfer)) h)) m))"

text \<open>The callback of a transfer is the one it was created with, that is, the one of its endpoint.\<close>

definition audio_callback ::
  "('q, internal_frame) ring_ops \<Rightarrow> 'c maths \<Rightarrow> u8 \<Rightarrow>
    (audio_completion, audio_output, 'q loopback_handler mutex) transfer_callback" where
  "audio_callback R M endpoint_in completion transfer =
     (if ut_endpoint transfer = endpoint_in OR HostEndpointNumber_u8 HostEndpoint_FrameStream
      then callback_in_wrapper R M completion transfer
      else callback_out_wrapper R completion transfer)"

section \<open>Transfers in flight\<close>

text \<open>\<open>libusb_submit_transfer\<close>: in flight, or reported and lost.\<close>

definition submit ::
  "libusb_code \<Rightarrow> usb_transfer \<Rightarrow> usb_transfer multiset \<times> usb_transfer multiset \<Rightarrow>
    usb_transfer multiset \<times> usb_transfer multiset" where
  "submit result transfer = (\<lambda>(in_flight, lost).
     (case result of
        LIBUSB_SUCCESS \<Rightarrow> (add_mset transfer in_flight, lost)
      | e \<Rightarrow> (in_flight, add_mset transfer lost)))"

definition submit_all ::
  "(libusb_code \<times> usb_transfer) list \<Rightarrow> usb_transfer multiset \<times> usb_transfer multiset" where
  "submit_all xs = fold (\<lambda>(result, transfer). submit result transfer) xs ({#}, {#})"

text \<open>
  The states a thread reaches: what has completed, the transfers in flight, those lost, all output, and
  the handler. A completion is one step: the callback, then the submission. (\<open>handle_in\<close> submits its
  transfer again after reading the packets and before it processes the frames; the event loop handles
  no other completion in between, so only a panic of the processing could tell the difference.)
\<close>

inductive pool_run ::
  "('c, 'o, 's) transfer_callback \<Rightarrow> ('c \<Rightarrow> usb_transfer \<Rightarrow> bool) \<Rightarrow> usb_transfer list \<Rightarrow> 's \<Rightarrow>
    ('c \<times> usb_transfer) list \<Rightarrow> usb_transfer multiset \<Rightarrow> usb_transfer multiset \<Rightarrow> 'o list \<Rightarrow> 's \<Rightarrow> bool"
  for callback :: "('c, 'o, 's) transfer_callback" and completes :: "'c \<Rightarrow> usb_transfer \<Rightarrow> bool"
    and transfers :: "usb_transfer list" and s0 :: 's where
  start: "pool_run callback completes transfers s0 [] in_flight lost [] s0"
    if "length results = length transfers" and "submit_all (zip results transfers) = (in_flight, lost)"
| completed: "pool_run callback completes transfers s0 (history @ [(c, t)]) in_flight' lost' (sent @ out) s'"
    if "pool_run callback completes transfers s0 history (add_mset t in_flight) lost sent s"
      and "completes c t" and "callback c t s = Some (t', out, s')"
      and "submit result t' (in_flight, lost) = (in_flight', lost')"

text \<open>What a completion may be: one result per packet, or at most the bytes of the buffer.\<close>

fun iso_completes :: "audio_completion \<Rightarrow> usb_transfer \<Rightarrow> bool" where
  "iso_completes (packets, waiting) t \<longleftrightarrow> length packets = length (ut_packet_lengths t)"

fun interrupt_completes :: "interrupt_completion \<Rightarrow> usb_transfer \<Rightarrow> bool" where
  "interrupt_completes (completed, buffer, now) t \<longleftrightarrow> length buffer \<le> length (ut_buffer t)"

text \<open>With every submission accepted, all transfers are in flight.\<close>

lemma submit_all_accepted: "submit_all (zip (replicate (length ts) LIBUSB_SUCCESS) ts) = (mset ts, {#})"
proof -
  have "fold (\<lambda>(result, transfer). submit result transfer) (zip (replicate (length ts) LIBUSB_SUCCESS) ts) (F, L) =
      (mset ts + F, L)" for F L
    by (induction ts arbitrary: F) (simp_all add: submit_def)
  then show ?thesis
    by (simp add: submit_all_def)
qed

lemma pool_run_accepted: "pool_run callback completes ts s0 [] (mset ts) {#} [] s0"
  using pool_run.start [OF _ submit_all_accepted] by simp

section \<open>The contract of a handler\<close>

text \<open>What no callback changes of a transfer.\<close>

definition transfer_key :: "usb_transfer \<Rightarrow> transfer_type \<times> u8 \<times> nat \<times> nat \<times> nat" where
  "transfer_key t = (ut_type t, ut_endpoint t, length (ut_buffer t), ut_timeout t, length (ut_packet_lengths t))"

lemma submit_cases:
  "submit result t (F, L) = (F', L') \<Longrightarrow> (F' = add_mset t F \<and> L' = L) \<or> (F' = F \<and> L' = add_mset t L)"
  by (auto simp: submit_def split: libusb_code.splits)

lemma submit_sum: "submit result t (F, L) = (F', L') \<Longrightarrow> F' + L' = add_mset t (F + L)"
  using submit_cases [of result t F L F' L'] by auto

lemma submit_all_sum:
  assumes "submit_all (zip results ts) = (F, L)" and "length results = length ts"
  shows "F + L = mset ts"
proof -
  have "fold (\<lambda>(result, transfer). submit result transfer) (zip results ts) (F0, L0) = (F, L) \<Longrightarrow>
      F + L = F0 + L0 + mset ts" for F0 L0
    using assms(2)
  proof (induction results ts arbitrary: F0 L0 rule: list_induct2)
    case (Cons r rs t ts)
    obtain F1 L1 where "submit r t (F0, L0) = (F1, L1)"
      by (cases "submit r t (F0, L0)")
    with Cons submit_sum [OF this] show ?case
      by auto
  qed simp
  with assms(1) show ?thesis
    by (simp add: submit_all_def)
qed

locale transfer_handler =
  fixes callback :: "('c, 'o, 's) transfer_callback"
    and completes :: "'c \<Rightarrow> usb_transfer \<Rightarrow> bool"
    and fits :: "usb_transfer \<Rightarrow> bool"
  assumes same_transfer: "callback c t s = Some (t', out, s') \<Longrightarrow> transfer_key t' = transfer_key t"
    and stays_fit: "callback c t s = Some (t', out, s') \<Longrightarrow> fits t \<Longrightarrow> fits t'"
begin

lemma accounted:
  "pool_run callback completes ts s0 history F L sent s \<Longrightarrow>
    image_mset transfer_key (F + L) = image_mset transfer_key (mset ts)"
proof (induction rule: pool_run.induct)
  case (start results F L)
  then show ?case
    using submit_all_sum by metis
next
  case (completed history t F L sent s c t' out s' result F' L')
  have "image_mset transfer_key (F' + L') = image_mset transfer_key (add_mset t' (F + L))"
    using submit_sum [OF completed(4)] by simp
  with completed.IH same_transfer [OF completed(3)] show ?case
    by simp
qed

lemma all_fit:
  "pool_run callback completes ts s0 history F L sent s \<Longrightarrow> \<forall>t \<in> set ts. fits t \<Longrightarrow> \<forall>t \<in># F. fits t"
proof (induction rule: pool_run.induct)
  case (start results F L)
  then have "set_mset (F + L) = set ts"
    using submit_all_sum by (metis set_mset_mset)
  with start.prems show ?case
    by auto
next
  case (completed history t F L sent s c t' out s' result F' L')
  then show ?case
    using submit_cases [OF completed(4)] stays_fit [OF completed(3)] by auto
qed

lemma none_lost:
  assumes "pool_run callback completes ts s0 history F {#} sent s"
  shows "image_mset transfer_key F = image_mset transfer_key (mset ts)"
  using accounted [OF assms] by simp

lemma size_accounted: "pool_run callback completes ts s0 history F L sent s \<Longrightarrow> size F + size L = length ts"
  using accounted by (metis size_image_mset size_mset size_union)

end

text \<open>A handler that serves every completion whatever its state.\<close>

locale total_transfer_handler = transfer_handler callback completes fits
  for callback :: "('c, 'o, 's) transfer_callback" and completes and fits +
  fixes ready :: "'s \<Rightarrow> bool"
  assumes serves: "fits t \<Longrightarrow> ready s \<Longrightarrow> completes c t \<Longrightarrow> \<exists>t' out s'. callback c t s = Some (t', out, s') \<and> ready s'"
begin

lemma stays_ready:
  "pool_run callback completes ts s0 history F L sent s \<Longrightarrow> \<forall>t \<in> set ts. fits t \<Longrightarrow> ready s0 \<Longrightarrow> ready s"
proof (induction rule: pool_run.induct)
  case (completed history t F L sent s c t' out s' result F' L')
  from all_fit [OF completed(1) completed.prems(1)] have "fits t"
    by simp
  with serves [OF this _ completed(2), of s] completed show ?case
    by auto
qed simp

lemma never_stuck:
  assumes "pool_run callback completes ts s0 history F L sent s" and "\<forall>t \<in> set ts. fits t" and "ready s0"
    and "t \<in># F" and "completes c t"
  shows "\<exists>t' out s'. callback c t s = Some (t', out, s') \<and>
    pool_run callback completes ts s0 (history @ [(c, t)]) (add_mset t' (F - {#t#})) L (sent @ out) s'"
proof -
  from all_fit [OF assms(1,2)] assms(4) have "fits t"
    by simp
  from serves [OF this stays_ready [OF assms(1-3)] assms(5)] obtain t' out s' where
    step: "callback c t s = Some (t', out, s')"
    by blast
  have "pool_run callback completes ts s0 history (add_mset t (F - {#t#})) L sent s"
    using assms(1,4) by simp
  from pool_run.completed [OF this assms(5) step, of LIBUSB_SUCCESS] step show ?thesis
    by (simp add: submit_def)
qed

end

section \<open>The handlers of the tool\<close>

definition iso_fits :: "usb_transfer \<Rightarrow> bool" where
  "iso_fits t \<longleftrightarrow> length (ut_buffer t) = PACKETS_PER_TRANSFER * 512 \<and>
     length (ut_packet_lengths t) = PACKETS_PER_TRANSFER \<and> (\<forall>l \<in> set (ut_packet_lengths t). l \<le> 512)"

lemma iso_fits_buffer: "iso_fits t \<Longrightarrow> sum_list (ut_packet_lengths t) \<le> length (ut_buffer t)"
  using sum_list_map_le [of "ut_packet_lengths t" id 512] by (simp add: iso_fits_def)

lemma fill_packets_lengths:
  "fill_packets n R q = (ps, q') \<Longrightarrow> length ps = n \<and> (\<forall>p \<in> set ps. tx_length p \<le> 512)"
  by (induction n arbitrary: q ps q')
    (fastforce simp: Let_def TX_USB_REPORT_SIZE_def TX_FRAME_SIZE_def split: prod.splits if_splits)+

lemma handle_out_lengths:
  assumes "handle_out R n h = (ps, h')"
  shows "length ps = n \<and> (\<forall>p \<in> set ps. tx_length p \<le> 512)"
proof -
  obtain q q' where "fill_packets n R q = (ps, q')"
    using assms by (auto simp: handle_out_def Let_def split: prod.splits)
  then show ?thesis
    by (rule fill_packets_lengths)
qed

lemma audio_callback_eq:
  "audio_callback R M endpoint_in (packets, waiting) t m = Some (t', out, m') \<longleftrightarrow>
     \<not> mx_poisoned m \<and>
     (if ut_endpoint t = endpoint_in OR HostEndpointNumber_u8 HostEndpoint_FrameStream
      then \<exists>messages h. handle_in R M waiting packets (mx_value m) = Some (messages, h) \<and>
        t' = t\<lparr>ut_packet_lengths := map (\<lambda>_. 512) (ut_packet_lengths t)\<rparr> \<and>
        out = map Audio_Debug messages \<and> m' = m\<lparr>mx_value := h\<rparr>
      else \<exists>ps h. handle_out R (length (ut_packet_lengths t)) (mx_value m) = (ps, h) \<and>
        t' = t\<lparr>ut_packet_lengths := map tx_length ps\<rparr> \<and>
        out = map Audio_Packet ps \<and> m' = m\<lparr>mx_value := h\<rparr>)"
  by (auto simp: audio_callback_def callback_in_wrapper_def callback_out_wrapper_def with_lock_def
      split: prod.splits)

interpretation audio: transfer_handler "audio_callback R M endpoint_in" iso_completes iso_fits
  for R :: "('q, internal_frame) ring_ops" and M :: "'c maths" and endpoint_in
proof
  fix c t s t' out s'
  assume "audio_callback R M endpoint_in c t s = Some (t', out, s')"
  then show "transfer_key t' = transfer_key t" and "iso_fits t \<Longrightarrow> iso_fits t'"
    using handle_out_lengths [of R "length (ut_packet_lengths t)" "mx_value s"]
    by (cases c; auto simp: audio_callback_eq transfer_key_def iso_fits_def split: if_splits)+
qed

definition interrupt_fits :: "usb_transfer \<Rightarrow> bool" where
  "interrupt_fits t \<longleftrightarrow> length (ut_buffer t) \<le> INTERRUPT_BYTES_MAX"

lemma callback_wrapper_eq:
  "\<not> mx_poisoned m \<Longrightarrow> callback_wrapper (completed, buffer, now) t m =
     map_option (\<lambda>events. (t, events, m)) (interrupt_callback completed buffer now)"
  by (cases m) (auto simp: callback_wrapper_def with_lock_def option.map_comp o_def)

lemma interrupt_callback_within:
  "length buffer \<le> INTERRUPT_BYTES_MAX \<Longrightarrow> interrupt_callback completed buffer now =
     Some (if completed \<and> buffer \<noteq> []
       then [Interrupt now (buffer @ replicate (INTERRUPT_BYTES_MAX - length buffer) 0) (length buffer)] else [])"
  by (simp add: interrupt_callback_def)

interpretation interrupt: total_transfer_handler callback_wrapper interrupt_completes interrupt_fits
  "\<lambda>m. \<not> mx_poisoned m"
proof
  fix c t s t' out s'
  assume "callback_wrapper c t s = Some (t', out, s')"
  then show "transfer_key t' = transfer_key t" and "interrupt_fits t \<Longrightarrow> interrupt_fits t'"
    by (cases c; cases "mx_poisoned s"; auto simp: callback_wrapper_eq callback_wrapper_def with_lock_def)+
next
  fix t :: usb_transfer and s :: "unit mutex" and c
  assume "interrupt_fits t" and "\<not> mx_poisoned s" and "interrupt_completes c t"
  then show "\<exists>t' out s'. callback_wrapper c t s = Some (t', out, s') \<and> \<not> mx_poisoned s'"
    by (cases c) (auto simp: callback_wrapper_eq interrupt_callback_within interrupt_fits_def)
qed

section \<open>The audio pump\<close>

text \<open>What the completed transfers brought, and what was put in those for the device, in order.\<close>

definition received_in :: "u8 \<Rightarrow> (audio_completion \<times> usb_transfer) list \<Rightarrow> internal_frame list" where
  "received_in endpoint_in history = concat (map (\<lambda>((packets, waiting), t).
     if ut_endpoint t = endpoint_in OR HostEndpointNumber_u8 HostEndpoint_FrameStream
     then received_frames packets else []) history)"

fun sent_frames :: "audio_output list \<Rightarrow> (u32 \<times> frame) list" where
  "sent_frames [] = []"
| "sent_frames (Audio_Debug m # os) = sent_frames os"
| "sent_frames (Audio_Packet p # os) = tx_frames p @ sent_frames os"

lemma sent_frames_append [simp]: "sent_frames (xs @ ys) = sent_frames xs @ sent_frames ys"
  by (induction xs rule: sent_frames.induct) simp_all

lemma sent_frames_map [simp]:
  "sent_frames (map Audio_Debug ms) = []" "sent_frames (map Audio_Packet ps) = concat (map tx_frames ps)"
  by (induction ms, simp_all) (induction ps, simp_all)

text \<open>The handler behind its lock sees the run of callbacks that Loopback_Spec speaks of.\<close>

lemma pool_run_loopback:
  assumes "pool_run (audio_callback R M endpoint_in) iso_completes ts (mutex_new (loopback_handler_new R))
      history F L os m" and fit: "\<forall>t \<in> set ts. iso_fits t"
  shows "\<not> mx_poisoned m \<and> loopback_run R M (received_in endpoint_in history) (sent_frames os) (mx_value m)"
  using assms(1)
proof (induction rule: pool_run.induct)
  case start
  show ?case
    by (simp add: mutex_new_def received_in_def loopback_run.start)
next
  case (completed history t F L os m c t' out m' result F' L')
  obtain packets waiting where c: "c = (packets, waiting)"
    by (cases c)
  from audio.all_fit [OF completed(1) fit] have "iso_fits t"
    by simp
  then have packets: "length (ut_packet_lengths t) = PACKETS_PER_TRANSFER" "length packets = PACKETS_PER_TRANSFER"
    using completed(2) by (simp_all add: iso_fits_def c)
  show ?case
  proof (cases "ut_endpoint t = endpoint_in OR HostEndpointNumber_u8 HostEndpoint_FrameStream")
    case True
    with completed(3) obtain messages h where
      "handle_in R M waiting packets (mx_value m) = Some (messages, h)" "\<not> mx_poisoned m"
      "m' = m\<lparr>mx_value := h\<rparr>" "out = map Audio_Debug messages"
      by (auto simp: c audio_callback_eq)
    with loopback_run.callback_in [OF conjunct2 [OF completed.IH] packets(2)] True show ?thesis
      by (simp add: c received_in_def)
  next
    case False
    with completed(3) packets(1) obtain ps h where
      "handle_out R PACKETS_PER_TRANSFER (mx_value m) = (ps, h)" "\<not> mx_poisoned m"
      "m' = m\<lparr>mx_value := h\<rparr>" "out = map Audio_Packet ps"
      by (auto simp: c audio_callback_eq)
    with loopback_run.callback_out [OF conjunct2 [OF completed.IH]] False show ?thesis
      by (simp add: c received_in_def)
  qed
qed

lemma repeat_option_SomeD:
  assumes "repeat_option n x = Some ys" and "0 < n"
  shows "\<exists>xs. x = Some xs \<and> ys = concat (replicate n xs)"
proof (cases x)
  case None
  with assms show ?thesis by (cases n) simp_all
next
  case (Some xs)
  with assms(1) show ?thesis by (simp add: repeat_option_Some)
qed

lemma mset_pairs: "image_mset f (mset (concat (replicate n [a, b]))) = replicate_mset n (f a) + replicate_mset n (f b)"
  by (induction n) simp_all

lemma loopback_transfers_pool:
  assumes "loopback_transfers alloc endpoint_in endpoint_out = Some ts"
  shows "\<forall>t \<in> set ts. iso_fits t" and "length ts = 16"
    and "image_mset ut_endpoint (mset ts) =
      replicate_mset 8 (endpoint_in OR 1) + replicate_mset 8 (endpoint_out OR 1)"
proof -
  obtain xs where ts: "ts = concat (replicate 8 xs)"
    and xs: "Option.bind (new_iso_transfer alloc (endpoint_in OR 1) PACKETS_PER_TRANSFER 512 0) (\<lambda>transfer_in.
      Option.bind (new_iso_transfer alloc (endpoint_out OR 1) PACKETS_PER_TRANSFER 512 0) (\<lambda>transfer_out.
      Some [transfer_in, transfer_out])) = Some xs"
    using repeat_option_SomeD [OF assms [unfolded loopback_transfers_def]] by (auto simp del: bind_eq_Some_conv)
  have "alloc PACKETS_PER_TRANSFER"
    using xs by (simp add: new_iso_transfer_def c_int_def PACKETS_PER_TRANSFER_def split: if_splits)
  note eq = new_iso_transfer_eq [of alloc, OF this]
  have "\<exists>a b. xs = [a, b] \<and> iso_fits a \<and> iso_fits b \<and> ut_endpoint a = endpoint_in OR 1 \<and>
    ut_endpoint b = endpoint_out OR 1"
    using xs by (auto simp: eq iso_fits_def)
  then obtain a b where "xs = [a, b]" "iso_fits a" "iso_fits b" "ut_endpoint a = endpoint_in OR 1"
    "ut_endpoint b = endpoint_out OR 1"
    by blast
  then show "\<forall>t \<in> set ts. iso_fits t" "length ts = 16" "image_mset ut_endpoint (mset ts) =
      replicate_mset 8 (endpoint_in OR 1) + replicate_mset 8 (endpoint_out OR 1)"
    by (simp_all add: ts mset_pairs length_concat sum_list_replicate map_replicate)
qed

lemma endpoint_of_key: "ut_endpoint = (\<lambda>t. fst (snd (transfer_key t)))"
  by (simp add: transfer_key_def fun_eq_iff)

text \<open>
  C17: the audio pump keeps its transfers. Of the eight IN and eight OUT transfers of \<open>pump_loopback\<close>,
  each is in flight or was not accepted by libusb, however many have completed and in whatever order;
  the packets of those in flight stay inside their buffers, and the handler behind its lock has seen
  exactly the completed transfers, one callback after the other.
\<close>

theorem audio_transfers_kept:
  assumes "loopback_transfers alloc endpoint_in endpoint_out = Some ts"
    and "pool_run (audio_callback R M endpoint_in) iso_completes ts (mutex_new (loopback_handler_new R))
      history F L os m"
  shows "image_mset ut_endpoint (F + L) =
      replicate_mset 8 (endpoint_in OR 1) + replicate_mset 8 (endpoint_out OR 1) \<and>
    (\<forall>t \<in># F. sum_list (ut_packet_lengths t) \<le> length (ut_buffer t)) \<and>
    loopback_run R M (received_in endpoint_in history) (sent_frames os) (mx_value m)"
proof -
  note pool = loopback_transfers_pool [OF assms(1)]
  have endpoints: "image_mset ut_endpoint X = image_mset (\<lambda>k. fst (snd k)) (image_mset transfer_key X)" for X
    by (simp add: endpoint_of_key multiset.map_comp o_def)
  have "image_mset ut_endpoint (F + L) = image_mset (\<lambda>k. fst (snd k)) (image_mset transfer_key (F + L))"
    by (rule endpoints)
  also have "\<dots> = image_mset ut_endpoint (mset ts)"
    by (simp only: audio.accounted [OF assms(2)] endpoints [symmetric])
  finally show ?thesis
    using audio.all_fit [OF assms(2) pool(1)] iso_fits_buffer pool_run_loopback [OF assms(2) pool(1)] pool(3)
    by simp
qed

text \<open>All submissions are accepted, and a transfer with two frames completes.\<close>

theorem audio_transfers_kept_witness:
  "\<exists>ts t F os m. loopback_transfers (\<lambda>n. True) 0x80 0 = Some ts \<and>
     pool_run (audio_callback list_ring example_maths 0x80) iso_completes ts
       (mutex_new (loopback_handler_new list_ring)) [((example_transfer, \<lambda>n. []), t)] F {#} os m \<and>
     image_mset ut_endpoint F = replicate_mset 8 0x81 + replicate_mset 8 1 \<and>
     loopback_run list_ring example_maths [example_frame 3 7 True, example_frame 4 7 True]
       (sent_frames os) (mx_value m)"
proof -
  let ?call = "audio_callback list_ring example_maths 0x80"
  let ?s = "mutex_new (loopback_handler_new list_ring)"
  have "\<exists>ts. loopback_transfers (\<lambda>n. True) 0x80 0 = Some ts"
    by (simp add: loopback_transfers_def new_iso_transfer_eq repeat_option_Some)
  then obtain ts where ts: "loopback_transfers (\<lambda>n. True) 0x80 0 = Some ts"
    by blast
  note pool = loopback_transfers_pool [OF ts]
  have "(0x81 :: u8) \<in># image_mset ut_endpoint (mset ts)"
    unfolding pool(3) by simp
  then obtain t where t: "t \<in> set ts" "ut_endpoint t = 0x81"
    by auto
  then have run: "pool_run ?call iso_completes ts ?s [] (add_mset t (mset ts - {#t#})) {#} [] ?s"
    using pool_run_accepted [of ?call iso_completes ts ?s] by simp
  obtain ms h where in1: "handle_in list_ring example_maths (\<lambda>n. []) example_transfer
      (loopback_handler_new list_ring) = Some (ms, h)"
    using example_handle_in [of example_maths] by metis
  have fits: "iso_completes (example_transfer, \<lambda>n. []) t"
    using pool(1) t(1) by (simp add: iso_fits_def)
  have "?call (example_transfer, \<lambda>n. []) t ?s =
      Some (t\<lparr>ut_packet_lengths := map (\<lambda>_. 512) (ut_packet_lengths t)\<rparr>, map Audio_Debug ms, ?s\<lparr>mx_value := h\<rparr>)"
    using in1 t(2) by (simp add: audio_callback_eq mutex_new_def)
  from pool_run.completed [OF run fits this, of LIBUSB_SUCCESS] obtain F os m where
    run: "pool_run ?call iso_completes ts ?s [((example_transfer, \<lambda>n. []), t)] F {#} os m"
    by (auto simp: submit_def)
  from audio_transfers_kept [OF ts run] ts run t(2) show ?thesis
    by (intro exI [of _ ts] exI [of _ t] exI [of _ F] exI [of _ os] exI [of _ m]) (simp add: received_in_def)
qed

text \<open>
  C19: what an OUT callback writes stays in the buffer. Whatever has happened before, when a transfer in
  flight completes, the slices \<open>handle_out\<close> makes of its buffer, which libusb places one after the
  other, all end inside it.
\<close>

theorem out_writes_in_buffer:
  assumes "loopback_transfers alloc endpoint_in endpoint_out = Some ts"
    and "pool_run (audio_callback R M endpoint_in) iso_completes ts (mutex_new (loopback_handler_new R))
      history F L os m"
    and "t \<in># F" and "handle_out R (length (ut_packet_lengths t)) (mx_value m) = (ps, h)" and "i < length ps"
  shows "sum_list (map tx_length (take i ps)) + tx_length (ps ! i) \<le> length (ut_buffer t)"
proof -
  have t: "iso_fits t"
    using audio.all_fit [OF assms(2) loopback_transfers_pool(1) [OF assms(1)]] assms(3) by simp
  have ps: "length ps = PACKETS_PER_TRANSFER" "\<forall>p \<in> set ps. tx_length p \<le> 512"
    using handle_out_lengths [OF assms(4)] t by (simp_all add: iso_fits_def)
  from packets_end [OF assms(5) this(2)] this(1) show ?thesis
    using t by (simp add: iso_fits_def)
qed

theorem out_writes_in_buffer_witness:
  "\<exists>ts t ps h. loopback_transfers (\<lambda>n. True) 0x80 0 = Some ts \<and> t \<in> set ts \<and> length ps = 8 \<and>
     handle_out list_ring (length (ut_packet_lengths t)) (loopback_handler_new list_ring) = (ps, h) \<and>
     sum_list (map tx_length (take 7 ps)) + tx_length (ps ! 7) \<le> length (ut_buffer t)"
proof -
  let ?call = "audio_callback list_ring example_maths 0x80"
  let ?s = "mutex_new (loopback_handler_new list_ring)"
  have "\<exists>ts. loopback_transfers (\<lambda>n. True) 0x80 0 = Some ts"
    by (simp add: loopback_transfers_def new_iso_transfer_eq repeat_option_Some)
  then obtain ts where ts: "loopback_transfers (\<lambda>n. True) 0x80 0 = Some ts"
    by blast
  note pool = loopback_transfers_pool [OF ts]
  obtain t where t: "t \<in> set ts"
    using pool(2) by (cases ts) auto
  obtain ps h where out: "handle_out list_ring (length (ut_packet_lengths t)) (mx_value ?s) = (ps, h)"
    by (cases "handle_out list_ring (length (ut_packet_lengths t)) (mx_value ?s)")
  have len: "length ps = 8"
    using handle_out_lengths [OF out] pool(1) t by (simp add: iso_fits_def PACKETS_PER_TRANSFER_def)
  from out_writes_in_buffer [OF ts pool_run_accepted [of ?call] _ out, of 7] ts t out len show ?thesis
    by (auto simp: mutex_new_def)
qed

section \<open>The interrupt thread\<close>

lemma interrupt_transfers_pool:
  assumes "interrupt_transfers alloc endpoint_in = Some ts"
  shows "length ts = 4" and "\<forall>t \<in> set ts. length (ut_buffer t) = INTERRUPT_BYTES_MAX"
proof -
  obtain xs where ts: "ts = concat (replicate 4 xs)"
    and xs: "map_option (\<lambda>t. [t]) (new_interrupt_transfer alloc (endpoint_in OR 2) INTERRUPT_BYTES_MAX 0) = Some xs"
    using repeat_option_SomeD [OF assms [unfolded interrupt_transfers_def]]
    by fastforce
  obtain a where "xs = [a]" and "length (ut_buffer a) = INTERRUPT_BYTES_MAX"
    using xs by (auto simp: new_interrupt_transfer_def bind_eq_Some_conv split: if_splits)
  then show "length ts = 4" "\<forall>t \<in> set ts. length (ut_buffer t) = INTERRUPT_BYTES_MAX"
    by (simp_all add: ts length_concat sum_list_replicate map_replicate)
qed

text \<open>
  C18: the interrupt thread never stops listening. Each of its four transfers is in flight or was not
  accepted by libusb; whatever has happened before, a transfer in flight that completes, successfully or
  not and with any bytes that fit its buffer, is served without a panic: it makes one event of the bytes
  if there are any, and is in flight again.
\<close>

theorem interrupt_transfers_served:
  assumes "interrupt_transfers alloc endpoint_in = Some ts"
    and "pool_run callback_wrapper interrupt_completes ts (mutex_new ()) history F L es m"
  shows "size F + size L = 4 \<and>
    (\<forall>t \<in># F. \<forall>completed buffer now. length buffer \<le> INTERRUPT_BYTES_MAX \<longrightarrow>
      pool_run callback_wrapper interrupt_completes ts (mutex_new ())
        (history @ [((completed, buffer, now), t)]) F L
        (es @ (if completed \<and> buffer \<noteq> []
          then [Interrupt now (buffer @ replicate (INTERRUPT_BYTES_MAX - length buffer) 0) (length buffer)]
          else [])) m)"
proof -
  note pool = interrupt_transfers_pool [OF assms(1)]
  then have fit: "\<forall>t \<in> set ts. interrupt_fits t"
    by (simp add: interrupt_fits_def)
  have ready: "\<not> mx_poisoned m"
    using interrupt.stays_ready [OF assms(2) fit] by (simp add: mutex_new_def)
  have served: "pool_run callback_wrapper interrupt_completes ts (mutex_new ())
      (history @ [((completed, buffer, now), t)]) F L (es @ (if completed \<and> buffer \<noteq> []
        then [Interrupt now (buffer @ replicate (INTERRUPT_BYTES_MAX - length buffer) 0) (length buffer)] else [])) m"
    if "t \<in># F" "length buffer \<le> INTERRUPT_BYTES_MAX" for t completed buffer now
  proof -
    have "transfer_key t \<in># image_mset transfer_key (mset ts)"
      unfolding interrupt.accounted [OF assms(2), symmetric] using that(1) by simp
    then have "length (ut_buffer t) = INTERRUPT_BYTES_MAX"
      using pool(2) by (auto simp: transfer_key_def)
    then have "interrupt_completes (completed, buffer, now) t"
      using that(2) by simp
    from interrupt.never_stuck [OF assms(2) fit _ that(1) this] ready that show ?thesis
      by (auto simp: mutex_new_def callback_wrapper_eq interrupt_callback_within)
  qed
  show ?thesis
    using interrupt.size_accounted [OF assms(2)] pool(1) served by simp
qed

text \<open>The report of channel 2 completes one of the four transfers.\<close>

theorem interrupt_transfers_served_witness:
  "\<exists>ts t F. interrupt_transfers (\<lambda>n. True) 0x80 = Some ts \<and> size F = 4 \<and>
     pool_run callback_wrapper interrupt_completes ts (mutex_new ()) [((True, [2, 0], 5), t)] F {#}
       [Interrupt 5 ([2, 0] @ replicate 254 0) 2] (mutex_new ())"
proof -
  have "\<exists>ts. interrupt_transfers (\<lambda>n. True) 0x80 = Some ts"
    by (simp add: interrupt_transfers_def new_interrupt_transfer_def c_int_def INTERRUPT_BYTES_MAX_def
        repeat_option_Some)
  then obtain ts where ts: "interrupt_transfers (\<lambda>n. True) 0x80 = Some ts"
    by blast
  obtain t where t: "t \<in># mset ts"
    using interrupt_transfers_pool(1) [OF ts] by (cases ts) auto
  note served = interrupt_transfers_served [OF ts pool_run_accepted]
  have size: "size (mset ts) = 4"
    using served by simp
  have "length [2 :: u8, 0] \<le> INTERRUPT_BYTES_MAX"
    by (simp add: INTERRUPT_BYTES_MAX_def)
  with bspec [OF conjunct2 [OF served] t] have
    "pool_run callback_wrapper interrupt_completes ts (mutex_new ()) ([] @ [((True, [2, 0], 5), t)]) (mset ts) {#}
      ([] @ (if True \<and> [2, 0] \<noteq> ([] :: u8 list)
        then [Interrupt 5 ([2, 0] @ replicate (INTERRUPT_BYTES_MAX - length [2 :: u8, 0]) 0) (length [2 :: u8, 0])]
        else [])) (mutex_new ())"
    by blast
  then have "pool_run callback_wrapper interrupt_completes ts (mutex_new ()) [((True, [2, 0], 5), t)] (mset ts) {#}
      [Interrupt 5 ([2, 0] @ replicate 254 0) 2] (mutex_new ())"
    by (simp add: INTERRUPT_BYTES_MAX_def numeral_2_eq_2)
  with ts size show ?thesis
    by blast
qed

end
