(* ===== verification/Pipeline.thy ===== *)
theory Pipeline
  imports Loopback_Spec Host_Monitor
begin

text \<open>
  The tool's threads together. The audio thread queues received frames for the signaling thread of
  \<^verbatim>\<open>framer/audio.rs\<close>, which turns them into events; the interrupt thread adds events of its own to the
  same channel; the monitor of \<^verbatim>\<open>main.rs\<close> takes them one by one and reports changes of the lines' signaling codes. A run
  interleaves the threads in any order, one callback, one frame or one event at a time.
\<close>

section \<open>The signaling thread\<close>

text \<open>One frame: \<open>signaling_frames_consumer.pop()\<close>, if there is one, and \<open>process_frame\<close>.\<close>

definition signaling_take ::
  "('q, internal_frame) ring_ops \<Rightarrow> 'c maths \<Rightarrow> 'q \<Rightarrow> 'c signaling_processor \<Rightarrow>
    ('t framer_event list \<times> 'q \<times> 'c signaling_processor) option option" where
  "signaling_take R M q processor =
     map_option (\<lambda>(frame, q).
       map_option (\<lambda>(events, processor). (events, q, processor)) (signaling_process_frame M frame processor))
     (ring_pop R q)"

text \<open>One round of the thread, until the ring is empty and it sleeps; a panic is \<open>None\<close>.\<close>

fun signaling_drain ::
  "nat \<Rightarrow> ('q, internal_frame) ring_ops \<Rightarrow> 'c maths \<Rightarrow> 'q \<Rightarrow> 'c signaling_processor \<Rightarrow>
    ('t framer_event list \<times> 'q \<times> 'c signaling_processor) option" where
  "signaling_drain 0 R M q processor = None"
| "signaling_drain (Suc fuel) R M q processor =
     (case signaling_take R M q processor of
        None \<Rightarrow> Some ([], q, processor)
      | Some None \<Rightarrow> None
      | Some (Some (events, q, processor)) \<Rightarrow>
          Option.bind (signaling_drain fuel R M q processor)
            (\<lambda>(events', q, processor). Some (events @ events', q, processor)))"

text \<open>A round with more fuel than frames is the processor's run over the frames queued, in order.\<close>

lemma signaling_drain_eq:
  assumes R: "ring_buffer R content cap" and "length (content q) < fuel"
  shows "case signaling_run M (content q) processor of
      None \<Rightarrow> signaling_drain fuel R M q processor = (None :: ('t framer_event list \<times> _) option)
    | Some (events :: 't framer_event list, processor') \<Rightarrow>
        \<exists>q'. signaling_drain fuel R M q processor = Some (events, q', processor') \<and> content q' = []"
  using assms(2)
proof (induction fuel arbitrary: q processor)
  case (Suc fuel)
  show ?case
  proof (cases "ring_pop R q")
    case None
    then show ?thesis
      using ring_pop_None [OF R None] by (simp add: signaling_take_def)
  next
    case (Some fq)
    then obtain f q1 where pop: "ring_pop R q = Some (f, q1)"
      by (cases fq) auto
    from ring_pop_Some [OF R pop] have content: "content q = f # content q1"
      by simp
    show ?thesis
    proof (cases "signaling_process_frame M f processor :: ('t framer_event list \<times> _) option")
      case None
      then show ?thesis
        by (simp add: content signaling_take_def pop)
    next
      case (Some r)
      obtain es p1 where r: "r = (es, p1)" by (cases r)
      have "length (content q1) < fuel"
        using Suc.prems content by simp
      from Suc.IH [OF this, of p1] show ?thesis
        by (auto simp: content signaling_take_def pop Some r split: option.splits)
    qed
  qed
qed simp

section \<open>Runs\<close>

abbreviation signaling_ring :: "'q loopback_handler \<Rightarrow> 'q" where
  "signaling_ring h \<equiv> rp_signaling_frames (lh_rx_packet_processor h)"

definition set_signaling_ring :: "'q \<Rightarrow> 'q loopback_handler \<Rightarrow> 'q loopback_handler" where
  "set_signaling_ring q h = h\<lparr>lh_rx_packet_processor := (lh_rx_packet_processor h)\<lparr>rp_signaling_frames := q\<rparr>\<rparr>"

text \<open>
  A run carries the frames received so far, the state of the audio thread, the signaling processor, the
  events not yet taken by the monitor, the lines it printed and its state.
\<close>

inductive pipeline_run ::
  "('q, internal_frame) ring_ops \<Rightarrow> 'c maths \<Rightarrow> nat \<Rightarrow> internal_frame list \<Rightarrow> 'q loopback_handler \<Rightarrow>
    'c signaling_processor \<Rightarrow> nat framer_event list \<Rightarrow> monitor_line list \<Rightarrow> host_monitor_state \<Rightarrow> bool"
  for R :: "('q, internal_frame) ring_ops" and M :: "'c maths" and now :: nat where
  start: "pipeline_run R M now [] (loopback_handler_new R) (signaling_processor_new M) [] [] (host_monitor_new now)"
| callback_in: "pipeline_run R M now (fs @ received_frames packets) h' sp es ls ms"
    if "pipeline_run R M now fs h sp es ls ms" and "handle_in R M waiting packets h = Some (debug, h')"
| callback_out: "pipeline_run R M now fs h' sp es ls ms"
    if "pipeline_run R M now fs h sp es ls ms" and "handle_out R n h = (ps, h')"
| signaling: "pipeline_run R M now fs (set_signaling_ring q h) sp' (es @ es') ls ms"
    if "pipeline_run R M now fs h sp es ls ms"
      and "signaling_take R M (signaling_ring h) sp = Some (Some (es', q, sp'))"
| interrupt: "pipeline_run R M now fs h sp (es @ es') ls ms"
    if "pipeline_run R M now fs h sp es ls ms" and "interrupt_callback completed buffer time = Some es'"
| report: "pipeline_run R M now fs h sp es (ls @ ls') ms'"
    if "pipeline_run R M now fs h sp (e # es) ls ms" and "monitor_event e ms = Some (ls', ms')"

section \<open>The signaling ring\<close>

lemma rx_blocks_signaling:
  "rx_count_frame rx = Some (ms, rx') \<Longrightarrow> rp_signaling_frames rx' = rp_signaling_frames rx"
  "rx_check_frame_count f rx = Some rx' \<Longrightarrow> rp_signaling_frames rx' = rp_signaling_frames rx"
  "rx_push_unprocessed R f rx = Some rx' \<Longrightarrow> rp_signaling_frames rx' = rp_signaling_frames rx"
  "rx_push_signaling R f rx = Some rx' \<Longrightarrow> rp_signaling_frames rx' =
     (case ring_push R f (rp_signaling_frames rx) of Some q \<Rightarrow> q | None \<Rightarrow> rp_signaling_frames rx)"
  by (auto simp: rx_count_frame_def rx_check_frame_count_def rx_push_signaling_def rx_push_unprocessed_def
      bind_eq_Some_conv Let_def split: if_splits option.splits)

lemma rx_process_frame_signaling:
  assumes R: "ring_buffer R content cap" and "rx_process_frame R f rx = Some (ms, rx')"
  shows "enqueued content cap (rp_signaling_frames rx) [f] (rp_signaling_frames rx')"
  using assms(2) queue_push [OF R, of "rp_signaling_frames rx" f]
  by (auto simp: rx_process_frame_def bind_eq_Some_conv dest!: rx_blocks_signaling split: option.splits)

lemma rx_process_frames_signaling:
  assumes R: "ring_buffer R content cap" and "rx_process_frames R fs rx = Some (ms, rx')"
  shows "enqueued content cap (rp_signaling_frames rx) fs (rp_signaling_frames rx')"
  using assms(2)
proof (induction fs arbitrary: rx ms)
  case (Cons f fs)
  from Cons.prems obtain ms1 rx1 ms2 where
    1: "rx_process_frame R f rx = Some (ms1, rx1)" and 2: "rx_process_frames R fs rx1 = Some (ms2, rx')"
    by (auto simp: bind_eq_Some_conv)
  from enqueued_append(1) [OF rx_process_frame_signaling [OF R 1] Cons.IH [OF 2] ring_content_bounded [OF R]]
  show ?case by simp
qed simp

lemma rx_process_signaling:
  assumes R: "ring_buffer R content cap" and "rx_process R packet rx = Some (ms, rx')"
  shows "enqueued content cap (rp_signaling_frames rx) (packet_frames packet) (rp_signaling_frames rx')"
proof -
  from assms(2) obtain rx1 where
    "rx_process_frames R (packet_frames packet) rx1 = Some (ms, rx')"
    "rp_signaling_frames rx1 = rp_signaling_frames rx"
    by (auto simp: rx_process_def rx_check_sof_count_def rx_update_statistics_def rx_update_tx_levels_eq
        packet_frames_def bind_eq_Some_conv split: if_splits)
  with rx_process_frames_signaling [OF R] show ?thesis
    by metis
qed

lemma process_packets_signaling:
  assumes R: "ring_buffer R content cap" and "process_packets R packets rx = Some (ms, rx')"
  shows "enqueued content cap (rp_signaling_frames rx) (received_frames packets) (rp_signaling_frames rx')"
  using assms(2)
proof (induction packets arbitrary: rx ms)
  case (Cons packet packets)
  obtain status buffer where packet: "packet = (status, buffer)"
    by (cases packet)
  from Cons.prems obtain ms1 rx1 ms2 where
    1: "(if status = 0 then rx_process R buffer rx else Some ([], rx)) = Some (ms1, rx1)" and
    2: "process_packets R packets rx1 = Some (ms2, rx')"
    by (auto simp: packet bind_eq_Some_conv)
  have "enqueued content cap (rp_signaling_frames rx) (if status = 0 then packet_frames buffer else [])
      (rp_signaling_frames rx1)"
    using 1 rx_process_signaling [OF R] by (auto split: if_splits)
  from enqueued_append(1) [OF this Cons.IH [OF 2] ring_content_bounded [OF R]] show ?case
    by (simp add: packet split: if_splits)
qed simp

lemma drain_frames_signaling:
  "drain_frames fuel R M waiting h = Some h' \<Longrightarrow> signaling_ring h' = signaling_ring h"
proof (induction fuel arbitrary: waiting h)
  case (Suc fuel)
  then show ?case
    by (auto simp: bind_eq_Some_conv split: option.splits prod.splits dest!: Suc.IH)
qed simp

lemma handle_in_signaling:
  assumes R: "ring_buffer R content cap" and "handle_in R M waiting packets h = Some (debug, h')"
  shows "enqueued content cap (signaling_ring h) (received_frames packets) (signaling_ring h')"
proof -
  from assms(2) obtain ms rx where
    rx: "process_packets R packets (reset_tx_fifo_level_stats (lh_rx_packet_processor h)) = Some (ms, rx)" and
    drain: "drain_frames (Suc (ring_len R (rp_unprocessed_frames rx))) R M waiting
      (h\<lparr>lh_rx_packet_processor := rx\<rparr>) = Some h'"
    by (auto simp: handle_in_def bind_eq_Some_conv Let_def simp del: drain_frames.simps)
  from process_packets_signaling [OF R rx] drain_frames_signaling [OF drain] show ?thesis
    by (simp add: reset_tx_fifo_level_stats_def)
qed

lemma handle_out_signaling: "handle_out R n h = (ps, h') \<Longrightarrow> signaling_ring h' = signaling_ring h"
  by (auto simp: handle_out_def Let_def split: prod.splits)

section \<open>The monitor on any events\<close>

lemma monitor_timeslots_shape:
  assumes "monitor_timeslots now c vs ts states = Some (ls, states')"
    and "length states = 8" and "\<forall>row \<in> set states. length row = 24"
  shows "length states' = 8 \<and> (\<forall>row \<in> set states'. length row = 24) \<and> line_reports c' t' ls = []"
  using assms
proof (induction ts arbitrary: states ls)
  case (Cons t ts)
  from Cons.prems(1) obtain v row st where
    slices: "slice_index vs t = Some v" "slice_index states c = Some row" "slice_index row t = Some st"
    by (auto simp: bind_eq_Some_conv)
  obtain change st1 where change: "li_set_state now v st = (change, st1)"
    by (cases "li_set_state now v st")
  from Cons.prems(1) slices change obtain ls1 where
    rest: "monitor_timeslots now c vs ts (states[c := row[t := st1]]) = Some (ls1, states')" and
    ls: "ls = (case change of Some (d, h) \<Rightarrow> [InterruptLine c t d h] | None \<Rightarrow> []) @ ls1"
    by (auto simp: bind_eq_Some_conv)
  from slices have "row \<in> set states" "length row = length (row[t := st1])"
    by (auto simp: slice_index_def split: if_splits)
  then have "\<forall>row \<in> set (states[c := row[t := st1]]). length row = 24"
    using Cons.prems(3) set_update_subset_insert [of states c "row[t := st1]"] by auto
  from Cons.IH [OF rest _ this] Cons.prems(2) show ?case
    by (simp add: ls split: option.splits prod.splits)
qed simp

lemma monitor_event_interrupt:
  assumes "monitor_ok st" and "monitor_event (Interrupt n data len) st = Some (ls, st')"
  shows "monitor_ok st' \<and> ms_robbed_bit st' = ms_robbed_bit st \<and> line_reports c t ls = []"
  using assms monitor_timeslots_shape [where states = "ms_interrupt st" and c' = c and t' = t]
  by (auto simp: bind_eq_Some_conv monitor_ok_def split: if_splits option.splits)

lemma monitor_run_lines:
  assumes "monitor_ok st" and "monitor es st = Some (ls, st')"
  shows "monitor_ok st' \<and> (c < 8 \<longrightarrow> t < 24 \<longrightarrow> line_reports c t ls =
    code_changes (lr_frame_count (line_state st c t)) (lr_abcd (line_state st c t)) (line_codes c t es))"
  using assms
proof (induction es arbitrary: st ls)
  case (Cons e es)
  from Cons.prems(2) obtain ls1 st1 ls2 where
    1: "monitor_event e st = Some (ls1, st1)" and 2: "monitor es st1 = Some (ls2, st')" and ls: "ls = ls1 @ ls2"
    by (auto simp: bind_eq_Some_conv)
  show ?case
  proof (cases e)
    case (Interrupt n data len)
    with monitor_event_interrupt [OF Cons.prems(1)] 1
    have "monitor_ok st1" "ms_robbed_bit st1 = ms_robbed_bit st" "line_reports c t ls1 = []"
      by metis+
    with Cons.IH [OF this(1) 2] show ?thesis
      by (simp add: Interrupt ls line_state_def)
  next
    case (Digit a d)
    with 1 Cons.IH [OF _ 2] Cons.prems(1) show ?thesis
      by (auto simp: ls)
  next
    case (RobbedBitState n a v)
    have "ta_channel a < 8" "ta_timeslot a < 24"
      using 1 Cons.prems(1) by (auto simp: RobbedBitState bind_eq_Some_conv slice_index_def monitor_ok_def split: if_splits)
    then obtain c' t' where a: "a = timeslot_address_new c' t'" "c' < 8" "t' < 24"
      by (cases a) (auto simp: timeslot_address_new_def)
    from monitor_event_rbs [OF Cons.prems(1) a(2,3), of n v] 1 have
      ls1: "ls1 = (if v AND 0x0f = lr_abcd (line_state st c' t') then []
        else [RobbedBitLine c' t' (unat ((n - lr_frame_count (line_state st c' t')) div 8)) (v AND 0x0c = 0x0c)])"
      and st1: "monitor_ok st1" "\<And>c'' t''. c'' < 8 \<Longrightarrow> t'' < 24 \<Longrightarrow> line_state st1 c'' t'' =
       (if c'' = c' \<and> t'' = t' \<and> v AND 0x0f \<noteq> lr_abcd (line_state st c' t')
        then (line_state st c' t')\<lparr>lr_frame_count := n, lr_abcd := v AND 0x0f\<rparr> else line_state st c'' t'')"
      unfolding RobbedBitState a(1) by auto
    note rest = Cons.IH [OF st1(1) 2]
    show ?thesis
    proof (cases "c < 8 \<and> t < 24 \<and> (c, t) = (c', t')")
      case True
      with rest st1(2) [of c t] show ?thesis
        by (auto simp: RobbedBitState a(1) ls ls1)
    next
      case False
      then have "timeslot_address_new c' t' \<noteq> timeslot_address_new c t \<or> \<not> (c < 8 \<and> t < 24)"
        by (auto simp: timeslot_address_new_def)
      with False rest st1(2) [of c t] show ?thesis
        by (auto simp: RobbedBitState a(1) ls ls1)
    qed
  qed
qed simp

lemma monitor_append:
  "monitor (xs @ ys) st = Option.bind (monitor xs st) (\<lambda>(ls, st). Option.bind (monitor ys st) (\<lambda>(ls', st). Some (ls @ ls', st)))"
  by (induction xs arbitrary: st) (auto simp: bind_assoc split: prod.splits option.splits bind_splits)

section \<open>Every run is a run in order\<close>

fun from_signaling :: "'t framer_event \<Rightarrow> bool" where
  "from_signaling (Interrupt n data len) \<longleftrightarrow> False"
| "from_signaling e \<longleftrightarrow> True"

lemma process_superframes_from_signaling:
  "process_superframes f c states = Some (es, states') \<Longrightarrow> list_all from_signaling es"
proof (induction states arbitrary: c es states')
  case (Cons st states)
  from Cons.prems obtain changes d es1 states1 where
    rest: "process_superframes f (Suc c) states = Some (es1, states1)" and
    es: "es = map (\<lambda>(timestamp, address, rbs). RobbedBitState timestamp address rbs) changes @ es1"
    by (auto simp: bind_eq_Some_conv)
  have "list_all from_signaling (map (\<lambda>(timestamp, address, rbs). RobbedBitState timestamp address rbs) changes)"
    by (induction changes) auto
  with Cons.IH [OF rest] show ?case by (simp add: es)
qed simp

lemma debounce_timeslots_timeslot:
  "debounce_timeslots c acc hist ts st = (xs, st') \<Longrightarrow> \<forall>(n, a, v) \<in> set xs. ta_timeslot a \<in> set ts"
proof (induction c acc hist ts st arbitrary: xs st' rule: debounce_timeslots.induct)
  case (2 c acc hist i rest st)
  then show ?case
    by (fastforce simp: Let_def timeslot_address_new_def split: if_splits prod.splits)
qed simp

lemma signaling_channel_timeslot:
  assumes "signaling_channel f c d = Some (xs, d')"
  shows "\<forall>(n, a, v) \<in> set xs. ta_timeslot a < 24"
  using assms debounce_timeslots_timeslot
  by (fastforce simp: signaling_channel_def debouncer_process_frame_def Let_def
      split: option.splits prod.splits if_splits)

lemma process_superframes_events:
  "process_superframes f c states = Some (es, states') \<Longrightarrow> c + length states \<le> 8 \<Longrightarrow>
    list_all signaling_event_ok es"
proof (induction states arbitrary: c es states')
  case (Cons st states)
  from Cons.prems obtain changes d es1 states1 where
    channel: "signaling_channel f c (ss_robbed_bit_debouncer st) = Some (changes, d)" and
    rest: "process_superframes f (Suc c) states = Some (es1, states1)" and
    es: "es = map (\<lambda>(timestamp, address, rbs). RobbedBitState timestamp address rbs) changes @ es1"
    by (auto simp: bind_eq_Some_conv)
  have "c < 8"
    using Cons.prems(2) by simp
  then have "list_all signaling_event_ok (map (\<lambda>(timestamp, address, rbs). RobbedBitState timestamp address rbs) changes)"
    using signaling_channel_own [OF channel] signaling_channel_timeslot [OF channel] by (auto simp: list_all_iff)
  with Cons.IH [OF rest] Cons.prems(2) show ?case by (simp add: es)
qed simp

lemma process_detectors_events:
  "process_detectors M f detectors = Some (es, detectors') \<Longrightarrow> list_all signaling_event_ok es"
proof (induction detectors arbitrary: es detectors')
  case (Cons d detectors)
  obtain a det where d: "d = (a, det)" by (cases d)
  from Cons.prems obtain sample where sample: "frame_timeslot (if_frame f) a = Some sample"
    by (auto simp: d bind_eq_Some_conv)
  show ?case
  proof (cases "dtmf_advance M (ulaw_decode sample) det")
    case (Inl panic)
    with Cons.prems sample show ?thesis by (simp add: d)
  next
    case (Inr r)
    obtain out det' where "r = (out, det')" by (cases r)
    with Cons.prems sample Inr obtain es1 rest where
      "process_detectors M f detectors = Some (es1, rest)"
      "es = (case out of None \<Rightarrow> es1 | Some digit \<Rightarrow> Digit a digit # es1)"
      by (auto simp: d bind_eq_Some_conv)
    with Cons.IH show ?thesis by (auto split: option.splits)
  qed
qed simp

lemma signaling_event_from_signaling: "signaling_event_ok e \<Longrightarrow> from_signaling e"
  by (cases e) auto

lemma signaling_process_frame_from_signaling:
  assumes "signaling_process_frame M f sp = Some (es, sp')"
  shows "filter from_signaling es = es"
  using assms process_superframes_from_signaling process_detectors_events signaling_event_from_signaling
  by (fastforce simp: signaling_process_frame_def bind_eq_Some_conv filter_id_conv list_all_iff split: prod.splits)

lemma signaling_process_frame_events:
  assumes "signaling_process_frame M f sp = Some (es, sp')" and "length (sp_superframe_state sp) = 8"
  shows "list_all signaling_event_ok es \<and> length (sp_superframe_state sp') = 8"
proof -
  obtain k m where "monitor_update (if_frame_count f) (sp_frame_count_discontinuity_monitor sp) = (k, m)"
    by (cases "monitor_update (if_frame_count f) (sp_frame_count_discontinuity_monitor sp)")
  with assms(1) obtain es1 states es2 detectors where
    1: "process_superframes f 0 (sp_superframe_state sp) = Some (es1 :: 'a framer_event list, states)" and
    2: "process_detectors M f (sp_detectors sp) = Some (es2 :: 'a framer_event list, detectors)" and
    es: "es = es1 @ es2" "sp_superframe_state sp' = states"
    by (auto simp: signaling_process_frame_def bind_eq_Some_conv)
  from process_superframes_events [OF 1] process_detectors_events [OF 2]
    process_superframes_channels [OF 1] show ?thesis
    using assms(2) by (simp add: es)
qed

lemma signaling_run_snoc:
  "signaling_run M fs sp = Some (es, sp1) \<Longrightarrow> signaling_process_frame M f sp1 = Some (es', sp2) \<Longrightarrow>
    signaling_run M (fs @ [f]) sp = Some (es @ es', sp2)"
  by (induction fs arbitrary: sp es) (auto simp: bind_eq_Some_conv)

lemma subseq_set: "subseq xs ys \<Longrightarrow> set xs \<subseteq> set ys"
  by (induction rule: list_emb.induct) auto

lemma interrupt_callback_events:
  "interrupt_callback completed buffer time = Some es \<Longrightarrow> filter from_signaling es = []"
  by (auto simp: interrupt_callback_def split: if_splits)

lemma rbs_of_from_signaling: "rbs_of c (filter from_signaling es) = rbs_of c es"
  by (induction c es rule: rbs_of.induct) auto

lemma line_codes_rbs_of:
  "line_codes c t es = map (\<lambda>(n, a, v). (n, v)) (filter (\<lambda>(n, a, v). a = timeslot_address_new c t) (rbs_of c es))"
  by (induction c t es rule: line_codes.induct) (auto simp: timeslot_address_new_def)

lemma pipeline_invariant:
  assumes R: "ring_buffer R content cap" and "pipeline_run R M now fs h sp es ls ms"
  shows "(\<forall>f \<in> set fs. frame_ok (if_frame f)) \<and> (\<exists>heard taken.
    signaling_run M heard (signaling_processor_new M) = Some (filter from_signaling (taken @ es), sp) \<and>
    subseq (heard @ content (signaling_ring h)) fs \<and> monitor taken (host_monitor_new now) = Some (ls, ms))"
  using assms(2)
proof induction
  case start
  have "content (signaling_ring (loopback_handler_new R)) = []"
    using R by (simp add: loopback_handler_new_def rx_packet_processor_new_def ring_buffer_def)
  then show ?case
    by (intro conjI exI [of _ "[]"]) simp_all
next
  case (callback_in fs h sp es ls ms waiting packets debug h')
  then obtain heard taken where
    run: "signaling_run M heard (signaling_processor_new M) = Some (filter from_signaling (taken @ es), sp)"
      "subseq (heard @ content (signaling_ring h)) fs" "monitor taken (host_monitor_new now) = Some (ls, ms)"
    by blast
  from handle_in_signaling [OF R callback_in(2)] obtain k where
    "content (signaling_ring h') = content (signaling_ring h) @ take k (received_frames packets)"
    by (auto simp: enqueued_def)
  then have "subseq (heard @ content (signaling_ring h')) (fs @ received_frames packets)"
    using run(2) subseq_take [of k "received_frames packets"]
    by (metis append.assoc list_emb_append_mono)
  then show ?case
    using run(1,3) callback_in.IH received_frames_ok [of packets] by auto
next
  case (callback_out fs h sp es ls ms n ps h')
  then show ?case
    using handle_out_signaling [OF callback_out(2)] by simp
next
  case (signaling fs h sp es ls ms es' q sp')
  then obtain heard taken where
    run: "signaling_run M heard (signaling_processor_new M) = Some (filter from_signaling (taken @ es), sp)"
      "subseq (heard @ content (signaling_ring h)) fs" "monitor taken (host_monitor_new now) = Some (ls, ms)"
    by blast
  from signaling(2) obtain f where pop: "ring_pop R (signaling_ring h) = Some (f, q)"
    and step: "signaling_process_frame M f sp = Some (es', sp')"
    by (auto simp: signaling_take_def)
  from ring_pop_Some [OF R pop] run(2) have "subseq ((heard @ [f]) @ content q) fs"
    by simp
  moreover have "signaling_run M (heard @ [f]) (signaling_processor_new M) =
      Some (filter from_signaling (taken @ es @ es'), sp')"
    using signaling_run_snoc [OF run(1) step] signaling_process_frame_from_signaling [OF step] by simp
  ultimately show ?case
    using run(3) signaling.IH
    by (intro conjI exI [of _ "heard @ [f]"] exI [of _ taken]) (simp_all add: set_signaling_ring_def)
next
  case (interrupt fs h sp es ls ms completed buffer time es')
  then show ?case
    using interrupt_callback_events [OF interrupt(2)] by auto
next
  case (report fs h sp e es ls ms ls' ms')
  then obtain heard taken where
    run: "signaling_run M heard (signaling_processor_new M) = Some (filter from_signaling (taken @ e # es), sp)"
      "subseq (heard @ content (signaling_ring h)) fs" "monitor taken (host_monitor_new now) = Some (ls, ms)"
    by blast
  have "monitor (taken @ [e]) (host_monitor_new now) = Some (ls @ ls', ms')"
    using run(3) report(2) by (simp add: monitor_append)
  with run(1,2) report.IH show ?case
    by (intro conjI exI [of _ heard] exI [of _ "taken @ [e]"]) simp_all
qed

section \<open>What is reported\<close>

lemma pipeline_lines:
  assumes "ring_buffer R content cap" and "pipeline_run R M now fs h sp es ls ms" and "c < 8" and "t < 24"
  shows "\<exists>heard events changes d seen. subseq heard fs \<and>
    signaling_run M heard (signaling_processor_new M) = Some (events :: nat framer_event list, sp) \<and>
    signaling_channel_run c heard debouncer_new = Some (changes, d) \<and> prefix seen changes \<and> (es = [] \<longrightarrow> seen = changes) \<and>
    line_reports c t ls = code_changes 0 0b0101
      (map (\<lambda>(n, a, v). (n, v)) (filter (\<lambda>(n, a, v). a = timeslot_address_new c t) seen))"
proof -
  from pipeline_invariant [OF assms(1,2)] obtain heard taken where
    run: "signaling_run M heard (signaling_processor_new M) = Some (filter from_signaling (taken @ es), sp)" and
    sub: "subseq (heard @ content (signaling_ring h)) fs" and
    mon: "monitor taken (host_monitor_new now) = Some (ls, ms)" and ok: "\<forall>f \<in> set fs. frame_ok (if_frame f)"
    by blast
  have heard: "subseq heard fs"
    using subseq_order.trans [OF _ sub, of heard] by (simp add: list_emb_prefix)
  then have "\<forall>f \<in> set heard. frame_ok (if_frame f)"
    using ok subseq_set [of heard fs] by blast
  moreover have "processor_ok (dtmf_new M) (signaling_processor_new M)"
    by (simp add: processor_ok_def signaling_processor_new_def states_ok_def superframe_state_default_def)
  moreover have "channel_debouncer (signaling_processor_new M) c = debouncer_new"
    using assms(3) by (simp add: channel_debouncer_def signaling_processor_new_def superframe_state_default_def)
  ultimately obtain d where
    channel: "signaling_channel_run c heard debouncer_new = Some (rbs_of c (taken @ es), d)"
    using signaling_run_projections [of heard "dtmf_new M" "signaling_processor_new M" M, where 't = nat] run assms(3)
    by (auto simp: rbs_of_from_signaling split: sum.splits prod.splits)
  have "monitor_ok (host_monitor_new now)" "line_state (host_monitor_new now) c t = line_state_robbed_bit_state_default"
    using assms(3,4) by (simp_all add: monitor_ok_def host_monitor_new_def line_state_def)
  with monitor_run_lines [OF _ mon] assms(3,4) have
    "line_reports c t ls = code_changes 0 0b0101 (line_codes c t taken)"
    by (simp add: line_state_robbed_bit_state_default_def)
  then have "line_reports c t ls = code_changes 0 0b0101
      (map (\<lambda>(n, a, v). (n, v)) (filter (\<lambda>(n, a, v). a = timeslot_address_new c t) (rbs_of c taken)))"
    by (simp add: line_codes_rbs_of)
  moreover have "prefix (rbs_of c taken) (rbs_of c (taken @ es))"
    "es = [] \<longrightarrow> rbs_of c taken = rbs_of c (taken @ es)"
    by simp_all
  ultimately show ?thesis
    using heard channel run by blast
qed

text \<open>
  C4: from frames to line reports. However the audio, signaling, interrupt and monitor threads
  interleave, and whatever frames are lost on the way, the code changes the monitor has printed of a
  line are those of the codes that the line's channel receiver reports of some of the received frames,
  in their order, up to the last event the monitor has taken: none is invented, repeated or reordered.
\<close>

theorem pipeline_reports_lines:
  assumes "ring_buffer R content cap" and "pipeline_run R M now fs h sp es ls ms" and "c < 8" and "t < 24"
  shows "\<exists>heard changes d seen. subseq heard fs \<and>
    signaling_channel_run c heard debouncer_new = Some (changes, d) \<and> prefix seen changes \<and>
    line_reports c t ls = code_changes 0 0b0101
      (map (\<lambda>(n, a, v). (n, v)) (filter (\<lambda>(n, a, v). a = timeslot_address_new c t) seen))"
  using pipeline_lines [OF assms] by blast

text \<open>A transfer with two frames arrives, and an interrupt of the chip.\<close>

theorem pipeline_reports_lines_witness:
  "\<exists>h sp ls ms heard changes d seen.
     pipeline_run list_ring example_maths 0 [example_frame 3 7 True, example_frame 4 7 True] h sp
       [Interrupt 5 ([2, 0] @ replicate 254 0) 2] ls ms \<and>
     subseq heard [example_frame 3 7 True, example_frame 4 7 True] \<and>
     signaling_channel_run 3 heard debouncer_new = Some (changes, d) \<and> prefix seen changes \<and>
     line_reports 3 5 ls = code_changes 0 0b0101
       (map (\<lambda>(n, a, v). (n, v)) (filter (\<lambda>(n, a, v). a = timeslot_address_new 3 5) seen))"
proof -
  obtain debug h where in1: "handle_in list_ring example_maths (\<lambda>n. []) example_transfer
      (loopback_handler_new list_ring) = Some (debug, h)"
    using example_handle_in [of example_maths] by metis
  have "interrupt_callback True [2, 0] 5 = Some [Interrupt 5 ([2, 0] @ replicate 254 0) 2]"
    by (simp add: interrupt_callback_def INTERRUPT_BYTES_MAX_def)
  from pipeline_run.interrupt [OF pipeline_run.callback_in [OF pipeline_run.start in1] this, of 0]
  have run: "pipeline_run list_ring example_maths 0 [example_frame 3 7 True, example_frame 4 7 True] h
      (signaling_processor_new example_maths) [Interrupt 5 ([2, 0] @ replicate 254 0) 2] [] (host_monitor_new 0)"
    by simp
  have "(3 :: nat) < 8" "(5 :: nat) < 24"
    by simp_all
  from pipeline_reports_lines [OF list_ring_is_ring run this] run show ?thesis
    by blast
qed

section \<open>The monitor takes every event\<close>

text \<open>
  An event the monitor can print: signaling events are in range, and an interrupt has the bytes of a
  well-formed status, which the monitor would panic without.
\<close>

fun event_reportable :: "'t framer_event \<Rightarrow> bool" where
  "event_reportable (Interrupt n data len) \<longleftrightarrow>
     (\<exists>s. status_ok s \<and> fis_channel_index s < 8 \<and> len \<le> length data \<and> take len data = encode_status s)"
| "event_reportable e \<longleftrightarrow> signaling_event_ok e"

lemma monitor_event_accepted:
  assumes "monitor_ok st" and "event_reportable e"
  shows "\<exists>ls st'. monitor_event e st = Some (ls, st') \<and> monitor_ok st'"
proof (cases e)
  case (Interrupt n data len)
  with assms(2) obtain s where s: "status_ok s" "fis_channel_index s < 8" "len \<le> length data"
    "take len data = encode_status s"
    by auto
  have states: "fis_channel_index s < length (ms_interrupt st)"
    "length (ms_interrupt st ! fis_channel_index s) = 24"
    using s(2) assms(1) by (simp_all add: monitor_ok_def)
  have "\<exists>ls st'. monitor_event e st = Some (ls, st')"
  proof (cases "Option.bind (fis_t1frame s) t1_sig")
    case None
    with s show ?thesis
      by (simp add: Interrupt parse_encode_status)
  next
    case (Some sig)
    then obtain t1 where t1: "fis_t1frame s = Some t1" "t1_sig t1 = Some sig"
      by (auto simp: bind_eq_Some_conv)
    with s(1) have "t1frame_ok t1"
      by (simp add: status_ok_def block_ok_def)
    then have "length (rsars sig) = 24" "\<forall>v \<in> set (rsars sig). v < 16"
      using t1(2) by (simp_all add: t1frame_ok_def list_all_iff)
    from monitor_timeslots_eq [OF states this, of "[0..<24]" n] Some s show ?thesis
      by (simp add: Interrupt parse_encode_status del: upt_Suc)
  qed
  then show ?thesis
    using monitor_event_interrupt [OF assms(1)] Interrupt by metis
next
  case (Digit a d)
  with assms(1) show ?thesis by simp
next
  case (RobbedBitState n a v)
  with assms(2) obtain c t where "a = timeslot_address_new c t" "c < 8" "t < 24"
    by (cases a) (auto simp: timeslot_address_new_def)
  with monitor_event_rbs [OF assms(1) this(2,3), of n v] show ?thesis
    by (auto simp: RobbedBitState simp del: monitor_event.simps)
qed

lemma pipeline_events_ok:
  assumes "pipeline_run R M now fs h sp es ls ms"
  shows "length (sp_superframe_state sp) = 8 \<and> (\<forall>e \<in> set es. from_signaling e \<longrightarrow> signaling_event_ok e) \<and> monitor_ok ms"
  using assms
proof induction
  case start
  show ?case
    by (simp add: signaling_processor_new_def monitor_ok_def host_monitor_new_def)
next
  case (signaling fs h sp es ls ms es' q sp')
  from signaling(2) obtain f where "signaling_process_frame M f sp = Some (es', sp')"
    by (auto simp: signaling_take_def)
  with signaling.IH show ?case
    using signaling_process_frame_events [of M f sp es' sp'] by (auto simp: list_all_iff)
next
  case (interrupt fs h sp es ls ms completed buffer time es')
  have "e \<in> set es' \<Longrightarrow> \<not> from_signaling e" for e
    using interrupt_callback_events [OF interrupt(2)] by (simp add: filter_empty_conv)
  with interrupt.IH show ?case
    by auto
next
  case (report fs h sp e es ls ms ls' ms')
  have "monitor_ok ms'"
  proof (cases e)
    case (Interrupt n data len)
    with report.IH report(2) monitor_event_interrupt show ?thesis
      by metis
  next
    case (Digit a d)
    with report.IH report(2) show ?thesis by simp
  next
    case (RobbedBitState n a v)
    with report.IH have "event_reportable e" "monitor_ok ms"
      by auto
    with monitor_event_accepted [OF this(2,1)] report(2) show ?thesis
      by auto
  qed
  with report.IH show ?case
    by simp
qed auto

lemma pipeline_drains:
  assumes "pipeline_run R M now fs h sp es ls ms" and "\<forall>e \<in> set es. from_signaling e \<or> event_reportable e"
  shows "\<exists>ls' ms'. pipeline_run R M now fs h sp [] (ls @ ls') ms'"
  using assms
proof (induction es arbitrary: ls ms)
  case Nil
  then show ?case
    by (metis append_Nil2)
next
  case (Cons e es)
  note ok = pipeline_events_ok [OF Cons.prems(1)]
  then have "event_reportable e"
    using Cons.prems(2) by (cases e) auto
  with ok obtain ls1 ms1 where "monitor_event e ms = Some (ls1, ms1)"
    using monitor_event_accepted by blast
  from pipeline_run.report [OF Cons.prems(1) this] Cons.IH Cons.prems(2) show ?case
    by fastforce
qed

text \<open>
  C5: every report arrives, as long as the chip's interrupts are well-formed. In whatever state the
  interleaved threads have come to, if every interrupt still queued is the encoding of a well-formed
  status of one of the eight channels, the monitor accepts every queued event without panicking until
  none is left; the code changes it has then printed of a line are those of all the changes that the
  line's receiver found in the frames processed so far. Without that condition the monitor can panic:
  on bytes left over in \<open>from_slice\<close>, and on the index of a channel that does not exist.
\<close>

theorem pipeline_reports_all:
  assumes "ring_buffer R content cap" and "pipeline_run R M now fs h sp es ls ms" and "c < 8" and "t < 24"
    and "\<forall>e \<in> set es. from_signaling e \<or> event_reportable e"
  shows "\<exists>ls' ms' heard events changes d.
    pipeline_run R M now fs h sp [] (ls @ ls') ms' \<and> subseq heard fs \<and>
    signaling_run M heard (signaling_processor_new M) = Some (events :: nat framer_event list, sp) \<and>
    signaling_channel_run c heard debouncer_new = Some (changes, d) \<and>
    line_reports c t (ls @ ls') = code_changes 0 0b0101
      (map (\<lambda>(n, a, v). (n, v)) (filter (\<lambda>(n, a, v). a = timeslot_address_new c t) changes))"
proof -
  obtain ls' ms' where run: "pipeline_run R M now fs h sp [] (ls @ ls') ms'"
    using pipeline_drains [OF assms(2,5)] by blast
  from pipeline_lines [OF assms(1) run assms(3,4)] run show ?thesis
    by blast
qed

text \<open>An interrupt with the example status is queued after a transfer.\<close>

theorem pipeline_reports_all_witness:
  "\<exists>h sp ls' ms' heard events changes d.
     pipeline_run list_ring example_maths 0 [example_frame 3 7 True, example_frame 4 7 True] h sp [] ls' ms' \<and>
     subseq heard [example_frame 3 7 True, example_frame 4 7 True] \<and>
     signaling_run example_maths heard (signaling_processor_new example_maths) =
       Some (events :: nat framer_event list, sp) \<and>
     signaling_channel_run 3 heard debouncer_new = Some (changes, d) \<and>
     line_reports 3 5 ls' = code_changes 0 0b0101
       (map (\<lambda>(n, a, v). (n, v)) (filter (\<lambda>(n, a, v). a = timeslot_address_new 3 5) changes))"
proof -
  obtain debug h where in1: "handle_in list_ring example_maths (\<lambda>n. []) example_transfer
      (loopback_handler_new list_ring) = Some (debug, h)"
    using example_handle_in [of example_maths] by metis
  let ?bs = "encode_status example_status"
  have ok: "status_ok example_status" "length ?bs \<le> INTERRUPT_BYTES_MAX" "fis_channel_index example_status < 8"
    "?bs \<noteq> []"
    by code_simp+
  then have "interrupt_callback True ?bs 5 =
      Some [Interrupt 5 (?bs @ replicate (INTERRUPT_BYTES_MAX - length ?bs) 0) (length ?bs)]"
    by (simp add: interrupt_callback_def)
  from pipeline_run.interrupt [OF pipeline_run.callback_in [OF pipeline_run.start in1] this, of 0]
  have run: "pipeline_run list_ring example_maths 0 [example_frame 3 7 True, example_frame 4 7 True] h
      (signaling_processor_new example_maths)
      [Interrupt 5 (?bs @ replicate (INTERRUPT_BYTES_MAX - length ?bs) 0) (length ?bs)] [] (host_monitor_new 0)"
    by simp
  have "(3 :: nat) < 8" "(5 :: nat) < 24"
    "\<forall>e \<in> set [Interrupt 5 (?bs @ replicate (INTERRUPT_BYTES_MAX - length ?bs) 0) (length ?bs)].
       from_signaling e \<or> event_reportable e"
    using ok by auto
  from pipeline_reports_all [OF list_ring_is_ring run this] show ?thesis
    by (simp only: append_Nil) blast
qed

end
