(* ===== verification/Change_Bitmap.thy ===== *)
theory Change_Bitmap
  imports Host_Device
begin

text \<open>
  \<open>RSCRBitmap\<close> of \<^verbatim>\<open>device.rs\<close>: which timeslots' receive signaling changed, gathered from three
  registers, and the text \<open>Debug\<close> makes of it. The definitions of the crate's bitmap are with the
  accessors; here are the tool's copy and the text, and what they show.
\<close>

section \<open>The tool's copy\<close>

definition host_rscr_bitmap :: "('s, 'e) host_device \<Rightarrow> nat \<Rightarrow> ('s, 'e, u32) prog" where
  "host_rscr_bitmap D c =
     prog_bind
       (map_each [0..<3] (\<lambda>i.
          prog_bind (host_read D (host_ch_rscr c i)) (\<lambda>v.
          prog_bind (prog_of_option (reg_get Host_RSChR ''Ch'' v)) (\<lambda>b.
          prog_return (push_bit (i * 8) (ucast (reverse_bits_u8 b) :: u32))))))
       (\<lambda>parts. prog_return (foldl (OR) 0 parts))"

definition host_rscr_changed :: "u32 \<Rightarrow> nat \<Rightarrow> bool option" where
  "host_rscr_changed b index =
     (if index < 24 then Some (drop_bit index b AND 1 \<noteq> 0) else None)"

section \<open>The text\<close>

definition reverse_bits_u32 :: "u32 \<Rightarrow> u32" where
  "reverse_bits_u32 x =
     foldr (\<lambda>i acc. acc OR push_bit (31 - i) (take_bit 1 (drop_bit i x))) [0..<32] 0"

text \<open>\<open>{:0w b}\<close>: binary digits, filled with zeros to \<open>w\<close> characters.\<close>

fun binary_digits :: "nat \<Rightarrow> string" where
  "binary_digits n =
     (if n < 2 then [if n = 0 then CHR ''0'' else CHR ''1'']
      else binary_digits (n div 2) @ [if n mod 2 = 0 then CHR ''0'' else CHR ''1''])"

declare binary_digits.simps [simp del]

definition format_binary :: "nat \<Rightarrow> nat \<Rightarrow> string" where
  "format_binary w n = replicate (w - length (binary_digits n)) CHR ''0'' @ binary_digits n"

definition rscr_debug :: "u32 \<Rightarrow> string" where
  "rscr_debug b = ''RSCR:['' @ format_binary 24 (unat (drop_bit 8 (reverse_bits_u32 b))) @ '']''"

definition host_rscr_debug :: "u32 \<Rightarrow> string" where
  "host_rscr_debug b = ''RSCR:['' @ format_binary 24 (unat (drop_bit 8 (reverse_bits_u32 b))) @ '']''"

section \<open>What they show\<close>

lemma bit_reversed_fold:
  "bit (foldr (\<lambda>i acc. acc OR push_bit (f i) (take_bit 1 (drop_bit i x))) is 0) n \<longleftrightarrow>
     n < LENGTH('a) \<and> (\<exists>i \<in> set is. n = f i \<and> bit x i)" for x :: "'a::len word"
proof (induction "is")
  case (Cons i "is")
  have "n - f i < 1 \<and> f i \<le> n \<longleftrightarrow> n = f i"
    by auto
  with Cons bit_iff_odd_drop_bit [of x i] show ?case
    by (auto simp: bit_simps)
qed simp

lemma bit_reverse_bits_u8: "bit (reverse_bits_u8 x) n \<longleftrightarrow> n < 8 \<and> bit x (7 - n)"
  unfolding reverse_bits_u8_def bit_reversed_fold by (auto intro!: bexI [of _ "7 - n"])

lemma bit_reverse_bits_u32: "bit (reverse_bits_u32 x) n \<longleftrightarrow> n < 32 \<and> bit x (31 - n)"
  unfolding reverse_bits_u32_def bit_reversed_fold by (auto intro!: bexI [of _ "31 - n"])

lemma format_binary_eq:
  "n < 2 ^ w \<Longrightarrow> 0 < w \<Longrightarrow>
    format_binary w n = map (\<lambda>i. if bit n (w - 1 - i) then CHR ''1'' else CHR ''0'') [0..<w]"
proof (induction w arbitrary: n)
  case (Suc w)
  show ?case
  proof (cases "n < 2")
    case True
    then have "n = 0 \<or> n = 1"
      by auto
    then have "map (\<lambda>i. if bit n (w - i) then CHR ''1'' else CHR ''0'') [0..<w] = replicate w CHR ''0''"
      by (intro replicate_eqI) (auto simp: bit_simps)
    with True show ?thesis
      by (simp add: format_binary_def binary_digits.simps [of n] bit_0) (auto simp: less_2_cases_iff)
  next
    case False
    then have w: "0 < w"
      using Suc.prems by (cases w) auto
    have "map (\<lambda>i. if bit n (w - i) then CHR ''1'' else CHR ''0'') [0..<w] =
        map (\<lambda>i. if bit (n div 2) (w - 1 - i) then CHR ''1'' else CHR ''0'') [0..<w]"
      by (intro map_cong) (simp_all add: bit_Suc [symmetric] Suc_diff_Suc)
    moreover have "format_binary (Suc w) n =
        format_binary w (n div 2) @ [if n mod 2 = 0 then CHR ''0'' else CHR ''1'']"
      using False by (simp add: format_binary_def binary_digits.simps [of n])
    moreover have "n div 2 < 2 ^ w"
      using Suc.prems by simp
    ultimately show ?thesis
      using Suc.IH w by (simp add: bit_0 even_iff_mod_2_eq_zero)
  qed
qed simp

text \<open>The character at \<open>k\<close> between the brackets is the bit of timeslot \<open>k\<close>.\<close>

lemma rscr_debug_eq:
  "rscr_debug b = ''RSCR:['' @ map (\<lambda>k. if bit b k then CHR ''1'' else CHR ''0'') [0..<24] @ '']''"
proof -
  have "unat (drop_bit 8 (reverse_bits_u32 b)) < 2 ^ 24"
  proof -
    have "unat (reverse_bits_u32 b) < 2 ^ LENGTH(32)"
      by (rule unsigned_less)
    then show ?thesis
      by (simp add: unat_drop_bit_eq drop_bit_nat_def less_mult_imp_div_less)
  qed
  then show ?thesis
    unfolding rscr_debug_def
    by (simp add: format_binary_eq bit_unsigned_iff bit_drop_bit_eq bit_reverse_bits_u32 del: upt_Suc cong: map_cong) auto
qed

lemma rscr_changed_eq: "k < 24 \<Longrightarrow> rscr_changed b k = Some (bit b k)"
  by (simp add: rscr_changed_def bit_iff_odd_drop_bit and_one_eq odd_iff_mod_2_eq_one)

text \<open>The tool's copy is the crate's.\<close>

lemma host_rscr_agrees:
  "host_rscr_bitmap D c = rscr_bitmap (host_xyz D) c" "host_rscr_changed = rscr_changed"
  "host_rscr_debug = rscr_debug"
proof -
  have "Host_RSChR = RSChR"
    by (simp add: Host_RSChR_def RSChR_def)
  moreover have "host_ch_rscr c i = ch_rscr c i" for i
    by (simp add: host_ch_rscr_def ch_rscr_def host_RSCR_MAP_def RSCR_MAP_def host_access_framer_def
        access_framer_def host_channel_nxxx_def channel_nxxx_def HOST_CHANNELS_COUNT_def CHANNELS_COUNT_def
        host_global_def global_def calculation)
  ultimately show "host_rscr_bitmap D c = rscr_bitmap (host_xyz D) c"
    by (simp add: host_rscr_bitmap_def rscr_bitmap_def host_access_is_access)
qed (simp_all add: fun_eq_iff host_rscr_changed_def rscr_changed_def host_rscr_debug_def rscr_debug_def)

section \<open>From the registers to the text\<close>

definition gathered :: "u8 \<Rightarrow> u8 \<Rightarrow> u8 \<Rightarrow> u32" where
  "gathered r0 r1 r2 = ucast (reverse_bits_u8 r0) OR push_bit 8 (ucast (reverse_bits_u8 r1)) OR
     push_bit 16 (ucast (reverse_bits_u8 r2))"

lemma bit_gathered:
  assumes "k < 24"
  shows "bit (gathered r0 r1 r2) k \<longleftrightarrow> bit ([r0, r1, r2] ! (k div 8)) (7 - k mod 8)"
proof -
  consider "k < 8" | "8 \<le> k" "k < 16" | "16 \<le> k"
    by linarith
  then show ?thesis
  proof cases
    case 1
    then show ?thesis
      by (simp add: gathered_def bit_simps bit_reverse_bits_u8)
  next
    case 2
    then have "k div 8 = 1" "k mod 8 = k - 8"
      by (simp_all add: div_nat_eqI mod_if)
    with 2 show ?thesis
      by (auto simp: gathered_def bit_simps bit_reverse_bits_u8)
  next
    case 3
    then have "k div 8 = 2" "k mod 8 = k - 16"
      using assms by (simp_all add: div_nat_eqI mod_if)
    with 3 assms show ?thesis
      by (auto simp: gathered_def bit_simps bit_reverse_bits_u8)
  qed
qed

lemma rscr_bitmap_eq:
  "rscr_bitmap D c = prog_bind (access_read D (ch_rscr c 0)) (\<lambda>r0. prog_bind (access_read D (ch_rscr c 1)) (\<lambda>r1.
     prog_bind (access_read D (ch_rscr c 2)) (\<lambda>r2. prog_return (gathered r0 r1 r2))))"
proof -
  have "reg_get RSChR ''Ch'' v = Some v" for v
    by (simp add: RSChR_def reg_get_def bits_get_def take_bit_word_eq_self)
  moreover have "[0..<3] = [0, 1, 2 :: nat]"
    by (simp add: upt_rec)
  ultimately show ?thesis
    by (simp add: rscr_bitmap_def prog_of_option_def gathered_def or.assoc)
qed

context register_file
begin

lemma rscr_bitmap_shown:
  assumes "c < 8" and "\<forall>i < 3. of_nat (0x1000 * c + 0x10d + i) \<in> plain"
  shows "ok_triple (agree R) (rscr_bitmap D c) (\<lambda>b s. agree R s \<and> (\<forall>k < 24. rscr_changed b k =
    Some (bit (R (of_nat (0x1000 * c + 0x10d + k div 8))) (7 - k mod 8))))"
proof -
  let ?r = "\<lambda>i. R (of_nat (0x1000 * c + 0x10d + i))"
  have read: "ok_triple (agree R) (access_read D (ch_rscr c i)) (\<lambda>v s. v = ?r i \<and> agree R s)" if "i < 3" for i
  proof -
    have "ch_rscr c i = Some (access_new (0x1000 * c + 0x10d + i) RSChR)"
      using assms(1) that
      by (auto simp: ch_rscr_def RSCR_MAP_def access_framer_def channel_nxxx_eq CHANNELS_COUNT_def less_Suc_eq
          numeral_3_eq_3)
    from ok_read [OF this] assms that show ?thesis
      by (simp add: access_new_def)
  qed
  have "(\<forall>k < 24. rscr_changed (gathered (?r 0) (?r 1) (?r 2)) k = Some (bit (?r (k div 8)) (7 - k mod 8)))"
  proof (intro allI impI)
    fix k :: nat assume "k < 24"
    then have "k div 8 = 0 \<or> k div 8 = 1 \<or> k div 8 = 2"
      by linarith
    with \<open>k < 24\<close> show "rscr_changed (gathered (?r 0) (?r 1) (?r 2)) k = Some (bit (?r (k div 8)) (7 - k mod 8))"
      by (auto simp: rscr_changed_eq bit_gathered)
  qed
  note changed = this
  show ?thesis
  proof (rule ok_tripleI)
    fix s assume "agree R s"
    then obtain s1 where 1: "access_read D (ch_rscr c 0) s = (Ok (?r 0), s1)" "agree R s1"
      using read [of 0] by (auto simp: ok_triple_def)
    then obtain s2 where 2: "access_read D (ch_rscr c 1) s1 = (Ok (?r 1), s2)" "agree R s2"
      using read [of 1] by (auto simp: ok_triple_def)
    then obtain s3 where 3: "access_read D (ch_rscr c 2) s2 = (Ok (?r 2), s3)" "agree R s3"
      using read [of 2] by (auto simp: ok_triple_def)
    have "rscr_bitmap D c s = (Ok (gathered (?r 0) (?r 1) (?r 2)), s3)"
      unfolding rscr_bitmap_eq by (simp add: prog_bind_def prog_return_def 1(1) 2(1) [simplified] 3(1))
    with 3(2) changed show "\<exists>b s'. rscr_bitmap D c s = (Ok b, s') \<and> agree R s' \<and>
      (\<forall>k < 24. rscr_changed b k = Some (bit (?r (k div 8)) (7 - k mod 8)))"
      by blast
  qed
qed

end

end
