(* ===== verification/Unit_Tests.thy ===== *)
theory Unit_Tests
  imports Host_Accessors Ulaw "HOL-Library.Signed_Division" "HOL-Library.Sublist"
begin

text \<open>
  The unit tests of the sources (\<open>#[cfg(test)]\<close> in \<^verbatim>\<open>device.rs\<close> and \<^verbatim>\<open>register.rs\<close> of the crate and of
  the tool, and in \<^verbatim>\<open>ulaw.rs\<close>), run against the definitions of this library. A test that expects a
  panic also names a part of its message, so the memory map is given here with the texts of its
  assertions; the test of \<^verbatim>\<open>goertzel.rs\<close> only prints.
\<close>

section \<open>Assertions with their texts\<close>

definition asserting :: "string \<Rightarrow> bool \<Rightarrow> string + 'a \<Rightarrow> string + 'a" where
  "asserting text condition r = (if condition then r else Inl (''assertion failed: '' @ text))"

definition should_panic :: "string \<Rightarrow> string + 'a \<Rightarrow> bool" where
  "should_panic expected r = (case r of Inl message \<Rightarrow> sublist expected message | Inr _ \<Rightarrow> False)"

definition address_of :: "string + 'a \<Rightarrow> 'a option" where
  "address_of r = (case r of Inl _ \<Rightarrow> None | Inr a \<Rightarrow> Some a)"

lemma address_of_asserting [simp]:
  "address_of (asserting text condition r) = (if condition then address_of r else None)"
  "address_of (Inr a) = Some a"
  by (simp_all add: asserting_def address_of_def)

lemma sublist_after [simp]: "sublist xs (ys @ xs)"
  by (simp add: sublist_appendI [of xs ys "[]", simplified])

lemma should_panic_asserting [simp]:
  "should_panic expected (asserting text condition r) \<longleftrightarrow>
     (if condition then should_panic expected r
      else expected = text \<or> sublist expected (''assertion failed: '' @ text))"
  "\<not> should_panic expected (Inr a)"
  using sublist_after [where ys = "''assertion failed: ''"] by (auto simp: asserting_def should_panic_def)

lemma asserting_Inr [simp]: "asserting text condition r = Inr a \<longleftrightarrow> condition \<and> r = Inr a"
  by (simp add: asserting_def)

section \<open>The tool's memory map\<close>

definition host_asserted_global :: "nat \<Rightarrow> string + nat" where
  "host_asserted_global offset = asserting ''offset < 0x10000'' (offset < 0x10000) (Inr offset)"

definition host_asserted_channel_nxxx :: "nat \<Rightarrow> nat \<Rightarrow> string + nat" where
  "host_asserted_channel_nxxx channel offset =
     asserting ''channel < Channels::COUNT'' (channel < HOST_CHANNELS_COUNT)
      (asserting ''offset < 0x1000'' (offset < 0x1000)
        (host_asserted_global (push_bit 12 channel OR offset)))"

definition host_asserted_channel_nxxx_timeslot :: "nat \<Rightarrow> nat \<Rightarrow> nat \<Rightarrow> string + nat" where
  "host_asserted_channel_nxxx_timeslot channel block_offset timeslot =
     asserting ''block_offset & 0xf == 0'' (block_offset AND 0xf = 0)
      (asserting ''timeslot < Timeslots::COUNT'' (timeslot < HOST_TIMESLOTS_COUNT)
        (host_asserted_channel_nxxx channel (block_offset + timeslot)))"

definition host_asserted_channel_0fnx :: "nat \<Rightarrow> nat \<Rightarrow> string + nat" where
  "host_asserted_channel_0fnx channel offset =
     asserting ''channel < Channels::COUNT'' (channel < HOST_CHANNELS_COUNT)
      (asserting ''offset < 16'' (offset < 16)
        (host_asserted_global (0x0f00 OR push_bit 4 channel OR offset)))"

definition host_asserted_global_0fex :: "nat \<Rightarrow> string + nat" where
  "host_asserted_global_0fex offset =
     asserting ''offset < 16'' (offset < 16) (host_asserted_global (0x0fe0 OR offset))"

text \<open>Without the texts these are the addresses of the memory map.\<close>

lemmas host_asserted_defs = host_asserted_global_def host_asserted_channel_nxxx_def host_asserted_channel_nxxx_timeslot_def
  host_asserted_channel_0fnx_def host_asserted_global_0fex_def

lemma host_asserted_eq:
  "address_of (host_asserted_global offset) = host_global offset"
  "address_of (host_asserted_channel_nxxx channel offset) = host_channel_nxxx channel offset"
  "address_of (host_asserted_channel_nxxx_timeslot channel offset timeslot) = host_channel_nxxx_timeslot channel offset timeslot"
  "address_of (host_asserted_channel_0fnx channel offset) = host_channel_0fnx channel offset"
  "address_of (host_asserted_global_0fex offset) = host_global_0fex offset"
  by (simp_all add: host_asserted_defs host_global_def host_channel_nxxx_def host_channel_nxxx_timeslot_def
      host_channel_0fnx_def host_global_0fex_def)

definition host_test_addressing_channel_nxxx :: bool where
  "host_test_addressing_channel_nxxx \<longleftrightarrow>
     host_asserted_channel_nxxx 0 0x000 = Inr 0x0000 \<and>
     host_asserted_channel_nxxx 7 0x123 = Inr 0x7123 \<and>
     host_asserted_channel_nxxx 0 0xfff = Inr 0x0fff \<and>
     host_asserted_channel_nxxx 7 0xfff = Inr 0x7fff"

definition host_test_addressing_channel_nxxx_bad_channel_index :: bool where
  "host_test_addressing_channel_nxxx_bad_channel_index \<longleftrightarrow>
     should_panic ''channel < Channels::COUNT'' (host_asserted_channel_nxxx 8 0x000)"

definition host_test_addressing_channel_nxxx_bad_offset :: bool where
  "host_test_addressing_channel_nxxx_bad_offset \<longleftrightarrow>
     should_panic ''offset < 0x1000'' (host_asserted_channel_nxxx 0 0x1000)"

definition host_test_addressing_channel_nxxx_timeslot :: bool where
  "host_test_addressing_channel_nxxx_timeslot \<longleftrightarrow>
     host_asserted_channel_nxxx_timeslot 0 0x300 0 = Inr 0x0300 \<and>
     host_asserted_channel_nxxx_timeslot 0 0x3c0 23 = Inr 0x03d7 \<and>
     host_asserted_channel_nxxx_timeslot 7 0x500 8 = Inr 0x7508 \<and>
     host_asserted_channel_nxxx_timeslot 7 0x1d0 15 = Inr 0x71df"

definition host_test_addressing_channel_nxxx_timeslot_bad_channel_index :: bool where
  "host_test_addressing_channel_nxxx_timeslot_bad_channel_index \<longleftrightarrow>
     should_panic ''channel < Channels::COUNT'' (host_asserted_channel_nxxx_timeslot 8 0x000 0)"

definition host_test_addressing_channel_nxxx_timeslot_bad_timeslot :: bool where
  "host_test_addressing_channel_nxxx_timeslot_bad_timeslot \<longleftrightarrow>
     should_panic ''timeslot < Timeslots::COUNT'' (host_asserted_channel_nxxx_timeslot 0 0x000 24)"

definition host_test_addressing_channel_nxxx_timeslot_bad_offset :: bool where
  "host_test_addressing_channel_nxxx_timeslot_bad_offset \<longleftrightarrow>
     should_panic ''block_offset & 0xf == 0'' (host_asserted_channel_nxxx_timeslot 0 0x321 0)"

definition host_test_addressing_channel_nxxx_timeslot_overflow :: bool where
  "host_test_addressing_channel_nxxx_timeslot_overflow \<longleftrightarrow>
     should_panic ''offset < 0x1000'' (host_asserted_channel_nxxx_timeslot 0 0xff0 16)"

definition host_test_addressing_channel_0fnx :: bool where
  "host_test_addressing_channel_0fnx \<longleftrightarrow>
     host_asserted_channel_0fnx 0 0 = Inr 0x0f00 \<and>
     host_asserted_channel_0fnx 0 15 = Inr 0x0f0f \<and>
     host_asserted_channel_0fnx 7 0 = Inr 0x0f70 \<and>
     host_asserted_channel_0fnx 7 15 = Inr 0x0f7f"

definition host_test_addressing_channel_0fnx_bad_channel_index :: bool where
  "host_test_addressing_channel_0fnx_bad_channel_index \<longleftrightarrow>
     should_panic ''channel < Channels::COUNT'' (host_asserted_channel_0fnx 8 0)"

definition host_test_addressing_channel_0fnx_bad_offset :: bool where
  "host_test_addressing_channel_0fnx_bad_offset \<longleftrightarrow>
     should_panic ''offset < 16'' (host_asserted_channel_0fnx 0 0x10)"

definition host_test_addressing_global_0fex :: bool where
  "host_test_addressing_global_0fex \<longleftrightarrow>
     host_asserted_global_0fex 0x0 = Inr 0x0fe0 \<and>
     host_asserted_global_0fex 0xf = Inr 0x0fef"

definition host_test_addressing_global_0fex_bad_offset :: bool where
  "host_test_addressing_global_0fex_bad_offset \<longleftrightarrow>
     should_panic ''offset < 16'' (host_asserted_global_0fex 0x10)"

definition host_test_addressing_global :: bool where
  "host_test_addressing_global \<longleftrightarrow>
     host_asserted_global 0x0000 = Inr 0x0000 \<and>
     host_asserted_global 0xffff = Inr 0xffff"

definition host_test_addressing_global_bad_offset :: bool where
  "host_test_addressing_global_bad_offset \<longleftrightarrow>
     should_panic ''offset < 0x10000'' (host_asserted_global 0x10000)"

text \<open>All fifteen pass.\<close>

lemma host_addressing_tests_pass:
  "host_test_addressing_channel_nxxx"
  "host_test_addressing_channel_nxxx_bad_channel_index"
  "host_test_addressing_channel_nxxx_bad_offset"
  "host_test_addressing_channel_nxxx_timeslot"
  "host_test_addressing_channel_nxxx_timeslot_bad_channel_index"
  "host_test_addressing_channel_nxxx_timeslot_bad_timeslot"
  "host_test_addressing_channel_nxxx_timeslot_bad_offset"
  "host_test_addressing_channel_nxxx_timeslot_overflow"
  "host_test_addressing_channel_0fnx"
  "host_test_addressing_channel_0fnx_bad_channel_index"
  "host_test_addressing_channel_0fnx_bad_offset"
  "host_test_addressing_global_0fex"
  "host_test_addressing_global_0fex_bad_offset"
  "host_test_addressing_global"
  "host_test_addressing_global_bad_offset"
  unfolding host_test_addressing_channel_nxxx_def
    host_test_addressing_channel_nxxx_bad_channel_index_def
    host_test_addressing_channel_nxxx_bad_offset_def
    host_test_addressing_channel_nxxx_timeslot_def
    host_test_addressing_channel_nxxx_timeslot_bad_channel_index_def
    host_test_addressing_channel_nxxx_timeslot_bad_timeslot_def
    host_test_addressing_channel_nxxx_timeslot_bad_offset_def
    host_test_addressing_channel_nxxx_timeslot_overflow_def
    host_test_addressing_channel_0fnx_def
    host_test_addressing_channel_0fnx_bad_channel_index_def
    host_test_addressing_channel_0fnx_bad_offset_def
    host_test_addressing_global_0fex_def
    host_test_addressing_global_0fex_bad_offset_def
    host_test_addressing_global_def
    host_test_addressing_global_bad_offset_def
  by (simp_all add: host_asserted_defs HOST_CHANNELS_COUNT_def HOST_TIMESLOTS_COUNT_def)

section \<open>The crate's memory map\<close>

definition asserted_global :: "nat \<Rightarrow> string + nat" where
  "asserted_global offset = asserting ''offset < 0x10000'' (offset < 0x10000) (Inr offset)"

definition asserted_channel_nxxx :: "nat \<Rightarrow> nat \<Rightarrow> string + nat" where
  "asserted_channel_nxxx channel offset =
     asserting ''channel < CHANNELS_COUNT'' (channel < CHANNELS_COUNT)
      (asserting ''offset < 0x1000'' (offset < 0x1000)
        (asserted_global (push_bit 12 channel OR offset)))"

definition asserted_channel_nxxx_timeslot :: "nat \<Rightarrow> nat \<Rightarrow> nat \<Rightarrow> string + nat" where
  "asserted_channel_nxxx_timeslot channel block_offset timeslot =
     asserting ''block_offset & 0xf == 0'' (block_offset AND 0xf = 0)
      (asserting ''timeslot < TIMESLOTS_COUNT'' (timeslot < TIMESLOTS_COUNT)
        (asserted_channel_nxxx channel (block_offset + timeslot)))"

definition asserted_channel_0fnx :: "nat \<Rightarrow> nat \<Rightarrow> string + nat" where
  "asserted_channel_0fnx channel offset =
     asserting ''channel < CHANNELS_COUNT'' (channel < CHANNELS_COUNT)
      (asserting ''offset < 16'' (offset < 16)
        (asserted_global (0x0f00 OR push_bit 4 channel OR offset)))"

definition asserted_global_0fex :: "nat \<Rightarrow> string + nat" where
  "asserted_global_0fex offset =
     asserting ''offset < 16'' (offset < 16) (asserted_global (0x0fe0 OR offset))"

text \<open>Without the texts these are the addresses of the memory map.\<close>

lemmas asserted_defs = asserted_global_def asserted_channel_nxxx_def asserted_channel_nxxx_timeslot_def
  asserted_channel_0fnx_def asserted_global_0fex_def

lemma asserted_eq:
  "address_of (asserted_global offset) = global offset"
  "address_of (asserted_channel_nxxx channel offset) = channel_nxxx channel offset"
  "address_of (asserted_channel_nxxx_timeslot channel offset timeslot) = channel_nxxx_timeslot channel offset timeslot"
  "address_of (asserted_channel_0fnx channel offset) = channel_0fnx channel offset"
  "address_of (asserted_global_0fex offset) = global_0fex offset"
  by (simp_all add: asserted_defs global_def channel_nxxx_def channel_nxxx_timeslot_def
      channel_0fnx_def global_0fex_def)

definition test_addressing_channel_nxxx :: bool where
  "test_addressing_channel_nxxx \<longleftrightarrow>
     asserted_channel_nxxx 0 0x000 = Inr 0x0000 \<and>
     asserted_channel_nxxx 7 0x123 = Inr 0x7123 \<and>
     asserted_channel_nxxx 0 0xfff = Inr 0x0fff \<and>
     asserted_channel_nxxx 7 0xfff = Inr 0x7fff"

definition test_addressing_channel_nxxx_bad_channel_index :: bool where
  "test_addressing_channel_nxxx_bad_channel_index \<longleftrightarrow>
     should_panic ''channel < Channels::COUNT'' (asserted_channel_nxxx 8 0x000)"

definition test_addressing_channel_nxxx_bad_offset :: bool where
  "test_addressing_channel_nxxx_bad_offset \<longleftrightarrow>
     should_panic ''offset < 0x1000'' (asserted_channel_nxxx 0 0x1000)"

definition test_addressing_channel_nxxx_timeslot :: bool where
  "test_addressing_channel_nxxx_timeslot \<longleftrightarrow>
     asserted_channel_nxxx_timeslot 0 0x300 0 = Inr 0x0300 \<and>
     asserted_channel_nxxx_timeslot 0 0x3c0 23 = Inr 0x03d7 \<and>
     asserted_channel_nxxx_timeslot 7 0x500 8 = Inr 0x7508 \<and>
     asserted_channel_nxxx_timeslot 7 0x1d0 15 = Inr 0x71df"

definition test_addressing_channel_nxxx_timeslot_bad_channel_index :: bool where
  "test_addressing_channel_nxxx_timeslot_bad_channel_index \<longleftrightarrow>
     should_panic ''channel < Channels::COUNT'' (asserted_channel_nxxx_timeslot 8 0x000 0)"

definition test_addressing_channel_nxxx_timeslot_bad_timeslot :: bool where
  "test_addressing_channel_nxxx_timeslot_bad_timeslot \<longleftrightarrow>
     should_panic ''timeslot < Timeslots::COUNT'' (asserted_channel_nxxx_timeslot 0 0x000 24)"

definition test_addressing_channel_nxxx_timeslot_bad_offset :: bool where
  "test_addressing_channel_nxxx_timeslot_bad_offset \<longleftrightarrow>
     should_panic ''block_offset & 0xf == 0'' (asserted_channel_nxxx_timeslot 0 0x321 0)"

definition test_addressing_channel_nxxx_timeslot_overflow :: bool where
  "test_addressing_channel_nxxx_timeslot_overflow \<longleftrightarrow>
     should_panic ''offset < 0x1000'' (asserted_channel_nxxx_timeslot 0 0xff0 16)"

definition test_addressing_channel_0fnx :: bool where
  "test_addressing_channel_0fnx \<longleftrightarrow>
     asserted_channel_0fnx 0 0 = Inr 0x0f00 \<and>
     asserted_channel_0fnx 0 15 = Inr 0x0f0f \<and>
     asserted_channel_0fnx 7 0 = Inr 0x0f70 \<and>
     asserted_channel_0fnx 7 15 = Inr 0x0f7f"

definition test_addressing_channel_0fnx_bad_channel_index :: bool where
  "test_addressing_channel_0fnx_bad_channel_index \<longleftrightarrow>
     should_panic ''channel < Channels::COUNT'' (asserted_channel_0fnx 8 0)"

definition test_addressing_channel_0fnx_bad_offset :: bool where
  "test_addressing_channel_0fnx_bad_offset \<longleftrightarrow>
     should_panic ''offset < 16'' (asserted_channel_0fnx 0 0x10)"

definition test_addressing_global_0fex :: bool where
  "test_addressing_global_0fex \<longleftrightarrow>
     asserted_global_0fex 0x0 = Inr 0x0fe0 \<and>
     asserted_global_0fex 0xf = Inr 0x0fef"

definition test_addressing_global_0fex_bad_offset :: bool where
  "test_addressing_global_0fex_bad_offset \<longleftrightarrow>
     should_panic ''offset < 16'' (asserted_global_0fex 0x10)"

definition test_addressing_global :: bool where
  "test_addressing_global \<longleftrightarrow>
     asserted_global 0x0000 = Inr 0x0000 \<and>
     asserted_global 0xffff = Inr 0xffff"

definition test_addressing_global_bad_offset :: bool where
  "test_addressing_global_bad_offset \<longleftrightarrow>
     should_panic ''offset < 0x10000'' (asserted_global 0x10000)"

lemma addressing_tests_pass:
  "test_addressing_channel_nxxx"
  "test_addressing_channel_nxxx_bad_offset"
  "test_addressing_channel_nxxx_timeslot"
  "test_addressing_channel_nxxx_timeslot_bad_offset"
  "test_addressing_channel_nxxx_timeslot_overflow"
  "test_addressing_channel_0fnx"
  "test_addressing_channel_0fnx_bad_offset"
  "test_addressing_global_0fex"
  "test_addressing_global_0fex_bad_offset"
  "test_addressing_global"
  "test_addressing_global_bad_offset"
  unfolding test_addressing_channel_nxxx_def
    test_addressing_channel_nxxx_bad_offset_def
    test_addressing_channel_nxxx_timeslot_def
    test_addressing_channel_nxxx_timeslot_bad_offset_def
    test_addressing_channel_nxxx_timeslot_overflow_def
    test_addressing_channel_0fnx_def
    test_addressing_channel_0fnx_bad_offset_def
    test_addressing_global_0fex_def
    test_addressing_global_0fex_bad_offset_def
    test_addressing_global_def
    test_addressing_global_bad_offset_def
  by (simp_all add: asserted_defs CHANNELS_COUNT_def TIMESLOTS_COUNT_def)

text \<open>
  The other four expect the texts of the tool's assertions, where the crate compares with constants of
  the module: they fail.
\<close>

lemma addressing_tests_fail:
  "\<not> test_addressing_channel_nxxx_bad_channel_index"
  "\<not> test_addressing_channel_nxxx_timeslot_bad_channel_index"
  "\<not> test_addressing_channel_nxxx_timeslot_bad_timeslot"
  "\<not> test_addressing_channel_0fnx_bad_channel_index"
  unfolding test_addressing_channel_nxxx_bad_channel_index_def
    test_addressing_channel_nxxx_timeslot_bad_channel_index_def
    test_addressing_channel_nxxx_timeslot_bad_timeslot_def
    test_addressing_channel_0fnx_bad_channel_index_def
  by (simp_all add: asserted_defs CHANNELS_COUNT_def TIMESLOTS_COUNT_def) code_simp+

section \<open>Bitfields\<close>

definition test_modular_bitfield_is_msb_first :: bool where
  "test_modular_bitfield_is_msb_first \<longleftrightarrow>
     reg_chain CSR [(''LCV_Insert'', 1), (''Set_T1_Mode'', 0), (''Sync_All_Transmitters_to_8kHz'', 1),
       (''Clock_Loss_Detect'', 0), (''CSS'', ClockSource_bits ClockSource_Loop)] 0 = Some 0xa0"

definition host_test_modular_bitfield_is_msb_first :: bool where
  "host_test_modular_bitfield_is_msb_first \<longleftrightarrow>
     reg_chain Host_CSR [(''LCV_Insert'', 1), (''Set_T1_Mode'', 0), (''Sync_All_Transmitters_to_8kHz'', 1),
       (''Clock_Loss_Detect'', 0), (''CSS'', Host_ClockSource_bits Host_ClockSource_Loop)] 0 = Some 0xa0"

lemma bitfield_tests_pass: "test_modular_bitfield_is_msb_first" "host_test_modular_bitfield_is_msb_first"
  by code_simp+

section \<open>The mu-law codec\<close>

definition decoder_pairs :: "(u8 \<times> int) list" where
  "decoder_pairs =
    [(0b10000000, 8031), (0b10001111, 4191), (0b10011111, 2079), (0b10101111, 1023), (0b10111111, 495),
     (0b11001111, 231), (0b11011111, 99), (0b11101111, 33), (0b11111110, 2), (0b11111111, 0),
     (0b01111111, 0), (0b01111110, - 2), (0b01101111, - 33), (0b01011111, - 99), (0b01001111, - 231),
     (0b00111111, - 495), (0b00101111, - 1023), (0b00011111, - 2079), (0b00001111, - 4191),
     (0b00000001, - 7775), (0b00000000, - 8031)]"

definition test_decoder_vs_g711_table :: bool where
  "test_decoder_vs_g711_table \<longleftrightarrow>
     list_all (\<lambda>(character_signal, linear). linear = decode_ulaw_g191 character_signal sdiv 4) decoder_pairs"

definition encoder_pairs :: "(int \<times> u8) list" where
  "encoder_pairs =
    [(8191, 0b10000000), (8159, 0b10000000), (8031, 0b10000000), (7903, 0b10000000), (7902, 0b10000001),
     (4191, 0b10001111), (4063, 0b10001111), (4062, 0b10010000), (2143, 0b10011110), (2079, 0b10011111),
     (2015, 0b10011111), (1055, 0b10101110), (1023, 0b10101111), (991, 0b10101111), (511, 0b10111110),
     (495, 0b10111111), (479, 0b10111111), (239, 0b11001110), (231, 0b11001111), (223, 0b11001111),
     (103, 0b11011110), (99, 0b11011111), (95, 0b11011111), (35, 0b11101110), (33, 0b11101111),
     (31, 0b11101111), (3, 0b11111101), (2, 0b11111110), (1, 0b11111110), (0, 0b11111111),
     (- 1, 0b01111111), (- 2, 0b01111110), (- 3, 0b01111110), (- 31, 0b01110000), (- 33, 0b01101111),
     (- 35, 0b01101111), (- 95, 0b01100000), (- 99, 0b01011111), (- 103, 0b01011111),
     (- 223, 0b01010000), (- 231, 0b01001111), (- 239, 0b01001111), (- 479, 0b01000000),
     (- 495, 0b00111111), (- 511, 0b00111111), (- 991, 0b00110000), (- 1023, 0b00101111),
     (- 1055, 0b00101111), (- 2015, 0b00100000), (- 2079, 0b00011111), (- 2143, 0b00011111),
     (- 4063, 0b00010000), (- 4191, 0b00001111), (- 4319, 0b00001111), (- 7647, 0b00000010),
     (- 7775, 0b00000001), (- 7903, 0b00000001), (- 8031, 0b00000000), (- 8059, 0b00000000),
     (- 8191, 0b00000000)]"

definition test_encoder_vs_g191_code :: bool where
  "test_encoder_vs_g191_code \<longleftrightarrow>
     list_all (\<lambda>(linear, character_signal). encode_i14 (word_of_int linear) = Some character_signal) encoder_pairs"

lemma decoder_test_passes: "test_decoder_vs_g711_table"
  by code_simp

text \<open>The encoder with the segment computed stands in for the bitwise one.\<close>

definition ulaw_segment :: "nat \<Rightarrow> nat" where
  "ulaw_segment m = (if m < 64 then 0 else if m < 128 then 1 else if m < 256 then 2 else if m < 512 then 3
     else if m < 1024 then 4 else if m < 2048 then 5 else if m < 4096 then 6 else 7)"

definition magnitude_code :: "bool \<Rightarrow> nat \<Rightarrow> u8" where
  "magnitude_code neg m = ulaw_code neg (ulaw_segment m) (m div 2 ^ (ulaw_segment m + 1) - 16)"

definition segment_code :: "int \<Rightarrow> u8" where
  "segment_code linear = magnitude_code (linear < 0) (ulaw_magnitude (max (-8031) (min 8031 linear)))"

lemma ulaw_segment_eq:
  assumes "e < 8" and "2 ^ (e + 5) \<le> m" and "m < 2 ^ (e + 6)"
  shows "ulaw_segment m = e"
proof -
  have "e = 0 \<or> e = 1 \<or> e = 2 \<or> e = 3 \<or> e = 4 \<or> e = 5 \<or> e = 6 \<or> e = 7"
    using assms(1) by arith
  with assms(2,3) show ?thesis
    by (elim disjE) (simp_all add: ulaw_segment_def)
qed

lemma encode_i14_segment_code:
  assumes "-0x8000 \<le> v" and "v < 0x8000"
  shows "encode_i14 (word_of_int v) = Some (segment_code v)"
proof -
  have v: "sint (word_of_int v :: 16 word) = v"
    using assms by (simp add: sint_word_of_int_16)
  obtain e where e: "e < 8" "2 ^ (e + 5) \<le> ulaw_magnitude (max (-8031) (min 8031 v))"
      "ulaw_magnitude (max (-8031) (min 8031 v)) < 2 ^ (e + 6)"
    and code: "encode_i14 (word_of_int v) = Some (ulaw_code (max (-8031) (min 8031 v) < 0) e
      (ulaw_magnitude (max (-8031) (min 8031 v)) div 2 ^ (e + 1) - 16))"
    by (rule encode_i14_cases [OF refl, of "word_of_int v"]) (simp only: v)
  have "max (-8031) (min 8031 v) < 0 \<longleftrightarrow> v < 0"
    by auto
  then show ?thesis
    by (simp only: code segment_code_def magnitude_code_def ulaw_segment_eq [OF e])
qed

lemma segment_codes:
  "segment_code (8191) = 0b10000000"
  "segment_code (8159) = 0b10000000"
  "segment_code (8031) = 0b10000000"
  "segment_code (7903) = 0b10000000"
  "segment_code (7902) = 0b10000001"
  "segment_code (4191) = 0b10001111"
  "segment_code (4063) = 0b10001111"
  "segment_code (4062) = 0b10010000"
  "segment_code (2143) = 0b10011110"
  "segment_code (2079) = 0b10011111"
  "segment_code (2015) = 0b10011111"
  "segment_code (1055) = 0b10101110"
  "segment_code (1023) = 0b10101111"
  "segment_code (991) = 0b10101111"
  "segment_code (511) = 0b10111110"
  "segment_code (495) = 0b10111111"
  "segment_code (479) = 0b10111111"
  "segment_code (239) = 0b11001110"
  "segment_code (231) = 0b11001111"
  "segment_code (223) = 0b11001111"
  "segment_code (103) = 0b11011110"
  "segment_code (99) = 0b11011111"
  "segment_code (95) = 0b11011111"
  "segment_code (35) = 0b11101110"
  "segment_code (33) = 0b11101111"
  "segment_code (31) = 0b11101111"
  "segment_code (3) = 0b11111101"
  "segment_code (2) = 0b11111110"
  "segment_code (1) = 0b11111110"
  "segment_code (0) = 0b11111111"
  "segment_code (- 1) = 0b01111111"
  "segment_code (- 2) = 0b01111110"
  "segment_code (- 3) = 0b01111110"
  "segment_code (- 31) = 0b01110000"
  "segment_code (- 33) = 0b01101111"
  "segment_code (- 35) = 0b01101111"
  "segment_code (- 95) = 0b01100000"
  "segment_code (- 99) = 0b01011111"
  "segment_code (- 103) = 0b01011111"
  "segment_code (- 223) = 0b01010000"
  "segment_code (- 231) = 0b01001111"
  "segment_code (- 239) = 0b01001111"
  "segment_code (- 479) = 0b01000000"
  "segment_code (- 495) = 0b00111111"
  "segment_code (- 511) = 0b00111111"
  "segment_code (- 991) = 0b00110000"
  "segment_code (- 1023) = 0b00101111"
  "segment_code (- 1055) = 0b00101111"
  "segment_code (- 2015) = 0b00100000"
  "segment_code (- 2079) = 0b00011111"
  "segment_code (- 2143) = 0b00011111"
  "segment_code (- 4063) = 0b00010000"
  "segment_code (- 4191) = 0b00001111"
  "segment_code (- 4319) = 0b00001111"
  "segment_code (- 7647) = 0b00000010"
  "segment_code (- 7775) = 0b00000001"
  "segment_code (- 7903) = 0b00000001"
  "segment_code (- 8031) = 0b00000000"
  "segment_code (- 8059) = 0b00000000"
  "segment_code (- 8191) = 0b00000000"
  by (simp_all add: segment_code_def magnitude_code_def ulaw_segment_def ulaw_magnitude_def ulaw_code_def)

lemma encoder_test_passes: "test_encoder_vs_g191_code"
proof -
  have "list_all (\<lambda>(linear, c). -0x8000 \<le> linear \<and> linear < 0x8000 \<and> segment_code linear = c) encoder_pairs"
    by (simp add: encoder_pairs_def segment_codes)
  then show ?thesis
    by (auto simp: test_encoder_vs_g191_code_def list_all_iff encode_i14_segment_code)
qed

end
