(* ===== verification/Spec2Isabelle.thy ===== *)
theory Spec2Isabelle
  imports Memory_Map Soc_Configure Soc_Request Soc_Report Ulaw_Float Dtmf_Spec Signaling Loopback_Spec Defaults
    Host_Main Host_Status Transfer_Pool Pipeline Change_Bitmap Unit_Tests
begin

text \<open>
  Tedium: an eight-channel T1 interface. A verification library.

  \<^bold>\<open>The program.\<close> An XRT86VX38 framer chip sits behind an FPGA whose RISC-V core runs the firmware
  \<^verbatim>\<open>src/tedium-soc\<close>: it configures the chip, serves register requests of the host and reports the chip's
  interrupts over USB. \<^verbatim>\<open>src/xrt86vx38-pac\<close> holds the chip's registers, as bitfield structs, and its memory
  map. On the host, \<^verbatim>\<open>src/tedium/tools/tedium-tool\<close> sets test modes, dumps registers, decodes the interrupt
  reports, and loops the frames of all 192 timeslots through an audio processor (patching, tones) and a
  signaling processor (robbed bits, DTMF).

  \<^bold>\<open>Registers.\<close> Theory Bitfield models the bitfield macro: a struct is a layout, a \<open>with_X\<close> an update that
  may panic; the locale \<open>bitfield_struct\<close> has what a user of a struct relies on. Registers is
  \<^verbatim>\<open>register.rs\<close>, Device and Accessors are \<^verbatim>\<open>device.rs\<close> (addressing, accesses, accessors), Memory_Map
  shows that all accessors are valid, that the named registers and the message buffers have pairwise
  distinct addresses, and that the other accessors that take an index are second names of named
  registers (\<open>rsar\<close> of the timeslots'). The locale \<open>register_file\<close> of Device is the
  contract between configuration code and a device: plain registers keep what is written, other
  addresses may answer in any way. Register_Settings turns chains of field updates into masks and
  proves inside that locale what a routine leaves in the registers; Soc_Bus interprets the locale on
  the firmware's device, Host_Device proves it for the tool's. Defaults is \<^verbatim>\<open>default.rs\<close>.

  \<^bold>\<open>Firmware.\<close> Soc_IO models the memory-mapped peripherals (\<^verbatim>\<open>peripheral.rs\<close>, \<^verbatim>\<open>uart.rs\<close>, \<^verbatim>\<open>usb.rs\<close>,
  \<^verbatim>\<open>test_points.rs\<close>, \<^verbatim>\<open>framer.rs\<close>): the state is the trace of bus accesses, the hardware an arbitrary
  environment that answers each read from the trace so far. Soc_Configure and Soc_Main are \<^verbatim>\<open>main.rs\<close>.
  Soc_Configure also has the configuration theorems, Soc_Request shows the request parser to implement
  its grammar and what a request does on the bus, Soc_Report follows an interrupt from the chip through
  the FIFO and, for a message that fits the host's transfer of 256 bytes, the host's callback to its
  parser.

  \<^bold>\<open>Tool.\<close> Host_Registers and Host_Accessors are the tool's own copies of the register files, with the
  proof that they agree with the crate's. Host_Device is the USB device (control transfers of rusb are
  a parameter), Test_Modes, Host_Dump and Host_Main are the commands. Host_Interrupt is the report
  parser with the message format, Host_Status what is printed of it, Host_Monitor the transfer callback
  and the event loop. Host_Transfer has the transfers with their buffers and the event loops, and
  Transfer_Pool their life: the locale \<open>transfer_handler\<close> is the trait \<open>TransferHandler\<close> with its contract
  (a callback gives back the same transfer, fit for its buffer), \<open>total_transfer_handler\<close> adds that every
  completion is served; the audio handler and the interrupt handler behind their locks interpret them, and
  the relation \<open>pool_run\<close> has the completions in any order. Change_Bitmap is the bitmap of signaling
  changes and its text.

  \<^bold>\<open>Audio.\<close> F32 is an executable binary32 (correctly rounded operations on exact rationals). Ulaw and
  Ulaw_Float are the codec with its G.191 reference, Tone the tone generator, Dtmf and Dtmf_Spec the
  detectors. Frames, Robbed_Bit, Signaling and Audio are \<^verbatim>\<open>audio.rs\<close>, Pipeline its threads together with the
  monitor (the inductive relation \<open>pipeline_run\<close> interleaves them); Robbed_Bit_Spec, Audio_Spec and
  Loopback_Spec hold their specifications: the abstract debouncer of a line, the patched output frame,
  the order of frames over any sequence of completed transfers (the inductive relation
  \<open>loopback_run\<close>). The ring buffers of the ringbuf crate are a record of operations with a documented
  contract, which a list implements.

  \<^bold>\<open>Outcomes.\<close> A computation returns \<open>Ok\<close>, \<open>Err\<close> or \<open>Panic\<close> with the state it leaves (\<open>prog\<close> in
  Tedium_Prelude), or an \<open>option\<close> where a panic is the only failure. \<open>ok_triple\<close> is total correctness:
  the program returns, without error and without panic. Machine integers are words, \<open>usize\<close> is \<open>nat\<close>.

  \<^bold>\<open>Fuel.\<close> The loops that poll hardware (the UART's transmitter) take fuel; the theorems about them
  assume that the transmitter becomes ready within a bounded number of polls and show that this much
  fuel is enough. \<open>drain_frames\<close> takes the number of frames waiting plus one, which it never exceeds. The
  main loop runs one pass per unit of fuel. All other loops are structural.

  \<^bold>\<open>Parameters.\<close> \<open>delay_us\<close> of the riscv crate, rusb and libusb, ringbuf, the trigonometric functions and
  logarithm of the standard library, the complex numbers of num_complex, threads and channels (a
  channel is the list of messages waiting, or those sent).

  \<^bold>\<open>Not modelled.\<close> The build script (it writes a linker script); module declarations; the text that
  derived \<open>Debug\<close> implementations print; command line parsing; the pointers by which libusb gives a transfer
  back to its handler; the start of threads and their priorities; the gateware, the KiCad files and the
  C++ test programs, which are not Rust.

  \<^bold>\<open>Unit tests.\<close> Unit_Tests runs the tests of the sources on these definitions: all pass, except four of the
  crate's that expect the text of an assertion the crate does not have.

  The properties are the theorems whose preceding text starts with C and a number, in the theory of the
  component they speak of.
\<close>

end
